(* ===== verification/Go_Prelude.thy ===== *)
theory Go_Prelude
  imports Main "HOL-Library.Sublist" "HOL-Library.Char_ord"
begin

text \<open>
  What every component shares: Go's error values, instants and durations, and the
  operations of the Go package \<open>strings\<close> that skgate calls.

  A Go string is a sequence of bytes, and so is an Isabelle \<^typ>\<open>string\<close> (a list of
  8-bit characters): a model string holds the UTF-8 bytes of the Go string.
\<close>

section \<open>Errors and formatted text\<close>

text \<open>
  \<open>errors.New\<close>, \<open>fmt.Errorf\<close> and \<open>fmt.Sprintf\<close> build text from a literal format and
  arguments. The model keeps the literal and its arguments instead of rendering them:
  two texts are equal in the model only if the code formats the same literal with the
  same arguments. \<open>Wrapf\<close> is \<open>fmt.Errorf\<close> with a wrapped error (\<open>%w\<close>, \<open>%v\<close>).
  A Go function that returns \<open>error\<close> returns \<open>go_error option\<close> here, one that returns
  \<open>(T, error)\<close> returns \<open>go_error + T\<close>.
\<close>

datatype fmt_arg = S string | L "string list" | I int

datatype go_error =
    Errorf string "fmt_arg list"
  | Wrapf string "fmt_arg list" go_error

abbreviation errors_New :: "string \<Rightarrow> go_error" where
  "errors_New s \<equiv> Errorf s []"

abbreviation Sprintf :: "string \<Rightarrow> fmt_arg list \<Rightarrow> go_error" where
  "Sprintf \<equiv> Errorf"

type_synonym 'a result = "go_error + 'a"

fun is_ok :: "'a result \<Rightarrow> bool" where
  "is_ok (Inl _) = False"
| "is_ok (Inr _) = True"

lemma is_ok_iff: "is_ok r \<longleftrightarrow> (\<exists>x. r = Inr x)"
  by (cases r) auto

text \<open>A list of checks run in order, the first failing one being the error returned.\<close>

fun first_error :: "(bool \<times> go_error) list \<Rightarrow> go_error option" where
  "first_error [] = None"
| "first_error ((failed, e) # cs) = (if failed then Some e else first_error cs)"

lemma first_error_None_iff [simp]:
  "first_error cs = None \<longleftrightarrow> list_all (\<lambda>(failed, _). \<not> failed) cs"
  by (induction cs rule: first_error.induct) auto

section \<open>Instants and durations\<close>

text \<open>
  A \<open>time.Time\<close> is the instant it denotes, in nanoseconds since 1 January of year 1,
  00:00 UTC, the zero value of the Go type. Zone offsets and monotonic readings are not
  part of the model: the code compares instants only.
  A \<open>time.Duration\<close> is an \<open>int64\<close> count of nanoseconds; \<open>Time.Sub\<close> saturates at its
  bounds, as the Go function does.
\<close>

type_synonym go_time = int
type_synonym duration = int

definition time_zero :: go_time where
  "time_zero = 0"

definition IsZero :: "go_time \<Rightarrow> bool" where
  "IsZero t \<longleftrightarrow> t = time_zero"

definition max_int64 :: int where "max_int64 = 2 ^ 63 - 1"
definition min_int64 :: int where "min_int64 = - (2 ^ 63)"

definition in_int64 :: "int \<Rightarrow> bool" where
  "in_int64 i \<longleftrightarrow> min_int64 \<le> i \<and> i \<le> max_int64"

definition Time_Sub :: "go_time \<Rightarrow> go_time \<Rightarrow> duration" where
  "Time_Sub t u = max min_int64 (min max_int64 (t - u))"

definition Time_Add :: "go_time \<Rightarrow> duration \<Rightarrow> go_time" where
  "Time_Add t d = t + d"

definition Before :: "go_time \<Rightarrow> go_time \<Rightarrow> bool" where
  "Before t u \<longleftrightarrow> t < u"

definition After :: "go_time \<Rightarrow> go_time \<Rightarrow> bool" where
  "After t u \<longleftrightarrow> u < t"

definition time_second :: duration where "time_second = 1000000000"
definition time_minute :: duration where "time_minute = 60 * time_second"
definition time_hour :: duration where "time_hour = 60 * time_minute"

text \<open>\<open>Time.Unix\<close>: whole seconds since 1 January 1970 (day 719162 of the model's count).\<close>

definition Unix :: "go_time \<Rightarrow> int" where
  "Unix t = t div time_second - 719162 * 86400"

lemmas time_defs = time_zero_def IsZero_def Time_Sub_def Time_Add_def Before_def After_def
  max_int64_def min_int64_def time_second_def time_minute_def time_hour_def

lemma Time_Sub_le_iff:
  assumes "min_int64 \<le> d" "d < max_int64"
  shows "Time_Sub t u \<le> d \<longleftrightarrow> t - u \<le> d"
  using assms by (auto simp: Time_Sub_def)

section \<open>Decimal numbers\<close>

definition is_digit :: "char \<Rightarrow> bool" where
  "is_digit c \<longleftrightarrow> CHR ''0'' \<le> c \<and> c \<le> CHR ''9''"

definition digit_val :: "char \<Rightarrow> nat" where
  "digit_val c = of_char c - 48"

definition digit_char :: "nat \<Rightarrow> char" where
  "digit_char n = char_of (n + 48)"

fun show_nat :: "nat \<Rightarrow> string" where
  "show_nat n = (if n < 10 then [digit_char n]
                 else show_nat (n div 10) @ [digit_char (n mod 10)])"

declare show_nat.simps [simp del]

definition read_nat :: "string \<Rightarrow> nat" where
  "read_nat s = foldl (\<lambda>a c. a * 10 + digit_val c) 0 s"

lemma digit_range: "is_digit c \<longleftrightarrow> (48::nat) \<le> of_char c \<and> of_char c \<le> (57::nat)"
proof -
  have "CHR ''0'' \<le> c \<longleftrightarrow> (48::nat) \<le> of_char c"
    by (simp add: less_eq_char_def)
  moreover have "c \<le> CHR ''9'' \<longleftrightarrow> of_char c \<le> (57::nat)"
    by (simp add: less_eq_char_def)
  ultimately show ?thesis by (simp add: is_digit_def)
qed

lemma digit_char_digit [simp]: "n < 10 \<Longrightarrow> is_digit (digit_char n)"
  by (simp add: digit_range digit_char_def)

lemma digit_val_char [simp]: "n < 10 \<Longrightarrow> digit_val (digit_char n) = n"
  by (simp add: digit_val_def digit_char_def)

lemma digit_char_eval:
  "digit_char 0 = CHR ''0''" "digit_char (Suc 0) = CHR ''1''" "digit_char 1 = CHR ''1''"
  "digit_char 2 = CHR ''2''" "digit_char 3 = CHR ''3''" "digit_char 4 = CHR ''4''"
  "digit_char 5 = CHR ''5''" "digit_char 6 = CHR ''6''" "digit_char 7 = CHR ''7''"
  "digit_char 8 = CHR ''8''" "digit_char 9 = CHR ''9''"
  by (simp_all add: digit_char_def char_of_eq_iff)

text \<open>Evaluation of \<open>show_nat\<close> on numerals.\<close>

lemmas show_nat_eval = show_nat.simps digit_char_eval

lemma digit_val_less [simp]: "is_digit c \<Longrightarrow> digit_val c < 10"
  unfolding digit_range digit_val_def by linarith

lemma show_nat_digits: "c \<in> set (show_nat n) \<Longrightarrow> is_digit c"
proof (induction n rule: show_nat.induct)
  case (1 n)
  then show ?case
    by (cases "n < 10") (auto simp: show_nat.simps [of n])
qed

lemma show_nat_nonempty [simp]: "show_nat n \<noteq> []"
  by (subst show_nat.simps) simp

lemma read_nat_append [simp]: "read_nat (s @ [c]) = read_nat s * 10 + digit_val c"
  by (simp add: read_nat_def)

lemma read_show_nat [simp]: "read_nat (show_nat n) = n"
proof (induction n rule: show_nat.induct)
  case (1 n)
  show ?case
  proof (cases "n < 10")
    case True
    then show ?thesis by (simp add: show_nat.simps [of n] read_nat_def)
  next
    case False
    then have "show_nat n = show_nat (n div 10) @ [digit_char (n mod 10)]"
      by (simp add: show_nat.simps [of n])
    moreover have "read_nat (show_nat (n div 10)) = n div 10"
      using False 1 by simp
    ultimately show ?thesis by simp
  qed
qed

lemma show_nat_inject [simp]: "show_nat m = show_nat n \<longleftrightarrow> m = n"
  by (metis read_show_nat)

text \<open>
  \<open>strconv.Atoi\<close> on a 64-bit platform: an optional sign, then decimal digits only, and
  an error when the value does not fit \<open>int64\<close>.
\<close>

definition atoi_sign :: "string \<Rightarrow> bool \<times> string" where
  "atoi_sign s =
     (case s of
        [] \<Rightarrow> (False, [])
      | c # r \<Rightarrow> if c = CHR ''-'' then (True, r)
                 else if c = CHR ''+'' then (False, r) else (False, s))"

definition Atoi :: "string \<Rightarrow> int option" where
  "Atoi s =
     (let (neg, ds) = atoi_sign s in
      if ds = [] \<or> \<not> list_all is_digit ds then None
      else let v = (if neg then - int (read_nat ds) else int (read_nat ds)) in
           if in_int64 v then Some v else None)"

lemma digit_not_sign: "is_digit c \<Longrightarrow> c \<noteq> CHR ''-'' \<and> c \<noteq> CHR ''+''"
  by (auto simp: is_digit_def)

lemma Atoi_show_nat:
  assumes "int n \<le> max_int64"
  shows "Atoi (show_nat n) = Some (int n)"
proof -
  obtain c r where cr: "show_nat n = c # r"
    by (cases "show_nat n") auto
  then have "is_digit c" using show_nat_digits [of c n] by simp
  then have "atoi_sign (show_nat n) = (False, show_nat n)"
    by (simp add: cr atoi_sign_def digit_not_sign)
  moreover have "list_all is_digit (show_nat n)"
    by (auto simp: list_all_iff show_nat_digits)
  moreover have "min_int64 \<le> int n"
    using of_nat_0_le_iff [of n, where ?'a = int] by (simp add: min_int64_def)
  ultimately show ?thesis
    using assms by (simp add: Atoi_def in_int64_def)
qed

lemma Atoi_in_int64: "Atoi s = Some v \<Longrightarrow> in_int64 v"
  by (auto simp: Atoi_def Let_def split: prod.splits if_splits)

lemma Atoi_no_sign_nonneg: "Atoi s = Some v \<Longrightarrow> CHR ''-'' \<notin> set s \<Longrightarrow> 0 \<le> v"
  by (auto simp: Atoi_def atoi_sign_def Let_def split: prod.splits if_splits list.splits)

end
