(* ===== verification/Go_Strings.thy ===== *)
theory Go_Strings
  imports Go_Prelude
begin

text \<open>
  The functions of the Go package \<open>strings\<close> (and \<open>path/filepath.Ext\<close>) that skgate calls,
  on byte strings.
\<close>

section \<open>Prefixes, suffixes and separators\<close>

definition HasPrefix :: "string \<Rightarrow> string \<Rightarrow> bool" where
  "HasPrefix s p \<longleftrightarrow> prefix p s"

definition HasSuffix :: "string \<Rightarrow> string \<Rightarrow> bool" where
  "HasSuffix s p \<longleftrightarrow> suffix p s"

definition TrimPrefix :: "string \<Rightarrow> string \<Rightarrow> string" where
  "TrimPrefix s p = (if HasPrefix s p then drop (length p) s else s)"

definition TrimSuffix :: "string \<Rightarrow> string \<Rightarrow> string" where
  "TrimSuffix s p = (if HasSuffix s p then take (length s - length p) s else s)"

lemma TrimPrefix_append [simp]: "TrimPrefix (p @ s) p = s"
  by (simp add: TrimPrefix_def HasPrefix_def)

lemma HasPrefix_iff: "HasPrefix s p \<longleftrightarrow> (\<exists>r. s = p @ r)"
  by (auto simp: HasPrefix_def prefix_def)

lemma HasSuffix_iff: "HasSuffix s p \<longleftrightarrow> (\<exists>r. s = r @ p)"
  by (auto simp: HasSuffix_def suffix_def)

text \<open>\<open>strings.Split\<close> with a one-byte separator: always at least one piece.\<close>

fun Split :: "string \<Rightarrow> char \<Rightarrow> string list" where
  "Split [] c = [[]]"
| "Split (x # xs) c =
     (if x = c then [] # Split xs c
      else (case Split xs c of [] \<Rightarrow> [[x]] | w # ws \<Rightarrow> (x # w) # ws))"

fun Join :: "string list \<Rightarrow> char \<Rightarrow> string" where
  "Join [] c = []"
| "Join [w] c = w"
| "Join (w # ws) c = w @ c # Join ws c"

text \<open>\<open>strings.SplitN(s, sep, 2)\<close>: split at the first separator only.\<close>

definition SplitN2 :: "string \<Rightarrow> char \<Rightarrow> string list" where
  "SplitN2 s c =
     (if c \<in> set s then [takeWhile (\<lambda>x. x \<noteq> c) s, tl (dropWhile (\<lambda>x. x \<noteq> c) s)] else [s])"

lemma Split_nonempty [simp]: "Split s c \<noteq> []"
  by (cases s) (auto split: list.splits)

lemma Join_Cons: "ws \<noteq> [] \<Longrightarrow> Join (w # ws) c = w @ c # Join ws c"
  by (cases ws) auto

lemma Join_Split [simp]: "Join (Split s c) c = s"
proof (induction s)
  case Nil
  show ?case by simp
next
  case (Cons x s)
  obtain w ws where ws: "Split s c = w # ws"
    by (cases "Split s c") auto
  with Cons show ?case
    by (cases ws) auto
qed

lemma Split_pieces: "w \<in> set (Split s c) \<Longrightarrow> c \<notin> set w"
  by (induction s arbitrary: w) (auto split: list.splits if_splits)

lemma Split_no_sep [simp]: "c \<notin> set s \<Longrightarrow> Split s c = [s]"
  by (induction s) auto

lemma Split_append_sep: "c \<notin> set w \<Longrightarrow> Split (w @ c # s) c = w # Split s c"
  by (induction w) auto

lemma Split_Join:
  "ws \<noteq> [] \<Longrightarrow> \<forall>w \<in> set ws. c \<notin> set w \<Longrightarrow> Split (Join ws c) c = ws"
  by (induction ws c rule: Join.induct) (auto simp: Split_append_sep)

lemma length_Split: "length (Split s c) = Suc (count_list s c)"
proof (induction s)
  case (Cons x s)
  then show ?case
    by (cases "Split s c") auto
qed simp

lemma SplitN2_sep: "c \<notin> set w \<Longrightarrow> SplitN2 (w @ c # s) c = [w, s]"
proof -
  assume w: "c \<notin> set w"
  then have "takeWhile (\<lambda>x. x \<noteq> c) (w @ c # s) = w"
    by (induction w) auto
  moreover from w have "dropWhile (\<lambda>x. x \<noteq> c) (w @ c # s) = c # s"
    by (induction w) auto
  ultimately show ?thesis by (simp add: SplitN2_def)
qed

lemma SplitN2_none [simp]: "c \<notin> set s \<Longrightarrow> SplitN2 s c = [s]"
  by (simp add: SplitN2_def)

lemma SplitN2_pair:
  assumes "SplitN2 s c = [a, b]"
  shows "s = a @ c # b" "c \<notin> set a"
proof -
  from assms have c: "c \<in> set s" by (auto simp: SplitN2_def split: if_splits)
  then obtain w r where s: "s = w @ c # r" "c \<notin> set w"
    by (meson split_list_first)
  then have "SplitN2 s c = [w, r]" by (simp add: SplitN2_sep)
  with assms s show "s = a @ c # b" "c \<notin> set a" by auto
qed

lemma hd_SplitN2_no_sep: "c \<notin> set (hd (SplitN2 s c))"
  by (auto simp: SplitN2_def dest: set_takeWhileD)

section \<open>Case\<close>

text \<open>
  \<open>strings.ToLower\<close>. ASCII letters, and the two non-ASCII letters whose lower case is an
  ASCII letter: U+0130 (bytes C4 B0) becomes \<open>i\<close> and U+212A (bytes E2 84 AA) becomes \<open>k\<close>.
  Every other non-ASCII letter has a non-ASCII lower case; those bytes are left alone,
  which is enough for the code, that only compares the result with ASCII words.
\<close>

definition lower_byte :: "char \<Rightarrow> char" where
  "lower_byte c = (if CHR ''A'' \<le> c \<and> c \<le> CHR ''Z'' then char_of (of_char c + (32::nat)) else c)"

fun ToLower :: "string \<Rightarrow> string" where
  "ToLower [] = []"
| "ToLower (c # cs) =
     (if c = CHR 0xC4 \<and> take 1 cs = [CHR 0xB0] then CHR ''i'' # ToLower (drop 1 cs)
      else if c = CHR 0xE2 \<and> take 2 cs = [CHR 0x84, CHR 0xAA] then CHR ''k'' # ToLower (drop 2 cs)
      else lower_byte c # ToLower cs)"

text \<open>
  \<open>strings.EqualFold\<close> against an ASCII word without the letters \<open>k\<close> and \<open>s\<close>, the only
  ASCII letters that fold with a non-ASCII one: byte-wise folding is exact there.
\<close>

definition EqualFold_ascii :: "string \<Rightarrow> string \<Rightarrow> bool" where
  "EqualFold_ascii s w \<longleftrightarrow> map lower_byte s = map lower_byte w"

section \<open>White space\<close>

text \<open>The UTF-8 encodings of the characters \<open>unicode.IsSpace\<close> accepts.\<close>

definition space_encodings :: "string list" where
  "space_encodings =
     [[CHR 0x09], [CHR 0x0A], [CHR 0x0B], [CHR 0x0C], [CHR 0x0D], [CHR 0x20],
      [CHR 0xC2, CHR 0x85], [CHR 0xC2, CHR 0xA0], [CHR 0xE1, CHR 0x9A, CHR 0x80]]
     @ map (\<lambda>b. [CHR 0xE2, CHR 0x80, char_of (128 + b :: nat)]) [0, 1, 2, 3, 4, 5, 6, 7, 8, 9, 10]
     @ [[CHR 0xE2, CHR 0x80, CHR 0xA8], [CHR 0xE2, CHR 0x80, CHR 0xA9],
        [CHR 0xE2, CHR 0x80, CHR 0xAF], [CHR 0xE2, CHR 0x81, CHR 0x9F],
        [CHR 0xE3, CHR 0x80, CHR 0x80]]"

fun strip_any :: "string list \<Rightarrow> string \<Rightarrow> string option" where
  "strip_any [] s = None"
| "strip_any (w # ws) s =
     (if w \<noteq> [] \<and> prefix w s then Some (drop (length w) s) else strip_any ws s)"

lemma strip_any_shorter: "strip_any ws s = Some r \<Longrightarrow> length r < length s"
  by (induction ws) (auto split: if_splits simp: prefix_def)

function trim_with :: "string list \<Rightarrow> string \<Rightarrow> string" where
  "trim_with ws s = (case strip_any ws s of None \<Rightarrow> s | Some r \<Rightarrow> trim_with ws r)"
  by pat_completeness auto
termination
  by (relation "measure (\<lambda>(ws, s). length s)") (auto simp: strip_any_shorter)

declare trim_with.simps [simp del]

definition TrimSpace :: "string \<Rightarrow> string" where
  "TrimSpace s = rev (trim_with (map rev space_encodings) (rev (trim_with space_encodings s)))"

text \<open>A string that starts and ends with bytes no space uses is left as it is.\<close>

lemma strip_any_None_hd:
  "\<forall>w \<in> set ws. w \<noteq> [] \<longrightarrow> hd w \<noteq> c \<Longrightarrow> strip_any ws (c # s) = None"
  by (induction ws) (auto simp: prefix_Cons)

lemma trim_with_id: "\<forall>w \<in> set ws. w \<noteq> [] \<longrightarrow> hd w \<noteq> c \<Longrightarrow> trim_with ws (c # s) = c # s"
  by (simp add: trim_with.simps [of ws] strip_any_None_hd)

definition graphic :: "char \<Rightarrow> bool" where
  "graphic c \<longleftrightarrow> CHR 0x21 \<le> c \<and> c \<le> CHR 0x7E"

lemma space_hd: "w \<in> set space_encodings \<Longrightarrow> \<not> graphic (hd w)"
  by (auto simp: space_encodings_def graphic_def)

lemma space_last: "w \<in> set space_encodings \<Longrightarrow> \<not> graphic (last w) \<and> w \<noteq> []"
  by (auto simp: space_encodings_def graphic_def less_eq_char_def)

lemma TrimSpace_graphic:
  assumes "s \<noteq> []" "graphic (hd s)" "graphic (last s)"
  shows "TrimSpace s = s"
proof -
  obtain c r where s: "s = c # r" using assms(1) by (cases s) auto
  have "trim_with space_encodings s = s"
    unfolding s by (rule trim_with_id) (use assms(2) s space_hd in auto)
  moreover obtain d q where d: "rev s = d # q" using assms(1) by (cases "rev s") auto
  then have "last s = d" by (metis list.sel(1) hd_rev)
  then have "trim_with (map rev space_encodings) (rev s) = rev s"
    unfolding d
    by (intro trim_with_id) (use assms(3) space_last in \<open>force simp: hd_rev\<close>)
  ultimately show ?thesis by (simp add: TrimSpace_def)
qed

lemma TrimSpace_empty [simp]: "TrimSpace [] = []"
proof -
  have "strip_any ws [] = None" for ws
    by (induction ws) auto
  then show ?thesis by (simp add: TrimSpace_def trim_with.simps)
qed

text \<open>White space around a string is removed, and never more than white space.\<close>

lemma strip_any_prefix_free:
  assumes "w \<in> set ws" "w \<noteq> []" "\<forall>v \<in> set ws. v = w \<or> \<not> (prefix v w \<or> prefix w v)"
  shows "strip_any ws (w @ s) = Some s"
  using assms(1,3)
proof (induction ws)
  case (Cons v ws)
  show ?case
  proof (cases "v = w")
    case False
    then have "\<not> prefix v (w @ s)" using Cons.prems(2) prefix_same_cases [of v "w @ s" w] by auto
    with Cons False show ?thesis by auto
  qed (use assms(2) in simp)
qed simp

text \<open>No encoding of a space begins or ends with another one.\<close>

lemma space_prefix_free:
  "list_all (\<lambda>w. list_all (\<lambda>v. v = w \<or> \<not> (prefix v w \<or> prefix w v)) space_encodings) space_encodings"
  "list_all (\<lambda>w. list_all (\<lambda>v. v = w \<or> \<not> (prefix v w \<or> prefix w v)) (map rev space_encodings)) (map rev space_encodings)"
  by code_simp+

lemma strip_space:
  assumes "w \<in> set space_encodings"
  shows "strip_any space_encodings (w @ s) = Some s" "strip_any (map rev space_encodings) (rev w @ s) = Some s"
proof -
  show "strip_any space_encodings (w @ s) = Some s"
    by (rule strip_any_prefix_free [OF assms])
      (use assms space_prefix_free(1) space_last in \<open>auto simp: list_all_iff\<close>)
  have "rev w \<in> set (map rev space_encodings)" using assms by simp
  then show "strip_any (map rev space_encodings) (rev w @ s) = Some s"
    by (rule strip_any_prefix_free)
      (use assms space_prefix_free(2) space_last in \<open>auto simp: list_all_iff\<close>)
qed

lemma trim_with_step:
  "strip_any ws s = Some r \<Longrightarrow> trim_with ws s = trim_with ws r"
  "strip_any ws s = None \<Longrightarrow> trim_with ws s = s"
  by (subst trim_with.simps, simp)+

lemma trim_spaces:
  "set us \<subseteq> set space_encodings \<Longrightarrow> trim_with space_encodings (concat us @ s) = trim_with space_encodings s"
  "set us \<subseteq> set space_encodings \<Longrightarrow>
     trim_with (map rev space_encodings) (rev (concat us) @ s) = trim_with (map rev space_encodings) s"
proof -
  show "set us \<subseteq> set space_encodings \<Longrightarrow> trim_with space_encodings (concat us @ s) = trim_with space_encodings s"
  proof (induction us)
    case (Cons w us)
    have "trim_with space_encodings (w @ concat us @ s) = trim_with space_encodings (concat us @ s)"
      by (rule trim_with_step(1), rule strip_space(1)) (use Cons.prems in simp)
    then show ?case using Cons by simp
  qed simp
  show "set us \<subseteq> set space_encodings \<Longrightarrow>
     trim_with (map rev space_encodings) (rev (concat us) @ s) = trim_with (map rev space_encodings) s"
  proof (induction us rule: rev_induct)
    case (snoc w us)
    have "trim_with (map rev space_encodings) (rev w @ rev (concat us) @ s)
        = trim_with (map rev space_encodings) (rev (concat us) @ s)"
      by (rule trim_with_step(1), rule strip_space(2)) (use snoc.prems in simp)
    then show ?case using snoc by simp
  qed simp
qed

lemma strip_any_Some: "strip_any ws s = Some r \<Longrightarrow> \<exists>w \<in> set ws. s = w @ r"
  by (induction ws) (auto simp: prefix_def split: if_splits)

text \<open>A byte no pattern contains stops the trimming.\<close>

lemma trim_with_stops:
  assumes "\<forall>w \<in> set ws. c \<notin> set w"
  shows "\<exists>x'. trim_with ws (x @ c # y) = x' @ c # y"
proof (induction x rule: length_induct)
  case (1 x)
  show ?case
  proof (cases "strip_any ws (x @ c # y)")
    case None
    then show ?thesis by (simp add: trim_with_step(2))
  next
    case (Some r)
    then obtain w where w: "w \<in> set ws" "x @ c # y = w @ r" using strip_any_Some by blast
    then have "\<exists>x'. x = w @ x' \<and> r = x' @ c # y"
      using assms by (auto simp: append_eq_append_conv2 append_eq_Cons_conv Cons_eq_append_conv)
    then obtain x' where x': "x = w @ x'" "r = x' @ c # y" by blast
    then have "length x' < length x" using strip_any_shorter [OF Some] by simp
    with 1 show ?thesis using trim_with_step(1) [OF Some] x'(2) by metis
  qed
qed

lemma TrimSpace_padded:
  assumes "set us \<subseteq> set space_encodings" "set vs \<subseteq> set space_encodings" "s \<noteq> []" "graphic (hd s)"
  shows "TrimSpace (concat us @ s @ concat vs) = rev (trim_with (map rev space_encodings) (rev s))"
proof -
  obtain c r where s: "s = c # r" using assms(3) by (cases s) auto
  have "trim_with space_encodings (s @ concat vs) = s @ concat vs"
    unfolding s append_Cons by (rule trim_with_id) (use assms(4) s space_hd in auto)
  then show ?thesis using assms(1,2) by (simp add: TrimSpace_def trim_spaces)
qed

lemma space_not_graphic: "w \<in> set space_encodings \<Longrightarrow> graphic c \<Longrightarrow> c \<notin> set w"
  by (auto simp: space_encodings_def graphic_def less_eq_char_def)

section \<open>File names\<close>

text \<open>\<open>filepath.Ext\<close> of a directory entry's name (no separator in it).\<close>

definition filepath_Ext :: "string \<Rightarrow> string" where
  "filepath_Ext name =
     (if CHR ''.'' \<in> set name
      then CHR ''.'' # rev (takeWhile (\<lambda>c. c \<noteq> CHR ''.'') (rev name)) else [])"

lemma filepath_Ext_append: "CHR ''.'' \<notin> set e \<Longrightarrow> filepath_Ext (n @ CHR ''.'' # e) = CHR ''.'' # e"
proof -
  assume e: "CHR ''.'' \<notin> set e"
  then have "takeWhile (\<lambda>c. c \<noteq> CHR ''.'') (rev e @ CHR ''.'' # rev n) = rev e"
    by (subst takeWhile_append2) auto
  then show ?thesis by (simp add: filepath_Ext_def)
qed

end
