(* ===== verification/Go_Encoding.thy ===== *)
theory Go_Encoding
  imports Go_Strings "HOL-Library.Word"
begin

text \<open>
  The parts of Go's \<open>encoding/hex\<close>, \<open>encoding/base64\<close>, \<open>crypto/sha256\<close> and
  \<open>crypto/hmac\<close> that skgate calls, written out, so that digests, payload encodings and
  message authentication codes are computed by the model. Signature schemes with keys
  (RSA, ECDSA, Ed25519) and X.509 are parameters of the components that use them.
\<close>

unbundle bit_operations_syntax

section \<open>Hexadecimal\<close>

datatype hex_error = InvalidByteError char | ErrLength

definition fromHexChar :: "char \<Rightarrow> nat option" where
  "fromHexChar c =
     (if CHR ''0'' \<le> c \<and> c \<le> CHR ''9'' then Some (of_char c - 48)
      else if CHR ''a'' \<le> c \<and> c \<le> CHR ''f'' then Some (of_char c - 87)
      else if CHR ''A'' \<le> c \<and> c \<le> CHR ''F'' then Some (of_char c - 55) else None)"

text \<open>\<open>hex.DecodeString\<close>: pairs of digits of either case, the first offending byte is reported.\<close>

fun hex_DecodeString :: "string \<Rightarrow> hex_error + string" where
  "hex_DecodeString [] = Inr []"
| "hex_DecodeString [p] =
     (case fromHexChar p of None \<Rightarrow> Inl (InvalidByteError p) | Some _ \<Rightarrow> Inl ErrLength)"
| "hex_DecodeString (p # q # s) =
     (case fromHexChar p of
        None \<Rightarrow> Inl (InvalidByteError p)
      | Some a \<Rightarrow>
          (case fromHexChar q of
             None \<Rightarrow> Inl (InvalidByteError q)
           | Some b \<Rightarrow>
               (case hex_DecodeString s of
                  Inl e \<Rightarrow> Inl e
                | Inr bs \<Rightarrow> Inr (char_of (a * 16 + b) # bs))))"

definition hexDigit :: "nat \<Rightarrow> char" where
  "hexDigit n = (if n < 10 then char_of (n + 48) else char_of (n + 87))"

definition hex_EncodeToString :: "string \<Rightarrow> string" where
  "hex_EncodeToString bs = concat (map (\<lambda>b. [hexDigit (of_char b div 16), hexDigit (of_char b mod 16)]) bs)"

definition is_hex :: "char \<Rightarrow> bool" where
  "is_hex c \<longleftrightarrow> fromHexChar c \<noteq> None"

definition is_lower_hex :: "char \<Rightarrow> bool" where
  "is_lower_hex c \<longleftrightarrow> is_hex c \<and> \<not> (CHR ''A'' \<le> c \<and> c \<le> CHR ''F'')"

lemma nat_lt_16_cases:
  "n < (16::nat) \<Longrightarrow> n \<in> {0, 1, 2, 3, 4, 5, 6, 7, 8, 9, 10, 11, 12, 13, 14, 15}"
  unfolding insert_iff empty_iff by presburger

lemma fromHexChar_hexDigit [simp]: "n < 16 \<Longrightarrow> fromHexChar (hexDigit n) = Some n"
  by (drule nat_lt_16_cases) (auto simp: hexDigit_def fromHexChar_def less_eq_char_def)

lemma is_hex_hexDigit [simp]: "n < 16 \<Longrightarrow> is_hex (hexDigit n)"
  by (simp add: is_hex_def)

lemma is_lower_hex_hexDigit: "n < 16 \<Longrightarrow> is_lower_hex (hexDigit n)"
  unfolding is_lower_hex_def is_hex_def
  by (drule nat_lt_16_cases) (auto simp: hexDigit_def fromHexChar_def less_eq_char_def)

lemma fromHexChar_less: "fromHexChar c = Some n \<Longrightarrow> n < 16"
  by (auto simp: fromHexChar_def less_eq_char_def split: if_splits)

lemma char_of_div_mod [simp]: "char_of (of_char b div 16 * 16 + of_char b mod 16 :: nat) = b"
  by (simp add: div_mult_mod_eq del: add.commute)

lemma of_char_div_16 [simp]: "of_char b div 16 < (16::nat)"
proof -
  have "of_char b < (256::nat)" by simp
  then show ?thesis by linarith
qed

lemma hex_encode_Cons:
  "hex_EncodeToString (b # bs) = hexDigit (of_char b div 16) # hexDigit (of_char b mod 16) # hex_EncodeToString bs"
  by (simp add: hex_EncodeToString_def)

lemma hex_decode_encode [simp]: "hex_DecodeString (hex_EncodeToString bs) = Inr bs"
proof (induction bs)
  case (Cons b bs)
  then show ?case by (simp add: hex_encode_Cons)
qed (simp add: hex_EncodeToString_def)

lemma length_hex_encode [simp]: "length (hex_EncodeToString bs) = 2 * length bs"
  by (induction bs) (auto simp: hex_encode_Cons hex_EncodeToString_def)

lemma hex_encode_lower: "c \<in> set (hex_EncodeToString bs) \<Longrightarrow> is_lower_hex c"
  by (induction bs) (auto simp: hex_EncodeToString_def is_lower_hex_hexDigit)

lemma hex_encode_inject [simp]: "hex_EncodeToString a = hex_EncodeToString b \<longleftrightarrow> a = b"
  by (metis hex_decode_encode sum.inject(2))

lemma hex_decode_ok_iff:
  "(\<exists>bs. hex_DecodeString s = Inr bs) \<longleftrightarrow> even (length s) \<and> list_all is_hex s"
proof (induction s rule: hex_DecodeString.induct)
  case (3 p q s)
  then show ?case
    by (cases "hex_DecodeString s") (auto simp: is_hex_def split: option.splits)
qed (auto simp: is_hex_def split: option.splits)

lemma length_hex_decode: "hex_DecodeString s = Inr bs \<Longrightarrow> length s = 2 * length bs"
  by (induction s arbitrary: bs rule: hex_DecodeString.induct)
     (auto split: option.splits sum.splits)

section \<open>Base64\<close>

definition b64_common :: "char \<Rightarrow> nat option" where
  "b64_common c =
     (if CHR ''A'' \<le> c \<and> c \<le> CHR ''Z'' then Some (of_char c - 65)
      else if CHR ''a'' \<le> c \<and> c \<le> CHR ''z'' then Some (of_char c - 71)
      else if CHR ''0'' \<le> c \<and> c \<le> CHR ''9'' then Some (of_char c + 4) else None)"

definition b64_std :: "char \<Rightarrow> nat option" where
  "b64_std c = (if c = CHR ''+'' then Some 62 else if c = CHR ''/'' then Some 63 else b64_common c)"

definition b64_url :: "char \<Rightarrow> nat option" where
  "b64_url c = (if c = CHR ''-'' then Some 62 else if c = CHR ''_'' then Some 63 else b64_common c)"

text \<open>
  The bytes of one quantum of two, three or four digits. The decoders are the non-strict
  ones of the Go package: left-over low bits of a short quantum are dropped.
\<close>

definition b64_bytes :: "nat list \<Rightarrow> string" where
  "b64_bytes ds =
     (case ds of
        [a, b] \<Rightarrow> [char_of ((a * 64 + b) div 16)]
      | [a, b, c] \<Rightarrow> [char_of ((a * 64 + b) div 16), char_of (((a * 64 + b) * 64 + c) div 4)]
      | [a, b, c, d] \<Rightarrow>
          [char_of ((a * 64 + b) div 16), char_of (((a * 64 + b) * 64 + c) div 4),
           char_of (((a * 64 + b) * 64 + c) * 64 + d)]
      | _ \<Rightarrow> [])"

definition digits_of :: "(char \<Rightarrow> nat option) \<Rightarrow> string \<Rightarrow> nat list option" where
  "digits_of dm s = (if list_all (\<lambda>c. dm c \<noteq> None) s then Some (map (\<lambda>c. the (dm c)) s) else None)"

definition quantum :: "(char \<Rightarrow> nat option) \<Rightarrow> string \<Rightarrow> string option" where
  "quantum dm s = map_option b64_bytes (digits_of dm s)"

text \<open>Decoding after carriage returns and line feeds, which the decoders skip, are gone.\<close>

fun b64_padded :: "(char \<Rightarrow> nat option) \<Rightarrow> string \<Rightarrow> string option" where
  "b64_padded dm (a # b # c # d # s) =
     (if d = CHR ''='' then
        (if s \<noteq> [] then None
         else if c = CHR ''='' then quantum dm [a, b] else quantum dm [a, b, c])
      else
        (case quantum dm [a, b, c, d] of
           None \<Rightarrow> None
         | Some q \<Rightarrow> map_option ((@) q) (b64_padded dm s)))"
| "b64_padded dm [] = Some []"
| "b64_padded dm s = None"

fun b64_raw :: "(char \<Rightarrow> nat option) \<Rightarrow> string \<Rightarrow> string option" where
  "b64_raw dm (a # b # c # d # s) =
     (case quantum dm [a, b, c, d] of
        None \<Rightarrow> None
      | Some q \<Rightarrow> map_option ((@) q) (b64_raw dm s))"
| "b64_raw dm [] = Some []"
| "b64_raw dm [a] = None"
| "b64_raw dm s = quantum dm s"

definition skip_newlines :: "string \<Rightarrow> string" where
  "skip_newlines s = filter (\<lambda>c. c \<noteq> CHR 0x0A \<and> c \<noteq> CHR 0x0D) s"

definition StdEncoding_DecodeString :: "string \<Rightarrow> string option" where
  "StdEncoding_DecodeString s = b64_padded b64_std (skip_newlines s)"

definition RawURLEncoding_DecodeString :: "string \<Rightarrow> string option" where
  "RawURLEncoding_DecodeString s = b64_raw b64_url (skip_newlines s)"

text \<open>
  The encoders, used to state that the decoders invert them.
\<close>

definition b64_url_char :: "nat \<Rightarrow> char" where
  "b64_url_char n =
     (if n < 26 then char_of (n + 65) else if n < 52 then char_of (n + 71)
      else if n < 62 then char_of (n - 4) else if n = 62 then CHR ''-'' else CHR ''_'')"

fun RawURLEncoding_EncodeToString :: "string \<Rightarrow> string" where
  "RawURLEncoding_EncodeToString (a # b # c # s) =
     (let n = (of_char a * 256 + of_char b) * 256 + of_char c in
      [b64_url_char (n div 262144), b64_url_char (n div 4096 mod 64),
       b64_url_char (n div 64 mod 64), b64_url_char (n mod 64)]) @ RawURLEncoding_EncodeToString s"
| "RawURLEncoding_EncodeToString [a, b] =
     (let n = (of_char a * 256 + of_char b) * 4 in
      [b64_url_char (n div 4096), b64_url_char (n div 64 mod 64), b64_url_char (n mod 64)])"
| "RawURLEncoding_EncodeToString [a] =
     (let n = of_char a * 16 in [b64_url_char (n div 64), b64_url_char (n mod 64)])"
| "RawURLEncoding_EncodeToString [] = []"

lemma b64_url_char_inv:
  assumes "n < 64"
  shows "b64_url (b64_url_char n) = Some n"
    and "b64_url_char n \<notin> {CHR 0x0A, CHR 0x0D, CHR ''.''}"
proof -
  have "list_all (\<lambda>n. b64_url (b64_url_char n) = Some n
      \<and> b64_url_char n \<notin> {CHR 0x0A, CHR 0x0D, CHR ''.''}) [0..<64]"
    by code_simp
  with assms show "b64_url (b64_url_char n) = Some n"
    "b64_url_char n \<notin> {CHR 0x0A, CHR 0x0D, CHR ''.''}"
    by (auto simp: list_all_iff)
qed

lemma b64_four:
  fixes n :: nat
  assumes "n < 16777216"
  shows "((n div 262144) * 64 + n div 4096 mod 64) div 16 = n div 65536"
    and "(((n div 262144) * 64 + n div 4096 mod 64) * 64 + n div 64 mod 64) div 4 = n div 256"
    and "(((n div 262144) * 64 + n div 4096 mod 64) * 64 + n div 64 mod 64) * 64 + n mod 64 = n"
proof -
  have a: "(n div 262144) * 64 + n div 4096 mod 64 = n div 4096"
    using div_mult_mod_eq [of "n div 4096" 64] by (simp add: div_mult2_eq [symmetric])
  have b: "(n div 4096) * 64 + n div 64 mod 64 = n div 64"
    using div_mult_mod_eq [of "n div 64" 64] by (simp add: div_mult2_eq [symmetric])
  show "((n div 262144) * 64 + n div 4096 mod 64) div 16 = n div 65536"
    unfolding a by (simp add: div_mult2_eq [symmetric])
  show "(((n div 262144) * 64 + n div 4096 mod 64) * 64 + n div 64 mod 64) div 4 = n div 256"
    unfolding a b by (simp add: div_mult2_eq [symmetric])
  show "(((n div 262144) * 64 + n div 4096 mod 64) * 64 + n div 64 mod 64) * 64 + n mod 64 = n"
    unfolding a b by simp
qed

lemma char_of_byte_mod: "x mod 256 = of_char c \<Longrightarrow> char_of (x :: nat) = c"
  by (metis char_of_char char_of_mod_256)

lemma quantum_url:
  "quantum b64_url (map b64_url_char ds) = Some (b64_bytes ds)" if "\<forall>d \<in> set ds. d < 64"
  using that by (simp add: quantum_def digits_of_def list_all_iff b64_url_char_inv comp_def map_idI)

lemma bytes_of_sum:
  fixes x y z :: nat
  assumes "x < 256" "y < 256" "z < 256"
  shows "((x * 256 + y) * 256 + z) div 65536 mod 256 = x"
    and "((x * 256 + y) * 256 + z) div 256 mod 256 = y"
    and "((x * 256 + y) * 256 + z) mod 256 = z"
proof -
  have a: "((x * 256 + y) * 256 + z) div 256 = x * 256 + y" using assms(3) by (simp add: div_add1_eq)
  have b: "(x * 256 + y) div 256 = x" using assms(2) by (simp add: div_add1_eq)
  have "((x * 256 + y) * 256 + z) div 65536 = ((x * 256 + y) * 256 + z) div 256 div 256"
    by (simp only: div_mult2_eq [symmetric]) simp
  then show "((x * 256 + y) * 256 + z) div 65536 mod 256 = x" using a b assms(1) by simp
  show "((x * 256 + y) * 256 + z) div 256 mod 256 = y" unfolding a using assms(2)
    by (metis mod_less mod_mult_self3)
  show "((x * 256 + y) * 256 + z) mod 256 = z" using assms(3)
    by (metis mod_less mod_mult_self3)
qed

lemma three_bytes:
  "(of_char a * 256 + of_char b) * 256 + of_char c < (16777216 :: nat)"
proof -
  have "of_char a \<le> (255::nat)" "of_char b \<le> (255::nat)" "of_char c \<le> (255::nat)"
    using nat_of_char_less_256 [of a] nat_of_char_less_256 [of b] nat_of_char_less_256 [of c]
    by linarith+
  then show ?thesis by simp
qed

lemma two_bytes: "(of_char a * 256 + of_char b) * 4 < (262144 :: nat)"
proof -
  have "of_char a \<le> (255::nat)" "of_char b \<le> (255::nat)"
    using nat_of_char_less_256 [of a] nat_of_char_less_256 [of b] by linarith+
  then show ?thesis by simp
qed

lemma b64_raw_encode: "b64_raw b64_url (RawURLEncoding_EncodeToString s) = Some s"
proof (induction s rule: RawURLEncoding_EncodeToString.induct)
  case (1 a b c s)
  define n :: nat where "n = (of_char a * 256 + of_char b) * 256 + of_char c"
  have lt: "of_char a < (256::nat)" "of_char b < (256::nat)" "of_char c < (256::nat)" by simp_all
  have n: "n < 16777216" unfolding n_def by (rule three_bytes)
  have enc: "RawURLEncoding_EncodeToString (a # b # c # s) =
      map b64_url_char [n div 262144, n div 4096 mod 64, n div 64 mod 64, n mod 64]
        @ RawURLEncoding_EncodeToString s"
    by (simp add: Let_def n_def)
  have "b64_bytes [n div 262144, n div 4096 mod 64, n div 64 mod 64, n mod 64]
      = [char_of (n div 65536), char_of (n div 256), char_of n]"
    unfolding b64_bytes_def list.case b64_four [OF n] ..
  also have "\<dots> = [a, b, c]"
  proof -
    have "n div 65536 mod 256 = of_char a" "n div 256 mod 256 = of_char b" "n mod 256 = of_char c"
      unfolding n_def by (rule bytes_of_sum [OF lt])+
    then show ?thesis by (simp add: char_of_byte_mod)
  qed
  finally have q: "quantum b64_url (map b64_url_char [n div 262144, n div 4096 mod 64, n div 64 mod 64, n mod 64])
      = Some [a, b, c]"
    using n by (subst quantum_url) auto
  then show ?case using 1 unfolding enc by simp
next
  case (2 a b)
  define n :: nat where "n = (of_char a * 256 + of_char b) * 4"
  have lt: "of_char a < (256::nat)" "of_char b < (256::nat)" by simp_all
  have n: "n < 262144" unfolding n_def by (rule two_bytes)
  have h: "n div 4096 * 64 + n div 64 mod 64 = n div 64"
    using div_mult_mod_eq [of "n div 64" 64] by (simp add: div_mult2_eq [symmetric])
  have "b64_bytes [n div 4096, n div 64 mod 64, n mod 64] = [char_of (n div 1024), char_of (n div 4)]"
    unfolding b64_bytes_def list.case h by (simp add: div_mult2_eq [symmetric])
  also have "\<dots> = [a, b]"
  proof -
    have "n div 1024 mod 256 = of_char a" "n div 4 mod 256 = of_char b"
      using lt by (simp_all add: n_def div_mult2_eq)
    then show ?thesis by (simp add: char_of_byte_mod)
  qed
  finally have "quantum b64_url (map b64_url_char [n div 4096, n div 64 mod 64, n mod 64]) = Some [a, b]"
    using n by (subst quantum_url) auto
  then show ?case by (simp add: Let_def n_def)
next
  case (3 a)
  define n :: nat where "n = of_char a * 16"
  have lt: "of_char a < (256::nat)" by simp
  then have n: "n < 4096" by (simp add: n_def)
  have "b64_bytes [n div 64, n mod 64] = [char_of (n div 16)]"
    by (simp add: b64_bytes_def)
  also have "\<dots> = [a]" by (simp add: n_def)
  finally have "quantum b64_url (map b64_url_char [n div 64, n mod 64]) = Some [a]"
    using n by (subst quantum_url) auto
  then show ?case by (simp add: Let_def n_def)
qed simp

lemma RawURL_encode_chars:
  "c \<in> set (RawURLEncoding_EncodeToString s) \<Longrightarrow> c \<noteq> CHR 0x0A \<and> c \<noteq> CHR 0x0D \<and> c \<noteq> CHR ''.''"
proof (induction s rule: RawURLEncoding_EncodeToString.induct)
  case (1 a b d s)
  have "((of_char a * 256 + of_char b) * 256 + of_char d) div 262144 < (64::nat)"
    by (rule less_mult_imp_div_less) (use three_bytes [of a b d] in simp)
  then show ?case using 1 b64_url_char_inv(2) by (auto simp: Let_def)
next
  case (2 a b)
  have "(of_char a * 256 + of_char b) * 4 div 4096 < (64::nat)"
    by (rule less_mult_imp_div_less) (use two_bytes [of a b] in simp)
  then show ?case using 2 b64_url_char_inv(2) by (auto simp: Let_def)
next
  case (3 a)
  have "of_char a * 16 div 64 < (64::nat)"
    by (rule less_mult_imp_div_less) (use nat_of_char_less_256 [of a] in linarith)
  then show ?case using 3 b64_url_char_inv(2) by (auto simp: Let_def)
qed simp

lemma RawURL_decode_encode [simp]:
  "RawURLEncoding_DecodeString (RawURLEncoding_EncodeToString s) = Some s"
proof -
  have "skip_newlines (RawURLEncoding_EncodeToString s) = RawURLEncoding_EncodeToString s"
    using RawURL_encode_chars by (auto simp: skip_newlines_def filter_id_conv)
  then show ?thesis by (simp add: RawURLEncoding_DecodeString_def b64_raw_encode)
qed

lemma RawURL_encode_no_dot: "CHR ''.'' \<notin> set (RawURLEncoding_EncodeToString s)"
  using RawURL_encode_chars by blast

end
