(* ===== verification/Go_Sha256.thy ===== *)
theory Go_Sha256
  imports Go_Encoding
begin

text \<open>
  \<open>crypto/sha256\<close> (FIPS 180-4) and \<open>crypto/hmac\<close> (RFC 2104) on byte strings. The facts the
  components rest on are the output length and, for the code, nothing else: no property
  below assumes collision resistance unless it says so.
\<close>

section \<open>SHA-256\<close>

type_synonym w32 = "32 word"

text \<open>The round constants and the initial state of the standard, in decimal.\<close>

definition sha256_k :: "w32 list" where
  "sha256_k =
    [1116352408, 1899447441, 3049323471, 3921009573, 961987163, 1508970993, 2453635748, 2870763221,
     3624381080, 310598401, 607225278, 1426881987, 1925078388, 2162078206, 2614888103, 3248222580,
     3835390401, 4022224774, 264347078, 604807628, 770255983, 1249150122, 1555081692, 1996064986,
     2554220882, 2821834349, 2952996808, 3210313671, 3336571891, 3584528711, 113926993, 338241895,
     666307205, 773529912, 1294757372, 1396182291, 1695183700, 1986661051, 2177026350, 2456956037,
     2730485921, 2820302411, 3259730800, 3345764771, 3516065817, 3600352804, 4094571909, 275423344,
     430227734, 506948616, 659060556, 883997877, 958139571, 1322822218, 1537002063, 1747873779,
     1955562222, 2024104815, 2227730452, 2361852424, 2428436474, 2756734187, 3204031479, 3329325298]"

record sha_state =
  sa :: w32  sb :: w32  sc :: w32  sd :: w32  se :: w32  sf :: w32  sg :: w32  sh :: w32

definition sha256_init :: sha_state where
  "sha256_init =
     \<lparr>sa = 1779033703, sb = 3144134277, sc = 1013904242, sd = 2773480762,
      se = 1359893119, sf = 2600822924, sg = 528734635, sh = 1541459225\<rparr>"

definition rotr :: "nat \<Rightarrow> w32 \<Rightarrow> w32" where
  "rotr n x = drop_bit n x OR push_bit (32 - n) x"

definition small_sigma0 :: "w32 \<Rightarrow> w32" where
  "small_sigma0 x = rotr 7 x XOR rotr 18 x XOR drop_bit 3 x"

definition small_sigma1 :: "w32 \<Rightarrow> w32" where
  "small_sigma1 x = rotr 17 x XOR rotr 19 x XOR drop_bit 10 x"

definition big_sigma0 :: "w32 \<Rightarrow> w32" where
  "big_sigma0 x = rotr 2 x XOR rotr 13 x XOR rotr 22 x"

definition big_sigma1 :: "w32 \<Rightarrow> w32" where
  "big_sigma1 x = rotr 6 x XOR rotr 11 x XOR rotr 25 x"

definition sha_round :: "sha_state \<Rightarrow> w32 \<times> w32 \<Rightarrow> sha_state" where
  "sha_round s kw =
     (let t1 = sh s + big_sigma1 (se s) + ((se s AND sf s) XOR (NOT (se s) AND sg s)) + fst kw + snd kw;
          t2 = big_sigma0 (sa s) + ((sa s AND sb s) XOR (sa s AND sc s) XOR (sb s AND sc s))
      in \<lparr>sa = t1 + t2, sb = sa s, sc = sb s, sd = sc s,
          se = sd s + t1, sf = se s, sg = sf s, sh = sg s\<rparr>)"

text \<open>The message schedule, latest word first.\<close>

fun sha_schedule :: "nat \<Rightarrow> w32 list \<Rightarrow> w32 list" where
  "sha_schedule 0 ws = rev ws"
| "sha_schedule (Suc n) ws =
     sha_schedule n ((small_sigma1 (ws ! 1) + ws ! 6 + small_sigma0 (ws ! 14) + ws ! 15) # ws)"

fun words_of :: "string \<Rightarrow> w32 list" where
  "words_of (a # b # c # d # s) =
     word_of_nat (((of_char a * 256 + of_char b) * 256 + of_char c) * 256 + of_char d) # words_of s"
| "words_of _ = []"

definition sha_block :: "sha_state \<Rightarrow> string \<Rightarrow> sha_state" where
  "sha_block s blk =
     (let r = foldl sha_round s (zip sha256_k (sha_schedule 48 (rev (words_of blk)))) in
      \<lparr>sa = sa s + sa r, sb = sb s + sb r, sc = sc s + sc r, sd = sd s + sd r,
       se = se s + se r, sf = sf s + sf r, sg = sg s + sg r, sh = sh s + sh r\<rparr>)"

fun chunks :: "nat \<Rightarrow> nat \<Rightarrow> string \<Rightarrow> string list" where
  "chunks 0 k s = []"
| "chunks (Suc n) k s = take k s # chunks n k (drop k s)"

definition be_bytes :: "nat \<Rightarrow> nat \<Rightarrow> string" where
  "be_bytes n v = map (\<lambda>i. char_of (v div 256 ^ i)) (rev [0..<n])"

definition sha256_pad :: "string \<Rightarrow> string" where
  "sha256_pad m =
     m @ CHR 0x80 # replicate ((119 - length m mod 64) mod 64) (CHR 0x00) @ be_bytes 8 (8 * length m)"

definition state_bytes :: "sha_state \<Rightarrow> string" where
  "state_bytes s =
     concat (map (\<lambda>w. be_bytes 4 (unat w)) [sa s, sb s, sc s, sd s, se s, sf s, sg s, sh s])"

definition Sum256 :: "string \<Rightarrow> string" where
  "Sum256 m =
     (let p = sha256_pad m in
      state_bytes (foldl sha_block sha256_init (chunks (length p div 64) 64 p)))"

lemma length_be_bytes [simp]: "length (be_bytes n v) = n"
  by (simp add: be_bytes_def)

lemma length_Sum256 [simp]: "length (Sum256 m) = 32"
  by (simp add: Sum256_def state_bytes_def Let_def)

lemma sha256_pad_block: "64 dvd length (sha256_pad m)"
proof -
  have "64 dvd n + 9 + (119 - n mod 64) mod 64" for n :: nat
  proof -
    have "(n + 9 + (119 - n mod 64) mod 64) mod 64 = (n + 9 + (119 - n mod 64)) mod 64"
      by (rule mod_add_right_eq)
    also have "n + 9 + (119 - n mod 64) = 64 * (n div 64 + 2)"
    proof -
      define q r where "q = n div 64" and "r = n mod 64"
      then have "n = 64 * q + r" "r < 64" by simp_all
      then show ?thesis unfolding q_def [symmetric] r_def [symmetric] by simp
    qed
    finally show ?thesis by (simp add: mod_eq_0_iff_dvd)
  qed
  from this [of "length m"] show ?thesis
    by (simp add: sha256_pad_def algebra_simps)
qed

section \<open>HMAC-SHA256\<close>

definition xor_byte :: "char \<Rightarrow> nat \<Rightarrow> char" where
  "xor_byte c k = char_of (of_char c XOR k)"

definition hmac_key :: "string \<Rightarrow> string" where
  "hmac_key key =
     (let k = (if 64 < length key then Sum256 key else key)
      in k @ replicate (64 - length k) (CHR 0x00))"

definition hmac_sha256 :: "string \<Rightarrow> string \<Rightarrow> string" where
  "hmac_sha256 key msg =
     (let k = hmac_key key in
      Sum256 (map (\<lambda>c. xor_byte c 0x5c) k @ Sum256 (map (\<lambda>c. xor_byte c 0x36) k @ msg)))"

lemma length_hmac_sha256 [simp]: "length (hmac_sha256 key msg) = 32"
  by (simp add: hmac_sha256_def Let_def)

end
