(* ===== verification/Auth.thy ===== *)
theory Auth
  imports Go_Sha256
begin

text \<open>
  \<open>internal/auth\<close>: roles, API tokens, JWTs (\<open>auth.go\<close>) and JWKS key sets (\<open>jwks.go\<close>).

  The parameters (record \<open>jwt_api\<close>) are \<open>json.Unmarshal\<close> into the header, the claims and the
  JWKS document, and \<open>rsa.VerifyPKCS1v15\<close> with SHA-256. Base64url, SHA-256 and HMAC are
  the computed functions of \<open>Go_Encoding\<close> and \<open>Go_Sha256\<close>. A Go map is ranged over in an
  unspecified order: that order is the argument \<open>order\<close>, a list of the keys.
\<close>

section \<open>Roles\<close>

type_synonym Role = string

definition RoleAdmin :: Role where "RoleAdmin = ''admin''"
definition RoleSecurityReviewer :: Role where "RoleSecurityReviewer = ''security-reviewer''"
definition RoleEvaluator :: Role where "RoleEvaluator = ''evaluator''"
definition RolePromoter :: Role where "RolePromoter = ''promoter''"
definition RoleAuditor :: Role where "RoleAuditor = ''auditor''"
definition RoleViewer :: Role where "RoleViewer = ''viewer''"

lemmas role_defs = RoleAdmin_def RoleSecurityReviewer_def RoleEvaluator_def RolePromoter_def
  RoleAuditor_def RoleViewer_def

definition HasPermission :: "Role \<Rightarrow> Role \<Rightarrow> bool" where
  "HasPermission userRole requiredRole =
     (if userRole = RoleAdmin then True
      else if userRole = requiredRole then True
      else if userRole = RoleSecurityReviewer \<and>
                (requiredRole = RoleEvaluator \<or> requiredRole = RolePromoter \<or>
                 requiredRole = RoleAuditor \<or> requiredRole = RoleViewer) then True
      else if requiredRole = RoleViewer then True
      else False)"

section \<open>Key sets\<close>

record JWK =
  jwk_Kty :: string
  jwk_Kid :: string
  jwk_Use :: string
  jwk_Alg :: string
  jwk_N :: string
  jwk_E :: string

record rsa_key =
  rsa_N :: nat
  rsa_E :: "64 word"

text \<open>A map of keys by key id; the pointer in an entry may be nil (\<open>None\<close>).\<close>

type_synonym key_map = "string \<rightharpoonup> rsa_key option"

record JWTHeader =
  hdr_Alg :: string
  hdr_Typ :: string
  hdr_Kid :: string

record JWTClaims =
  cl_Issuer :: string
  cl_Subject :: string
  cl_Audience :: string
  cl_Expiry :: int
  cl_NotBefore :: int
  cl_IssuedAt :: int
  cl_Role :: Role
  cl_Roles :: "Role list"

record jwt_api =
  unmarshal_header :: "string \<Rightarrow> JWTHeader option"
  unmarshal_claims :: "string \<Rightarrow> JWTClaims option"
  unmarshal_jwks :: "string \<Rightarrow> JWK list result"
  rsa_VerifyPKCS1v15 :: "rsa_key \<Rightarrow> string \<Rightarrow> string \<Rightarrow> go_error option"

definition SetBytes :: "string \<Rightarrow> nat" where
  "SetBytes bs = foldl (\<lambda>a b. a * 256 + of_char b) 0 bs"

text \<open>The loop over the exponent's bytes, in Go's 64-bit \<open>int\<close>.\<close>

definition exponent_int :: "string \<Rightarrow> 64 word" where
  "exponent_int bs = foldl (\<lambda>e b. or (push_bit 8 e) (word_of_nat (of_char b))) 0 bs"

definition parseRSAPublicKey :: "string \<Rightarrow> string \<Rightarrow> rsa_key result" where
  "parseRSAPublicKey nStr eStr =
     (case RawURLEncoding_DecodeString nStr of
        None \<Rightarrow> Inl (Wrapf ''decode n: %w'' [] (errors_New ''illegal base64 data''))
      | Some nBytes \<Rightarrow>
          (case RawURLEncoding_DecodeString eStr of
             None \<Rightarrow> Inl (Wrapf ''decode e: %w'' [] (errors_New ''illegal base64 data''))
           | Some eBytes \<Rightarrow> Inr \<lparr>rsa_N = SetBytes nBytes, rsa_E = exponent_int eBytes\<rparr>))"

definition NewJWKSKeySet :: key_map where
  "NewJWKSKeySet = Map.empty"

definition SetKey :: "key_map \<Rightarrow> string \<Rightarrow> rsa_key option \<Rightarrow> key_map" where
  "SetKey m kid key = m(kid \<mapsto> key)"

definition GetKey :: "key_map \<Rightarrow> string \<Rightarrow> rsa_key option option" where
  "GetKey m kid = m kid"

text \<open>\<open>Keys\<close> returns a copy; values are immutable here, so the copy is the map.\<close>

definition Keys :: "key_map \<Rightarrow> key_map" where
  "Keys m = m"

definition add_jwk :: "key_map \<Rightarrow> JWK \<Rightarrow> key_map" where
  "add_jwk m key =
     (if jwk_Kty key = ''RSA'' \<and> jwk_N key \<noteq> [] \<and> jwk_E key \<noteq> []
      then (case parseRSAPublicKey (jwk_N key) (jwk_E key) of
              Inl _ \<Rightarrow> m
            | Inr pubKey \<Rightarrow> SetKey m (jwk_Kid key) (Some pubKey))
      else m)"

definition ParseJWKS :: "jwt_api \<Rightarrow> string \<Rightarrow> key_map result" where
  "ParseJWKS api data =
     (case unmarshal_jwks api data of
        Inl e \<Rightarrow> Inl (Wrapf ''unmarshal jwks: %w'' [] e)
      | Inr ks \<Rightarrow> Inr (foldl add_jwk NewJWKSKeySet ks))"

section \<open>The authenticator\<close>

record Authenticator =
  apiTokens :: "string \<rightharpoonup> Role"
  hmacSecret :: string
  rsaKeys :: key_map
  ExpectedIssuer :: string
  ExpectedAudience :: string
  ClockSkewLeeway :: duration

definition NewAuthenticator :: "string \<Rightarrow> string \<Rightarrow> Authenticator" where
  "NewAuthenticator token secret =
     \<lparr>apiTokens = (if token \<noteq> [] then [token \<mapsto> RoleAdmin] else Map.empty),
      hmacSecret = secret, rsaKeys = Map.empty,
      ExpectedIssuer = [], ExpectedAudience = [],
      ClockSkewLeeway = 60 * time_second\<rparr>"

definition WithIssuer :: "Authenticator \<Rightarrow> string \<Rightarrow> Authenticator" where
  "WithIssuer a issuer = a\<lparr>ExpectedIssuer := issuer\<rparr>"

definition WithAudience :: "Authenticator \<Rightarrow> string \<Rightarrow> Authenticator" where
  "WithAudience a audience = a\<lparr>ExpectedAudience := audience\<rparr>"

definition WithJWKS :: "Authenticator \<Rightarrow> key_map option \<Rightarrow> Authenticator" where
  "WithJWKS a jwks =
     (case jwks of None \<Rightarrow> a | Some ks \<Rightarrow> a\<lparr>rsaKeys := rsaKeys a ++ Keys ks\<rparr>)"

definition ValidateReadiness :: "Authenticator \<Rightarrow> go_error option" where
  "ValidateReadiness a =
     (if apiTokens a = Map.empty \<and> length (hmacSecret a) = 0 \<and> rsaKeys a = Map.empty
      then Some (errors_New ''no auth mechanisms (API tokens, HMAC secret, or RSA/JWKS keys) configured'')
      else None)"

definition RegisterAPIToken :: "Authenticator \<Rightarrow> string \<Rightarrow> Role \<Rightarrow> Authenticator" where
  "RegisterAPIToken a token role = a\<lparr>apiTokens := (apiTokens a)(token \<mapsto> role)\<rparr>"

definition RegisterRSAPublicKey :: "Authenticator \<Rightarrow> string \<Rightarrow> rsa_key option \<Rightarrow> Authenticator" where
  "RegisterRSAPublicKey a kid pubKey = a\<lparr>rsaKeys := (rsaKeys a)(kid \<mapsto> pubKey)\<rparr>"

section \<open>JWTs\<close>

text \<open>\<open>int64\<close> arithmetic wraps.\<close>

definition wrap64 :: "int \<Rightarrow> int" where
  "wrap64 i = (i + 2 ^ 63) mod 2 ^ 64 - 2 ^ 63"

text \<open>
  \<open>int64(d.Seconds())\<close>: the whole seconds, towards zero. (The \<open>float64\<close> in between is exact
  for every leeway below 2^22 seconds, 48 days; the code sets 60 seconds.)
\<close>

definition leeway_seconds :: "duration \<Rightarrow> int" where
  "leeway_seconds d = sgn d * (abs d div time_second)"

text \<open>The key an RS256 token is verified with.\<close>

definition select_key :: "string list \<Rightarrow> key_map \<Rightarrow> string \<Rightarrow> rsa_key option" where
  "select_key order keys kid =
     (case keys kid of
        Some pubKey \<Rightarrow> pubKey
      | None \<Rightarrow> (case find (\<lambda>k. keys k \<noteq> None) order of
                   None \<Rightarrow> None
                 | Some k \<Rightarrow> the (keys k)))"

definition verify_jwt_signature ::
    "jwt_api \<Rightarrow> string list \<Rightarrow> Authenticator \<Rightarrow> JWTHeader \<Rightarrow> string \<Rightarrow> string \<Rightarrow> go_error option" where
  "verify_jwt_signature api order a header signedData sigBytes =
     (if hdr_Alg header = ''HS256'' then
        (if length (hmacSecret a) = 0 then Some (errors_New ''hmac secret not configured'')
         else if sigBytes \<noteq> hmac_sha256 (hmacSecret a) signedData
              then Some (errors_New ''invalid hmac signature'')
         else None)
      else if hdr_Alg header = ''RS256'' then
        (case select_key order (rsaKeys a) (hdr_Kid header) of
           None \<Rightarrow> Some (errors_New ''rsa key not found'')
         | Some pubKey \<Rightarrow>
             (case rsa_VerifyPKCS1v15 api pubKey (Sum256 signedData) sigBytes of
                Some e \<Rightarrow> Some (Wrapf ''invalid rsa signature: %w'' [] e)
              | None \<Rightarrow> None))
      else Some (Errorf ''unsupported algorithm: %s'' [S (hdr_Alg header)]))"

definition check_claims :: "Authenticator \<Rightarrow> go_time \<Rightarrow> JWTClaims \<Rightarrow> go_error option" where
  "check_claims a now claims =
     (let leewaySec = leeway_seconds (ClockSkewLeeway a) in
      first_error
        [(cl_Expiry claims > 0 \<and> Unix now > wrap64 (cl_Expiry claims + leewaySec),
            errors_New ''token expired''),
         (cl_NotBefore claims > 0 \<and> Unix now < wrap64 (cl_NotBefore claims - leewaySec),
            errors_New ''token not active''),
         (ExpectedIssuer a \<noteq> [] \<and> cl_Issuer claims \<noteq> ExpectedIssuer a,
            Errorf ''token issuer %q does not match expected issuer %q''
              [S (cl_Issuer claims), S (ExpectedIssuer a)]),
         (ExpectedAudience a \<noteq> [] \<and> cl_Audience claims \<noteq> ExpectedAudience a,
            Errorf ''token audience %q does not match expected audience %q''
              [S (cl_Audience claims), S (ExpectedAudience a)])])"

definition ParseJWT ::
    "jwt_api \<Rightarrow> string list \<Rightarrow> Authenticator \<Rightarrow> go_time \<Rightarrow> string \<Rightarrow> JWTClaims result" where
  "ParseJWT api order a now tokenStr =
     (case Split tokenStr CHR ''.'' of
        [p0, p1, p2] \<Rightarrow>
          (case RawURLEncoding_DecodeString p0 of
             None \<Rightarrow> Inl (errors_New ''decode header failed'')
           | Some headerBytes \<Rightarrow>
          (case unmarshal_header api headerBytes of
             None \<Rightarrow> Inl (errors_New ''unmarshal header failed'')
           | Some header \<Rightarrow>
          (case RawURLEncoding_DecodeString p1 of
             None \<Rightarrow> Inl (errors_New ''decode claims failed'')
           | Some claimsBytes \<Rightarrow>
          (case unmarshal_claims api claimsBytes of
             None \<Rightarrow> Inl (errors_New ''unmarshal claims failed'')
           | Some claims \<Rightarrow>
          (case check_claims a now claims of
             Some e \<Rightarrow> Inl e
           | None \<Rightarrow>
          (case RawURLEncoding_DecodeString p2 of
             None \<Rightarrow> Inl (errors_New ''decode signature failed'')
           | Some sigBytes \<Rightarrow>
          (case verify_jwt_signature api order a header (p0 @ ''.'' @ p1) sigBytes of
             Some e \<Rightarrow> Inl e
           | None \<Rightarrow> Inr claims)))))))
      | _ \<Rightarrow> Inl (errors_New ''invalid jwt format''))"

definition claims_role :: "JWTClaims \<Rightarrow> Role" where
  "claims_role claims =
     (if cl_Role claims \<noteq> [] then cl_Role claims
      else if length (cl_Roles claims) > 0 then cl_Roles claims ! 0
      else RoleViewer)"

definition Authenticate ::
    "jwt_api \<Rightarrow> string list \<Rightarrow> Authenticator \<Rightarrow> go_time \<Rightarrow> string \<Rightarrow> Role result" where
  "Authenticate api order a now authHeader =
     (if authHeader = [] then Inl (errors_New ''missing authorization header'')
      else case SplitN2 authHeader CHR '' '' of
        [scheme, token] \<Rightarrow>
          (if \<not> EqualFold_ascii scheme ''Bearer''
           then Inl (errors_New ''invalid authorization header format'')
           else case apiTokens a token of
             Some role \<Rightarrow> Inr role
           | None \<Rightarrow>
               (case ParseJWT api order a now token of
                  Inr claims \<Rightarrow> Inr (claims_role claims)
                | Inl err \<Rightarrow> Inl (Wrapf ''authentication failed: %w'' [] err)))
      | _ \<Rightarrow> Inl (errors_New ''invalid authorization header format''))"

section \<open>Lemmas\<close>

lemma Split_three:
  "Split s c = [x, y, z] \<longleftrightarrow>
     s = x @ c # y @ c # z \<and> c \<notin> set x \<and> c \<notin> set y \<and> c \<notin> set z"
proof
  assume *: "Split s c = [x, y, z]"
  then have "c \<notin> set x" "c \<notin> set y" "c \<notin> set z"
    using Split_pieces [of _ s c] by auto
  moreover have "s = Join [x, y, z] c" using * Join_Split [of s c] by simp
  ultimately show "s = x @ c # y @ c # z \<and> c \<notin> set x \<and> c \<notin> set y \<and> c \<notin> set z" by simp
next
  assume "s = x @ c # y @ c # z \<and> c \<notin> set x \<and> c \<notin> set y \<and> c \<notin> set z"
  then show "Split s c = [x, y, z]" by (simp add: Split_append_sep)
qed

lemma SplitN2_two:
  "SplitN2 s c = [x, y] \<longleftrightarrow> s = x @ c # y \<and> c \<notin> set x"
  using SplitN2_pair [of s c x y] SplitN2_sep [of c x y] by auto

lemma wrap64_id: "in_int64 i \<Longrightarrow> wrap64 i = i"
  by (simp add: wrap64_def in_int64_def min_int64_def max_int64_def)

lemma leeway_default [simp]: "leeway_seconds (60 * time_second) = 60"
  by (simp add: leeway_seconds_def time_second_def)

text \<open>A token and what must hold of its three pieces for it to be accepted.\<close>

definition jwt_times_ok :: "Authenticator \<Rightarrow> go_time \<Rightarrow> JWTClaims \<Rightarrow> bool" where
  "jwt_times_ok a now claims \<longleftrightarrow>
     (cl_Expiry claims \<le> 0 \<or> Unix now \<le> wrap64 (cl_Expiry claims + leeway_seconds (ClockSkewLeeway a)))
     \<and> (cl_NotBefore claims \<le> 0 \<or>
          wrap64 (cl_NotBefore claims - leeway_seconds (ClockSkewLeeway a)) \<le> Unix now)"

definition jwt_signed ::
    "jwt_api \<Rightarrow> string list \<Rightarrow> Authenticator \<Rightarrow> JWTHeader \<Rightarrow> string \<Rightarrow> string \<Rightarrow> bool" where
  "jwt_signed api order a header msg mac \<longleftrightarrow>
     hdr_Alg header = ''HS256'' \<and> hmacSecret a \<noteq> [] \<and> mac = hmac_sha256 (hmacSecret a) msg
     \<or> hdr_Alg header = ''RS256'' \<and>
        (\<exists>k. select_key order (rsaKeys a) (hdr_Kid header) = Some k
             \<and> rsa_VerifyPKCS1v15 api k (Sum256 msg) mac = None)"

definition jwt_valid ::
    "jwt_api \<Rightarrow> string list \<Rightarrow> Authenticator \<Rightarrow> go_time \<Rightarrow> string \<Rightarrow> JWTClaims \<Rightarrow> bool" where
  "jwt_valid api order a now token claims \<longleftrightarrow>
     (\<exists>h c s hb header cb mac.
        token = h @ ''.'' @ c @ ''.'' @ s
        \<and> CHR ''.'' \<notin> set h \<and> CHR ''.'' \<notin> set c \<and> CHR ''.'' \<notin> set s
        \<and> RawURLEncoding_DecodeString h = Some hb \<and> unmarshal_header api hb = Some header
        \<and> RawURLEncoding_DecodeString c = Some cb \<and> unmarshal_claims api cb = Some claims
        \<and> RawURLEncoding_DecodeString s = Some mac
        \<and> jwt_times_ok a now claims
        \<and> (ExpectedIssuer a = [] \<or> cl_Issuer claims = ExpectedIssuer a)
        \<and> (ExpectedAudience a = [] \<or> cl_Audience claims = ExpectedAudience a)
        \<and> jwt_signed api order a header (h @ ''.'' @ c) mac)"

lemma check_claims_None:
  "check_claims a now claims = None \<longleftrightarrow>
     jwt_times_ok a now claims
     \<and> (ExpectedIssuer a = [] \<or> cl_Issuer claims = ExpectedIssuer a)
     \<and> (ExpectedAudience a = [] \<or> cl_Audience claims = ExpectedAudience a)"
  by (auto simp: check_claims_def jwt_times_ok_def Let_def not_less)

lemma verify_jwt_signature_None:
  "verify_jwt_signature api order a header msg mac = None \<longleftrightarrow> jwt_signed api order a header msg mac"
  by (auto simp: verify_jwt_signature_def jwt_signed_def split: option.splits)

lemma ParseJWT_three:
  assumes "Split token CHR ''.'' = [h, c, s]"
  shows "ParseJWT api order a now token = Inr claims \<longleftrightarrow>
    (\<exists>hb header cb mac. RawURLEncoding_DecodeString h = Some hb \<and> unmarshal_header api hb = Some header
        \<and> RawURLEncoding_DecodeString c = Some cb \<and> unmarshal_claims api cb = Some claims
        \<and> RawURLEncoding_DecodeString s = Some mac \<and> check_claims a now claims = None
        \<and> verify_jwt_signature api order a header (h @ ''.'' @ c) mac = None)"
  unfolding ParseJWT_def assms by (auto split: option.splits)

lemma ParseJWT_Inr_split:
  assumes "ParseJWT api order a now token = Inr claims"
  obtains h c s where "Split token CHR ''.'' = [h, c, s]"
  using assms by (auto simp: ParseJWT_def split: list.splits)

lemma ParseJWT_iff: "ParseJWT api order a now token = Inr claims \<longleftrightarrow> jwt_valid api order a now token claims"
  (is "?l \<longleftrightarrow> ?r")
proof
  assume l: ?l
  then obtain h c s where sp: "Split token CHR ''.'' = [h, c, s]" by (rule ParseJWT_Inr_split)
  then have "token = h @ ''.'' @ c @ ''.'' @ s" "CHR ''.'' \<notin> set h" "CHR ''.'' \<notin> set c" "CHR ''.'' \<notin> set s"
    using Split_three [of token "CHR ''.''" h c s] by simp_all
  with l show ?r
    unfolding ParseJWT_three [OF sp] check_claims_None verify_jwt_signature_None jwt_valid_def by blast
next
  assume ?r
  then obtain h c s hb header cb mac where *:
    "token = h @ ''.'' @ c @ ''.'' @ s" "CHR ''.'' \<notin> set h" "CHR ''.'' \<notin> set c" "CHR ''.'' \<notin> set s"
    "RawURLEncoding_DecodeString h = Some hb" "unmarshal_header api hb = Some header"
    "RawURLEncoding_DecodeString c = Some cb" "unmarshal_claims api cb = Some claims"
    "RawURLEncoding_DecodeString s = Some mac" "jwt_times_ok a now claims"
    "ExpectedIssuer a = [] \<or> cl_Issuer claims = ExpectedIssuer a"
    "ExpectedAudience a = [] \<or> cl_Audience claims = ExpectedAudience a"
    "jwt_signed api order a header (h @ ''.'' @ c) mac"
    unfolding jwt_valid_def by blast
  then have sp: "Split token CHR ''.'' = [h, c, s]"
    using Split_three [of token "CHR ''.''" h c s] by simp
  show ?l
    unfolding ParseJWT_three [OF sp] check_claims_None verify_jwt_signature_None using * by blast
qed

definition bearer :: "string \<Rightarrow> string \<Rightarrow> bool" where
  "bearer hdr token \<longleftrightarrow>
     (\<exists>scheme. hdr = scheme @ '' '' @ token \<and> CHR '' '' \<notin> set scheme \<and> EqualFold_ascii scheme ''Bearer'')"

lemma Authenticate_pair:
  assumes "SplitN2 hdr CHR '' '' = [scheme, token]" "hdr \<noteq> []"
  shows "Authenticate api order a now hdr = Inr r \<longleftrightarrow>
    EqualFold_ascii scheme ''Bearer'' \<and>
     (apiTokens a token = Some r \<or>
      apiTokens a token = None \<and>
       (\<exists>claims. ParseJWT api order a now token = Inr claims \<and> r = claims_role claims))"
  unfolding Authenticate_def assms(1) using assms(2) by (auto split: option.splits sum.splits)

lemma Authenticate_iff:
  "Authenticate api order a now hdr = Inr r \<longleftrightarrow>
     (\<exists>token. bearer hdr token \<and>
        (apiTokens a token = Some r \<or>
         apiTokens a token = None \<and>
          (\<exists>claims. jwt_valid api order a now token claims \<and> r = claims_role claims)))"
  (is "?l \<longleftrightarrow> ?r")
proof
  assume l: ?l
  then obtain scheme token where sp: "SplitN2 hdr CHR '' '' = [scheme, token]" and ne: "hdr \<noteq> []"
    by (auto simp: Authenticate_def split: if_splits list.splits)
  have "hdr = scheme @ '' '' @ token" "CHR '' '' \<notin> set scheme"
    using sp SplitN2_two [of hdr "CHR '' ''" scheme token] by simp_all
  with l show ?r
    unfolding Authenticate_pair [OF sp ne] ParseJWT_iff bearer_def by blast
next
  assume ?r
  then obtain token scheme where *: "hdr = scheme @ '' '' @ token" "CHR '' '' \<notin> set scheme"
      "EqualFold_ascii scheme ''Bearer''"
      "apiTokens a token = Some r \<or> apiTokens a token = None \<and>
          (\<exists>claims. jwt_valid api order a now token claims \<and> r = claims_role claims)"
    unfolding bearer_def by blast
  then have sp: "SplitN2 hdr CHR '' '' = [scheme, token]"
    using SplitN2_two [of hdr "CHR '' ''" scheme token] by simp
  have ne: "hdr \<noteq> []" using *(1) by simp
  show ?l
    unfolding Authenticate_pair [OF sp ne] ParseJWT_iff using * by blast
qed

lemma select_key_empty [simp]: "select_key order Map.empty kid = None"
proof -
  have "find (\<lambda>k. False) order = None" by (simp add: find_None_iff)
  then show ?thesis by (simp add: select_key_def)
qed

lemma no_keys_no_jwt:
  "hmacSecret a = [] \<Longrightarrow> rsaKeys a = Map.empty \<Longrightarrow> \<not> jwt_valid api order a now token claims"
  by (auto simp: jwt_valid_def jwt_signed_def)

lemma select_key_ran: "select_key order keys kid = Some k \<Longrightarrow> Some k \<in> ran keys"
  by (auto simp: select_key_def find_Some_iff ran_def split: option.splits)

lemma SetBytes_snoc: "SetBytes (bs @ [b]) = SetBytes bs * 256 + of_char b"
  by (simp add: SetBytes_def)

lemma exponent_int_snoc:
  "exponent_int (bs @ [b]) = or (push_bit 8 (exponent_int bs)) (word_of_nat (of_char b))"
  by (simp add: exponent_int_def)

lemma shift_or_byte:
  fixes e :: "64 word"
  shows "or (push_bit 8 e) (word_of_nat (of_char b)) = e * 256 + word_of_nat (of_char b)"
proof -
  have "\<not> bit (push_bit 8 e) n \<or> \<not> bit (word_of_nat (of_char b) :: 64 word) n" for n
  proof (cases "n < 8")
    case True
    then show ?thesis by (simp add: bit_push_bit_iff)
  next
    case False
    have "(2::nat) ^ 8 \<le> 2 ^ n" using False by (intro power_increasing) simp_all
    then have "(of_char b :: nat) < 2 ^ n"
      by (intro less_le_trans [OF nat_of_char_less_256]) simp
    then have "\<not> bit (of_char b :: nat) n"
      by (simp add: bit_iff_odd)
    then show ?thesis by (simp add: bit_of_nat_iff)
  qed
  then have "or (push_bit 8 e) (word_of_nat (of_char b)) = push_bit 8 e + word_of_nat (of_char b)"
    by (simp add: disjunctive_add)
  then show ?thesis by (simp add: push_bit_eq_mult)
qed

lemma exponent_int_value: "exponent_int bs = word_of_nat (SetBytes bs)"
proof (induction bs rule: rev_induct)
  case Nil
  show ?case by (simp add: exponent_int_def SetBytes_def)
next
  case (snoc b bs)
  show ?case
    unfolding exponent_int_snoc SetBytes_snoc shift_or_byte snoc.IH by simp
qed

text \<open>What one entry of a JWKS document contributes.\<close>

definition usable_jwk :: "JWK \<Rightarrow> rsa_key option" where
  "usable_jwk key =
     (if jwk_Kty key = ''RSA'' \<and> jwk_N key \<noteq> [] \<and> jwk_E key \<noteq> [] then
        (case (RawURLEncoding_DecodeString (jwk_N key), RawURLEncoding_DecodeString (jwk_E key)) of
           (Some n, Some e) \<Rightarrow> Some \<lparr>rsa_N = SetBytes n, rsa_E = word_of_nat (SetBytes e)\<rparr>
         | _ \<Rightarrow> None)
      else None)"

definition jwks_entries :: "JWK list \<Rightarrow> (string \<times> rsa_key option) list" where
  "jwks_entries ks =
     map (\<lambda>k. (jwk_Kid k, usable_jwk k)) (filter (\<lambda>k. usable_jwk k \<noteq> None) ks)"

lemma add_jwk_usable:
  "add_jwk m key = (case usable_jwk key of None \<Rightarrow> m | Some k \<Rightarrow> m(jwk_Kid key \<mapsto> Some k))"
  by (simp add: add_jwk_def usable_jwk_def parseRSAPublicKey_def SetKey_def exponent_int_value
      split: option.splits)

lemma foldl_add_jwk: "foldl add_jwk m ks = m ++ map_of (rev (jwks_entries ks))"
  by (induction ks arbitrary: m)
    (auto simp: jwks_entries_def add_jwk_usable map_add_def fun_eq_iff split: option.splits)

section \<open>Properties\<close>

text \<open>
  Permissions are a partial order of roles with the administrator above and the viewer
  below every role (of whatever name), and only the administrator has the administrator's.
\<close>

theorem HasPermission_order:
  "reflp HasPermission \<and> transp HasPermission \<and> antisymp HasPermission
   \<and> HasPermission RoleAdmin r \<and> HasPermission r RoleViewer
   \<and> (HasPermission r RoleAdmin \<longleftrightarrow> r = RoleAdmin)"
proof -
  have "reflp HasPermission" by (simp add: reflp_def HasPermission_def)
  moreover have "transp HasPermission"
    by (auto simp: transp_def HasPermission_def role_defs split: if_splits)
  moreover have "antisymp HasPermission"
    by (auto simp: antisymp_def HasPermission_def role_defs split: if_splits)
  ultimately show ?thesis by (simp add: HasPermission_def role_defs)
qed

text \<open>
  C13. \<open>Authenticate\<close> returns a role exactly for a Bearer header whose token is a registered
  API token (then that token's role) or a valid JWT (then the role the claims name): three
  base64url pieces, times and issuer and audience as configured, and a signature by the
  configured HMAC secret or RSA key over the first two pieces.
\<close>

theorem Authenticate_exact:
  "Authenticate api order a now hdr = Inr r \<longleftrightarrow>
     (\<exists>token. bearer hdr token \<and>
        (apiTokens a token = Some r \<or>
         apiTokens a token = None \<and>
          (\<exists>claims. jwt_valid api order a now token claims \<and> r = claims_role claims)))"
  by (rule Authenticate_iff)

text \<open>
  C14. Without RSA keys no JWT is accepted but one whose third piece is the HMAC-SHA-256 of
  the first two under the (non-empty) secret, whatever its header says.
\<close>

theorem JWT_hmac_sound:
  assumes "ParseJWT api order a now token = Inr claims" "rsaKeys a = Map.empty"
  shows "\<exists>h c s. token = h @ ''.'' @ c @ ''.'' @ s \<and> hmacSecret a \<noteq> []
     \<and> RawURLEncoding_DecodeString s = Some (hmac_sha256 (hmacSecret a) (h @ ''.'' @ c))"
proof -
  have "jwt_valid api order a now token claims" using assms(1) by (simp add: ParseJWT_iff)
  then show ?thesis
    unfolding jwt_valid_def jwt_signed_def assms(2) select_key_empty by blast
qed

text \<open>The token an identity provider that holds the secret would issue.\<close>

definition hmac_token :: "string \<Rightarrow> string \<Rightarrow> string \<Rightarrow> string" where
  "hmac_token secret headerBytes claimsBytes =
     (let msg = RawURLEncoding_EncodeToString headerBytes @ ''.''
                  @ RawURLEncoding_EncodeToString claimsBytes
      in msg @ ''.'' @ RawURLEncoding_EncodeToString (hmac_sha256 secret msg))"

definition sample_header :: JWTHeader where
  "sample_header = \<lparr>hdr_Alg = ''HS256'', hdr_Typ = ''JWT'', hdr_Kid = []\<rparr>"

definition sample_claims :: JWTClaims where
  "sample_claims = \<lparr>cl_Issuer = ''idp'', cl_Subject = ''ci'', cl_Audience = ''skgate'',
     cl_Expiry = 0, cl_NotBefore = 0, cl_IssuedAt = 0, cl_Role = RoleEvaluator, cl_Roles = []\<rparr>"

definition sample_jwt_api :: jwt_api where
  "sample_jwt_api =
     \<lparr>unmarshal_header = (\<lambda>_. Some sample_header), unmarshal_claims = (\<lambda>_. Some sample_claims),
      unmarshal_jwks = (\<lambda>_. Inr []), rsa_VerifyPKCS1v15 = (\<lambda>_ _ _. Some (errors_New ''rsa''))\<rparr>"

lemma hmac_token_valid:
  assumes "hmacSecret a \<noteq> []"
    "unmarshal_header api hb = Some header" "hdr_Alg header = ''HS256''"
    "unmarshal_claims api cb = Some claims" "check_claims a now claims = None"
  shows "jwt_valid api order a now (hmac_token (hmacSecret a) hb cb) claims"
proof -
  define h c where "h = RawURLEncoding_EncodeToString hb" and "c = RawURLEncoding_EncodeToString cb"
  define s where "s = RawURLEncoding_EncodeToString (hmac_sha256 (hmacSecret a) (h @ ''.'' @ c))"
  have "hmac_token (hmacSecret a) hb cb = h @ ''.'' @ c @ ''.'' @ s"
    by (simp add: hmac_token_def Let_def h_def c_def s_def)
  moreover have "CHR ''.'' \<notin> set h" "CHR ''.'' \<notin> set c" "CHR ''.'' \<notin> set s"
    by (simp_all add: h_def c_def s_def RawURL_encode_no_dot)
  moreover have "RawURLEncoding_DecodeString h = Some hb" "RawURLEncoding_DecodeString c = Some cb"
    "RawURLEncoding_DecodeString s = Some (hmac_sha256 (hmacSecret a) (h @ ''.'' @ c))"
    by (simp_all add: h_def c_def s_def)
  moreover have "jwt_signed api order a header (h @ ''.'' @ c) (hmac_sha256 (hmacSecret a) (h @ ''.'' @ c))"
    using assms(1,3) by (simp add: jwt_signed_def)
  ultimately show ?thesis
    using assms(2,4,5) unfolding jwt_valid_def check_claims_None by blast
qed

text \<open>
  C15. Tokens issued with the shared secret are accepted: base64url-encode header and claims,
  append the encoded HMAC, and \<open>Authenticate\<close> returns the role the claims name.
\<close>

theorem hmac_token_accepted:
  assumes "hmacSecret a \<noteq> []" "apiTokens a (hmac_token (hmacSecret a) hb cb) = None"
    "unmarshal_header api hb = Some header" "hdr_Alg header = ''HS256''"
    "unmarshal_claims api cb = Some claims" "check_claims a now claims = None"
  shows "Authenticate api order a now (''Bearer '' @ hmac_token (hmacSecret a) hb cb)
           = Inr (claims_role claims)"
proof -
  have "bearer (''Bearer '' @ hmac_token (hmacSecret a) hb cb) (hmac_token (hmacSecret a) hb cb)"
    unfolding bearer_def by (rule exI [of _ "''Bearer''"]) (simp add: EqualFold_ascii_def)
  then show ?thesis
    unfolding Authenticate_iff using assms(2) hmac_token_valid [OF assms(1,3-6)] by blast
qed

theorem hmac_token_accepted_witness:
  "Authenticate sample_jwt_api [] (NewAuthenticator [] ''secret'') 0
     (''Bearer '' @ hmac_token ''secret'' ''h'' ''c'') = Inr RoleEvaluator"
  using hmac_token_accepted [of "NewAuthenticator [] ''secret''" "''h''" "''c''" sample_jwt_api
      sample_header sample_claims 0 "[]"]
  by (simp add: NewAuthenticator_def sample_jwt_api_def sample_header_def sample_claims_def
      check_claims_None jwt_times_ok_def claims_role_def role_defs)

theorem JWT_hmac_sound_witness:
  "\<exists>h c s. hmac_token ''secret'' ''h'' ''c'' = h @ ''.'' @ c @ ''.'' @ s \<and> ''secret'' \<noteq> []
     \<and> RawURLEncoding_DecodeString s = Some (hmac_sha256 ''secret'' (h @ ''.'' @ c))"
proof -
  let ?a = "NewAuthenticator [] ''secret''"
  have "jwt_valid sample_jwt_api [] ?a 0 (hmac_token (hmacSecret ?a) ''h'' ''c'') sample_claims"
    by (rule hmac_token_valid [of _ _ _ sample_header])
      (simp_all add: NewAuthenticator_def sample_jwt_api_def sample_header_def sample_claims_def
        check_claims_None jwt_times_ok_def)
  then have "ParseJWT sample_jwt_api [] ?a 0 (hmac_token ''secret'' ''h'' ''c'') = Inr sample_claims"
    by (simp add: ParseJWT_iff NewAuthenticator_def)
  from JWT_hmac_sound [OF this] show ?thesis
    by (simp add: NewAuthenticator_def)
qed

text \<open>
  C31. The time window: with the code's leeway of 60 seconds, a token with an expiry is not
  accepted more than 60 seconds after it, and one with a not-before time not more than 60
  seconds early, for every \<open>int64\<close> claim value (the additions may wrap).
\<close>

theorem JWT_window:
  assumes "ParseJWT api order a now token = Inr claims" "ClockSkewLeeway a = 60 * time_second"
    "in_int64 (cl_Expiry claims)" "in_int64 (cl_NotBefore claims)"
  shows "(cl_Expiry claims > 0 \<longrightarrow> Unix now \<le> cl_Expiry claims + 60)
       \<and> (cl_NotBefore claims > 0 \<longrightarrow> cl_NotBefore claims - 60 \<le> Unix now)"
proof -
  have t: "jwt_times_ok a now claims"
    using assms(1) by (auto simp: ParseJWT_iff jwt_valid_def)
  have nb: "wrap64 (cl_NotBefore claims - 60) = cl_NotBefore claims - 60" if "cl_NotBefore claims > 0"
    using that assms(4) by (intro wrap64_id) (simp add: in_int64_def min_int64_def)
  have ex: "wrap64 (cl_Expiry claims + 60) \<le> cl_Expiry claims + 60" if "cl_Expiry claims > 0"
    using zmod_le_nonneg_dividend [of "cl_Expiry claims + 60 + 2 ^ 63" "2 ^ 64"] that
    by (simp add: wrap64_def)
  show ?thesis
    using t nb ex unfolding jwt_times_ok_def assms(2) leeway_default by linarith
qed

definition dated_claims :: JWTClaims where
  "dated_claims = sample_claims\<lparr>cl_Expiry := 1000, cl_NotBefore := 900\<rparr>"

definition dated_jwt_api :: jwt_api where
  "dated_jwt_api = sample_jwt_api\<lparr>unmarshal_claims := \<lambda>_. Some dated_claims\<rparr>"

text \<open>An instant 950 seconds after the Unix epoch.\<close>

definition sample_now :: go_time where
  "sample_now = (719162 * 86400 + 950) * time_second"

lemma Unix_sample_now [simp]: "Unix sample_now = 950"
  by (simp add: sample_now_def Unix_def time_second_def)

lemma dated_token_accepted:
  "ParseJWT dated_jwt_api [] (NewAuthenticator [] ''secret'') sample_now
     (hmac_token ''secret'' ''h'' ''c'') = Inr dated_claims"
proof -
  let ?a = "NewAuthenticator [] ''secret''"
  have "jwt_valid dated_jwt_api [] ?a sample_now (hmac_token (hmacSecret ?a) ''h'' ''c'') dated_claims"
    by (rule hmac_token_valid [of _ _ _ sample_header])
      (simp_all add: NewAuthenticator_def dated_jwt_api_def sample_jwt_api_def sample_header_def
        sample_claims_def dated_claims_def check_claims_None jwt_times_ok_def wrap64_def)
  then show ?thesis by (simp add: ParseJWT_iff NewAuthenticator_def)
qed

theorem JWT_window_witness:
  "Unix sample_now \<le> cl_Expiry dated_claims + 60 \<and> cl_NotBefore dated_claims - 60 \<le> Unix sample_now"
  using JWT_window [OF dated_token_accepted]
  by (simp add: NewAuthenticator_def dated_claims_def in_int64_def min_int64_def max_int64_def)

text \<open>
  A token whose claims carry no (or a non-positive) expiry and not-before time, once
  accepted, is accepted at every later instant.
\<close>

theorem JWT_without_expiry_never_expires:
  assumes "ParseJWT api order a now token = Inr claims"
    "cl_Expiry claims \<le> 0" "cl_NotBefore claims \<le> 0"
  shows "ParseJWT api order a later token = Inr claims"
proof -
  have "jwt_times_ok a later claims" using assms(2,3) by (simp add: jwt_times_ok_def)
  then show ?thesis using assms(1) unfolding ParseJWT_iff jwt_valid_def by blast
qed

theorem JWT_without_expiry_never_expires_witness:
  "ParseJWT sample_jwt_api [] (NewAuthenticator [] ''secret'') (10 ^ 40)
     (hmac_token ''secret'' ''h'' ''c'') = Inr sample_claims"
proof -
  let ?a = "NewAuthenticator [] ''secret''"
  have "jwt_valid sample_jwt_api [] ?a 0 (hmac_token (hmacSecret ?a) ''h'' ''c'') sample_claims"
    by (rule hmac_token_valid [of _ _ _ sample_header])
      (simp_all add: NewAuthenticator_def sample_jwt_api_def sample_header_def sample_claims_def
        check_claims_None jwt_times_ok_def)
  then have "ParseJWT sample_jwt_api [] ?a 0 (hmac_token ''secret'' ''h'' ''c'') = Inr sample_claims"
    by (simp add: ParseJWT_iff NewAuthenticator_def)
  from JWT_without_expiry_never_expires [OF this] show ?thesis
    by (simp add: sample_claims_def)
qed

text \<open>
  The authenticator the server is started with (a token, no secret, no key set) accepts
  the token and nothing else: with an empty token, nothing at all; and its readiness check
  tells the two cases apart.
\<close>

theorem NewAuthenticator_static_token:
  "(Authenticate api order (NewAuthenticator tok []) now hdr = Inr r
      \<longleftrightarrow> tok \<noteq> [] \<and> bearer hdr tok \<and> r = RoleAdmin)
   \<and> (ValidateReadiness (NewAuthenticator tok []) = None \<longleftrightarrow> tok \<noteq> [])"
proof -
  have none: "\<not> jwt_valid api order (NewAuthenticator tok []) now t claims" for t claims
    by (rule no_keys_no_jwt) (simp_all add: NewAuthenticator_def)
  have "ValidateReadiness (NewAuthenticator tok []) = None \<longleftrightarrow> tok \<noteq> []"
    by (simp add: ValidateReadiness_def NewAuthenticator_def)
  then show ?thesis
    unfolding Authenticate_iff using none by (auto simp: NewAuthenticator_def split: if_splits)
qed

text \<open>
  A key id that is not registered does not fail: the token is verified with another
  registered key, whichever the map's iteration yields first.
\<close>

theorem RS256_unknown_kid_uses_another_key:
  assumes "keys kid = None" "set order = dom keys" "None \<notin> ran keys" "keys \<noteq> Map.empty"
  shows "\<exists>kid' k. select_key order keys kid = Some k \<and> keys kid' = Some (Some k)
           \<and> hd order = kid' \<and> kid' \<noteq> kid"
proof -
  obtain k0 ks where o: "order = k0 # ks"
    using assms(2,4) by (cases order) (auto simp: dom_eq_empty_conv)
  then have "k0 \<in> dom keys" using assms(2) by auto
  then obtain v where v: "keys k0 = Some v" by auto
  then have "v \<noteq> None" using assms(3) by (metis ranI)
  then obtain k where k: "keys k0 = Some (Some k)" using v by auto
  then have "select_key order keys kid = Some k" "k0 \<noteq> kid"
    using assms(1) by (auto simp: select_key_def o)
  then show ?thesis using k o by auto
qed

theorem RS256_unknown_kid_uses_another_key_witness:
  "select_key [''k1''] [''k1'' \<mapsto> Some \<lparr>rsa_N = 15, rsa_E = 3\<rparr>] ''k2'' = Some \<lparr>rsa_N = 15, rsa_E = 3\<rparr>"
  using RS256_unknown_kid_uses_another_key
    [of "[''k1'' \<mapsto> Some \<lparr>rsa_N = 15, rsa_E = 3\<rparr>]" "''k2''" "[''k1'']"]
  by simp

text \<open>
  \<open>ParseJWKS\<close> keeps exactly the RSA entries whose modulus and exponent decode, the last
  one of a key id winning; the modulus is the big-endian number, the exponent that number
  modulo 2^64, what Go's \<open>int\<close> keeps of it. Unusable entries are skipped silently.
\<close>

theorem ParseJWKS_exact:
  "ParseJWKS api data =
     (case unmarshal_jwks api data of
        Inl e \<Rightarrow> Inl (Wrapf ''unmarshal jwks: %w'' [] e)
      | Inr ks \<Rightarrow> Inr (map_of (rev (jwks_entries ks))))"
  by (simp add: ParseJWKS_def foldl_add_jwk NewJWKSKeySet_def split: sum.splits)

end
