(* ===== verification/Semver.thy ===== *)
theory Semver
  imports Go_Strings
begin

text \<open>
  \<open>internal/semver/semver.go\<close>: parsing of \<open>x.y.z\<close> version strings and their order.
  \<open>Parse\<close> drops one leading \<open>v\<close> and everything from the first \<open>-\<close>; \<open>Compare\<close> is the
  lexicographic order, which makes the model's versions a \<open>linorder\<close>.
\<close>

section \<open>Data and operations\<close>

datatype Version = Version (Major: int) (Minor: int) (Patch: int)

text \<open>The loop over the three parts stops at the first one \<open>strconv.Atoi\<close> rejects.\<close>

fun parse_parts :: "string list \<Rightarrow> int list option" where
  "parse_parts [] = Some []"
| "parse_parts (p # ps) =
     (case Atoi p of
        None \<Rightarrow> None
      | Some n \<Rightarrow> if n < 0 then None else map_option ((#) n) (parse_parts ps))"

definition Parse :: "string \<Rightarrow> Version result" where
  "Parse s0 =
     (let s = TrimPrefix (TrimSpace s0) ''v'';
          core = hd (SplitN2 s CHR ''-'');
          parts = Split core CHR ''.''
      in if length parts \<noteq> 3 then Inl (Errorf ''expected semantic version x.y.z, got %q'' [S s])
         else case parse_parts parts of
                None \<Rightarrow> Inl (Errorf ''invalid semantic version %q'' [S s])
              | Some vals \<Rightarrow> Inr (Version (vals ! 0) (vals ! 1) (vals ! 2)))"

fun compare_from :: "int list \<Rightarrow> int list \<Rightarrow> int" where
  "compare_from (a # as) (b # bs) = (if a < b then -1 else if b < a then 1 else compare_from as bs)"
| "compare_from _ _ = 0"

definition Compare :: "Version \<Rightarrow> Version \<Rightarrow> int" where
  "Compare a b = compare_from [Major a, Minor a, Patch a] [Major b, Minor b, Patch b]"

text \<open>The printed form \<open>x.y.z\<close>, used to state the round trip.\<close>

definition print_version :: "nat \<Rightarrow> nat \<Rightarrow> nat \<Rightarrow> string" where
  "print_version a b c = Join [show_nat a, show_nat b, show_nat c] CHR ''.''"

section \<open>The order on versions\<close>

instantiation Version :: linorder
begin

definition less_eq_Version :: "Version \<Rightarrow> Version \<Rightarrow> bool" where
  "less_eq_Version a b \<longleftrightarrow>
     Major a < Major b \<or> Major a = Major b \<and>
       (Minor a < Minor b \<or> Minor a = Minor b \<and> Patch a \<le> Patch b)"

definition less_Version :: "Version \<Rightarrow> Version \<Rightarrow> bool" where
  "less_Version a b \<longleftrightarrow>
     Major a < Major b \<or> Major a = Major b \<and>
       (Minor a < Minor b \<or> Minor a = Minor b \<and> Patch a < Patch b)"

instance
  by standard (auto simp: less_eq_Version_def less_Version_def intro: Version.expand)

end

lemma Compare_cases:
  "Compare a b = (if a < b then -1 else if a = b then 0 else 1)"
  by (auto simp: Compare_def less_Version_def intro: Version.expand)

lemma Compare_neg_iff: "Compare a b < 0 \<longleftrightarrow> a < b"
  by (simp add: Compare_cases)

lemma Compare_eq_iff: "Compare a b = 0 \<longleftrightarrow> a = b"
  by (simp add: Compare_cases)

lemma Compare_swap: "Compare b a = - Compare a b"
  by (auto simp: Compare_cases)

section \<open>Parsing\<close>

lemma parse_parts_Some:
  "parse_parts ps = Some ns \<longleftrightarrow> list_all2 (\<lambda>p n. Atoi p = Some n \<and> 0 \<le> n) ps ns"
  by (induction ps arbitrary: ns)
     (auto simp: list_all2_Cons1 split: option.splits)

lemma parse_parts_length: "parse_parts ps = Some ns \<Longrightarrow> length ns = length ps"
  by (auto simp: parse_parts_Some dest: list_all2_lengthD)

text \<open>What a successful parse says about the string.\<close>

lemma Parse_Inr:
  assumes "Parse s0 = Inr v"
  obtains a b c core where
    "hd (SplitN2 (TrimPrefix (TrimSpace s0) ''v'') CHR ''-'') = core"
    "Split core CHR ''.'' = [a, b, c]"
    "Atoi a = Some (Major v)" "Atoi b = Some (Minor v)" "Atoi c = Some (Patch v)"
    "0 \<le> Major v" "0 \<le> Minor v" "0 \<le> Patch v"
proof -
  let ?core = "hd (SplitN2 (TrimPrefix (TrimSpace s0) ''v'') CHR ''-'')"
  from assms obtain ns where len: "length (Split ?core CHR ''.'') = 3"
    and ns: "parse_parts (Split ?core CHR ''.'') = Some ns"
    and v: "v = Version (ns ! 0) (ns ! 1) (ns ! 2)"
    by (auto simp: Parse_def Let_def split: if_splits option.splits)
  from len obtain a b c where abc: "Split ?core CHR ''.'' = [a, b, c]"
    by (auto simp: eval_nat_numeral length_Suc_conv)
  from ns have "list_all2 (\<lambda>p n. Atoi p = Some n \<and> 0 \<le> n) [a, b, c] ns"
    unfolding abc parse_parts_Some .
  with abc v that [of ?core a b c] show thesis
    by (auto simp: list_all2_Cons1)
qed

text \<open>The check \<open>n < 0\<close> of the source never fires: no part contains a minus sign.\<close>

lemma parse_part_nonneg:
  assumes "p \<in> set (Split (hd (SplitN2 s CHR ''-'')) CHR ''.'')" "Atoi p = Some n"
  shows "0 \<le> n"
proof -
  have "set p \<subseteq> set (Join (Split t c) c)" if "p \<in> set (Split t c)" for t c
  proof -
    have "w \<in> set ws \<Longrightarrow> set w \<subseteq> set (Join ws c)" for w ws
      by (induction ws c rule: Join.induct) auto
    with that show ?thesis by blast
  qed
  from this [OF assms(1)] have "CHR ''-'' \<notin> set p"
    using hd_SplitN2_no_sep [of "CHR ''-''" s] by auto
  with assms(2) show ?thesis by (rule Atoi_no_sign_nonneg)
qed

lemma show_nat_no: "\<not> is_digit c \<Longrightarrow> c \<notin> set (show_nat n)"
  using show_nat_digits by blast

lemma digit_graphic: "is_digit c \<Longrightarrow> graphic c"
  by (auto simp: is_digit_def graphic_def less_eq_char_def)

lemma print_version_chars:
  "d \<in> set (print_version a b c) \<Longrightarrow> is_digit d \<or> d = CHR ''.''"
  using show_nat_digits by (auto simp: print_version_def)

lemma print_version_ends:
  "print_version a b c \<noteq> []" "is_digit (hd (print_version a b c))"
  "is_digit (last (print_version a b c))"
proof -
  have "is_digit (hd (show_nat a))" "is_digit (last (show_nat c))"
    using show_nat_digits [of _ a] show_nat_digits [of _ c]
    by (metis hd_in_set show_nat_nonempty, metis last_in_set show_nat_nonempty)
  then show "print_version a b c \<noteq> []" "is_digit (hd (print_version a b c))"
    "is_digit (last (print_version a b c))"
    by (simp_all add: print_version_def)
qed

lemma Split_print_version:
  "Split (print_version a b c) CHR ''.'' = [show_nat a, show_nat b, show_nat c]"
  unfolding print_version_def
  by (rule Split_Join) (auto simp: show_nat_no is_digit_def)

lemma parse_show_parts:
  assumes "int a \<le> max_int64" "int b \<le> max_int64" "int c \<le> max_int64"
  shows "parse_parts [show_nat a, show_nat b, show_nat c] = Some [int a, int b, int c]"
  using assms by (simp add: Atoi_show_nat)

text \<open>White space around, an optional \<open>v\<close> before and any text from a \<open>-\<close> on are dropped.\<close>

lemma TrimSpace_version:
  assumes "set us \<subseteq> set space_encodings" "set vs \<subseteq> set space_encodings" "vp = [] \<or> vp = ''v''"
    "rest = [] \<or> hd rest = CHR ''-''"
  shows "\<exists>r. TrimSpace (concat us @ (vp @ print_version a b c @ rest) @ concat vs) = vp @ print_version a b c @ r
    \<and> (r = [] \<or> hd r = CHR ''-'')"
proof -
  let ?p = "print_version a b c" let ?s = "vp @ ?p @ rest" let ?ws = "map rev space_encodings"
  have p: "?p \<noteq> []" "is_digit (hd ?p)" "is_digit (last ?p)" by (rule print_version_ends)+
  have "graphic (hd ?s)" using assms(3) p
    by (elim disjE) (simp_all add: digit_graphic, simp add: graphic_def less_eq_char_def)
  then have T: "TrimSpace (concat us @ ?s @ concat vs) = rev (trim_with ?ws (rev ?s))"
    using p(1) by (intro TrimSpace_padded [OF assms(1,2)]) simp_all
  have stop: "\<exists>x'. trim_with ?ws (x @ c # y) = x' @ c # y" if "graphic c" for x y c
    by (rule trim_with_stops) (use space_not_graphic that in auto)
  show ?thesis
  proof (cases rest)
    case Nil
    obtain q d where q: "?p = q @ [d]" using p(1) by (cases ?p rule: rev_cases) auto
    have keep: "trim_with ?ws (d # rev (vp @ q)) = d # rev (vp @ q)"
      by (rule trim_with_id) (use p(3) q space_last in \<open>force simp: digit_graphic hd_rev\<close>)
    then have "TrimSpace (concat us @ ?s @ concat vs) = vp @ ?p @ []"
      unfolding T using Nil q keep by simp
    then show ?thesis by blast
  next
    case (Cons x xs)
    then have "x = CHR ''-''" using assms(4) by simp
    moreover have "graphic CHR ''-''" by (simp add: graphic_def less_eq_char_def)
    ultimately obtain x' where "trim_with ?ws (rev xs @ CHR ''-'' # rev (vp @ ?p)) = x' @ CHR ''-'' # rev (vp @ ?p)"
      using stop by blast
    then show ?thesis unfolding T using Cons \<open>x = CHR ''-''\<close> by simp
  qed
qed

lemma Parse_decorated:
  assumes "int a \<le> max_int64" "int b \<le> max_int64" "int c \<le> max_int64"
    and "TrimSpace s = vp @ print_version a b c @ r" "vp = [] \<or> vp = ''v''" "r = [] \<or> hd r = CHR ''-''"
  shows "Parse s = Inr (Version (int a) (int b) (int c))"
proof -
  let ?p = "print_version a b c"
  have p: "?p \<noteq> []" "is_digit (hd ?p)" by (rule print_version_ends)+
  have "hd ?p \<noteq> CHR ''v''" using p(2) by (auto simp: is_digit_def)
  then have strip: "TrimPrefix (vp @ ?p @ r) ''v'' = ?p @ r"
    using assms(5) p(1) by (cases ?p) (auto simp: TrimPrefix_def HasPrefix_def)
  have "CHR ''-'' \<notin> set ?p" using print_version_chars [of "CHR ''-''" a b c] by (auto simp: is_digit_def)
  then have core: "hd (SplitN2 (?p @ r) CHR ''-'') = ?p"
    using assms(6) by (cases r) (auto simp: SplitN2_sep)
  show ?thesis
    using parse_show_parts [OF assms(1-3)]
    by (simp add: Parse_def assms(4) strip core Split_print_version Let_def)
qed

section \<open>Properties\<close>

text \<open>
  C40. \<open>Parse\<close> reads back every printed version \<open>x.y.z\<close> whose numbers fit \<open>int64\<close>, with any white
  space (the UTF-8 encodings of the characters of \<open>unicode.IsSpace\<close>) around it, with or without
  a leading \<open>v\<close>, and followed by nothing or by a \<open>-\<close> and any text.
\<close>

theorem Parse_print_roundtrip:
  assumes "int a \<le> max_int64" "int b \<le> max_int64" "int c \<le> max_int64"
    "set us \<subseteq> set space_encodings" "set vs \<subseteq> set space_encodings" "vp = [] \<or> vp = ''v''"
    "rest = [] \<or> hd rest = CHR ''-''"
  shows "Parse (concat us @ (vp @ print_version a b c @ rest) @ concat vs) = Inr (Version (int a) (int b) (int c))"
proof -
  obtain r where "TrimSpace (concat us @ (vp @ print_version a b c @ rest) @ concat vs) = vp @ print_version a b c @ r"
      "r = [] \<or> hd r = CHR ''-''"
    using TrimSpace_version [OF assms(4-7), of a b c] by blast
  then show ?thesis using Parse_decorated [OF assms(1-3)] assms(6) by blast
qed

theorem Parse_print_roundtrip_witness:
  "Parse ('' v'' @ print_version 0 6 0 @ ''-rc 1'' @ [CHR 0xC2, CHR 0xA0, CHR 0x0A]) = Inr (Version 0 6 0)"
  using Parse_print_roundtrip [of 0 6 0 "['' '']" "[[CHR 0xC2, CHR 0xA0], [CHR 0x0A]]" "''v''" "''-rc 1''"]
  by (simp add: max_int64_def space_encodings_def)

text \<open>
  \<open>Compare\<close> computes the lexicographic total order of the versions: it is negative,
  zero or positive exactly as the first version is smaller, equal or greater.
\<close>

theorem Compare_is_order:
  "(Compare a b < 0 \<longleftrightarrow> a < b) \<and> (Compare a b = 0 \<longleftrightarrow> a = b) \<and> (Compare a b > 0 \<longleftrightarrow> b < a)"
  by (auto simp: Compare_cases)

end
