(* ===== verification/Go_Duration.thy ===== *)
theory Go_Duration
  imports Go_Strings
begin

text \<open>
  \<open>time.ParseDuration\<close>, the parser of the policy's \<open>assurance.maximum_age\<close>: signs,
  sequences of number-and-unit, overflow checks at \<open>2 ^ 63\<close>, and the \<open>float64\<close> arithmetic
  that the Go function uses for the digits after a decimal point.
\<close>

section \<open>Positive float64 values\<close>

text \<open>
  A positive \<open>float64\<close> in the range used here (no subnormals, no overflow) is
  \<open>m * 2 ^ e\<close> with \<open>m < 2 ^ 53\<close>; \<open>round53 n d e\<close> is \<open>n / d * 2 ^ e\<close> rounded to nearest, ties to even.
\<close>

fun bit_length :: "nat \<Rightarrow> nat" where
  "bit_length n = (if n = 0 then 0 else Suc (bit_length (n div 2)))"

declare bit_length.simps [simp del]

definition round_even :: "nat \<Rightarrow> nat \<Rightarrow> nat" where
  "round_even n d =
     (let q = n div d; r = n mod d in
      if 2 * r < d then q else if d < 2 * r then Suc q else if even q then q else Suc q)"

definition scale_up :: "nat \<Rightarrow> int \<Rightarrow> nat" where
  "scale_up n e = n * 2 ^ nat e"

definition round53 :: "nat \<Rightarrow> nat \<Rightarrow> int \<Rightarrow> nat \<times> int" where
  "round53 n d e =
     (let k0 = 53 + int (bit_length d) - int (bit_length n);
          k = (if scale_up d (- k0) * 2 ^ 53 \<le> scale_up n k0 then k0 - 1 else k0)
      in (round_even (scale_up n k) (scale_up d (- k)), e - k))"

definition float_trunc :: "nat \<times> int \<Rightarrow> nat" where
  "float_trunc f = (case f of (m, e) \<Rightarrow> if 0 \<le> e then m * 2 ^ nat e else m div 2 ^ nat (- e))"

text \<open>\<open>uint64(float64(f) * (float64(unit) / scale))\<close>\<close>

definition fraction_ns :: "nat \<Rightarrow> nat \<Rightarrow> nat \<Rightarrow> nat" where
  "fraction_ns f unit scale =
     (let (fm, fe) = round53 f 1 0;
          (um, ue) = round53 unit scale 0
      in float_trunc (round53 (fm * um) 1 (fe + ue)))"

section \<open>The parser\<close>

definition unitMap :: "string \<Rightarrow> nat option" where
  "unitMap u =
     (if u = ''ns'' then Some 1
      else if u = ''us'' \<or> u = [CHR 0xC2, CHR 0xB5, CHR ''s''] \<or> u = [CHR 0xCE, CHR 0xBC, CHR ''s'']
      then Some 1000
      else if u = ''ms'' then Some 1000000
      else if u = ''s'' then Some 1000000000
      else if u = ''m'' then Some 60000000000
      else if u = ''h'' then Some 3600000000000 else None)"

text \<open>\<open>leadingInt\<close>: the digits in front, or an error when their value passes \<open>2 ^ 63\<close>.\<close>

fun leadingInt :: "nat \<Rightarrow> string \<Rightarrow> (nat \<times> string) option" where
  "leadingInt x [] = Some (x, [])"
| "leadingInt x (c # s) =
     (if \<not> is_digit c then Some (x, c # s)
      else if 2 ^ 63 div 10 < x then None
      else let y = x * 10 + digit_val c in if 2 ^ 63 < y then None else leadingInt y s)"

text \<open>\<open>leadingFraction\<close>: digits after the point; those that would overflow are dropped.\<close>

fun leadingFraction :: "bool \<Rightarrow> nat \<Rightarrow> nat \<Rightarrow> string \<Rightarrow> nat \<times> nat \<times> string" where
  "leadingFraction ov x scale [] = (x, scale, [])"
| "leadingFraction ov x scale (c # s) =
     (if \<not> is_digit c then (x, scale, c # s)
      else if ov \<or> (2 ^ 63 - 1) div 10 < x then leadingFraction True x scale s
      else let y = x * 10 + digit_val c in
           if 2 ^ 63 < y then leadingFraction True x scale s
           else leadingFraction False y (scale * 10) s)"

definition unit_end :: "char \<Rightarrow> bool" where
  "unit_end c \<longleftrightarrow> c = CHR ''.'' \<or> is_digit c"

datatype duration_error = InvalidDuration | MissingUnit | UnknownUnit string

text \<open>One number with its unit: its nanoseconds and the rest of the text.\<close>

definition duration_item :: "string \<Rightarrow> duration_error + nat \<times> string" where
  "duration_item s =
     (if \<not> unit_end (hd s) then Inl InvalidDuration
      else
        case leadingInt 0 s of
          None \<Rightarrow> Inl InvalidDuration
        | Some (v, s1) \<Rightarrow>
            (let pre = length s \<noteq> length s1;
                 (f, scale, s2) =
                   (if s1 \<noteq> [] \<and> hd s1 = CHR ''.'' then leadingFraction False 0 1 (tl s1) else (0, 1, s1));
                 post = s1 \<noteq> [] \<and> hd s1 = CHR ''.'' \<and> length (tl s1) \<noteq> length s2;
                 u = takeWhile (\<lambda>c. \<not> unit_end c) s2;
                 s3 = dropWhile (\<lambda>c. \<not> unit_end c) s2
             in if \<not> pre \<and> \<not> post then Inl InvalidDuration
                else if u = [] then Inl MissingUnit
                else case unitMap u of
                       None \<Rightarrow> Inl (UnknownUnit u)
                     | Some unit \<Rightarrow>
                         if 2 ^ 63 div unit < v then Inl InvalidDuration
                         else let w = v * unit + (if 0 < f then fraction_ns f unit scale else 0)
                              in if 0 < f \<and> 2 ^ 63 < w then Inl InvalidDuration else Inr (w, s3)))"

lemma leadingInt_length: "leadingInt x s = Some (v, r) \<Longrightarrow> length r \<le> length s"
  by (induction x s rule: leadingInt.induct) (auto simp: Let_def split: if_splits)

lemma leadingFraction_length: "leadingFraction ov x k s = (f, k', r) \<Longrightarrow> length r \<le> length s"
  by (induction ov x k s rule: leadingFraction.induct) (auto simp: Let_def split: if_splits)

lemma duration_item_length:
  assumes "duration_item s = Inr (w, r)"
  shows "length r < length s"
proof -
  from assms obtain v s1 where s1: "leadingInt 0 s = Some (v, s1)"
    by (auto simp: duration_item_def split: if_splits option.splits)
  obtain f k s2 where
    s2: "(if s1 \<noteq> [] \<and> hd s1 = CHR ''.'' then leadingFraction False 0 1 (tl s1) else (0, 1, s1)) = (f, k, s2)"
    by (metis prod_cases3)
  have "length s2 \<le> length s1"
    using s2 leadingFraction_length [of False 0 1 "tl s1" f k s2] by (auto split: if_splits)
  moreover have "length s1 \<le> length s" using s1 by (rule leadingInt_length)
  moreover have "takeWhile (\<lambda>c. \<not> unit_end c) s2 \<noteq> [] \<and> r = dropWhile (\<lambda>c. \<not> unit_end c) s2"
    using assms s1 s2
    by (auto simp: duration_item_def Let_def split: if_splits option.splits prod.splits)
  then have "length r < length s2"
    by (metis (no_types, lifting) append_Nil length_dropWhile_le nat_less_le
        length_append add_0 takeWhile_dropWhile_id append_eq_append_conv same_append_eq append_self_conv2)
  ultimately show ?thesis by linarith
qed

text \<open>The sum wraps at \<open>2 ^ 64\<close> before it is checked against \<open>2 ^ 63\<close>, as in the Go code.\<close>

function duration_loop :: "nat \<Rightarrow> string \<Rightarrow> duration_error + nat" where
  "duration_loop d s =
     (if s = [] then Inr d
      else case duration_item s of
             Inl e \<Rightarrow> Inl e
           | Inr (w, r) \<Rightarrow>
               (let d' = (d + w) mod 2 ^ 64 in
                if 2 ^ 63 < d' then Inl InvalidDuration else duration_loop d' r))"
  by pat_completeness auto
termination
  by (relation "measure (\<lambda>(d, s). length s)") (auto simp: duration_item_length)

declare duration_loop.simps [simp del]

definition ParseDuration :: "string \<Rightarrow> duration_error + duration" where
  "ParseDuration orig =
     (let neg = (orig \<noteq> [] \<and> hd orig = CHR ''-'');
          s = (if orig \<noteq> [] \<and> (hd orig = CHR ''-'' \<or> hd orig = CHR ''+'') then tl orig else orig)
      in if s = ''0'' then Inr 0
         else if s = [] then Inl InvalidDuration
         else case duration_loop 0 s of
                Inl e \<Rightarrow> Inl e
              | Inr d \<Rightarrow> if neg then Inr (- int d)
                         else if max_int64 < int d then Inl InvalidDuration else Inr (int d))"

fun duration_error_text :: "string \<Rightarrow> duration_error \<Rightarrow> go_error" where
  "duration_error_text s InvalidDuration = Errorf ''time: invalid duration %s'' [S s]"
| "duration_error_text s MissingUnit = Errorf ''time: missing unit in duration %s'' [S s]"
| "duration_error_text s (UnknownUnit u) = Errorf ''time: unknown unit %s in duration %s'' [S u, S s]"

section \<open>Whole numbers of a unit\<close>

lemma leadingInt_digits:
  assumes "list_all is_digit ds" "r = [] \<or> \<not> is_digit (hd r)"
    and "foldl (\<lambda>a c. a * 10 + digit_val c) x ds \<le> 2 ^ 63"
  shows "leadingInt x (ds @ r) = Some (foldl (\<lambda>a c. a * 10 + digit_val c) x ds, r)"
  using assms
proof (induction ds arbitrary: x)
  case Nil
  then show ?case by (cases r) auto
next
  case (Cons c ds)
  let ?y = "x * 10 + digit_val c"
  have mono: "y \<le> foldl (\<lambda>a c. a * 10 + digit_val c) y ds" for y :: nat
  proof (induction ds arbitrary: y)
    case (Cons b ds)
    from Cons [of "y * 10 + digit_val b"] show ?case by simp
  qed simp
  have "?y \<le> 2 ^ 63"
    using mono [of ?y] Cons.prems(3) by simp
  moreover from this have "x \<le> 2 ^ 63 div 10" by simp
  ultimately show ?case using Cons by (simp add: Let_def)
qed

lemma duration_loop_single:
  assumes "duration_item s = Inr (w, [])" "s \<noteq> []" "w \<le> 2 ^ 63"
  shows "duration_loop 0 s = Inr w"
  using assms by (simp add: duration_loop.simps [of 0 s] duration_loop.simps [of w "[]"] Let_def)

lemma duration_item_whole:
  assumes "unitMap u = Some k" "u \<noteq> []" "list_all (\<lambda>c. \<not> unit_end c) u" "n * k \<le> 2 ^ 63" "0 < k"
  shows "duration_item (show_nat n @ u) = Inr (n * k, [])"
proof -
  have dig: "list_all is_digit (show_nat n)"
    by (auto simp: list_all_iff show_nat_digits)
  have hdu: "\<not> is_digit (hd u)" "hd u \<noteq> CHR ''.''"
    using assms(2,3) by (cases u; auto simp: unit_end_def)+
  have "n \<le> n * k" using assms(5) by simp
  then have n: "n \<le> 2 ^ 63" using assms(4) by linarith
  have "leadingInt 0 (show_nat n @ u) = Some (n, u)"
    using leadingInt_digits [OF dig, of u 0] hdu n read_show_nat [of n]
    by (simp add: read_nat_def)
  moreover have "unit_end (hd (show_nat n @ u))"
    using show_nat_digits [of "hd (show_nat n)" n] by (simp add: unit_end_def hd_append)
  moreover have tw: "takeWhile (\<lambda>c. \<not> unit_end c) u = u" "dropWhile (\<lambda>c. \<not> unit_end c) u = []"
    using assms(3) by (simp_all add: list_all_iff)
  moreover have "n \<le> 2 ^ 63 div k"
    using assms(4,5) by (simp add: less_eq_div_iff_mult_less_eq)
  ultimately show ?thesis
    using assms hdu by (simp add: duration_item_def tw)
qed

lemma ParseDuration_hours:
  assumes "n * 3600000000000 < 2 ^ 63"
  shows "ParseDuration (show_nat n @ ''h'') = Inr (int n * time_hour)"
proof -
  have item: "duration_item (show_nat n @ ''h'') = Inr (n * 3600000000000, [])"
    using assms by (intro duration_item_whole)
      (auto simp: unitMap_def unit_end_def is_digit_def less_eq_char_def)
  have d: "is_digit (hd (show_nat n))" using show_nat_digits [of _ n] by simp
  then have "hd (show_nat n @ ''h'') \<noteq> CHR ''-''" "hd (show_nat n @ ''h'') \<noteq> CHR ''+''"
    using digit_not_sign [of "hd (show_nat n)"] by (simp_all add: hd_append)
  moreover have "show_nat n @ ''h'' \<noteq> ''0''"
    by (cases "show_nat n") auto
  moreover have "int (n * 3600000000000) \<le> max_int64"
    using assms by (simp add: max_int64_def)
  ultimately show ?thesis
    using duration_loop_single [OF item] assms
    by (simp add: ParseDuration_def Let_def time_hour_def time_minute_def time_second_def)
qed

end
