(* ===== verification/Policy.thy ===== *)
theory Policy
  imports Semver Go_Duration
begin

text \<open>
  \<open>internal/policy/policy.go\<close>: the policy document, its validation and its loading.
\<close>

section \<open>The policy document\<close>

record AssurancePolicy =
  ap_Provider :: string
  ap_MinimumVersion :: string
  ap_MaximumAge :: string
  ap_RequireComplete :: bool

record SignaturePolicy =
  sp_Required :: bool
  sp_TrustedIdentities :: "string list"

record CapabilityPolicy =
  cp_Deny :: "string list"
  cp_ApprovalRequired :: "string list"

record ProvenancePolicy =
  pp_Required :: bool

record RiskPolicy =
  rp_Maximum :: string

record RuntimeSettings =
  rs_AllowedCommands :: "string list"
  rs_AllowedSecrets :: "string list"
  rs_AllowWorkspaceWrite :: bool
  rs_AllowNetwork :: bool
  rs_TimeoutSeconds :: int
  rs_MaxOutputBytes :: int

record Policy =
  p_SchemaVersion :: string
  p_Name :: string
  p_Environments :: "string list"
  p_Assurance :: AssurancePolicy
  p_Signatures :: SignaturePolicy
  p_Capabilities :: CapabilityPolicy
  p_Provenance :: ProvenancePolicy
  p_Risk :: RiskPolicy
  p_Runtime :: RuntimeSettings

definition policy_SchemaVersion :: string where
  "policy_SchemaVersion = ''1.0.0''"

section \<open>Validation and loading\<close>

text \<open>The checks of \<open>Policy.Validate\<close> in the order of the source; the first that fails is returned.\<close>

definition validate_maximum_age :: "string \<Rightarrow> go_error option" where
  "validate_maximum_age age =
     (if age \<noteq> [] then
        (case ParseDuration age of
           Inl e \<Rightarrow> Some (Wrapf ''assurance.maximum_age: %w'' [] (duration_error_text age e))
         | Inr _ \<Rightarrow> None)
      else None)"

definition validate_minimum_version :: "string \<Rightarrow> go_error option" where
  "validate_minimum_version v =
     (case Parse v of
        Inl e \<Rightarrow> Some (Wrapf ''assurance.minimum_version: %w'' [] e)
      | Inr _ \<Rightarrow> None)"

definition valid_risks :: "string list" where
  "valid_risks = [''low'', ''medium'', ''high'', ''critical'']"

definition Validate :: "Policy \<Rightarrow> go_error option" where
  "Validate p =
     (if p_SchemaVersion p \<noteq> policy_SchemaVersion
      then Some (Errorf ''unsupported policy schema_version %q'' [S (p_SchemaVersion p)])
      else if TrimSpace (p_Name p) = [] then Some (errors_New ''policy name is required'')
      else if length (p_Environments p) = 0 then Some (errors_New ''at least one environment is required'')
      else if ap_Provider (p_Assurance p) = [] then Some (errors_New ''assurance.provider is required'')
      else case validate_minimum_version (ap_MinimumVersion (p_Assurance p)) of
        Some e \<Rightarrow> Some e
      | None \<Rightarrow>
      (case validate_maximum_age (ap_MaximumAge (p_Assurance p)) of
        Some e \<Rightarrow> Some e
      | None \<Rightarrow>
      (if ToLower (rp_Maximum (p_Risk p)) \<notin> set valid_risks
       then Some (errors_New ''risk.maximum must be low, medium, high, or critical'')
       else if sp_Required (p_Signatures p) \<and> length (sp_TrustedIdentities (p_Signatures p)) = 0
       then Some (errors_New ''trusted_identities required when signatures.required=true'')
       else if rs_TimeoutSeconds (p_Runtime p) \<le> 0
       then Some (errors_New ''runtime.timeout_seconds must be > 0'')
       else if rs_MaxOutputBytes (p_Runtime p) \<le> 0
       then Some (errors_New ''runtime.max_output_bytes must be > 0'')
       else None)))"

definition SupportsEnvironment :: "Policy \<Rightarrow> string \<Rightarrow> bool" where
  "SupportsEnvironment p env \<longleftrightarrow> env \<in> set (p_Environments p)"

text \<open>
  \<open>Load\<close>, with the file system and the strict JSON decoder as arguments: reading fails,
  decoding fails, or validation decides.
\<close>

definition Load :: "(string \<Rightarrow> string result) \<Rightarrow> (string \<Rightarrow> Policy result) \<Rightarrow> string \<Rightarrow> Policy result" where
  "Load readFile decode path =
     (case readFile path of
        Inl e \<Rightarrow> Inl e
      | Inr b \<Rightarrow>
          (case decode b of
             Inl e \<Rightarrow> Inl (Wrapf ''parse policy: %w'' [] e)
           | Inr p \<Rightarrow> (case Validate p of Some e \<Rightarrow> Inl e | None \<Rightarrow> Inr p)))"

section \<open>What a valid policy guarantees\<close>

definition policy_wf :: "Policy \<Rightarrow> bool" where
  "policy_wf p \<longleftrightarrow>
     p_SchemaVersion p = ''1.0.0'' \<and> TrimSpace (p_Name p) \<noteq> [] \<and> p_Environments p \<noteq> [] \<and>
     ap_Provider (p_Assurance p) \<noteq> [] \<and>
     is_ok (Parse (ap_MinimumVersion (p_Assurance p))) \<and>
     (ap_MaximumAge (p_Assurance p) \<noteq> [] \<longrightarrow> (\<exists>d. ParseDuration (ap_MaximumAge (p_Assurance p)) = Inr d)) \<and>
     ToLower (rp_Maximum (p_Risk p)) \<in> {''low'', ''medium'', ''high'', ''critical''} \<and>
     (sp_Required (p_Signatures p) \<longrightarrow> sp_TrustedIdentities (p_Signatures p) \<noteq> []) \<and>
     0 < rs_TimeoutSeconds (p_Runtime p) \<and> 0 < rs_MaxOutputBytes (p_Runtime p)"

lemma validate_maximum_age_None:
  "validate_maximum_age a = None \<longleftrightarrow> (a \<noteq> [] \<longrightarrow> (\<exists>d. ParseDuration a = Inr d))"
  by (auto simp: validate_maximum_age_def split: sum.splits)

lemma validate_minimum_version_None: "validate_minimum_version v = None \<longleftrightarrow> is_ok (Parse v)"
  by (auto simp: validate_minimum_version_def is_ok_iff split: sum.splits)

lemma Validate_iff: "Validate p = None \<longleftrightarrow> policy_wf p"
  unfolding policy_wf_def validate_maximum_age_None [symmetric]
    validate_minimum_version_None [symmetric]
  by (auto simp: Validate_def policy_SchemaVersion_def valid_risks_def split: option.splits)

lemma Validate_NoneD:
  assumes "Validate p = None"
  shows "is_ok (Parse (ap_MinimumVersion (p_Assurance p)))"
    "sp_Required (p_Signatures p) \<Longrightarrow> sp_TrustedIdentities (p_Signatures p) \<noteq> []"
    "ToLower (rp_Maximum (p_Risk p)) \<in> {''low'', ''medium'', ''high'', ''critical''}"
    "0 < rs_TimeoutSeconds (p_Runtime p)" "0 < rs_MaxOutputBytes (p_Runtime p)"
  using assms unfolding Validate_iff policy_wf_def by blast+

text \<open>A concrete policy, the one of the repository's tests.\<close>

definition sample_policy :: Policy where
  "sample_policy =
     \<lparr>p_SchemaVersion = ''1.0.0'', p_Name = ''prod'', p_Environments = [''production''],
      p_Assurance = \<lparr>ap_Provider = ''skil'', ap_MinimumVersion = ''0.6.0'',
        ap_MaximumAge = ''168h'', ap_RequireComplete = True\<rparr>,
      p_Signatures = \<lparr>sp_Required = False, sp_TrustedIdentities = [''trusted-ci'']\<rparr>,
      p_Capabilities = \<lparr>cp_Deny = [''arbitrary_shell''], cp_ApprovalRequired = [''filesystem_write'']\<rparr>,
      p_Provenance = \<lparr>pp_Required = False\<rparr>,
      p_Risk = \<lparr>rp_Maximum = ''medium''\<rparr>,
      p_Runtime = \<lparr>rs_AllowedCommands = [''git''], rs_AllowedSecrets = [],
        rs_AllowWorkspaceWrite = False, rs_AllowNetwork = False,
        rs_TimeoutSeconds = 60, rs_MaxOutputBytes = 1048576\<rparr>\<rparr>"

lemma Parse_060: "Parse ''0.6.0'' = Inr (Version 0 6 0)"
proof -
  have "print_version 0 6 0 = ''0.6.0''"
    by (simp add: print_version_def show_nat_eval)
  then show ?thesis
    using Parse_decorated [of 0 6 0 "''0.6.0''" "[]" "[]"]
    by (simp add: max_int64_def TrimSpace_graphic graphic_def less_eq_char_def)
qed

lemma ParseDuration_168h: "ParseDuration ''168h'' = Inr (168 * time_hour)"
proof -
  have "show_nat 168 = ''168''" by (simp add: show_nat_eval)
  then show ?thesis using ParseDuration_hours [of 168] by simp
qed

lemma sample_policy_valid: "Validate sample_policy = None"
  unfolding Validate_iff policy_wf_def sample_policy_def
  by (simp add: Parse_060 ParseDuration_168h TrimSpace_graphic graphic_def lower_byte_def
      less_eq_char_def)

section \<open>Properties\<close>

text \<open>
  C38. \<open>Policy.Validate\<close> accepts exactly the well-formed policies, and \<open>Load\<close> returns a
  policy only when the decoded document is one of them.
\<close>

theorem Validate_exact:
  "(Validate p = None \<longleftrightarrow> policy_wf p)
   \<and> (Load readFile decode path = Inr p \<longleftrightarrow>
        (\<exists>b. readFile path = Inr b \<and> decode b = Inr p \<and> policy_wf p))"
  by (auto simp: Load_def Validate_iff [symmetric] split: sum.splits option.splits)

text \<open>
  Whole hours: \<open>time.ParseDuration\<close> reads the printed number of hours \<open>Nh\<close> back as
  \<open>N\<close> hours, for every \<open>N\<close> whose nanoseconds fit a duration, so a policy's
  \<open>maximum_age\<close> written that way passes validation with that value.
\<close>

theorem maximum_age_hours:
  assumes "n * 3600000000000 < 2 ^ 63"
  shows "ParseDuration (show_nat n @ ''h'') = Inr (int n * time_hour)
    \<and> validate_maximum_age (show_nat n @ ''h'') = None"
  using ParseDuration_hours [OF assms] by (simp add: validate_maximum_age_def)

theorem maximum_age_hours_witness:
  "ParseDuration (show_nat 168 @ ''h'') = Inr (168 * time_hour)
    \<and> validate_maximum_age (show_nat 168 @ ''h'') = None"
  using maximum_age_hours [of 168] by simp

end
