(* ===== verification/Trust.thy ===== *)
theory Trust
  imports Go_Sha256
begin

text \<open>
  \<open>internal/trust/trust.go\<close>: the trust roots and their loading from a directory.
  X.509, PEM and the signature schemes with keys belong to Go's cryptographic library;
  they are the fields of the record \<open>crypto_api\<close>, an argument of everything that uses them.
\<close>

section \<open>The cryptographic library as a parameter\<close>

datatype PublicKey = EcdsaKey string | RsaKey string | Ed25519Key string | OtherKey string

record Certificate =
  cert_NotBefore :: go_time
  cert_NotAfter :: go_time
  cert_PublicKey :: PublicKey
  cert_EmailAddresses :: "string list"
  cert_URIs :: "string list"
  cert_DNSNames :: "string list"
  cert_CommonName :: string
  cert_Raw :: string

type_synonym CertPool = "Certificate list"

text \<open>
  \<open>cert_Verify c roots now any_usage\<close> is \<open>x509.Certificate.Verify\<close>: \<open>roots = None\<close> stands
  for a nil pool, the roots of the operating system.
\<close>

record crypto_api =
  pem_Decode :: "string \<Rightarrow> string option"
  certs_of_pem :: "string \<Rightarrow> Certificate list"
  ParsePKIXPublicKey :: "string \<Rightarrow> PublicKey option"
  ParsePKCS1PublicKey :: "string \<Rightarrow> PublicKey option"
  ParseCertificate :: "string \<Rightarrow> Certificate result"
  cert_Verify :: "Certificate \<Rightarrow> CertPool option \<Rightarrow> go_time \<Rightarrow> bool \<Rightarrow> go_error option"
  ecdsa_VerifyASN1 :: "string \<Rightarrow> string \<Rightarrow> string \<Rightarrow> bool"
  rsa_VerifyPKCS1v15 :: "string \<Rightarrow> string \<Rightarrow> string \<Rightarrow> go_error option"
  ed25519_Verify :: "string \<Rightarrow> string \<Rightarrow> string \<Rightarrow> bool"

text \<open>\<open>parsePublicKeyPEM\<close>, the same function in \<open>trust.go\<close> and \<open>attestation.go\<close>.\<close>

definition parsePublicKeyPEM :: "crypto_api \<Rightarrow> string \<Rightarrow> PublicKey result" where
  "parsePublicKeyPEM api pem =
     (case pem_Decode api pem of
        None \<Rightarrow> Inl (errors_New ''invalid PEM data'')
      | Some block \<Rightarrow>
          (case ParsePKIXPublicKey api block of
             Some key \<Rightarrow> Inr key
           | None \<Rightarrow>
               (case ParsePKCS1PublicKey api block of
                  Some key \<Rightarrow> Inr key
                | None \<Rightarrow> Inl (errors_New ''unsupported public key format''))))"

section \<open>Trust roots\<close>

record TrustRoots =
  FulcioRoots :: "CertPool option"
  RekorKeys :: "string \<rightharpoonup> PublicKey"
  TrustedPublicKeys :: "string \<rightharpoonup> PublicKey"
  GitHubAttestationRoots :: "CertPool option"

definition NewTrustRoots :: TrustRoots where
  "NewTrustRoots =
     \<lparr>FulcioRoots = Some [], RekorKeys = Map.empty, TrustedPublicKeys = Map.empty,
      GitHubAttestationRoots = Some []\<rparr>"

definition AppendCertsFromPEM :: "crypto_api \<Rightarrow> CertPool \<Rightarrow> string \<Rightarrow> CertPool \<times> bool" where
  "AppendCertsFromPEM api pool pem = (pool @ certs_of_pem api pem, certs_of_pem api pem \<noteq> [])"

definition pool_or_new :: "CertPool option \<Rightarrow> CertPool" where
  "pool_or_new p = (case p of None \<Rightarrow> [] | Some cs \<Rightarrow> cs)"

definition AddFulcioRoot :: "crypto_api \<Rightarrow> TrustRoots \<Rightarrow> string \<Rightarrow> TrustRoots \<times> bool" where
  "AddFulcioRoot api tr pem =
     (let (pool, ok) = AppendCertsFromPEM api (pool_or_new (FulcioRoots tr)) pem
      in (tr\<lparr>FulcioRoots := Some pool\<rparr>, ok))"

definition AddGitHubAttestationRoot :: "crypto_api \<Rightarrow> TrustRoots \<Rightarrow> string \<Rightarrow> TrustRoots \<times> bool" where
  "AddGitHubAttestationRoot api tr pem =
     (let (pool, ok) = AppendCertsFromPEM api (pool_or_new (GitHubAttestationRoots tr)) pem
      in (tr\<lparr>GitHubAttestationRoots := Some pool\<rparr>, ok))"

definition AddTrustedPublicKey ::
    "crypto_api \<Rightarrow> TrustRoots \<Rightarrow> string \<Rightarrow> string \<Rightarrow> TrustRoots \<times> go_error option" where
  "AddTrustedPublicKey api tr i pem =
     (case parsePublicKeyPEM api pem of
        Inl e \<Rightarrow> (tr, Some e)
      | Inr key \<Rightarrow> (tr\<lparr>TrustedPublicKeys := (TrustedPublicKeys tr)(i \<mapsto> key)\<rparr>, None))"

definition GetTrustedPublicKey :: "TrustRoots \<Rightarrow> string \<Rightarrow> PublicKey option" where
  "GetTrustedPublicKey tr i = TrustedPublicKeys tr i"

section \<open>Loading a directory\<close>

record DirEntry =
  entry_Name :: string
  entry_IsDir :: bool

datatype dir_result = DirNotExist | DirError go_error | DirEntries "DirEntry list"

text \<open>One iteration of the loop: directories and unreadable files are skipped.\<close>

definition load_entry ::
    "crypto_api \<Rightarrow> (string \<Rightarrow> string result) \<Rightarrow> TrustRoots \<Rightarrow> DirEntry \<Rightarrow> TrustRoots" where
  "load_entry api readFile tr entry =
     (if entry_IsDir entry then tr
      else
        case readFile (entry_Name entry) of
          Inl _ \<Rightarrow> tr
        | Inr data \<Rightarrow>
            (let ext = filepath_Ext (entry_Name entry) in
             if ext = ''.crt'' \<or> ext = ''.pem''
             then fst (AddGitHubAttestationRoot api (fst (AddFulcioRoot api tr data)) data)
             else if ext = ''.pub'' \<or> ext = ''.key''
             then fst (AddTrustedPublicKey api tr (entry_Name entry) data)
             else tr))"

definition LoadFromDir ::
    "crypto_api \<Rightarrow> (string \<Rightarrow> dir_result) \<Rightarrow> (string \<Rightarrow> string \<Rightarrow> string result) \<Rightarrow> string \<Rightarrow> TrustRoots result" where
  "LoadFromDir api readDir readFile dir =
     (if dir = [] then Inr NewTrustRoots
      else
        case readDir dir of
          DirNotExist \<Rightarrow> Inr NewTrustRoots
        | DirError e \<Rightarrow> Inl (Wrapf ''read trust root dir: %w'' [] e)
        | DirEntries es \<Rightarrow> Inr (foldl (load_entry api (readFile dir)) NewTrustRoots es))"

section \<open>What loading keeps\<close>

text \<open>Both pools hold the same certificates, and each came out of a certificate file of the directory.\<close>

definition entry_certs :: "crypto_api \<Rightarrow> (string \<Rightarrow> string result) \<Rightarrow> DirEntry \<Rightarrow> Certificate list" where
  "entry_certs api readFile e =
     (if \<not> entry_IsDir e \<and> filepath_Ext (entry_Name e) \<in> {''.crt'', ''.pem''} then
        (case readFile (entry_Name e) of Inl _ \<Rightarrow> [] | Inr d \<Rightarrow> certs_of_pem api d)
      else [])"

definition entry_key :: "crypto_api \<Rightarrow> (string \<Rightarrow> string result) \<Rightarrow> DirEntry \<Rightarrow> PublicKey option" where
  "entry_key api readFile e =
     (if \<not> entry_IsDir e \<and> filepath_Ext (entry_Name e) \<in> {''.pub'', ''.key''} then
        (case readFile (entry_Name e) of
           Inl _ \<Rightarrow> None
         | Inr d \<Rightarrow> (case parsePublicKeyPEM api d of Inl _ \<Rightarrow> None | Inr k \<Rightarrow> Some k))
      else None)"

lemma load_entry_pools:
  assumes "FulcioRoots tr = Some ps" "GitHubAttestationRoots tr = Some qs"
  shows "FulcioRoots (load_entry api rf tr e) = Some (ps @ entry_certs api rf e)"
    "GitHubAttestationRoots (load_entry api rf tr e) = Some (qs @ entry_certs api rf e)"
  using assms
  by (auto simp: load_entry_def entry_certs_def AddFulcioRoot_def AddGitHubAttestationRoot_def
      AppendCertsFromPEM_def AddTrustedPublicKey_def pool_or_new_def Let_def split: sum.splits)

lemma load_entry_keys:
  "TrustedPublicKeys (load_entry api rf tr e) =
     (case entry_key api rf e of
        None \<Rightarrow> TrustedPublicKeys tr
      | Some k \<Rightarrow> (TrustedPublicKeys tr)(entry_Name e \<mapsto> k))"
  by (auto simp: load_entry_def entry_key_def AddFulcioRoot_def AddGitHubAttestationRoot_def
      AppendCertsFromPEM_def AddTrustedPublicKey_def Let_def split: sum.splits)

lemma foldl_load_pools:
  assumes "FulcioRoots tr = Some ps" "GitHubAttestationRoots tr = Some ps"
  shows "FulcioRoots (foldl (load_entry api rf) tr es) = Some (ps @ concat (map (entry_certs api rf) es))
    \<and> GitHubAttestationRoots (foldl (load_entry api rf) tr es) = Some (ps @ concat (map (entry_certs api rf) es))"
  using assms
  by (induction es arbitrary: tr ps) (simp_all add: load_entry_pools)

lemma foldl_load_keys:
  "TrustedPublicKeys (foldl (load_entry api rf) tr es) n = Some k \<Longrightarrow>
     TrustedPublicKeys tr n = Some k \<or> (\<exists>e \<in> set es. entry_Name e = n \<and> entry_key api rf e = Some k)"
  by (induction es arbitrary: tr)
     (fastforce simp: load_entry_keys split: option.splits if_splits)+

section \<open>Properties\<close>

text \<open>
  \<open>LoadFromDir\<close> is fail-soft per file but exact: with a readable directory, both
  certificate pools hold exactly the certificates of the readable \<open>.crt\<close> and \<open>.pem\<close> files in
  directory order, and every trusted key is registered under the name of the \<open>.pub\<close> or
  \<open>.key\<close> file it was parsed from.
\<close>

theorem LoadFromDir_exact:
  assumes "dir \<noteq> []" "readDir dir = DirEntries es"
  shows "\<exists>tr. LoadFromDir api readDir readFile dir = Inr tr
    \<and> FulcioRoots tr = Some (concat (map (entry_certs api (readFile dir)) es))
    \<and> GitHubAttestationRoots tr = FulcioRoots tr
    \<and> RekorKeys tr = Map.empty
    \<and> (\<forall>n k. GetTrustedPublicKey tr n = Some k \<longrightarrow>
         (\<exists>e \<in> set es. entry_Name e = n \<and> entry_key api (readFile dir) e = Some k))"
proof -
  let ?tr = "foldl (load_entry api (readFile dir)) NewTrustRoots es"
  have "RekorKeys (load_entry api rf tr e) = RekorKeys tr" for rf tr e
    by (auto simp: load_entry_def AddFulcioRoot_def AddGitHubAttestationRoot_def
        AppendCertsFromPEM_def AddTrustedPublicKey_def Let_def split: sum.splits)
  then have "RekorKeys (foldl (load_entry api rf) tr es) = RekorKeys tr" for rf tr
    by (induction es arbitrary: tr) simp_all
  then have "RekorKeys ?tr = Map.empty" by (simp add: NewTrustRoots_def)
  moreover have "\<exists>e \<in> set es. entry_Name e = n \<and> entry_key api (readFile dir) e = Some k"
    if "TrustedPublicKeys ?tr n = Some k" for n k
    using foldl_load_keys [OF that] by (simp add: NewTrustRoots_def)
  ultimately show ?thesis
    using assms foldl_load_pools [of NewTrustRoots "[]" api "readFile dir" es]
    by (simp add: LoadFromDir_def GetTrustedPublicKey_def NewTrustRoots_def)
qed

definition no_crypto :: crypto_api where
  "no_crypto =
     \<lparr>pem_Decode = Some, certs_of_pem = (\<lambda>_. []), ParsePKIXPublicKey = (\<lambda>b. Some (RsaKey b)),
      ParsePKCS1PublicKey = (\<lambda>_. None), ParseCertificate = (\<lambda>_. Inl (errors_New ''x509'')),
      cert_Verify = (\<lambda>_ _ _ _. Some (errors_New ''unknown authority'')),
      ecdsa_VerifyASN1 = (\<lambda>_ _ _. False), rsa_VerifyPKCS1v15 = (\<lambda>_ _ _. Some (errors_New ''rsa'')),
      ed25519_Verify = (\<lambda>_ _ _. False)\<rparr>"

theorem LoadFromDir_exact_witness:
  "\<exists>tr. LoadFromDir no_crypto (\<lambda>_. DirEntries [\<lparr>entry_Name = ''ci.pub'', entry_IsDir = False\<rparr>])
      (\<lambda>_ _. Inr ''pem'') ''roots'' = Inr tr \<and> FulcioRoots tr = Some []"
proof -
  have "\<exists>tr. LoadFromDir no_crypto (\<lambda>_. DirEntries [\<lparr>entry_Name = ''ci.pub'', entry_IsDir = False\<rparr>])
      (\<lambda>_ _. Inr ''pem'') ''roots'' = Inr tr
      \<and> FulcioRoots tr = Some (concat (map (entry_certs no_crypto (\<lambda>_. Inr ''pem''))
           [\<lparr>entry_Name = ''ci.pub'', entry_IsDir = False\<rparr>]))"
    using LoadFromDir_exact [of "''roots''"
        "\<lambda>_. DirEntries [\<lparr>entry_Name = ''ci.pub'', entry_IsDir = False\<rparr>]" _ no_crypto "\<lambda>_ _. Inr ''pem''"]
    by blast
  moreover have "entry_certs no_crypto (\<lambda>_. Inr d) e = []" for d e
    by (simp add: entry_certs_def no_crypto_def)
  ultimately show ?thesis by simp
qed

end
