(* ===== verification/Attestation.thy ===== *)
theory Attestation
  imports Trust
begin

text \<open>
  \<open>internal/crypto/attestation/attestation.go\<close>: DSSE envelopes, Sigstore bundles, GitHub
  attestations and the matching of signer identities.
\<close>

section \<open>Data\<close>

record DSSESignature =
  sig_KeyID :: string
  sig_Sig :: string

record DSSEEnvelope =
  env_Payload :: string
  env_PayloadType :: string
  env_Signatures :: "DSSESignature list"

record SigstoreBundle =
  sb_MediaType :: string
  sb_PublicKeyPem :: string
  sb_X509CertPem :: string
  sb_Signature :: string

record GitHubAttestation =
  ga_PredicateType :: string
  ga_BuilderID :: string
  ga_SubjectDigest :: string
  ga_Repository :: string
  ga_Workflow :: string
  ga_Certificate :: string

record Verifier =
  v_TrustRoots :: "TrustRoots option"

definition NewVerifier :: Verifier where
  "NewVerifier = \<lparr>v_TrustRoots = Some NewTrustRoots\<rparr>"

definition NewVerifierWithRoots :: "TrustRoots option \<Rightarrow> Verifier" where
  "NewVerifierWithRoots tr = \<lparr>v_TrustRoots = tr\<rparr>"

definition WithTrustRoots :: "Verifier \<Rightarrow> TrustRoots option \<Rightarrow> Verifier" where
  "WithTrustRoots v tr = (case tr of None \<Rightarrow> v | Some _ \<Rightarrow> v\<lparr>v_TrustRoots := tr\<rparr>)"

section \<open>Signatures\<close>

definition verifySignature :: "crypto_api \<Rightarrow> PublicKey \<Rightarrow> string \<Rightarrow> string \<Rightarrow> go_error option" where
  "verifySignature api key hashed sig =
     (case key of
        EcdsaKey k \<Rightarrow> if ecdsa_VerifyASN1 api k hashed sig then None
                      else Some (errors_New ''ecdsa signature verification failed'')
      | RsaKey k \<Rightarrow> rsa_VerifyPKCS1v15 api k hashed sig
      | Ed25519Key k \<Rightarrow> if ed25519_Verify api k hashed sig then None
                        else Some (errors_New ''ed25519 signature verification failed'')
      | OtherKey _ \<Rightarrow> Some (errors_New ''unsupported public key type''))"

text \<open>Signature text is base64, or else hexadecimal, or else taken as raw bytes.\<close>

definition signature_bytes :: "string \<Rightarrow> string" where
  "signature_bytes s =
     (case StdEncoding_DecodeString s of
        Some b \<Rightarrow> b
      | None \<Rightarrow> (case hex_DecodeString s of Inr b \<Rightarrow> b | Inl _ \<Rightarrow> s))"

definition dsse_preimage :: "string \<Rightarrow> string \<Rightarrow> string" where
  "dsse_preimage payloadType payload =
     ''DSSEv1 '' @ show_nat (length payloadType) @ '' '' @ payloadType @ '' ''
       @ show_nat (length payload) @ '' '' @ payload"

definition payload_bytes :: "DSSEEnvelope \<Rightarrow> string" where
  "payload_bytes env =
     (case StdEncoding_DecodeString (env_Payload env) of Some b \<Rightarrow> b | None \<Rightarrow> env_Payload env)"

fun any_signature :: "crypto_api \<Rightarrow> PublicKey \<Rightarrow> string \<Rightarrow> DSSESignature list \<Rightarrow> bool" where
  "any_signature api key hashed [] = False"
| "any_signature api key hashed (s # ss) =
     (if verifySignature api key hashed (signature_bytes (sig_Sig s)) = None then True
      else any_signature api key hashed ss)"

definition VerifyDSSE :: "crypto_api \<Rightarrow> Verifier \<Rightarrow> DSSEEnvelope \<Rightarrow> string \<Rightarrow> go_error option" where
  "VerifyDSSE api v env publicKeyPEM =
     (if length (env_Signatures env) = 0 then Some (errors_New ''dsse envelope contains no signatures'')
      else let digestSum = Sum256 (dsse_preimage (env_PayloadType env) (payload_bytes env)) in
           case parsePublicKeyPEM api publicKeyPEM of
             Inl e \<Rightarrow> Some (Wrapf ''parse public key: %w'' [] e)
           | Inr key \<Rightarrow>
               if any_signature api key digestSum (env_Signatures env) then None
               else Some (errors_New ''none of the dsse envelope signatures matched the public key''))"

section \<open>Identities\<close>

definition pathMatch :: "string \<Rightarrow> string \<Rightarrow> bool" where
  "pathMatch pattern name =
     (if CHR ''*'' \<in> set pattern \<and> length (Split pattern CHR ''*'') = 2
      then HasPrefix name (Split pattern CHR ''*'' ! 0) \<and> HasSuffix name (Split pattern CHR ''*'' ! 1)
      else pattern = name)"

definition matchIdentity :: "string \<Rightarrow> string \<Rightarrow> bool" where
  "matchIdentity certId trustedId =
     (if certId = trustedId then True
      else if HasSuffix trustedId ''*'' \<and> HasPrefix certId (TrimSuffix trustedId ''*'') then True
      else pathMatch trustedId certId)"

definition any_identity :: "string list \<Rightarrow> string list \<Rightarrow> bool" where
  "any_identity certIds trustedIds \<longleftrightarrow> (\<exists>c \<in> set certIds. \<exists>t \<in> set trustedIds. matchIdentity c t)"

section \<open>Sigstore bundles\<close>

definition parseCertificatePEM :: "crypto_api \<Rightarrow> string \<Rightarrow> Certificate result" where
  "parseCertificatePEM api pem =
     (case pem_Decode api pem of
        None \<Rightarrow> Inl (errors_New ''invalid certificate PEM data'')
      | Some block \<Rightarrow> ParseCertificate api block)"

definition cert_identities :: "Certificate \<Rightarrow> string list" where
  "cert_identities c =
     cert_EmailAddresses c @ cert_URIs c @ cert_DNSNames c
       @ (if cert_CommonName c \<noteq> [] then [cert_CommonName c] else [])"

text \<open>The first half of \<open>VerifySigstore\<close>: the key of the bundle and the identities that come with it.\<close>

definition sigstore_chain_error :: "crypto_api \<Rightarrow> Verifier \<Rightarrow> go_time \<Rightarrow> Certificate \<Rightarrow> go_error option" where
  "sigstore_chain_error api v now cert =
     (case v_TrustRoots v of
        None \<Rightarrow> None
      | Some tr \<Rightarrow>
          (case FulcioRoots tr of
             None \<Rightarrow> None
           | Some roots \<Rightarrow> cert_Verify api cert (Some roots) now True))"

definition sigstore_material ::
    "crypto_api \<Rightarrow> Verifier \<Rightarrow> go_time \<Rightarrow> SigstoreBundle \<Rightarrow> (PublicKey \<times> string list) result" where
  "sigstore_material api v now bundle =
     (if sb_X509CertPem bundle \<noteq> [] then
        (case parseCertificatePEM api (sb_X509CertPem bundle) of
           Inl e \<Rightarrow> Inl (Wrapf ''parse x509 cert: %w'' [] e)
         | Inr cert \<Rightarrow>
             if Before now (cert_NotBefore cert) \<or> After now (cert_NotAfter cert)
             then Inl (errors_New ''certificate is expired or not yet valid'')
             else case sigstore_chain_error api v now cert of
                    Some e \<Rightarrow> Inl (Wrapf ''certificate failed trust root chain verification: %w'' [] e)
                  | None \<Rightarrow> Inr (cert_PublicKey cert, cert_identities cert))
      else if sb_PublicKeyPem bundle \<noteq> [] then
        (case parsePublicKeyPEM api (sb_PublicKeyPem bundle) of
           Inl e \<Rightarrow> Inl (Wrapf ''parse sigstore public key: %w'' [] e)
         | Inr key \<Rightarrow> Inr (key, []))
      else Inl (errors_New ''sigstore bundle missing verification material''))"

definition artifact_bytes :: "string \<Rightarrow> string" where
  "artifact_bytes artifactDigest =
     (case hex_DecodeString (TrimPrefix artifactDigest ''sha256:'') of
        Inr b \<Rightarrow> b | Inl _ \<Rightarrow> artifactDigest)"

definition VerifySigstore ::
    "crypto_api \<Rightarrow> Verifier \<Rightarrow> go_time \<Rightarrow> SigstoreBundle \<Rightarrow> string \<Rightarrow> string list \<Rightarrow> go_error option" where
  "VerifySigstore api v now bundle artifactDigest trustedIdentities =
     (case sigstore_material api v now bundle of
        Inl e \<Rightarrow> Some e
      | Inr (key, certIdentities) \<Rightarrow>
          (case verifySignature api key (artifact_bytes artifactDigest)
                  (signature_bytes (sb_Signature bundle)) of
             Some e \<Rightarrow> Some (Wrapf ''sigstore signature verification failed: %w'' [] e)
           | None \<Rightarrow>
               if 0 < length trustedIdentities then
                 (if length certIdentities = 0
                  then Some (errors_New ''trusted_identities policy specified but no x509 SAN certificate identities present in bundle'')
                  else if \<not> any_identity certIdentities trustedIdentities
                  then Some (Errorf ''sigstore signer identity %v not in trusted identities list %v''
                               [L certIdentities, L trustedIdentities])
                  else None)
               else None))"

section \<open>GitHub attestations\<close>

definition VerifyGitHubAttestation ::
    "crypto_api \<Rightarrow> Verifier \<Rightarrow> go_time \<Rightarrow> GitHubAttestation \<Rightarrow> string \<Rightarrow> go_error option" where
  "VerifyGitHubAttestation api v now att expectedDigest =
     (if ga_SubjectDigest att \<noteq> expectedDigest
      then Some (Errorf ''attestation subject digest %s does not match expected %s''
                   [S (ga_SubjectDigest att), S expectedDigest])
      else if ga_BuilderID att = [] \<and> ga_Repository att = []
      then Some (errors_New ''attestation missing builder id and repository'')
      else if ga_Certificate att \<noteq> [] then
        (case pem_Decode api (ga_Certificate att) of
           None \<Rightarrow> Some (errors_New ''invalid github attestation certificate PEM'')
         | Some block \<Rightarrow>
             (case ParseCertificate api block of
                Inl e \<Rightarrow> Some (Wrapf ''parse github attestation certificate: %w'' [] e)
              | Inr cert \<Rightarrow>
                  (let roots = Option.bind (v_TrustRoots v) GitHubAttestationRoots in
                   case cert_Verify api cert roots now False of
                     Some e \<Rightarrow> Some (Wrapf ''github attestation certificate chain verification failed: %w'' [] e)
                   | None \<Rightarrow> None)))
      else None)"

section \<open>Characterisations\<close>

lemma any_signature_iff:
  "any_signature api key h ss \<longleftrightarrow>
     (\<exists>s \<in> set ss. verifySignature api key h (signature_bytes (sig_Sig s)) = None)"
  by (induction ss) auto

lemma VerifyDSSE_iff:
  "VerifyDSSE api v env pem = None \<longleftrightarrow>
     (\<exists>key. parsePublicKeyPEM api pem = Inr key \<and>
        (\<exists>s \<in> set (env_Signatures env).
           verifySignature api key (Sum256 (dsse_preimage (env_PayloadType env) (payload_bytes env)))
             (signature_bytes (sig_Sig s)) = None))"
  by (auto simp: VerifyDSSE_def Let_def any_signature_iff split: sum.splits)

lemma show_nat_space: "CHR '' '' \<notin> set (show_nat n)"
  using show_nat_digits [of "CHR '' ''" n] by (auto simp: is_digit_def)

lemma sep_unique:
  fixes a :: string
  assumes "a @ c # r = b @ c # s" "c \<notin> set a" "c \<notin> set b"
  shows "a = b \<and> r = s"
proof -
  have "SplitN2 (a @ c # r) c = [a, r]" using assms(2) by (rule SplitN2_sep)
  moreover have "SplitN2 (a @ c # r) c = [b, s]"
    unfolding assms(1) using assms(3) by (rule SplitN2_sep)
  ultimately show ?thesis by simp
qed

lemma sized_field_unique:
  assumes "show_nat (length a) @ '' '' @ a @ r = show_nat (length b) @ '' '' @ b @ s"
  shows "a = b \<and> r = s"
proof -
  have "show_nat (length a) = show_nat (length b) \<and> a @ r = b @ s"
    using assms sep_unique [of "show_nat (length a)" "CHR '' ''" "a @ r" "show_nat (length b)" "b @ s"]
    by (simp add: show_nat_space)
  then show ?thesis using append_eq_append_conv [of a b r s] by auto
qed

lemma dsse_preimage_inj:
  assumes "dsse_preimage t p = dsse_preimage t' p'"
  shows "t = t' \<and> p = p'"
proof -
  have "show_nat (length t) @ '' '' @ t @ ('' '' @ show_nat (length p) @ '' '' @ p @ [])
      = show_nat (length t') @ '' '' @ t' @ ('' '' @ show_nat (length p') @ '' '' @ p' @ [])"
    using assms by (simp add: dsse_preimage_def)
  from sized_field_unique [OF this] have t: "t = t'"
    and r: "show_nat (length p) @ '' '' @ p @ [] = show_nat (length p') @ '' '' @ p' @ []"
    by simp_all
  from sized_field_unique [OF r] have "p = p'" ..
  with t show ?thesis by simp
qed

text \<open>Patterns with one star: a prefix and a suffix.\<close>

lemma Split_two:
  assumes "length (Split t c) = 2"
  obtains p s where "t = p @ c # s" "c \<notin> set p" "c \<notin> set s" "Split t c = [p, s]"
proof -
  from assms obtain p s where ps: "Split t c = [p, s]"
    by (auto simp: length_Suc_conv eval_nat_numeral)
  then have "t = p @ c # s" by (metis Join.simps(2,3) Join_Split)
  moreover have "c \<notin> set p" "c \<notin> set s"
    using Split_pieces [of p t c] Split_pieces [of s t c] ps by auto
  ultimately show thesis using that ps by blast
qed

lemma Split_one_star: "c \<notin> set p \<Longrightarrow> c \<notin> set s \<Longrightarrow> Split (p @ c # s) c = [p, s]"
  by (simp add: Split_append_sep)

lemma pathMatch_iff:
  "pathMatch t n \<longleftrightarrow>
     t = n \<and> count_list t CHR ''*'' \<noteq> 1 \<or>
     (\<exists>p s. t = p @ CHR ''*'' # s \<and> CHR ''*'' \<notin> set p \<and> CHR ''*'' \<notin> set s \<and> HasPrefix n p \<and> HasSuffix n s)"
proof (cases "length (Split t CHR ''*'') = 2")
  case True
  then obtain p s where ps: "t = p @ CHR ''*'' # s" "CHR ''*'' \<notin> set p" "CHR ''*'' \<notin> set s"
    "Split t CHR ''*'' = [p, s]" by (elim Split_two)
  have "q = p \<and> r = s" if "t = q @ CHR ''*'' # r" "CHR ''*'' \<notin> set q" for q r
    using ps(1,2) that sep_unique by metis
  moreover have "count_list t CHR ''*'' = 1" using True by (simp add: length_Split)
  ultimately show ?thesis using ps by (auto simp: pathMatch_def)
next
  case False
  have "\<not> (t = p @ CHR ''*'' # s \<and> CHR ''*'' \<notin> set p \<and> CHR ''*'' \<notin> set s)" for p s
  proof
    assume "t = p @ CHR ''*'' # s \<and> CHR ''*'' \<notin> set p \<and> CHR ''*'' \<notin> set s"
    then have "Split t CHR ''*'' = [p, s]" using Split_one_star by blast
    with False show "False" by simp
  qed
  with False show ?thesis by (auto simp: pathMatch_def length_Split)
qed

lemma matchIdentity_iff:
  "matchIdentity c t \<longleftrightarrow>
     c = t \<or> (\<exists>p. t = p @ ''*'' \<and> HasPrefix c p) \<or>
     (\<exists>p s. t = p @ CHR ''*'' # s \<and> CHR ''*'' \<notin> set p \<and> CHR ''*'' \<notin> set s \<and> HasPrefix c p \<and> HasSuffix c s)"
proof -
  have "(HasSuffix t ''*'' \<and> HasPrefix c (TrimSuffix t ''*'')) \<longleftrightarrow> (\<exists>p. t = p @ ''*'' \<and> HasPrefix c p)"
    by (auto simp: HasSuffix_iff TrimSuffix_def)
  then show ?thesis
    by (auto simp: matchIdentity_def pathMatch_iff)
qed

lemma matchIdentity_no_star: "CHR ''*'' \<notin> set t \<Longrightarrow> matchIdentity c t \<longleftrightarrow> c = t"
  by (auto simp: matchIdentity_iff)

text \<open>What an accepted Sigstore bundle consists of.\<close>

definition sigstore_certified ::
    "crypto_api \<Rightarrow> Verifier \<Rightarrow> go_time \<Rightarrow> SigstoreBundle \<Rightarrow> Certificate \<Rightarrow> bool" where
  "sigstore_certified api v now bundle cert \<longleftrightarrow>
     sb_X509CertPem bundle \<noteq> [] \<and> parseCertificatePEM api (sb_X509CertPem bundle) = Inr cert \<and>
     cert_NotBefore cert \<le> now \<and> now \<le> cert_NotAfter cert \<and>
     sigstore_chain_error api v now cert = None"

lemma VerifySigstore_trusted:
  assumes "VerifySigstore api v now bundle dg trusted = None" "trusted \<noteq> []"
  shows "\<exists>cert. sigstore_certified api v now bundle cert \<and>
     verifySignature api (cert_PublicKey cert) (artifact_bytes dg) (signature_bytes (sb_Signature bundle)) = None \<and>
     any_identity (cert_identities cert) trusted"
  using assms
  by (auto simp: VerifySigstore_def sigstore_material_def sigstore_certified_def Before_def After_def
      split: sum.splits if_splits option.splits)

section \<open>Properties\<close>

text \<open>
  The DSSE pre-image is unambiguous: it determines the payload type and the payload,
  so a signature over it cannot be moved to another type or payload that hashes differently.
\<close>

theorem dsse_preimage_unambiguous:
  "dsse_preimage t p = dsse_preimage t' p' \<longleftrightarrow> t = t' \<and> p = p'"
  using dsse_preimage_inj by blast

text \<open>
  C30. \<open>VerifyDSSE\<close> accepts exactly when the given PEM is a public key and one of the
  envelope's signatures verifies with it over the SHA-256 of the pre-image.
\<close>

theorem VerifyDSSE_exact:
  "VerifyDSSE api v env pem = None \<longleftrightarrow>
     (\<exists>key s. parsePublicKeyPEM api pem = Inr key \<and> s \<in> set (env_Signatures env) \<and>
        verifySignature api key (Sum256 (dsse_preimage (env_PayloadType env) (payload_bytes env)))
          (signature_bytes (sig_Sig s)) = None)"
  by (auto simp: VerifyDSSE_iff)

text \<open>
  Signer identities: a trusted identity without a star matches only itself; with one
  star it matches exactly the names with its prefix and its suffix (and itself), and for a
  name long enough for both these are the names the star's usual meaning gives.
\<close>

theorem matchIdentity_exact:
  "(CHR ''*'' \<notin> set t \<longrightarrow> (matchIdentity c t \<longleftrightarrow> c = t))
   \<and> (CHR ''*'' \<notin> set p \<and> CHR ''*'' \<notin> set s \<longrightarrow>
       (matchIdentity c (p @ CHR ''*'' # s) \<longleftrightarrow> HasPrefix c p \<and> HasSuffix c s)
       \<and> (length p + length s \<le> length c \<longrightarrow>
           (matchIdentity c (p @ CHR ''*'' # s) \<longleftrightarrow> (\<exists>m. c = p @ m @ s))))"
proof -
  have one: "matchIdentity c (p @ CHR ''*'' # s) \<longleftrightarrow> HasPrefix c p \<and> HasSuffix c s"
    if star: "CHR ''*'' \<notin> set p" "CHR ''*'' \<notin> set s"
  proof -
    have A: "(\<exists>q. p @ CHR ''*'' # s = q @ ''*'' \<and> HasPrefix c q) \<longleftrightarrow> s = [] \<and> HasPrefix c p"
    proof
      assume "\<exists>q. p @ CHR ''*'' # s = q @ ''*'' \<and> HasPrefix c q"
      then obtain q where q: "p @ CHR ''*'' # s = q @ ''*''" "HasPrefix c q" by blast
      then have "s = []" using star(2) by (cases s rule: rev_cases) auto
      with q show "s = [] \<and> HasPrefix c p" by simp
    qed simp
    have B: "(\<exists>q r. p @ CHR ''*'' # s = q @ CHR ''*'' # r \<and> CHR ''*'' \<notin> set q \<and> CHR ''*'' \<notin> set r
        \<and> HasPrefix c q \<and> HasSuffix c r) \<longleftrightarrow> HasPrefix c p \<and> HasSuffix c s"
      using star sep_unique [of p "CHR ''*''" s] by blast
    show ?thesis
      unfolding matchIdentity_iff A B by (auto simp: HasSuffix_iff HasPrefix_iff)
  qed
  have mid: "HasPrefix c p \<and> HasSuffix c s \<longleftrightarrow> (\<exists>m. c = p @ m @ s)" if "length p + length s \<le> length c"
  proof
    assume "HasPrefix c p \<and> HasSuffix c s"
    then obtain r q where r: "c = p @ r" and q: "c = q @ s"
      unfolding HasPrefix_iff HasSuffix_iff by blast
    have "length p \<le> length q" using that q by simp
    moreover have "p @ r = q @ s" using r q by simp
    ultimately obtain m where "q = p @ m"
      by (auto simp: append_eq_append_conv2)
    with q show "\<exists>m. c = p @ m @ s" by simp
  qed (auto simp: HasPrefix_iff HasSuffix_iff)
  show ?thesis
    using one mid matchIdentity_no_star by blast
qed

theorem matchIdentity_exact_witness:
  "matchIdentity ''https://github.com/org/repo'' ''https://github.com/org/*''
   \<and> \<not> matchIdentity ''https://github.com/evil/repo'' ''https://github.com/org/*''
   \<and> \<not> matchIdentity ''trusted-ci-2'' ''trusted-ci''"
  using matchIdentity_exact [of "''trusted-ci''" "''trusted-ci-2''" "''https://github.com/org/''" "[]"]
    matchIdentity_exact [of "[]" "''https://github.com/org/repo''" "''https://github.com/org/''" "[]"]
    matchIdentity_exact [of "[]" "''https://github.com/evil/repo''" "''https://github.com/org/''" "[]"]
  by (simp add: HasPrefix_def HasSuffix_def)

text \<open>
  The prefix and the suffix of a pattern may overlap in the name: the code accepts a
  name that the star's usual meaning does not give.
\<close>

theorem pathMatch_overlap:
  "\<exists>t c p s. t = p @ CHR ''*'' # s \<and> matchIdentity c t \<and> \<not> (\<exists>m. c = p @ m @ s)"
proof (intro exI conjI)
  let ?p = "''org/app''" and ?s = "''app/main''"
  show "''org/app*app/main'' = ?p @ CHR ''*'' # ?s" by simp
  show "matchIdentity ''org/app/main'' ''org/app*app/main''"
    by (simp add: matchIdentity_def pathMatch_def HasPrefix_def HasSuffix_iff)
  show "\<not> (\<exists>m. ''org/app/main'' = ?p @ m @ ?s)"
  proof
    assume "\<exists>m. ''org/app/main'' = ?p @ m @ ?s"
    then obtain m where "''org/app/main'' = ?p @ m @ ?s" ..
    then have "length ''org/app/main'' = length (?p @ m @ ?s)" by (rule arg_cong)
    then show False by simp
  qed
qed

text \<open>
  C29. With a trusted-identities list, a Sigstore bundle is accepted only if it carries an
  X.509 certificate that is valid now and chains to the configured roots, its signature
  verifies over the artifact's digest bytes with that certificate's key, and one of the
  certificate's identities matches a trusted one: a bare public key is never enough.
\<close>

theorem VerifySigstore_requires_certificate:
  assumes "VerifySigstore api v now bundle dg trusted = None" "trusted \<noteq> []"
  shows "\<exists>cert. sigstore_certified api v now bundle cert
    \<and> verifySignature api (cert_PublicKey cert) (artifact_bytes dg) (signature_bytes (sb_Signature bundle)) = None
    \<and> (\<exists>c \<in> set (cert_identities cert). \<exists>t \<in> set trusted. matchIdentity c t)"
  using VerifySigstore_trusted [OF assms] by (simp add: any_identity_def)

definition open_crypto :: "Certificate \<Rightarrow> crypto_api" where
  "open_crypto cert =
     no_crypto\<lparr>ParseCertificate := (\<lambda>_. Inr cert), cert_Verify := (\<lambda>_ _ _ _. None),
       ecdsa_VerifyASN1 := (\<lambda>_ _ _. True)\<rparr>"

definition sample_cert :: Certificate where
  "sample_cert = \<lparr>cert_NotBefore = 0, cert_NotAfter = 10, cert_PublicKey = EcdsaKey ''k'',
     cert_EmailAddresses = [''ci@example.com''], cert_URIs = [], cert_DNSNames = [],
     cert_CommonName = [], cert_Raw = []\<rparr>"

definition sample_bundle :: SigstoreBundle where
  "sample_bundle = \<lparr>sb_MediaType = [], sb_PublicKeyPem = [], sb_X509CertPem = ''pem'', sb_Signature = ''00''\<rparr>"

theorem VerifySigstore_requires_certificate_witness:
  "\<exists>cert. sigstore_certified (open_crypto sample_cert) NewVerifier 5 sample_bundle cert"
proof -
  have "VerifySigstore (open_crypto sample_cert) NewVerifier 5 sample_bundle ''sha256:00'' [''ci@example.com''] = None"
    by (simp add: VerifySigstore_def sigstore_material_def parseCertificatePEM_def open_crypto_def
        sample_bundle_def sample_cert_def no_crypto_def NewVerifier_def sigstore_chain_error_def
        NewTrustRoots_def verifySignature_def cert_identities_def any_identity_def matchIdentity_def
        Before_def After_def)
  from VerifySigstore_requires_certificate [OF this] show ?thesis by blast
qed

text \<open>
  The verifier of \<open>NewVerifier\<close> has empty root pools. As \<open>x509.Certificate.Verify\<close>
  accepts no chain to an empty pool, that verifier accepts no Sigstore bundle when a
  trusted-identities list is given, and no GitHub attestation that carries a certificate.
\<close>

theorem NewVerifier_fails_closed:
  assumes empty_pool: "\<And>cert t usage. cert_Verify api cert (Some []) t usage \<noteq> None"
  shows "(trusted \<noteq> [] \<longrightarrow> VerifySigstore api NewVerifier now bundle dg trusted \<noteq> None)
    \<and> (ga_Certificate att \<noteq> [] \<longrightarrow> VerifyGitHubAttestation api NewVerifier now att dg \<noteq> None)"
proof (intro conjI impI)
  assume "trusted \<noteq> []"
  show "VerifySigstore api NewVerifier now bundle dg trusted \<noteq> None"
  proof
    assume "VerifySigstore api NewVerifier now bundle dg trusted = None"
    from VerifySigstore_trusted [OF this \<open>trusted \<noteq> []\<close>] empty_pool show False
      by (auto simp: sigstore_certified_def sigstore_chain_error_def NewVerifier_def NewTrustRoots_def)
  qed
next
  assume cert: "ga_Certificate att \<noteq> []"
  show "VerifyGitHubAttestation api NewVerifier now att dg \<noteq> None"
  proof
    assume "VerifyGitHubAttestation api NewVerifier now att dg = None"
    with cert obtain c where "cert_Verify api c (Some []) now False = None"
      by (auto simp: VerifyGitHubAttestation_def NewVerifier_def NewTrustRoots_def
          split: if_splits option.splits sum.splits)
    with empty_pool [of c now False] show False by simp
  qed
qed

theorem NewVerifier_fails_closed_witness:
  "VerifySigstore no_crypto NewVerifier 5 sample_bundle ''sha256:00'' [''ci@example.com''] \<noteq> None"
  using NewVerifier_fails_closed [of no_crypto "[''ci@example.com'']" 5 sample_bundle "''sha256:00''"]
  by (simp add: no_crypto_def)

text \<open>
  A GitHub attestation without a certificate is accepted by every verifier and every
  cryptographic library, as soon as it names the digest and a builder or repository: no
  signature is involved.
\<close>

theorem GitHubAttestation_unsigned_accepted:
  "ga_Certificate att = [] \<Longrightarrow>
     VerifyGitHubAttestation api v now att dg = None \<longleftrightarrow>
       ga_SubjectDigest att = dg \<and> (ga_BuilderID att \<noteq> [] \<or> ga_Repository att \<noteq> [])"
  by (simp add: VerifyGitHubAttestation_def)

definition sample_attestation :: "string \<Rightarrow> GitHubAttestation" where
  "sample_attestation dg =
     \<lparr>ga_PredicateType = [], ga_BuilderID = ''b'', ga_SubjectDigest = dg, ga_Repository = [],
      ga_Workflow = [], ga_Certificate = []\<rparr>"

theorem GitHubAttestation_unsigned_accepted_witness:
  "VerifyGitHubAttestation no_crypto NewVerifier 0 (sample_attestation ''d'') ''d'' = None"
  using GitHubAttestation_unsigned_accepted [of "sample_attestation ''d''" no_crypto NewVerifier 0 "''d''"]
  by (simp add: sample_attestation_def)

end
