(* ===== verification/Digest.thy ===== *)
theory Digest
  imports Go_Sha256
begin

text \<open>
  \<open>internal/digest/digest.go\<close>: the form \<open>sha256:\<close> followed by 64 hexadecimal characters
  that every admission decision is bound to.
\<close>

section \<open>Operations\<close>

fun hex_error_text :: "hex_error \<Rightarrow> go_error" where
  "hex_error_text (InvalidByteError c) = Errorf ''encoding/hex: invalid byte: %#U'' [S [c]]"
| "hex_error_text ErrLength = errors_New ''encoding/hex: odd length hex string''"

definition ValidateSHA256 :: "string \<Rightarrow> go_error option" where
  "ValidateSHA256 v =
     (if \<not> HasPrefix v ''sha256:'' then Some (errors_New ''digest must use sha256:<hex> form'')
      else let raw = TrimPrefix v ''sha256:'' in
           if length raw \<noteq> 64 then Some (errors_New ''sha256 digest must contain 64 hex characters'')
           else case hex_DecodeString raw of
                  Inl e \<Rightarrow> Some (Wrapf ''invalid sha256 digest: %w'' [] (hex_error_text e))
                | Inr _ \<Rightarrow> None)"

definition digest_Bytes :: "string \<Rightarrow> string" where
  "digest_Bytes b = ''sha256:'' @ hex_EncodeToString (Sum256 b)"

text \<open>The 32 bytes a valid digest denotes, and the spelling \<open>digest_Bytes\<close> gives them.\<close>

definition digest_value :: "string \<Rightarrow> string option" where
  "digest_value v =
     (case hex_DecodeString (TrimPrefix v ''sha256:'') of Inl _ \<Rightarrow> None | Inr bs \<Rightarrow> Some bs)"

definition canonical_digest :: "string \<Rightarrow> bool" where
  "canonical_digest v \<longleftrightarrow> ValidateSHA256 v = None \<and> list_all is_lower_hex (drop 7 v)"

section \<open>Characterisation\<close>

lemma TrimPrefix_sha256 [simp]:
  "TrimPrefix (CHR ''s'' # CHR ''h'' # CHR ''a'' # CHR ''2'' # CHR ''5'' # CHR ''6'' # CHR '':'' # raw)
     ''sha256:'' = raw"
  by (simp add: TrimPrefix_def HasPrefix_def)

lemma ValidateSHA256_iff:
  "ValidateSHA256 v = None \<longleftrightarrow> (\<exists>raw. v = ''sha256:'' @ raw \<and> length raw = 64 \<and> list_all is_hex raw)"
proof (cases "HasPrefix v ''sha256:''")
  case True
  then obtain raw where v: "v = ''sha256:'' @ raw" by (auto simp: HasPrefix_iff)
  have "ValidateSHA256 v = None \<longleftrightarrow> length raw = 64 \<and> (\<exists>bs. hex_DecodeString raw = Inr bs)"
    using True unfolding v ValidateSHA256_def TrimPrefix_append
    by (cases "hex_DecodeString raw") (auto simp: Let_def)
  also have "\<dots> \<longleftrightarrow> length raw = 64 \<and> list_all is_hex raw"
    by (auto simp: hex_decode_ok_iff)
  finally show ?thesis by (simp add: v)
next
  case False
  then show ?thesis by (auto simp: ValidateSHA256_def HasPrefix_iff)
qed

lemma ValidateSHA256_length: "ValidateSHA256 v = None \<Longrightarrow> length v = 71"
  by (auto simp: ValidateSHA256_iff)

lemma digest_Bytes_canonical: "canonical_digest (digest_Bytes b)"
proof -
  have "list_all is_lower_hex (hex_EncodeToString (Sum256 b))"
    by (auto simp: list_all_iff hex_encode_lower)
  moreover from this have "list_all is_hex (hex_EncodeToString (Sum256 b))"
    by (auto simp: list_all_iff is_lower_hex_def)
  ultimately show ?thesis
    by (auto simp: canonical_digest_def ValidateSHA256_iff digest_Bytes_def)
qed

lemma digest_value_Bytes [simp]: "digest_value (digest_Bytes b) = Some (Sum256 b)"
  by (simp add: digest_value_def digest_Bytes_def)

text \<open>A canonical digest is determined by the bytes it denotes.\<close>

lemma lower_hex_unique:
  assumes "is_lower_hex p" "is_lower_hex q" "fromHexChar p = fromHexChar q"
  shows "p = q"
proof -
  have of: "c = hexDigit n" if "fromHexChar c = Some n" "is_lower_hex c" for c n
  proof -
    from that have "of_char c = n + 48 \<and> n < 10 \<or> of_char c = n + (87::nat) \<and> 10 \<le> n"
      unfolding fromHexChar_def is_lower_hex_def less_eq_char_def
      by (simp split: if_splits) linarith+
    then have "hexDigit n = char_of (of_char c :: nat)"
      unfolding hexDigit_def by (metis not_less)
    then show ?thesis by simp
  qed
  from assms(1) obtain n where "fromHexChar p = Some n"
    by (auto simp: is_lower_hex_def is_hex_def)
  with assms of [of p n] of [of q n] show ?thesis by simp
qed

lemma hex_pair_unique:
  assumes "a * 16 + b = a' * 16 + b'" "b < 16" "b' < (16::nat)"
  shows "a = a' \<and> b = b'"
proof -
  have "(a * 16 + b) mod 16 = b" "(a' * 16 + b') mod 16 = b'"
    using assms(2,3) by simp_all
  with assms(1) have "b = b'" by simp
  with assms(1) show ?thesis by simp
qed

lemma hex_decode_inj:
  assumes "hex_DecodeString s = Inr bs" "hex_DecodeString t = Inr bs"
    and "list_all is_lower_hex s" "list_all is_lower_hex t"
  shows "s = t"
  using assms
proof (induction bs arbitrary: s t)
  case Nil
  then show ?case by (auto dest!: length_hex_decode)
next
  case (Cons x bs)
  obtain p q s' where s: "s = p # q # s'"
    using length_hex_decode [OF Cons.prems(1)] by (auto simp: length_Suc_conv)
  obtain p' q' t' where t: "t = p' # q' # t'"
    using length_hex_decode [OF Cons.prems(2)] by (auto simp: length_Suc_conv)
  from Cons.prems(1) obtain a b where ab: "fromHexChar p = Some a" "fromHexChar q = Some b"
    "hex_DecodeString s' = Inr bs" "x = char_of (a * 16 + b)"
    by (auto simp: s split: option.splits sum.splits)
  from Cons.prems(2) obtain a' b' where ab': "fromHexChar p' = Some a'" "fromHexChar q' = Some b'"
    "hex_DecodeString t' = Inr bs" "x = char_of (a' * 16 + b')"
    by (auto simp: t split: option.splits sum.splits)
  have lt: "a < 16" "b < 16" "a' < 16" "b' < 16"
    using ab ab' fromHexChar_less by blast+
  have "(a * 16 + b) mod 256 = (a' * 16 + b') mod 256"
    using ab(4) ab'(4) by (metis char_of_quasi_inj)
  moreover have "a * 16 + b < 256" "a' * 16 + b' < 256" using lt by linarith+
  ultimately have "a * 16 + b = a' * 16 + b'" by simp
  then have "a = a' \<and> b = b'" using lt by (intro hex_pair_unique)
  with ab ab' Cons.prems(3,4) have "p = p'" "q = q'"
    by (auto simp: s t intro: lower_hex_unique)
  moreover have "s' = t'"
    using Cons.IH [OF ab(3) ab'(3)] Cons.prems(3,4) by (simp add: s t)
  ultimately show ?case by (simp add: s t)
qed

lemma canonical_digest_value:
  assumes "canonical_digest v"
  obtains bs where "digest_value v = Some bs" "length bs = 32" "hex_DecodeString (drop 7 v) = Inr bs"
proof -
  from assms obtain raw where v: "v = ''sha256:'' @ raw" "length raw = 64" "list_all is_hex raw"
    by (auto simp: canonical_digest_def ValidateSHA256_iff)
  then obtain bs where bs: "hex_DecodeString raw = Inr bs"
    using hex_decode_ok_iff [of raw] by auto
  moreover from bs v(2) have "length bs = 32" by (auto dest: length_hex_decode)
  ultimately show thesis using that by (simp add: digest_value_def v(1))
qed

section \<open>Properties\<close>

text \<open>
  C39. \<open>ValidateSHA256\<close> accepts exactly the strings \<open>sha256:\<close> followed by 64 hexadecimal
  characters, and every digest that \<open>digest.Bytes\<close> computes is accepted and in lower case.
\<close>

theorem ValidateSHA256_exact:
  "(ValidateSHA256 v = None \<longleftrightarrow>
      (\<exists>raw. v = ''sha256:'' @ raw \<and> length raw = 64 \<and> (\<forall>i < 64. is_hex (raw ! i))))
   \<and> ValidateSHA256 (digest_Bytes b) = None \<and> canonical_digest (digest_Bytes b)"
  using digest_Bytes_canonical [of b]
  by (auto simp: ValidateSHA256_iff canonical_digest_def list_all_length)

theorem ValidateSHA256_exact_witness:
  "ValidateSHA256 (''sha256:'' @ replicate 64 CHR ''a'') = None
   \<and> ValidateSHA256 (''sha256:'' @ replicate 64 CHR ''z'') \<noteq> None
   \<and> ValidateSHA256 (digest_Bytes ''hello'') = None"
proof -
  let ?a = "replicate 64 CHR ''a''" and ?z = "replicate 64 CHR ''z''"
  have "\<forall>i < 64. is_hex (?a ! i)"
    by (simp add: is_hex_def fromHexChar_def less_eq_char_def)
  then have "ValidateSHA256 (''sha256:'' @ ?a) = None"
    using ValidateSHA256_exact [of "''sha256:'' @ ?a" "[]"] by (metis length_replicate)
  moreover have "\<not> is_hex (?z ! 0)"
    by (simp add: is_hex_def fromHexChar_def less_eq_char_def)
  then have "ValidateSHA256 (''sha256:'' @ ?z) \<noteq> None"
    using ValidateSHA256_exact [of "''sha256:'' @ ?z" "[]"] same_append_eq
    by (metis zero_less_numeral)
  ultimately show ?thesis
    using ValidateSHA256_exact [of "[]" "''hello''"] by blast
qed

text \<open>
  Two canonical (lower-case) digests that denote the same bytes are the same string,
  so comparing them as strings, as the code does, compares artifacts.
\<close>

theorem canonical_digest_inj:
  assumes "canonical_digest v" "canonical_digest w" "digest_value v = digest_value w"
  shows "v = w"
proof -
  from assms(1) obtain bs where v: "hex_DecodeString (drop 7 v) = Inr bs" "digest_value v = Some bs"
    by (elim canonical_digest_value)
  from assms(2) obtain bs' where w: "hex_DecodeString (drop 7 w) = Inr bs'" "digest_value w = Some bs'"
    by (elim canonical_digest_value)
  have "drop 7 v = drop 7 w"
    using v w assms by (auto simp: canonical_digest_def intro: hex_decode_inj)
  moreover have "take 7 v = take 7 w"
    using assms(1,2) by (auto simp: canonical_digest_def ValidateSHA256_iff)
  ultimately show ?thesis by (metis append_take_drop_id)
qed

theorem canonical_digest_inj_witness: "digest_Bytes ''a'' = digest_Bytes ''a''"
  by (rule canonical_digest_inj) (simp_all add: digest_Bytes_canonical)

text \<open>
  Validation does not make digests canonical: two different strings, one in lower and
  one in upper case, are both accepted and denote the same bytes.
\<close>

theorem ValidateSHA256_two_spellings:
  "\<exists>v w. ValidateSHA256 v = None \<and> ValidateSHA256 w = None \<and> v \<noteq> w \<and> digest_value v = digest_value w"
proof -
  let ?v = "''sha256:'' @ replicate 64 CHR ''a''" and ?w = "''sha256:'' @ replicate 64 CHR ''A''"
  have rep: "hex_DecodeString (replicate (2 * n) CHR ''a'') = hex_DecodeString (replicate (2 * n) CHR ''A'')" for n
    by (induction n) (auto simp: fromHexChar_def less_eq_char_def)
  have "ValidateSHA256 ?v = None" "ValidateSHA256 ?w = None"
    by (auto simp: ValidateSHA256_iff list_all_iff is_hex_def fromHexChar_def less_eq_char_def)
  moreover have "digest_value ?v = digest_value ?w"
    using rep [of 32] by (simp add: digest_value_def del: replicate.simps)
  moreover have "?v \<noteq> ?w" by (simp add: eval_nat_numeral)
  ultimately show ?thesis by blast
qed

end
