(* ===== verification/Signing.thy ===== *)
theory Signing
  imports Digest
begin

text \<open>
  \<open>internal/crypto/signing/signing.go\<close>: the HMAC signature over a decision.
\<close>

section \<open>Operations\<close>

record DecisionSigner =
  ds_secret :: string
  ds_issuer :: string
  ds_keyID :: string

definition NewDecisionSignerWithKeyID :: "string \<Rightarrow> string \<Rightarrow> string \<Rightarrow> DecisionSigner" where
  "NewDecisionSignerWithKeyID secret issuer keyID =
     \<lparr>ds_secret = secret,
      ds_issuer = (if issuer = [] then ''skgate-admission-plane'' else issuer),
      ds_keyID = (if keyID = [] then ''v1'' else keyID)\<rparr>"

definition NewDecisionSigner :: "string \<Rightarrow> string \<Rightarrow> DecisionSigner" where
  "NewDecisionSigner secret issuer = NewDecisionSignerWithKeyID secret issuer ''v1''"

definition sign_payload :: "string \<Rightarrow> string \<Rightarrow> string \<Rightarrow> string \<Rightarrow> string \<Rightarrow> string" where
  "sign_payload issuer decisionID artifactDigest environment outcome =
     issuer @ '':'' @ decisionID @ '':'' @ artifactDigest @ '':'' @ environment @ '':'' @ outcome"

definition Sign :: "DecisionSigner \<Rightarrow> string \<Rightarrow> string \<Rightarrow> string \<Rightarrow> string \<Rightarrow> string" where
  "Sign s decisionID artifactDigest environment outcome =
     (if length (ds_secret s) = 0 then []
      else hex_EncodeToString
             (hmac_sha256 (ds_secret s)
                (sign_payload (ds_issuer s) decisionID artifactDigest environment outcome)))"

definition Verify :: "DecisionSigner \<Rightarrow> string \<Rightarrow> string \<Rightarrow> string \<Rightarrow> string \<Rightarrow> string \<Rightarrow> bool" where
  "Verify s decisionID artifactDigest environment outcome signature =
     (if length (ds_secret s) = 0 \<or> signature = [] then False
      else signature = Sign s decisionID artifactDigest environment outcome)"

lemma length_Sign: "ds_secret s \<noteq> [] \<Longrightarrow> length (Sign s i d e oc) = 64"
  by (simp add: Sign_def)

lemma Sign_empty_iff: "Sign s i d e oc = [] \<longleftrightarrow> ds_secret s = []"
proof (cases "ds_secret s = []")
  case True
  then show ?thesis by (simp add: Sign_def)
next
  case False
  from length_Sign [OF this, of i d e oc] False show ?thesis by auto
qed

lemma last_field_unique:
  fixes a :: string
  assumes "a @ c # r = b @ c # s" "c \<notin> set r" "c \<notin> set s"
  shows "a = b \<and> r = s"
proof -
  have eq: "rev r @ c # rev a = rev s @ c # rev b"
    using arg_cong [OF assms(1), of rev] by simp
  have "SplitN2 (rev r @ c # rev a) c = [rev r, rev a]"
    using assms(2) by (intro SplitN2_sep) simp
  moreover have "SplitN2 (rev r @ c # rev a) c = [rev s, rev b]"
    unfolding eq using assms(3) by (intro SplitN2_sep) simp
  ultimately show ?thesis by simp
qed

lemma first_field_unique:
  fixes a :: string
  assumes "a @ c # r = b @ c # s" "c \<notin> set a" "c \<notin> set b"
  shows "a = b \<and> r = s"
proof -
  have "SplitN2 (a @ c # r) c = [a, r]" using assms(2) by (rule SplitN2_sep)
  moreover have "SplitN2 (a @ c # r) c = [b, s]"
    unfolding assms(1) using assms(3) by (rule SplitN2_sep)
  ultimately show ?thesis by simp
qed

section \<open>Properties\<close>

text \<open>
  A signer with a secret verifies exactly its own signature; a signer without a
  secret signs nothing and verifies nothing.
\<close>

theorem Verify_iff_Sign:
  "(Verify s i d e oc sig \<longleftrightarrow> ds_secret s \<noteq> [] \<and> sig = Sign s i d e oc)
   \<and> (ds_secret s \<noteq> [] \<longleftrightarrow> length (Sign s i d e oc) = 64)"
  using length_Sign [of s i d e oc] Sign_empty_iff [of s i d e oc] by (auto simp: Verify_def)

text \<open>
  For the decisions the evaluator can issue an ALLOW for (decision identifiers and
  outcomes without a colon, digests that pass validation) the signed payload determines
  every field: two decisions of one issuer with the same payload are the same decision.
\<close>

theorem sign_payload_unambiguous:
  assumes "sign_payload iss i d e oc = sign_payload iss i' d' e' oc'"
    and "CHR '':'' \<notin> set i" "CHR '':'' \<notin> set i'" "CHR '':'' \<notin> set oc" "CHR '':'' \<notin> set oc'"
    and "ValidateSHA256 d = None" "ValidateSHA256 d' = None"
  shows "i = i' \<and> d = d' \<and> e = e' \<and> oc = oc'"
proof -
  have "i @ CHR '':'' # (d @ CHR '':'' # e @ CHR '':'' # oc) = i' @ CHR '':'' # (d' @ CHR '':'' # e' @ CHR '':'' # oc')"
    using assms(1) by (simp add: sign_payload_def)
  from first_field_unique [OF this assms(2,3)] have i: "i = i'"
    and r: "d @ CHR '':'' # e @ CHR '':'' # oc = d' @ CHR '':'' # e' @ CHR '':'' # oc'"
    by simp_all
  have "length d = length d'" using assms(6,7) ValidateSHA256_length by simp
  with r have d: "d = d'" and "e @ CHR '':'' # oc = e' @ CHR '':'' # oc'"
    using append_eq_append_conv [of d d'] by auto
  from last_field_unique [OF this(2) assms(4,5)] i d show ?thesis by simp
qed

theorem sign_payload_unambiguous_witness:
  "let d = digest_Bytes ''x'' in ''ab'' = ''ab'' \<and> d = d \<and> ''prod'' = ''prod'' \<and> ''ALLOW'' = ''ALLOW''"
  unfolding Let_def
  by (rule sign_payload_unambiguous [of "''i''"])
     (use digest_Bytes_canonical in \<open>simp_all add: canonical_digest_def\<close>)

text \<open>
  An outcome cannot be traded for another: whatever the other fields are, two payloads
  with colon-free outcomes are equal only if the outcomes are, so the signature of a DENY
  is never the payload of an ALLOW.
\<close>

theorem sign_payload_outcome:
  assumes "sign_payload iss i d e oc = sign_payload iss' i' d' e' oc'"
    and "CHR '':'' \<notin> set oc" "CHR '':'' \<notin> set oc'"
  shows "oc = oc'"
proof -
  have "(iss @ '':'' @ i @ '':'' @ d @ '':'' @ e) @ CHR '':'' # oc
      = (iss' @ '':'' @ i' @ '':'' @ d' @ '':'' @ e') @ CHR '':'' # oc'"
    using assms(1) by (simp add: sign_payload_def)
  from last_field_unique [OF this assms(2,3)] show ?thesis ..
qed

theorem sign_payload_outcome_witness:
  "sign_payload ''i'' ''1'' ''d'' ''e'' ''DENY'' \<noteq> sign_payload ''i'' ''1'' ''d'' ''e'' ''ALLOW''"
proof
  assume "sign_payload ''i'' ''1'' ''d'' ''e'' ''DENY'' = sign_payload ''i'' ''1'' ''d'' ''e'' ''ALLOW''"
  from sign_payload_outcome [OF this] show False by simp
qed

text \<open>
  Without the digest check the fields run together: for every secret, one signature
  verifies for two different pairs of digest and environment.
\<close>

theorem Sign_ambiguous_fields:
  "\<exists>d e d' e'. (d, e) \<noteq> (d', e') \<and> (\<forall>s i oc. Sign s i d e oc = Sign s i d' e' oc)"
proof (intro exI conjI allI)
  show "(''sha256'', ''ab:prod'') \<noteq> (''sha256:ab'', ''prod'')" by simp
  show "Sign s i ''sha256'' ''ab:prod'' oc = Sign s i ''sha256:ab'' ''prod'' oc" for s i oc
    by (simp add: Sign_def sign_payload_def)
qed

end
