(* ===== verification/Admission.thy ===== *)
theory Admission
  imports Policy Attestation Signing
begin

text \<open>
  \<open>internal/admission\<close>: the request and decision documents (\<open>models.go\<close>) and the evaluation
  of a request against a policy (\<open>evaluator.go\<close>).

  What \<open>Evaluate\<close> reads from outside is the record \<open>eval_env\<close>: the evaluator's clock, the
  wall clock the certificate checks read, the random bytes of a new id (or the failure to
  get them), the cryptographic library and the JSON encoder of the policy.
  Texts are \<open>go_error\<close> values: a literal format and its arguments.
\<close>

section \<open>Documents\<close>

type_synonym EvidenceStatus = string

definition EvidencePass :: EvidenceStatus where "EvidencePass = ''PASS''"

record ArtifactSubject =
  as_Name :: string
  as_Version :: string
  as_Digest :: string

record Evidence =
  ev_SchemaVersion :: string
  ev_SubjectDigest :: string
  ev_EvidenceDigest :: string
  ev_Status :: EvidenceStatus
  ev_Provider :: string
  ev_ProviderVersion :: string
  ev_CompletedAt :: go_time
  ev_Complete :: bool
  ev_Passed :: bool
  ev_SignatureVerified :: bool
  ev_SignerIdentity :: string
  ev_ProvenanceVerified :: bool
  ev_Risk :: string
  ev_Capabilities :: "string list"
  ev_DSSEEnvelope :: "DSSEEnvelope option"
  ev_SigstoreBundle :: "SigstoreBundle option"
  ev_GitHubAttestation :: "GitHubAttestation option"

record ApprovalRecord =
  ar_ApprovalID :: string
  ar_SubjectDigest :: string
  ar_Environment :: string
  ar_Capability :: string
  ar_ApprovedBy :: string
  ar_ApprovedAt :: go_time
  ar_ExpiresAt :: go_time
  ar_PolicyDigest :: string
  ar_Signature :: string

record EvaluationRequest =
  rq_Subject :: ArtifactSubject
  rq_Environment :: string
  rq_Evidence :: Evidence
  rq_Approvals :: "string list"
  rq_ApprovalRecords :: "ApprovalRecord list"

record EgressRule =
  eg_Domain :: string
  eg_Port :: int

record FilesystemConstraints =
  fs_AllowWrite :: bool
  fs_AllowedPaths :: "string list"

record NetworkConstraints =
  nc_AllowNetwork :: bool
  nc_AllowedEgress :: "EgressRule list"

text \<open>\<open>MaxCPUs\<close> is a \<open>float64\<close>, kept as its IEEE 754 bits (only the zero value is ever set).\<close>

record ResourceLimits =
  rl_MaxMemoryMB :: int
  rl_MaxCPUs :: "64 word"
  rl_MaxPIDs :: int
  rl_MaxFDs :: int
  rl_TimeoutSeconds :: int
  rl_MaxOutputBytes :: int

record RuntimePolicy =
  rt_SchemaVersion :: string
  rt_ArtifactDigest :: string
  rt_DecisionID :: string
  rt_Environment :: string
  rt_PolicyDigest :: string
  rt_IssuedAt :: go_time
  rt_ExpiresAt :: go_time
  rt_AllowedCommands :: "string list"
  rt_Filesystem :: FilesystemConstraints
  rt_Network :: NetworkConstraints
  rt_AllowedSecrets :: "string list"
  rt_AllowedTools :: "string list"
  rt_AllowedMCPServers :: "string list"
  rt_ResourceLimits :: ResourceLimits

record Reason =
  r_Code :: string
  r_Message :: go_error

record Decision =
  d_SchemaVersion :: string
  d_DecisionID :: string
  d_Decision :: string
  d_Subject :: ArtifactSubject
  d_Environment :: string
  d_PolicyName :: string
  d_PolicyDigest :: string
  d_EvidenceDigest :: string
  d_EvaluatedAt :: go_time
  d_ExpiresAt :: go_time
  d_Issuer :: string
  d_KeyID :: string
  d_Signature :: string
  d_Reasons :: "Reason list"
  d_RuntimePolicy :: "RuntimePolicy option"

definition Allow :: string where "Allow = ''ALLOW''"
definition Deny :: string where "Deny = ''DENY''"
definition ReviewRequired :: string where "ReviewRequired = ''REVIEW_REQUIRED''"
definition ReassessRequired :: string where "ReassessRequired = ''REASSESS_REQUIRED''"

lemmas outcome_defs = Allow_def Deny_def ReviewRequired_def ReassessRequired_def

lemma outcomes_distinct [simp]:
  "Allow \<noteq> Deny" "Allow \<noteq> ReviewRequired" "Allow \<noteq> ReassessRequired" "Deny \<noteq> Allow"
  "Deny \<noteq> ReviewRequired" "Deny \<noteq> ReassessRequired" "ReviewRequired \<noteq> Allow"
  "ReviewRequired \<noteq> Deny" "ReviewRequired \<noteq> ReassessRequired" "ReassessRequired \<noteq> Allow"
  "ReassessRequired \<noteq> Deny" "ReassessRequired \<noteq> ReviewRequired"
  by (simp_all add: outcome_defs)

definition DecisionSchemaVersion :: string where "DecisionSchemaVersion = ''1.0.0''"

section \<open>The evaluator\<close>

text \<open>The two store interfaces the evaluator is given, as functions of digest and environment.\<close>

type_synonym checker = "string \<Rightarrow> string \<Rightarrow> bool result"

record Evaluator =
  e_Policy :: Policy
  e_Revocations :: "checker option"
  e_Quarantines :: "checker option"
  e_Verifier :: Verifier
  e_Signer :: "DecisionSigner option"

record eval_env =
  ee_now :: go_time
  ee_clock :: go_time
  ee_random :: "string option"
  ee_crypto :: crypto_api
  ee_marshal :: "Policy \<Rightarrow> string"

definition evaluator_New :: "Policy \<Rightarrow> Evaluator" where
  "evaluator_New p =
     \<lparr>e_Policy = p, e_Revocations = None, e_Quarantines = None,
      e_Verifier = NewVerifier, e_Signer = None\<rparr>"

definition WithRevocations :: "Evaluator \<Rightarrow> checker option \<Rightarrow> Evaluator" where
  "WithRevocations e rc = e\<lparr>e_Revocations := rc\<rparr>"

definition WithQuarantines :: "Evaluator \<Rightarrow> checker option \<Rightarrow> Evaluator" where
  "WithQuarantines e qc = e\<lparr>e_Quarantines := qc\<rparr>"

definition WithSigner :: "Evaluator \<Rightarrow> DecisionSigner option \<Rightarrow> Evaluator" where
  "WithSigner e s = e\<lparr>e_Signer := s\<rparr>"

definition riskRank :: "string \<Rightarrow> int" where
  "riskRank s =
     (let r = ToLower s in
      if r = ''low'' then 1 else if r = ''medium'' then 2 else if r = ''high'' then 3
      else if r = ''critical'' then 4 else 99)"

definition show_int :: "int \<Rightarrow> string" where
  "show_int i = (if i < 0 then ''-'' @ show_nat (nat (- i)) else show_nat (nat i))"

text \<open>\<open>Time.UnixNano\<close>, within the years an \<open>int64\<close> of nanoseconds can express.\<close>

definition UnixNano :: "go_time \<Rightarrow> int" where
  "UnixNano t = t - 719162 * 86400 * time_second"

definition newID :: "eval_env \<Rightarrow> string" where
  "newID env =
     (case ee_random env of
        None \<Rightarrow> ''decision-'' @ show_int (UnixNano (ee_clock env))
      | Some b \<Rightarrow> hex_EncodeToString b)"

definition policyDigest :: "eval_env \<Rightarrow> Policy \<Rightarrow> string" where
  "policyDigest env p = digest_Bytes (ee_marshal env p)"

text \<open>The three closures of \<open>Evaluate\<close> that record a finding in the decision.\<close>

definition add_reason :: "string \<Rightarrow> go_error \<Rightarrow> Decision \<Rightarrow> Decision" where
  "add_reason code msg d =
     d\<lparr>d_Reasons := d_Reasons d @ [\<lparr>r_Code = code, r_Message = msg\<rparr>]\<rparr>"

definition deny :: "string \<Rightarrow> go_error \<Rightarrow> Decision \<Rightarrow> Decision" where
  "deny code msg d = add_reason code msg (d\<lparr>d_Decision := Deny\<rparr>)"

definition review :: "string \<Rightarrow> go_error \<Rightarrow> Decision \<Rightarrow> Decision" where
  "review code msg d =
     add_reason code msg (if d_Decision d \<noteq> Deny then d\<lparr>d_Decision := ReviewRequired\<rparr> else d)"

definition reassess :: "string \<Rightarrow> go_error \<Rightarrow> Decision \<Rightarrow> Decision" where
  "reassess code msg d =
     add_reason code msg
       (if d_Decision d \<noteq> Deny \<and> d_Decision d \<noteq> ReviewRequired
        then d\<lparr>d_Decision := ReassessRequired\<rparr> else d)"

section \<open>The checks of Evaluate, in the order of the source\<close>

definition check_subject_digest :: "EvaluationRequest \<Rightarrow> Decision \<Rightarrow> Decision" where
  "check_subject_digest req d =
     (case ValidateSHA256 (as_Digest (rq_Subject req)) of
        Some err \<Rightarrow> deny ''SKGATE-SUBJECT-DIGEST-INVALID'' err d
      | None \<Rightarrow> d)"

definition check_evidence_binding :: "EvaluationRequest \<Rightarrow> Decision \<Rightarrow> Decision" where
  "check_evidence_binding req d =
     (if ev_SubjectDigest (rq_Evidence req) \<noteq> as_Digest (rq_Subject req)
      then deny ''SKGATE-EVIDENCE-SUBJECT-MISMATCH''
             (errors_New ''evidence is not bound to the requested artifact digest'') d
      else d)"

definition check_revocation :: "Evaluator \<Rightarrow> EvaluationRequest \<Rightarrow> Decision \<Rightarrow> Decision" where
  "check_revocation e req d =
     (case e_Revocations e of
        None \<Rightarrow> d
      | Some IsRevoked \<Rightarrow>
          (case IsRevoked (as_Digest (rq_Subject req)) (rq_Environment req) of
             Inl err \<Rightarrow> deny ''SKGATE-REVOCATION-STATE-UNAVAILABLE''
                          (Wrapf ''cannot determine revocation status: %v'' [] err) d
           | Inr revoked \<Rightarrow>
               if revoked then deny ''SKGATE-DIGEST-REVOKED''
                 (errors_New ''artifact digest has been revoked for this environment'') d
               else d))"

definition check_quarantine :: "Evaluator \<Rightarrow> EvaluationRequest \<Rightarrow> Decision \<Rightarrow> Decision" where
  "check_quarantine e req d =
     (case e_Quarantines e of
        None \<Rightarrow> d
      | Some IsQuarantined \<Rightarrow>
          (case IsQuarantined (as_Digest (rq_Subject req)) (rq_Environment req) of
             Inl err \<Rightarrow> deny ''SKGATE-QUARANTINE-STATE-UNAVAILABLE''
                          (Wrapf ''cannot determine quarantine status: %v'' [] err) d
           | Inr quarantined \<Rightarrow>
               if quarantined then deny ''SKGATE-DIGEST-QUARANTINED''
                 (errors_New ''artifact digest is quarantined in this environment'') d
               else d))"

definition check_environment :: "Policy \<Rightarrow> EvaluationRequest \<Rightarrow> Decision \<Rightarrow> Decision" where
  "check_environment p req d =
     (if \<not> SupportsEnvironment p (rq_Environment req)
      then deny ''SKGATE-ENVIRONMENT-DENIED''
             (errors_New ''policy does not apply to requested environment'') d
      else d)"

definition check_provider :: "Policy \<Rightarrow> EvaluationRequest \<Rightarrow> Decision \<Rightarrow> Decision" where
  "check_provider p req d =
     (if ev_Provider (rq_Evidence req) \<noteq> ap_Provider (p_Assurance p)
      then deny ''SKGATE-ASSURANCE-PROVIDER''
             (errors_New ''required assurance provider is missing'') d
      else d)"

text \<open>\<open>semver.Parse\<close> returns the zero version with an error; \<open>Evaluate\<close> drops the policy's error.\<close>

definition version_or_zero :: "string \<Rightarrow> Version" where
  "version_or_zero s = (case Parse s of Inl _ \<Rightarrow> Version 0 0 0 | Inr v \<Rightarrow> v)"

definition version_outdated :: "Policy \<Rightarrow> EvaluationRequest \<Rightarrow> bool" where
  "version_outdated p req \<longleftrightarrow>
     (case Parse (ev_ProviderVersion (rq_Evidence req)) of
        Inl _ \<Rightarrow> True
      | Inr gotv \<Rightarrow> Compare gotv (version_or_zero (ap_MinimumVersion (p_Assurance p))) < 0)"

definition check_version :: "Policy \<Rightarrow> EvaluationRequest \<Rightarrow> Decision \<Rightarrow> Decision" where
  "check_version p req d =
     (if version_outdated p req
      then reassess ''SKGATE-ASSURANCE-VERSION''
             (Sprintf ''assurance provider must be >= %s'' [S (ap_MinimumVersion (p_Assurance p))]) d
      else d)"

definition check_complete :: "Policy \<Rightarrow> EvaluationRequest \<Rightarrow> Decision \<Rightarrow> Decision" where
  "check_complete p req d =
     (if ap_RequireComplete (p_Assurance p) \<and> \<not> ev_Complete (rq_Evidence req)
      then deny ''SKGATE-ASSURANCE-INCOMPLETE''
             (errors_New ''required assurance evidence is incomplete'') d
      else d)"

definition check_passed :: "EvaluationRequest \<Rightarrow> Decision \<Rightarrow> Decision" where
  "check_passed req d =
     (if \<not> ev_Passed (rq_Evidence req)
      then deny ''SKGATE-ASSURANCE-FAILED'' (errors_New ''assurance evidence did not pass'') d
      else d)"

text \<open>\<open>time.ParseDuration\<close> returns 0 with an error, which \<open>Evaluate\<close> drops.\<close>

definition duration_or_zero :: "string \<Rightarrow> duration" where
  "duration_or_zero s = (case ParseDuration s of Inl _ \<Rightarrow> 0 | Inr d \<Rightarrow> d)"

definition evidence_stale :: "Policy \<Rightarrow> go_time \<Rightarrow> EvaluationRequest \<Rightarrow> bool" where
  "evidence_stale p now req \<longleftrightarrow>
     ap_MaximumAge (p_Assurance p) \<noteq> [] \<and>
     (IsZero (ev_CompletedAt (rq_Evidence req)) \<or>
      Time_Sub now (ev_CompletedAt (rq_Evidence req)) > duration_or_zero (ap_MaximumAge (p_Assurance p)))"

definition check_age :: "Policy \<Rightarrow> go_time \<Rightarrow> EvaluationRequest \<Rightarrow> Decision \<Rightarrow> Decision" where
  "check_age p now req d =
     (if evidence_stale p now req
      then reassess ''SKGATE-ASSURANCE-STALE''
             (errors_New ''assurance evidence is older than policy allows'') d
      else d)"

definition check_signature :: "eval_env \<Rightarrow> Evaluator \<Rightarrow> EvaluationRequest \<Rightarrow> Decision \<Rightarrow> Decision" where
  "check_signature env e req d =
     (let trusted = sp_TrustedIdentities (p_Signatures (e_Policy e)) in
      if sp_Required (p_Signatures (e_Policy e)) then
        (case ev_SigstoreBundle (rq_Evidence req) of
           Some bundle \<Rightarrow>
             (case VerifySigstore (ee_crypto env) (e_Verifier e) (ee_clock env) bundle
                     (as_Digest (rq_Subject req)) trusted of
                Some err \<Rightarrow> deny ''SKGATE-SIGSTORE-INVALID'' err d
              | None \<Rightarrow> d)
         | None \<Rightarrow>
             (case ev_DSSEEnvelope (rq_Evidence req) of
                Some envelope \<Rightarrow>
                  (if 0 < length trusted then
                     (case VerifyDSSE (ee_crypto env) (e_Verifier e) envelope (trusted ! 0) of
                        Some err \<Rightarrow> deny ''SKGATE-DSSE-INVALID'' err d
                      | None \<Rightarrow> d)
                   else deny ''SKGATE-SIGNATURE-UNVERIFIED''
                     (errors_New ''signature verification requires valid cryptographic payload (SigstoreBundle or DSSEEnvelope)'') d)
              | None \<Rightarrow> deny ''SKGATE-SIGNATURE-UNVERIFIED''
                     (errors_New ''signature verification requires valid cryptographic payload (SigstoreBundle or DSSEEnvelope)'') d))
      else d)"

definition check_provenance :: "eval_env \<Rightarrow> Evaluator \<Rightarrow> EvaluationRequest \<Rightarrow> Decision \<Rightarrow> Decision" where
  "check_provenance env e req d =
     (if pp_Required (p_Provenance (e_Policy e)) then
        (case ev_GitHubAttestation (rq_Evidence req) of
           Some att \<Rightarrow>
             (case VerifyGitHubAttestation (ee_crypto env) (e_Verifier e) (ee_clock env) att
                     (as_Digest (rq_Subject req)) of
                Some err \<Rightarrow> deny ''SKGATE-PROVENANCE-INVALID'' err d
              | None \<Rightarrow> d)
         | None \<Rightarrow>
             (case ev_DSSEEnvelope (rq_Evidence req) of
                Some envelope \<Rightarrow>
                  (if env_PayloadType envelope \<noteq> ''application/vnd.in-toto+json''
                   then deny ''SKGATE-PROVENANCE-INVALID''
                     (errors_New ''dsse envelope payloadType must be application/vnd.in-toto+json'') d
                   else d)
              | None \<Rightarrow> deny ''SKGATE-PROVENANCE-UNVERIFIED''
                     (errors_New ''provenance verification requires valid cryptographic attestation payload (GitHubAttestation or DSSEEnvelope)'') d))
      else d)"

definition check_risk :: "Policy \<Rightarrow> EvaluationRequest \<Rightarrow> Decision \<Rightarrow> Decision" where
  "check_risk p req d =
     (if riskRank (ev_Risk (rq_Evidence req)) > riskRank (rp_Maximum (p_Risk p))
      then deny ''SKGATE-RISK-TOO-HIGH''
             (Sprintf ''risk %s exceeds maximum %s''
                [S (ev_Risk (rq_Evidence req)), S (rp_Maximum (p_Risk p))]) d
      else d)"

definition record_approves :: "go_time \<Rightarrow> EvaluationRequest \<Rightarrow> string \<Rightarrow> ApprovalRecord \<Rightarrow> bool" where
  "record_approves now req cap rc \<longleftrightarrow>
     ar_Capability rc = cap \<and> ar_SubjectDigest rc = as_Digest (rq_Subject req) \<and>
     (ar_Environment rc = [] \<or> ar_Environment rc = rq_Environment req) \<and>
     (IsZero (ar_ExpiresAt rc) \<or> Before now (ar_ExpiresAt rc))"

definition capability_approved :: "go_time \<Rightarrow> EvaluationRequest \<Rightarrow> string \<Rightarrow> bool" where
  "capability_approved now req cap \<longleftrightarrow>
     cap \<in> set (rq_Approvals req) \<or> (\<exists>rc \<in> set (rq_ApprovalRecords req). record_approves now req cap rc)"

definition check_capability ::
    "Policy \<Rightarrow> go_time \<Rightarrow> EvaluationRequest \<Rightarrow> string \<Rightarrow> Decision \<Rightarrow> Decision" where
  "check_capability p now req cap d =
     (let d1 = (if cap \<in> set (cp_Deny (p_Capabilities p))
                then deny ''SKGATE-CAPABILITY-DENIED''
                       (Sprintf ''capability denied by policy: %s'' [S cap]) d
                else d)
      in if cap \<in> set (cp_ApprovalRequired (p_Capabilities p)) \<and> \<not> capability_approved now req cap
         then review ''SKGATE-APPROVAL-REQUIRED''
                (Sprintf ''approval required for capability: %s'' [S cap]) d1
         else d1)"

definition check_capabilities :: "Policy \<Rightarrow> go_time \<Rightarrow> EvaluationRequest \<Rightarrow> Decision \<Rightarrow> Decision" where
  "check_capabilities p now req d = fold (check_capability p now req) (ev_Capabilities (rq_Evidence req)) d"

section \<open>Evaluate\<close>

definition initial_decision :: "eval_env \<Rightarrow> Evaluator \<Rightarrow> EvaluationRequest \<Rightarrow> Decision" where
  "initial_decision env e req =
     \<lparr>d_SchemaVersion = DecisionSchemaVersion, d_DecisionID = newID env, d_Decision = Allow,
      d_Subject = rq_Subject req, d_Environment = rq_Environment req,
      d_PolicyName = p_Name (e_Policy e), d_PolicyDigest = policyDigest env (e_Policy e),
      d_EvidenceDigest = [], d_EvaluatedAt = ee_now env,
      d_ExpiresAt = Time_Add (ee_now env) (24 * time_hour),
      d_Issuer = [], d_KeyID = [], d_Signature = [], d_Reasons = [], d_RuntimePolicy = None\<rparr>"

definition run_checks :: "eval_env \<Rightarrow> Evaluator \<Rightarrow> EvaluationRequest \<Rightarrow> Decision" where
  "run_checks env e req =
     (let p = e_Policy e; now = ee_now env;
          d1 = check_subject_digest req (initial_decision env e req);
          d2 = check_evidence_binding req d1;
          d3 = check_revocation e req d2;
          d4 = check_quarantine e req d3;
          d5 = check_environment p req d4;
          d6 = check_provider p req d5;
          d7 = check_version p req d6;
          d8 = check_complete p req d7;
          d9 = check_passed req d8;
          d10 = check_age p now req d9;
          d11 = check_signature env e req d10;
          d12 = check_provenance env e req d11;
          d13 = check_risk p req d12
      in check_capabilities p now req d13)"

definition runtime_policy :: "eval_env \<Rightarrow> Evaluator \<Rightarrow> EvaluationRequest \<Rightarrow> Decision \<Rightarrow> RuntimePolicy" where
  "runtime_policy env e req d =
     (let r = p_Runtime (e_Policy e) in
      \<lparr>rt_SchemaVersion = ''1.0.0'', rt_ArtifactDigest = as_Digest (rq_Subject req),
       rt_DecisionID = d_DecisionID d, rt_Environment = rq_Environment req,
       rt_PolicyDigest = d_PolicyDigest d, rt_IssuedAt = ee_now env,
       rt_ExpiresAt = Time_Add (ee_now env) (24 * time_hour),
       rt_AllowedCommands = rs_AllowedCommands r,
       rt_Filesystem = \<lparr>fs_AllowWrite = rs_AllowWorkspaceWrite r, fs_AllowedPaths = []\<rparr>,
       rt_Network = \<lparr>nc_AllowNetwork = rs_AllowNetwork r, nc_AllowedEgress = []\<rparr>,
       rt_AllowedSecrets = rs_AllowedSecrets r,
       rt_AllowedTools = [], rt_AllowedMCPServers = [],
       rt_ResourceLimits =
         \<lparr>rl_MaxMemoryMB = 0, rl_MaxCPUs = 0, rl_MaxPIDs = 0, rl_MaxFDs = 0,
          rl_TimeoutSeconds = rs_TimeoutSeconds r, rl_MaxOutputBytes = rs_MaxOutputBytes r\<rparr>\<rparr>)"

definition issue_runtime_policy ::
    "eval_env \<Rightarrow> Evaluator \<Rightarrow> EvaluationRequest \<Rightarrow> Decision \<Rightarrow> Decision" where
  "issue_runtime_policy env e req d =
     (if d_Decision d = Allow then d\<lparr>d_RuntimePolicy := Some (runtime_policy env e req d)\<rparr> else d)"

definition sign_decision :: "Evaluator \<Rightarrow> Decision \<Rightarrow> Decision" where
  "sign_decision e d =
     (case e_Signer e of
        None \<Rightarrow> d
      | Some s \<Rightarrow>
          d\<lparr>d_Issuer := ds_issuer s, d_KeyID := ds_keyID s,
            d_Signature := Sign s (d_DecisionID d) (as_Digest (d_Subject d)) (d_Environment d)
                             (d_Decision d)\<rparr>)"

definition default_reason :: "Decision \<Rightarrow> Decision" where
  "default_reason d =
     (if length (d_Reasons d) = 0
      then d\<lparr>d_Reasons := [\<lparr>r_Code = ''SKGATE-ALLOW'',
               r_Message = errors_New ''all admission requirements satisfied''\<rparr>]\<rparr>
      else d)"

definition Evaluate :: "eval_env \<Rightarrow> Evaluator \<Rightarrow> EvaluationRequest \<Rightarrow> Decision" where
  "Evaluate env e req =
     default_reason (sign_decision e (issue_runtime_policy env e req (run_checks env e req)))"

section \<open>What the outcome depends on\<close>

text \<open>The conditions of the policy, stated independently of the order the checks run in.\<close>

definition revocation_blocks :: "checker option \<Rightarrow> string \<Rightarrow> string \<Rightarrow> bool" where
  "revocation_blocks c dg env \<longleftrightarrow> (\<exists>f. c = Some f \<and> f dg env \<noteq> Inr False)"

definition signature_ok :: "eval_env \<Rightarrow> Evaluator \<Rightarrow> EvaluationRequest \<Rightarrow> bool" where
  "signature_ok env e req \<longleftrightarrow>
     (let sp = p_Signatures (e_Policy e); ev = rq_Evidence req in
      sp_Required sp \<longrightarrow>
        (\<exists>b. ev_SigstoreBundle ev = Some b \<and>
           VerifySigstore (ee_crypto env) (e_Verifier e) (ee_clock env) b
             (as_Digest (rq_Subject req)) (sp_TrustedIdentities sp) = None) \<or>
        (\<exists>en t ts. ev_SigstoreBundle ev = None \<and> ev_DSSEEnvelope ev = Some en \<and>
           sp_TrustedIdentities sp = t # ts \<and> VerifyDSSE (ee_crypto env) (e_Verifier e) en t = None))"

definition provenance_ok :: "eval_env \<Rightarrow> Evaluator \<Rightarrow> EvaluationRequest \<Rightarrow> bool" where
  "provenance_ok env e req \<longleftrightarrow>
     (let ev = rq_Evidence req in
      pp_Required (p_Provenance (e_Policy e)) \<longrightarrow>
        (\<exists>a. ev_GitHubAttestation ev = Some a \<and>
           VerifyGitHubAttestation (ee_crypto env) (e_Verifier e) (ee_clock env) a
             (as_Digest (rq_Subject req)) = None) \<or>
        (\<exists>en. ev_GitHubAttestation ev = None \<and> ev_DSSEEnvelope ev = Some en \<and>
           env_PayloadType en = ''application/vnd.in-toto+json''))"

definition must_deny :: "eval_env \<Rightarrow> Evaluator \<Rightarrow> EvaluationRequest \<Rightarrow> bool" where
  "must_deny env e req \<longleftrightarrow>
     (let p = e_Policy e; ev = rq_Evidence req; dg = as_Digest (rq_Subject req) in
      ValidateSHA256 dg \<noteq> None \<or> ev_SubjectDigest ev \<noteq> dg
      \<or> revocation_blocks (e_Revocations e) dg (rq_Environment req)
      \<or> revocation_blocks (e_Quarantines e) dg (rq_Environment req)
      \<or> rq_Environment req \<notin> set (p_Environments p)
      \<or> ev_Provider ev \<noteq> ap_Provider (p_Assurance p)
      \<or> (ap_RequireComplete (p_Assurance p) \<and> \<not> ev_Complete ev)
      \<or> \<not> ev_Passed ev
      \<or> \<not> signature_ok env e req \<or> \<not> provenance_ok env e req
      \<or> riskRank (rp_Maximum (p_Risk p)) < riskRank (ev_Risk ev)
      \<or> (\<exists>cap \<in> set (ev_Capabilities ev). cap \<in> set (cp_Deny (p_Capabilities p))))"

definition must_review :: "eval_env \<Rightarrow> Evaluator \<Rightarrow> EvaluationRequest \<Rightarrow> bool" where
  "must_review env e req \<longleftrightarrow>
     (\<exists>cap \<in> set (ev_Capabilities (rq_Evidence req)).
        cap \<in> set (cp_ApprovalRequired (p_Capabilities (e_Policy e)))
        \<and> \<not> capability_approved (ee_now env) req cap)"

definition must_reassess :: "eval_env \<Rightarrow> Evaluator \<Rightarrow> EvaluationRequest \<Rightarrow> bool" where
  "must_reassess env e req \<longleftrightarrow>
     version_outdated (e_Policy e) req \<or> evidence_stale (e_Policy e) (ee_now env) req"

section \<open>Grading: how the findings combine\<close>

definition outcome_of :: "bool \<Rightarrow> bool \<Rightarrow> bool \<Rightarrow> string" where
  "outcome_of dn rv rs =
     (if dn then Deny else if rv then ReviewRequired else if rs then ReassessRequired else Allow)"

definition graded :: "bool \<Rightarrow> bool \<Rightarrow> bool \<Rightarrow> Decision \<Rightarrow> bool" where
  "graded dn rv rs d \<longleftrightarrow>
     d_Decision d = outcome_of dn rv rs \<and> (d_Reasons d = [] \<longleftrightarrow> \<not> dn \<and> \<not> rv \<and> \<not> rs)"

lemma outcome_of_Allow: "outcome_of dn rv rs = Allow \<longleftrightarrow> \<not> dn \<and> \<not> rv \<and> \<not> rs"
  by (simp add: outcome_of_def)

lemma graded_deny: "graded dn rv rs d \<Longrightarrow> graded True rv rs (deny c m d)"
  by (simp add: graded_def outcome_of_def deny_def add_reason_def)

lemma graded_review: "graded dn rv rs d \<Longrightarrow> graded dn True rs (review c m d)"
  by (auto simp: graded_def outcome_of_def review_def add_reason_def)

lemma graded_reassess: "graded dn rv rs d \<Longrightarrow> graded dn rv True (reassess c m d)"
  by (auto simp: graded_def outcome_of_def reassess_def add_reason_def)

lemma graded_deny_if:
  "graded dn rv rs d \<Longrightarrow> graded (dn \<or> b) rv rs (if b then deny c m d else d)"
  by (auto dest: graded_deny)

lemma graded_reassess_if:
  "graded dn rv rs d \<Longrightarrow> graded dn rv (rs \<or> b) (if b then reassess c m d else d)"
  by (auto dest: graded_reassess)

text \<open>A check that either denies (with some reason) or leaves the decision as it is.\<close>

definition denies_when :: "bool \<Rightarrow> (Decision \<Rightarrow> Decision) \<Rightarrow> bool" where
  "denies_when b f \<longleftrightarrow> (\<forall>d. if b then \<exists>c. c \<noteq> ''SKGATE-ALLOW'' \<and> (\<exists>m. f d = deny c m d) else f d = d)"

lemma graded_denies_when:
  assumes "denies_when b f" "graded dn rv rs d"
  shows "graded (dn \<or> b) rv rs (f d)"
proof (cases b)
  case True
  then obtain c m where "f d = deny c m d" using assms(1) unfolding denies_when_def by meson
  then show ?thesis using assms(2) True by (simp add: graded_deny)
next
  case False
  then have "f d = d" using assms(1) unfolding denies_when_def by meson
  then show ?thesis using assms(2) False by simp
qed

lemma deny_is_deny [simp]:
  "code \<noteq> ''SKGATE-ALLOW'' \<Longrightarrow> \<exists>c. c \<noteq> ''SKGATE-ALLOW'' \<and> (\<exists>m. deny code msg d = deny c m d)"
  by blast

lemma denies_subject_digest:
  "denies_when (ValidateSHA256 (as_Digest (rq_Subject req)) \<noteq> None) (check_subject_digest req)"
  by (auto simp: denies_when_def check_subject_digest_def)

lemma denies_evidence_binding:
  "denies_when (ev_SubjectDigest (rq_Evidence req) \<noteq> as_Digest (rq_Subject req)) (check_evidence_binding req)"
  by (auto simp: denies_when_def check_evidence_binding_def)

lemma denies_revocation:
  "denies_when (revocation_blocks (e_Revocations e) (as_Digest (rq_Subject req)) (rq_Environment req))
     (check_revocation e req)"
  by (auto simp: denies_when_def revocation_blocks_def check_revocation_def
      split: option.splits sum.splits)

lemma denies_quarantine:
  "denies_when (revocation_blocks (e_Quarantines e) (as_Digest (rq_Subject req)) (rq_Environment req))
     (check_quarantine e req)"
  by (auto simp: denies_when_def revocation_blocks_def check_quarantine_def
      split: option.splits sum.splits)

lemma denies_environment:
  "denies_when (rq_Environment req \<notin> set (p_Environments p)) (check_environment p req)"
  by (auto simp: denies_when_def check_environment_def SupportsEnvironment_def)

lemma denies_provider:
  "denies_when (ev_Provider (rq_Evidence req) \<noteq> ap_Provider (p_Assurance p)) (check_provider p req)"
  by (auto simp: denies_when_def check_provider_def)

lemma denies_complete:
  "denies_when (ap_RequireComplete (p_Assurance p) \<and> \<not> ev_Complete (rq_Evidence req)) (check_complete p req)"
  by (auto simp: denies_when_def check_complete_def)

lemma denies_passed: "denies_when (\<not> ev_Passed (rq_Evidence req)) (check_passed req)"
  by (auto simp: denies_when_def check_passed_def)

lemma denies_signature: "denies_when (\<not> signature_ok env e req) (check_signature env e req)"
  by (cases "sp_TrustedIdentities (p_Signatures (e_Policy e))";
      cases "ev_SigstoreBundle (rq_Evidence req)"; cases "ev_DSSEEnvelope (rq_Evidence req)")
    (auto simp: denies_when_def check_signature_def signature_ok_def Let_def split: option.splits)

lemma denies_provenance: "denies_when (\<not> provenance_ok env e req) (check_provenance env e req)"
  by (cases "ev_GitHubAttestation (rq_Evidence req)"; cases "ev_DSSEEnvelope (rq_Evidence req)")
    (auto simp: denies_when_def check_provenance_def provenance_ok_def Let_def split: option.splits)

lemma denies_risk:
  "denies_when (riskRank (rp_Maximum (p_Risk p)) < riskRank (ev_Risk (rq_Evidence req))) (check_risk p req)"
  by (auto simp: denies_when_def check_risk_def)

lemmas denies_checks = denies_subject_digest denies_evidence_binding denies_revocation
  denies_quarantine denies_environment denies_provider denies_complete denies_passed
  denies_signature denies_provenance denies_risk

lemma graded_capability:
  assumes "graded dn rv rs d"
  shows "graded (dn \<or> cap \<in> set (cp_Deny (p_Capabilities p)))
     (rv \<or> cap \<in> set (cp_ApprovalRequired (p_Capabilities p)) \<and> \<not> capability_approved now req cap) rs
     (check_capability p now req cap d)"
  unfolding check_capability_def Let_def
  using assms graded_deny graded_review [OF graded_deny [OF assms]] graded_review [OF assms]
  by (auto dest: graded_deny)

lemma graded_capability_fold:
  assumes "graded dn rv rs d"
  shows "graded (dn \<or> (\<exists>cap \<in> set caps. cap \<in> set (cp_Deny (p_Capabilities p))))
     (rv \<or> (\<exists>cap \<in> set caps. cap \<in> set (cp_ApprovalRequired (p_Capabilities p))
              \<and> \<not> capability_approved now req cap)) rs
     (fold (check_capability p now req) caps d)"
  using assms
proof (induction caps arbitrary: dn rv d)
  case (Cons c caps)
  from Cons.IH [OF graded_capability [OF Cons.prems]] show ?case
    by (simp add: disj_assoc)
qed simp

lemma graded_initial: "graded False False False (initial_decision env e req)"
  by (simp add: graded_def outcome_of_def initial_decision_def)

lemma graded_version:
  "graded dn rv rs d \<Longrightarrow> graded dn rv (rs \<or> version_outdated p req) (check_version p req d)"
  unfolding check_version_def by (rule graded_reassess_if)

lemma graded_age:
  "graded dn rv rs d \<Longrightarrow> graded dn rv (rs \<or> evidence_stale p now req) (check_age p now req d)"
  unfolding check_age_def by (rule graded_reassess_if)

lemma graded_cong: "graded a b c d \<Longrightarrow> a = a' \<Longrightarrow> b = b' \<Longrightarrow> c = c' \<Longrightarrow> graded a' b' c' d"
  by simp

lemma graded_run_checks:
  "graded (must_deny env e req) (must_review env e req) (must_reassess env e req) (run_checks env e req)"
proof -
  let ?p = "e_Policy e"
  note step = graded_denies_when
  note d1 = step [OF denies_subject_digest graded_initial, of req env e]
  note d4 = step [OF denies_quarantine [of e req] step [OF denies_revocation [of e req]
      step [OF denies_evidence_binding d1]]]
  note d7 = graded_version [OF step [OF denies_provider [where p = ?p and req = req] step [OF denies_environment [where p = ?p and req = req] d4]],
      where p = ?p and req = req]
  note d10 = graded_age [OF step [OF denies_passed step [OF denies_complete [where p = ?p and req = req] d7]], where p = ?p and now = "ee_now env" and req = req]
  note d13 = step [OF denies_risk [where p = ?p and req = req] step [OF denies_provenance step [OF denies_signature d10]]]
  show ?thesis
    unfolding run_checks_def Let_def check_capabilities_def
    by (rule graded_cong [OF graded_capability_fold [OF d13]])
      (simp only: must_deny_def Let_def, blast, unfold must_review_def must_reassess_def, blast+)
qed

section \<open>Frame: what the checks leave alone\<close>

text \<open>The checks change the outcome and append reasons; every other field keeps its value.\<close>

definition extends :: "Decision \<Rightarrow> Decision \<Rightarrow> bool" where
  "extends d d' \<longleftrightarrow>
     (\<exists>x rs. ''SKGATE-ALLOW'' \<notin> r_Code ` set rs \<and> d' = d\<lparr>d_Decision := x, d_Reasons := d_Reasons d @ rs\<rparr>)"

lemma extends_refl [simp]: "extends d d"
  unfolding extends_def by (rule exI [of _ "d_Decision d"], rule exI [of _ "[]"]) simp

lemma extends_trans:
  assumes "extends d1 d2" "extends d2 d3"
  shows "extends d1 d3"
proof -
  obtain x rs where 2: "d2 = d1\<lparr>d_Decision := x, d_Reasons := d_Reasons d1 @ rs\<rparr>"
    "''SKGATE-ALLOW'' \<notin> r_Code ` set rs"
    using assms(1) unfolding extends_def by blast
  obtain y ss where 3: "d3 = d2\<lparr>d_Decision := y, d_Reasons := d_Reasons d2 @ ss\<rparr>"
    "''SKGATE-ALLOW'' \<notin> r_Code ` set ss"
    using assms(2) unfolding extends_def by blast
  have "d3 = d1\<lparr>d_Decision := y, d_Reasons := d_Reasons d1 @ (rs @ ss)\<rparr>"
    by (simp add: 3(1)) (simp add: 2(1))
  moreover have "''SKGATE-ALLOW'' \<notin> r_Code ` set (rs @ ss)" using 2(2) 3(2) by auto
  ultimately show ?thesis unfolding extends_def by blast
qed

lemma extends_add_reason:
  "c \<noteq> ''SKGATE-ALLOW'' \<Longrightarrow> extends d (add_reason c m (d\<lparr>d_Decision := x\<rparr>))"
  unfolding extends_def add_reason_def
  by (rule exI [of _ x], rule exI [of _ "[\<lparr>r_Code = c, r_Message = m\<rparr>]"]) simp

lemma extends_deny [simp]: "c \<noteq> ''SKGATE-ALLOW'' \<Longrightarrow> extends d (deny c m d)"
  unfolding deny_def by (rule extends_add_reason)

lemma extends_review [simp]: "c \<noteq> ''SKGATE-ALLOW'' \<Longrightarrow> extends d (review c m d)"
  unfolding review_def using extends_add_reason [of c d m "d_Decision d"] extends_add_reason by simp

lemma extends_reassess [simp]: "c \<noteq> ''SKGATE-ALLOW'' \<Longrightarrow> extends d (reassess c m d)"
  unfolding reassess_def using extends_add_reason [of c d m "d_Decision d"] extends_add_reason by simp

lemma extends_denies: "denies_when b f \<Longrightarrow> extends d (f d)"
  unfolding denies_when_def by (metis extends_deny extends_refl)

lemma extends_version [simp]: "extends d (check_version p req d)"
  by (simp add: check_version_def)

lemma extends_age [simp]: "extends d (check_age p now req d)"
  by (simp add: check_age_def)

lemma extends_capabilities [simp]: "extends d (check_capabilities p now req d)"
proof -
  have "extends d (check_capability p now req cap d)" for cap d
    unfolding check_capability_def Let_def
    by (auto intro: extends_trans [OF extends_deny extends_review])
  then have "extends d (fold (check_capability p now req) caps d)" for caps
    by (induction caps arbitrary: d) (auto intro: extends_trans)
  then show ?thesis by (simp add: check_capabilities_def)
qed

text \<open>Backward steps through a chain of checks.\<close>

lemmas extends_chain = extends_refl
  denies_checks [THEN extends_denies, THEN extends_trans [rotated]]
  extends_version [THEN extends_trans [rotated]] extends_age [THEN extends_trans [rotated]]
  extends_capabilities [THEN extends_trans [rotated]]

lemma extends_revocation_quarantine:
  "\<exists>d. extends (check_revocation e req d) (run_checks env e req)"
  "\<exists>d. extends (check_quarantine e req d) (run_checks env e req)"
  unfolding run_checks_def Let_def by (rule exI, (rule extends_chain)+)+

lemma extends_run_checks: "extends (initial_decision env e req) (run_checks env e req)"
  unfolding run_checks_def Let_def by (rule extends_chain)+

lemma extends_fields:
  assumes "extends d d'"
  shows "d_DecisionID d' = d_DecisionID d" "d_Subject d' = d_Subject d"
    "d_Environment d' = d_Environment d" "d_PolicyDigest d' = d_PolicyDigest d"
    "d_EvaluatedAt d' = d_EvaluatedAt d" "d_ExpiresAt d' = d_ExpiresAt d"
    "d_RuntimePolicy d' = d_RuntimePolicy d" "d_PolicyName d' = d_PolicyName d"
    "set (d_Reasons d) \<subseteq> set (d_Reasons d')"
    "''SKGATE-ALLOW'' \<notin> r_Code ` set (d_Reasons d) \<Longrightarrow> ''SKGATE-ALLOW'' \<notin> r_Code ` set (d_Reasons d')"
  using assms by (auto simp: extends_def)

lemma run_checks_fields [simp]:
  "d_DecisionID (run_checks env e req) = newID env"
  "d_Subject (run_checks env e req) = rq_Subject req"
  "d_Environment (run_checks env e req) = rq_Environment req"
  "d_PolicyDigest (run_checks env e req) = policyDigest env (e_Policy e)"
  "d_EvaluatedAt (run_checks env e req) = ee_now env"
  "d_ExpiresAt (run_checks env e req) = Time_Add (ee_now env) (24 * time_hour)"
  "d_RuntimePolicy (run_checks env e req) = None"
  using extends_fields [OF extends_run_checks [of env e req]]
  by (simp_all add: initial_decision_def)

lemma run_checks_outcome [simp]:
  "d_Decision (run_checks env e req)
     = outcome_of (must_deny env e req) (must_review env e req) (must_reassess env e req)"
  using graded_run_checks by (simp add: graded_def)

lemma run_checks_reasons:
  "d_Reasons (run_checks env e req) = []
     \<longleftrightarrow> \<not> must_deny env e req \<and> \<not> must_review env e req \<and> \<not> must_reassess env e req"
  using graded_run_checks [of env e req] by (simp add: graded_def)

text \<open>The decision \<open>Evaluate\<close> returns, field by field.\<close>

lemma Evaluate_fields [simp]:
  "d_Decision (Evaluate env e req) = d_Decision (run_checks env e req)"
  "d_DecisionID (Evaluate env e req) = newID env"
  "d_Subject (Evaluate env e req) = rq_Subject req"
  "d_Environment (Evaluate env e req) = rq_Environment req"
  "d_PolicyDigest (Evaluate env e req) = policyDigest env (e_Policy e)"
  "d_EvaluatedAt (Evaluate env e req) = ee_now env"
  "d_ExpiresAt (Evaluate env e req) = Time_Add (ee_now env) (24 * time_hour)"
  by (simp_all add: Evaluate_def default_reason_def sign_decision_def issue_runtime_policy_def
      split: option.splits)

lemma Evaluate_runtime:
  "d_RuntimePolicy (Evaluate env e req) =
     (if d_Decision (run_checks env e req) = Allow
      then Some (runtime_policy env e req (run_checks env e req)) else None)"
  by (simp add: Evaluate_def default_reason_def sign_decision_def issue_runtime_policy_def
      split: option.splits del: run_checks_outcome)

lemma Evaluate_reasons:
  "d_Reasons (Evaluate env e req) =
     (if d_Reasons (run_checks env e req) = []
      then [\<lparr>r_Code = ''SKGATE-ALLOW'', r_Message = errors_New ''all admission requirements satisfied''\<rparr>]
      else d_Reasons (run_checks env e req))"
  by (simp add: Evaluate_def default_reason_def sign_decision_def issue_runtime_policy_def
      split: option.splits)

lemma Evaluate_signature:
  "e_Signer e = Some s \<Longrightarrow>
     d_Signature (Evaluate env e req)
       = Sign s (newID env) (as_Digest (rq_Subject req)) (rq_Environment req)
           (d_Decision (Evaluate env e req))
     \<and> d_Issuer (Evaluate env e req) = ds_issuer s \<and> d_KeyID (Evaluate env e req) = ds_keyID s"
  by (simp add: Evaluate_def default_reason_def sign_decision_def issue_runtime_policy_def)

section \<open>A concrete evaluation\<close>

definition sample_digest :: string where
  "sample_digest = ''sha256:'' @ replicate 64 CHR ''a''"

definition sample_evidence :: Evidence where
  "sample_evidence =
     \<lparr>ev_SchemaVersion = ''1.0.0'', ev_SubjectDigest = sample_digest, ev_EvidenceDigest = [],
      ev_Status = EvidencePass, ev_Provider = ''skil'', ev_ProviderVersion = ''0.6.0'',
      ev_CompletedAt = 1, ev_Complete = True, ev_Passed = True, ev_SignatureVerified = False,
      ev_SignerIdentity = [], ev_ProvenanceVerified = False, ev_Risk = ''low'',
      ev_Capabilities = [''filesystem_write''], ev_DSSEEnvelope = None,
      ev_SigstoreBundle = None, ev_GitHubAttestation = None\<rparr>"

definition sample_approval :: ApprovalRecord where
  "sample_approval =
     \<lparr>ar_ApprovalID = ''a1'', ar_SubjectDigest = sample_digest, ar_Environment = ''production'',
      ar_Capability = ''filesystem_write'', ar_ApprovedBy = ''alice'', ar_ApprovedAt = 1,
      ar_ExpiresAt = 0, ar_PolicyDigest = [], ar_Signature = []\<rparr>"

definition sample_request :: EvaluationRequest where
  "sample_request =
     \<lparr>rq_Subject = \<lparr>as_Name = ''tool'', as_Version = ''1.0.0'', as_Digest = sample_digest\<rparr>,
      rq_Environment = ''production'', rq_Evidence = sample_evidence,
      rq_Approvals = [], rq_ApprovalRecords = [sample_approval]\<rparr>"

definition sample_env :: eval_env where
  "sample_env = \<lparr>ee_now = 2, ee_clock = 2, ee_random = Some (replicate 12 CHR 0x01),
     ee_crypto = no_crypto, ee_marshal = (\<lambda>_. ''{}'')\<rparr>"

lemma sample_digest_valid: "ValidateSHA256 sample_digest = None"
  unfolding ValidateSHA256_iff sample_digest_def
  by (rule exI [of _ "replicate 64 CHR ''a''"]) (simp add: is_hex_def fromHexChar_def list_all_iff less_eq_char_def)

lemma riskRank_low_medium [simp]: "riskRank ''low'' = 1" "riskRank ''medium'' = 2"
  by (simp_all add: riskRank_def Let_def lower_byte_def less_eq_char_def)

lemma Compare_self [simp]: "Compare v v = 0"
  by (simp add: Compare_eq_iff)

lemma sample_not_outdated: "\<not> version_outdated sample_policy sample_request"
  by (simp add: version_outdated_def version_or_zero_def sample_policy_def sample_request_def
      sample_evidence_def Parse_060)

lemma sample_not_stale: "\<not> evidence_stale sample_policy 2 sample_request"
  by (simp add: evidence_stale_def sample_policy_def sample_request_def sample_evidence_def
      duration_or_zero_def ParseDuration_168h time_defs)

lemmas sample_defs = sample_request_def sample_evidence_def sample_approval_def sample_policy_def
  sample_env_def

lemma sample_approved: "capability_approved 2 sample_request ''filesystem_write''"
  by (simp add: capability_approved_def record_approves_def sample_request_def sample_approval_def
      time_defs)

lemma sample_graded:
  "\<not> must_deny sample_env (evaluator_New sample_policy) sample_request"
  "\<not> must_review sample_env (evaluator_New sample_policy) sample_request"
  "\<not> must_reassess sample_env (evaluator_New sample_policy) sample_request"
proof -
  have "signature_ok sample_env (evaluator_New sample_policy) sample_request"
    "provenance_ok sample_env (evaluator_New sample_policy) sample_request"
    by (simp_all add: signature_ok_def provenance_ok_def evaluator_New_def sample_policy_def)
  then show "\<not> must_deny sample_env (evaluator_New sample_policy) sample_request"
    unfolding must_deny_def Let_def
    by (simp add: evaluator_New_def revocation_blocks_def sample_digest_valid)
      (simp add: sample_defs sample_digest_valid)
  show "\<not> must_review sample_env (evaluator_New sample_policy) sample_request"
    using sample_approved
    by (simp add: must_review_def evaluator_New_def)
      (simp add: sample_env_def, simp add: sample_request_def sample_evidence_def)
  show "\<not> must_reassess sample_env (evaluator_New sample_policy) sample_request"
    using sample_not_outdated sample_not_stale
    by (simp add: must_reassess_def evaluator_New_def sample_env_def)
qed

lemma sample_allowed: "d_Decision (Evaluate sample_env (evaluator_New sample_policy) sample_request) = Allow"
  using sample_graded by (simp add: outcome_of_def)

section \<open>Properties\<close>

text \<open>
  C1. The outcome of an evaluation: DENY when a denying condition holds, otherwise
  REVIEW_REQUIRED when a declared capability lacks its approval, otherwise REASSESS_REQUIRED
  when the assurance is outdated or stale, and ALLOW only when none of these holds; so
  the order in which the checks meet their conditions does not matter.
\<close>

theorem Evaluate_outcome:
  "d_Decision (Evaluate env e req) =
     (if must_deny env e req then Deny
      else if must_review env e req then ReviewRequired
      else if must_reassess env e req then ReassessRequired
      else Allow)"
  by (simp add: outcome_of_def)

text \<open>
  C2. Failing closed: when the revocation (quarantine) lookup fails or reports the digest,
  the decision is DENY, whatever else the request says, with the reason that tells which,
  and no runtime policy is issued.
\<close>

theorem Evaluate_fails_closed:
  assumes "e_Revocations e = Some f \<and> f (as_Digest (rq_Subject req)) (rq_Environment req) = Inl err \<and>
             code = ''SKGATE-REVOCATION-STATE-UNAVAILABLE''
         \<or> e_Revocations e = Some f \<and> f (as_Digest (rq_Subject req)) (rq_Environment req) = Inr True \<and>
             code = ''SKGATE-DIGEST-REVOKED''
         \<or> e_Quarantines e = Some f \<and> f (as_Digest (rq_Subject req)) (rq_Environment req) = Inl err \<and>
             code = ''SKGATE-QUARANTINE-STATE-UNAVAILABLE''
         \<or> e_Quarantines e = Some f \<and> f (as_Digest (rq_Subject req)) (rq_Environment req) = Inr True \<and>
             code = ''SKGATE-DIGEST-QUARANTINED''"
  shows "d_Decision (Evaluate env e req) = Deny
       \<and> code \<in> r_Code ` set (d_Reasons (Evaluate env e req))
       \<and> d_RuntimePolicy (Evaluate env e req) = None"
proof -
  have deny: "must_deny env e req"
    using assms unfolding must_deny_def Let_def revocation_blocks_def by auto
  have "code \<in> r_Code ` set (d_Reasons (check_revocation e req d))
      \<or> code \<in> r_Code ` set (d_Reasons (check_quarantine e req d'))" for d d'
    using assms by (auto simp: check_revocation_def check_quarantine_def deny_def add_reason_def)
  then have "code \<in> r_Code ` set (d_Reasons (run_checks env e req))"
    using extends_revocation_quarantine [of e req env] extends_fields(9)
    by (meson image_mono subsetD)
  then show ?thesis
    using deny by (auto simp: Evaluate_reasons Evaluate_runtime outcome_of_def)
qed

theorem Evaluate_fails_closed_witness:
  "d_Decision (Evaluate sample_env
      ((evaluator_New sample_policy)\<lparr>e_Revocations := Some (\<lambda>_ _. Inl (errors_New ''unreachable''))\<rparr>)
      sample_request) = Deny"
  using Evaluate_fails_closed
    [of "(evaluator_New sample_policy)\<lparr>e_Revocations := Some (\<lambda>_ _. Inl (errors_New ''unreachable''))\<rparr>"
        "\<lambda>_ _. Inl (errors_New ''unreachable'')" sample_request "errors_New ''unreachable''"
        "''SKGATE-REVOCATION-STATE-UNAVAILABLE''" sample_env]
  by simp

lemma riskRank_cases:
  "riskRank r \<in> {1, 2, 3, 4} \<longleftrightarrow> ToLower r \<in> {''low'', ''medium'', ''high'', ''critical''}"
  by (simp add: riskRank_def Let_def)

lemma riskRank_known: "riskRank r \<le> 4 \<longleftrightarrow> ToLower r \<in> {''low'', ''medium'', ''high'', ''critical''}"
  by (simp add: riskRank_def Let_def)

text \<open>
  C3. What ALLOW means under a policy that passed validation: the digest is well formed and
  the evidence is bound to it, the environment and the provider are the policy's, the
  provider's version is at least the minimum, the risk is one of the four known levels and
  not above the maximum, no capability is denied and each that needs approval has it, and
  neither store blocks the digest.
\<close>

theorem Evaluate_ALLOW_guarantees:
  assumes "Validate (e_Policy e) = None" "d_Decision (Evaluate env e req) = Allow"
  shows "ValidateSHA256 (as_Digest (rq_Subject req)) = None
    \<and> ev_SubjectDigest (rq_Evidence req) = as_Digest (rq_Subject req)
    \<and> rq_Environment req \<in> set (p_Environments (e_Policy e))
    \<and> ev_Provider (rq_Evidence req) = ap_Provider (p_Assurance (e_Policy e))
    \<and> (\<exists>v m. Parse (ev_ProviderVersion (rq_Evidence req)) = Inr v
              \<and> Parse (ap_MinimumVersion (p_Assurance (e_Policy e))) = Inr m \<and> m \<le> v)
    \<and> ToLower (ev_Risk (rq_Evidence req)) \<in> {''low'', ''medium'', ''high'', ''critical''}
    \<and> riskRank (ev_Risk (rq_Evidence req)) \<le> riskRank (rp_Maximum (p_Risk (e_Policy e)))
    \<and> (\<forall>cap \<in> set (ev_Capabilities (rq_Evidence req)).
          cap \<notin> set (cp_Deny (p_Capabilities (e_Policy e)))
          \<and> (cap \<in> set (cp_ApprovalRequired (p_Capabilities (e_Policy e)))
               \<longrightarrow> capability_approved (ee_now env) req cap))
    \<and> \<not> revocation_blocks (e_Revocations e) (as_Digest (rq_Subject req)) (rq_Environment req)
    \<and> \<not> revocation_blocks (e_Quarantines e) (as_Digest (rq_Subject req)) (rq_Environment req)"
proof -
  have no: "\<not> must_deny env e req" "\<not> must_review env e req" "\<not> must_reassess env e req"
    using assms(2) by (simp_all add: outcome_of_Allow)
  obtain m where m: "Parse (ap_MinimumVersion (p_Assurance (e_Policy e))) = Inr m"
    using Validate_NoneD(1) [OF assms(1)] by (auto simp: is_ok_iff)
  then obtain v where v: "Parse (ev_ProviderVersion (rq_Evidence req)) = Inr v" "\<not> Compare v m < 0"
    using no(3)
    by (auto simp: must_reassess_def version_outdated_def version_or_zero_def split: sum.splits)
  then have le: "m \<le> v" by (simp add: Compare_neg_iff)
  have rk: "riskRank (ev_Risk (rq_Evidence req)) \<le> riskRank (rp_Maximum (p_Risk (e_Policy e)))"
    using no(1) unfolding must_deny_def Let_def by auto
  moreover have "riskRank (rp_Maximum (p_Risk (e_Policy e))) \<le> 4"
    using Validate_NoneD(3) [OF assms(1)] riskRank_known by blast
  ultimately have "ToLower (ev_Risk (rq_Evidence req)) \<in> {''low'', ''medium'', ''high'', ''critical''}"
    using riskRank_known [of "ev_Risk (rq_Evidence req)"] by linarith
  then show ?thesis
    using no(1,2) rk m v(1) le unfolding must_deny_def must_review_def Let_def by blast
qed

theorem Evaluate_ALLOW_guarantees_witness:
  "d_Decision (Evaluate sample_env (evaluator_New sample_policy) sample_request) = Allow
   \<and> riskRank (ev_Risk sample_evidence) \<le> riskRank (rp_Maximum (p_Risk sample_policy))"
  using sample_allowed
    Evaluate_ALLOW_guarantees [of "evaluator_New sample_policy" sample_env sample_request]
    sample_policy_valid
  by (simp add: evaluator_New_def sample_request_def del: Evaluate_fields(1))

text \<open>
  C4. Signatures: under a valid policy that requires them, ALLOW means that either a
  Sigstore bundle's signature over the requested digest verifies under a certificate the
  evaluator's roots accept and one of whose identities the policy trusts, or a DSSE
  envelope carries a signature under the first trusted identity taken as a public key.
\<close>

theorem Evaluate_ALLOW_signed:
  assumes "Validate (e_Policy e) = None" "sp_Required (p_Signatures (e_Policy e))"
    "d_Decision (Evaluate env e req) = Allow"
  shows "(\<exists>b cert. ev_SigstoreBundle (rq_Evidence req) = Some b
             \<and> sigstore_certified (ee_crypto env) (e_Verifier e) (ee_clock env) b cert
             \<and> verifySignature (ee_crypto env) (cert_PublicKey cert)
                 (artifact_bytes (as_Digest (rq_Subject req))) (signature_bytes (sb_Signature b)) = None
             \<and> any_identity (cert_identities cert) (sp_TrustedIdentities (p_Signatures (e_Policy e))))
       \<or> (\<exists>en key s. ev_DSSEEnvelope (rq_Evidence req) = Some en
             \<and> parsePublicKeyPEM (ee_crypto env) (hd (sp_TrustedIdentities (p_Signatures (e_Policy e)))) = Inr key
             \<and> s \<in> set (env_Signatures en)
             \<and> verifySignature (ee_crypto env) key
                 (Sum256 (dsse_preimage (env_PayloadType en) (payload_bytes en)))
                 (signature_bytes (sig_Sig s)) = None)"
proof -
  have trusted: "sp_TrustedIdentities (p_Signatures (e_Policy e)) \<noteq> []"
    using Validate_NoneD(2) [OF assms(1,2)] .
  have "signature_ok env e req"
    using assms(3) by (simp add: outcome_of_Allow must_deny_def Let_def)
  then consider
      (sigstore) b where "ev_SigstoreBundle (rq_Evidence req) = Some b"
        "VerifySigstore (ee_crypto env) (e_Verifier e) (ee_clock env) b (as_Digest (rq_Subject req))
           (sp_TrustedIdentities (p_Signatures (e_Policy e))) = None"
    | (dsse) en t ts where "ev_DSSEEnvelope (rq_Evidence req) = Some en"
        "sp_TrustedIdentities (p_Signatures (e_Policy e)) = t # ts"
        "VerifyDSSE (ee_crypto env) (e_Verifier e) en t = None"
    using assms(2) unfolding signature_ok_def Let_def by blast
  then show ?thesis
  proof cases
    case sigstore
    then show ?thesis using VerifySigstore_trusted [OF sigstore(2) trusted] sigstore(1) by blast
  next
    case dsse
    then show ?thesis unfolding VerifyDSSE_iff by auto
  qed
qed

text \<open>
  C23. The runtime policy is issued exactly with ALLOW, and it binds the decision: same id,
  artifact digest, environment and policy digest, an expiry 24 hours after the evaluation,
  and the limits of the policy's runtime section and nothing beyond them (no paths, no
  egress rules, no tools, no MCP servers).
\<close>

theorem Evaluate_runtime_policy:
  "case d_RuntimePolicy (Evaluate env e req) of
     None \<Rightarrow> d_Decision (Evaluate env e req) \<noteq> Allow
   | Some r \<Rightarrow> d_Decision (Evaluate env e req) = Allow
       \<and> rt_DecisionID r = d_DecisionID (Evaluate env e req)
       \<and> rt_ArtifactDigest r = as_Digest (rq_Subject req)
       \<and> rt_Environment r = rq_Environment req
       \<and> rt_PolicyDigest r = d_PolicyDigest (Evaluate env e req)
       \<and> rt_ExpiresAt r = d_ExpiresAt (Evaluate env e req)
       \<and> rt_ExpiresAt r - rt_IssuedAt r = 24 * time_hour
       \<and> rt_AllowedCommands r = rs_AllowedCommands (p_Runtime (e_Policy e))
       \<and> rt_AllowedSecrets r = rs_AllowedSecrets (p_Runtime (e_Policy e))
       \<and> fs_AllowWrite (rt_Filesystem r) = rs_AllowWorkspaceWrite (p_Runtime (e_Policy e))
       \<and> nc_AllowNetwork (rt_Network r) = rs_AllowNetwork (p_Runtime (e_Policy e))
       \<and> rl_TimeoutSeconds (rt_ResourceLimits r) = rs_TimeoutSeconds (p_Runtime (e_Policy e))
       \<and> rl_MaxOutputBytes (rt_ResourceLimits r) = rs_MaxOutputBytes (p_Runtime (e_Policy e))
       \<and> fs_AllowedPaths (rt_Filesystem r) = [] \<and> nc_AllowedEgress (rt_Network r) = []
       \<and> rt_AllowedTools r = [] \<and> rt_AllowedMCPServers r = []"
  by (simp add: Evaluate_runtime runtime_policy_def Let_def Time_Add_def del: run_checks_outcome)

text \<open>
  Every decision says why: there is always a reason, and the decision is ALLOW exactly
  when the only reason is SKGATE-ALLOW.
\<close>

theorem Evaluate_reasons_exact:
  "d_Reasons (Evaluate env e req) \<noteq> []
   \<and> (d_Decision (Evaluate env e req) = Allow
       \<longleftrightarrow> d_Reasons (Evaluate env e req)
             = [\<lparr>r_Code = ''SKGATE-ALLOW'',
                 r_Message = errors_New ''all admission requirements satisfied''\<rparr>])"
proof -
  have "''SKGATE-ALLOW'' \<notin> r_Code ` set (d_Reasons (run_checks env e req))"
    by (rule extends_fields(10) [OF extends_run_checks]) (simp add: initial_decision_def)
  then have "d_Reasons (run_checks env e req) \<noteq>
      [\<lparr>r_Code = ''SKGATE-ALLOW'', r_Message = errors_New ''all admission requirements satisfied''\<rparr>]"
    by auto
  then show ?thesis
    by (simp add: Evaluate_reasons run_checks_reasons outcome_of_Allow)
qed

definition signed_policy :: Policy where
  "signed_policy =
     sample_policy\<lparr>p_Signatures := \<lparr>sp_Required = True, sp_TrustedIdentities = [''ci@example.com'']\<rparr>\<rparr>"

definition signed_request :: EvaluationRequest where
  "signed_request =
     sample_request\<lparr>rq_Evidence := sample_evidence\<lparr>ev_SigstoreBundle := Some sample_bundle\<rparr>\<rparr>"

definition signed_env :: eval_env where
  "signed_env = sample_env\<lparr>ee_crypto := open_crypto sample_cert\<rparr>"

lemma signed_policy_valid: "Validate signed_policy = None"
  using sample_policy_valid unfolding Validate_iff policy_wf_def
  by (simp add: signed_policy_def)

lemma signed_allowed: "d_Decision (Evaluate signed_env (evaluator_New signed_policy) signed_request) = Allow"
proof -
  have "VerifySigstore (open_crypto sample_cert) NewVerifier 2 sample_bundle sample_digest
      [''ci@example.com''] = None"
    by (simp add: VerifySigstore_def sigstore_material_def parseCertificatePEM_def open_crypto_def
        sample_bundle_def sample_cert_def no_crypto_def NewVerifier_def sigstore_chain_error_def
        NewTrustRoots_def verifySignature_def cert_identities_def any_identity_def matchIdentity_def
        Before_def After_def)
  then have "signature_ok signed_env (evaluator_New signed_policy) signed_request"
    "provenance_ok signed_env (evaluator_New signed_policy) signed_request"
    by (simp_all add: signature_ok_def provenance_ok_def evaluator_New_def signed_policy_def
        signed_request_def signed_env_def sample_env_def sample_request_def sample_policy_def)
  then have "\<not> must_deny signed_env (evaluator_New signed_policy) signed_request"
    unfolding must_deny_def Let_def
    by (simp add: evaluator_New_def revocation_blocks_def)
      (simp add: signed_policy_def signed_request_def sample_defs sample_digest_valid)
  moreover have "\<not> must_review signed_env (evaluator_New signed_policy) signed_request"
    by (simp add: must_review_def evaluator_New_def capability_approved_def record_approves_def
        signed_policy_def signed_request_def signed_env_def sample_defs time_defs)
  moreover have "\<not> must_reassess signed_env (evaluator_New signed_policy) signed_request"
    by (simp add: must_reassess_def evaluator_New_def version_outdated_def version_or_zero_def
        evidence_stale_def duration_or_zero_def ParseDuration_168h Parse_060
        signed_policy_def signed_request_def signed_env_def sample_defs time_defs)
  ultimately show ?thesis by (simp add: outcome_of_def)
qed

theorem Evaluate_ALLOW_signed_witness:
  "\<exists>b cert. ev_SigstoreBundle (rq_Evidence signed_request) = Some b
     \<and> sigstore_certified (open_crypto sample_cert) NewVerifier 2 b cert"
proof -
  have "ev_DSSEEnvelope (rq_Evidence signed_request) = None"
    by (simp add: signed_request_def sample_evidence_def)
  then show ?thesis
    using Evaluate_ALLOW_signed [of "evaluator_New signed_policy" signed_env signed_request]
      signed_policy_valid signed_allowed
    by (auto simp: evaluator_New_def signed_policy_def signed_env_def sample_env_def
        simp del: Evaluate_fields(1))
qed

text \<open>
  C32. Freshness: with a maximum age written as N hours, ALLOW means that the evidence has a
  completion time and that it lies at most N hours before the evaluation (there is no bound
  on completion times in the future).
\<close>

theorem Evaluate_ALLOW_fresh:
  assumes "ap_MaximumAge (p_Assurance (e_Policy e)) = show_nat n @ ''h''"
    "n * 3600000000000 < 2 ^ 63 - 1"
    "d_Decision (Evaluate env e req) = Allow"
  shows "ev_CompletedAt (rq_Evidence req) \<noteq> time_zero
       \<and> ee_now env - ev_CompletedAt (rq_Evidence req) \<le> int n * time_hour"
proof -
  have dur: "duration_or_zero (show_nat n @ ''h'') = int n * time_hour"
    using assms(2) by (simp add: duration_or_zero_def ParseDuration_hours)
  have fresh: "\<not> evidence_stale (e_Policy e) (ee_now env) req"
    using assms(3) by (simp add: outcome_of_Allow must_reassess_def)
  have small: "min_int64 \<le> int n * time_hour" "int n * time_hour < max_int64"
    using assms(2) by (simp_all add: time_defs)
  from fresh have "ev_CompletedAt (rq_Evidence req) \<noteq> time_zero"
    "Time_Sub (ee_now env) (ev_CompletedAt (rq_Evidence req)) \<le> int n * time_hour"
    by (auto simp: evidence_stale_def assms(1) dur IsZero_def)
  then show ?thesis using Time_Sub_le_iff [OF small] by blast
qed

theorem Evaluate_ALLOW_fresh_witness:
  "ev_CompletedAt sample_evidence \<noteq> time_zero \<and> 2 - ev_CompletedAt sample_evidence \<le> 168 * time_hour"
proof -
  have "show_nat 168 = ''168''" by (simp add: show_nat_eval)
  then show ?thesis
    using Evaluate_ALLOW_fresh [of "evaluator_New sample_policy" 168 sample_env sample_request]
      sample_allowed
    by (simp add: evaluator_New_def sample_policy_def sample_env_def sample_request_def
        del: Evaluate_fields(1))
qed

text \<open>
  Approvals can be self-asserted: naming a capability in the request's \<open>approvals\<close> list
  is enough. The same request with its own capabilities listed there is never held for
  review; all other conditions are unchanged.
\<close>

theorem Evaluate_self_approval:
  "d_Decision (Evaluate env e (req\<lparr>rq_Approvals := ev_Capabilities (rq_Evidence req)\<rparr>))
     = (if must_deny env e req then Deny
        else if must_reassess env e req then ReassessRequired else Allow)"
proof -
  let ?r = "req\<lparr>rq_Approvals := ev_Capabilities (rq_Evidence req)\<rparr>"
  have "must_deny env e ?r = must_deny env e req" "must_reassess env e ?r = must_reassess env e req"
    by (simp_all add: must_deny_def must_reassess_def signature_ok_def provenance_ok_def
        version_outdated_def evidence_stale_def)
  moreover have "\<not> must_review env e ?r"
    by (auto simp: must_review_def capability_approved_def)
  ultimately show ?thesis by (simp add: outcome_of_def)
qed

text \<open>
  Provenance by DSSE is not verified: when the policy requires provenance but not
  signatures, replacing the envelope's payload and signatures by anything, with the same
  payload type, gives the same decision.
\<close>

theorem provenance_DSSE_unverified:
  assumes "\<not> sp_Required (p_Signatures (e_Policy e))"
    "ev_DSSEEnvelope (rq_Evidence req) = Some en" "env_PayloadType en' = env_PayloadType en"
  shows "Evaluate env e (req\<lparr>rq_Evidence := (rq_Evidence req)\<lparr>ev_DSSEEnvelope := Some en'\<rparr>\<rparr>)
           = Evaluate env e req"
proof -
  let ?r = "req\<lparr>rq_Evidence := (rq_Evidence req)\<lparr>ev_DSSEEnvelope := Some en'\<rparr>\<rparr>"
  have checks: "check_subject_digest ?r = check_subject_digest req"
    "check_evidence_binding ?r = check_evidence_binding req"
    "check_revocation e ?r = check_revocation e req"
    "check_quarantine e ?r = check_quarantine e req"
    "check_environment (e_Policy e) ?r = check_environment (e_Policy e) req"
    "check_provider (e_Policy e) ?r = check_provider (e_Policy e) req"
    "check_version (e_Policy e) ?r = check_version (e_Policy e) req"
    "check_complete (e_Policy e) ?r = check_complete (e_Policy e) req"
    "check_passed ?r = check_passed req"
    "check_age (e_Policy e) (ee_now env) ?r = check_age (e_Policy e) (ee_now env) req"
    "check_signature env e ?r = check_signature env e req"
    "check_provenance env e ?r = check_provenance env e req"
    "check_risk (e_Policy e) ?r = check_risk (e_Policy e) req"
    using assms
    by (simp_all add: fun_eq_iff check_subject_digest_def check_evidence_binding_def
        check_revocation_def check_quarantine_def check_environment_def check_provider_def
        check_version_def version_outdated_def check_complete_def check_passed_def check_age_def
        evidence_stale_def check_signature_def check_provenance_def check_risk_def
        cong: option.case_cong sum.case_cong)
  have cap: "check_capability (e_Policy e) (ee_now env) ?r = check_capability (e_Policy e) (ee_now env) req"
    by (simp add: fun_eq_iff check_capability_def capability_approved_def record_approves_def)
  have "run_checks env e ?r = run_checks env e req"
    unfolding run_checks_def Let_def checks
    by (simp add: check_capabilities_def cap initial_decision_def)
  then show ?thesis
    by (simp add: Evaluate_def issue_runtime_policy_def runtime_policy_def)
qed

definition in_toto_envelope :: "string \<Rightarrow> DSSESignature list \<Rightarrow> DSSEEnvelope" where
  "in_toto_envelope payload sigs =
     \<lparr>env_Payload = payload, env_PayloadType = ''application/vnd.in-toto+json'', env_Signatures = sigs\<rparr>"

theorem provenance_DSSE_unverified_witness:
  "Evaluate sample_env
     (evaluator_New (sample_policy\<lparr>p_Provenance := \<lparr>pp_Required = True\<rparr>\<rparr>))
     (sample_request\<lparr>rq_Evidence := sample_evidence\<lparr>ev_DSSEEnvelope := Some (in_toto_envelope [] [])\<rparr>\<rparr>)
   = Evaluate sample_env
     (evaluator_New (sample_policy\<lparr>p_Provenance := \<lparr>pp_Required = True\<rparr>\<rparr>))
     (sample_request\<lparr>rq_Evidence := sample_evidence\<lparr>ev_DSSEEnvelope :=
        Some (in_toto_envelope ''e30='' [\<lparr>sig_KeyID = [], sig_Sig = ''00''\<rparr>])\<rparr>\<rparr>)"
  using provenance_DSSE_unverified
    [of "evaluator_New (sample_policy\<lparr>p_Provenance := \<lparr>pp_Required = True\<rparr>\<rparr>)"
        "sample_request\<lparr>rq_Evidence := sample_evidence\<lparr>ev_DSSEEnvelope :=
           Some (in_toto_envelope ''e30='' [\<lparr>sig_KeyID = [], sig_Sig = ''00''\<rparr>])\<rparr>\<rparr>"
        "in_toto_envelope ''e30='' [\<lparr>sig_KeyID = [], sig_Sig = ''00''\<rparr>]" "in_toto_envelope [] []" sample_env]
  by (simp add: evaluator_New_def sample_policy_def in_toto_envelope_def)

text \<open>
  A decision issued with a signer verifies under that signer, and names its issuer and
  key; with an empty secret the signature is empty and does not verify.
\<close>

theorem Evaluate_signed_by_signer:
  assumes "e_Signer e = Some s"
  shows "let d = Evaluate env e req in
    d_Issuer d = ds_issuer s \<and> d_KeyID d = ds_keyID s
    \<and> (Verify s (d_DecisionID d) (as_Digest (d_Subject d)) (d_Environment d) (d_Decision d) (d_Signature d)
         \<longleftrightarrow> ds_secret s \<noteq> [])"
  using Evaluate_signature [OF assms, of env req]
  by (simp add: Let_def Verify_def Sign_empty_iff del: Evaluate_fields(1))

theorem Evaluate_signed_by_signer_witness:
  "let d = Evaluate sample_env (WithSigner (evaluator_New sample_policy)
                                  (Some (NewDecisionSigner ''secret'' []))) sample_request in
     Verify (NewDecisionSigner ''secret'' []) (d_DecisionID d) (as_Digest (d_Subject d))
       (d_Environment d) (d_Decision d) (d_Signature d)"
  using Evaluate_signed_by_signer
    [of "WithSigner (evaluator_New sample_policy) (Some (NewDecisionSigner ''secret'' []))"
        "NewDecisionSigner ''secret'' []" sample_env sample_request]
  by (simp add: Let_def WithSigner_def NewDecisionSigner_def NewDecisionSignerWithKeyID_def
      del: Evaluate_fields)

end
