(* ===== verification/Store_Model.thy ===== *)
theory Store_Model
  imports Admission
begin

text \<open>
  \<open>internal/store/models.go\<close>: the records every store keeps, the conditions on a promotion
  that both stores check, the abstract ledger they implement, and the interface \<open>Store\<close> as
  a locale with the consequences every implementation inherits.
\<close>

section \<open>Records\<close>

record Promotion =
  pm_ID :: string
  pm_DecisionID :: string
  pm_Digest :: string
  pm_Environment :: string
  pm_PromotedBy :: string
  pm_PromotedAt :: go_time
  pm_Reason :: string

record Revocation =
  rv_ID :: string
  rv_Digest :: string
  rv_Environment :: string
  rv_RevokedBy :: string
  rv_RevokedAt :: go_time
  rv_ExpiresAt :: "go_time option"
  rv_Reason :: string
  rv_IncidentID :: string

record Quarantine =
  qr_ID :: string
  qr_Digest :: string
  qr_Environment :: string
  qr_QuarantinedBy :: string
  qr_QuarantinedAt :: go_time
  qr_Reason :: string
  qr_IncidentID :: string

record BackupData =
  bk_SchemaVersion :: string
  bk_ExportedAt :: go_time
  bk_Decisions :: "Decision list"
  bk_Promotions :: "Promotion list"
  bk_Revocations :: "Revocation list"
  bk_Quarantines :: "Quarantine list"

text \<open>
  What a call reads besides the store: the clock when a decision's expiry is checked, the
  clock when a record is stamped, and the random bytes of a new id.
\<close>

record call_env =
  ce_now :: go_time
  ce_stamp :: go_time
  ce_random :: string

definition store_newID :: "string \<Rightarrow> call_env \<Rightarrow> string" where
  "store_newID pre ce = pre @ ''-'' @ hex_EncodeToString (ce_random ce)"

section \<open>Conditions of a promotion\<close>

definition promotion_decision_error :: "go_time \<Rightarrow> Promotion \<Rightarrow> Decision \<Rightarrow> go_error option" where
  "promotion_decision_error now p d =
     first_error
       [(d_Decision d \<noteq> Allow,
           Errorf ''decision_id %q is %s, promotion requires ALLOW decision''
             [S (pm_DecisionID p), S (d_Decision d)]),
        (as_Digest (d_Subject d) \<noteq> pm_Digest p,
           Errorf ''decision digest %s mismatch promotion digest %s''
             [S (as_Digest (d_Subject d)), S (pm_Digest p)]),
        (d_Environment d \<noteq> pm_Environment p,
           Errorf ''decision environment %s mismatch promotion environment %s''
             [S (d_Environment d), S (pm_Environment p)]),
        (\<not> IsZero (d_ExpiresAt d) \<and> After now (d_ExpiresAt d),
           Errorf ''decision_id %q has expired at %s'' [S (pm_DecisionID p), I (d_ExpiresAt d)])]"

text \<open>A revocation (quarantine) concerns an environment when it names it or none.\<close>

definition revokes :: "string \<Rightarrow> string \<Rightarrow> Revocation \<Rightarrow> bool" where
  "revokes dg env r \<longleftrightarrow> rv_Digest r = dg \<and> (rv_Environment r = [] \<or> rv_Environment r = env)"

definition quarantines :: "string \<Rightarrow> string \<Rightarrow> Quarantine \<Rightarrow> bool" where
  "quarantines dg env q \<longleftrightarrow> qr_Digest q = dg \<and> (qr_Environment q = [] \<or> qr_Environment q = env)"

definition stamp_promotion :: "call_env \<Rightarrow> Promotion \<Rightarrow> Promotion" where
  "stamp_promotion ce p =
     (let p1 = (if pm_ID p = [] then p\<lparr>pm_ID := store_newID ''promo'' ce\<rparr> else p)
      in if IsZero (pm_PromotedAt p1) then p1\<lparr>pm_PromotedAt := ce_stamp ce\<rparr> else p1)"

definition stamp_revocation :: "call_env \<Rightarrow> Revocation \<Rightarrow> Revocation" where
  "stamp_revocation ce r =
     (let r1 = (if rv_ID r = [] then r\<lparr>rv_ID := store_newID ''rev'' ce\<rparr> else r)
      in if IsZero (rv_RevokedAt r1) then r1\<lparr>rv_RevokedAt := ce_stamp ce\<rparr> else r1)"

definition stamp_quarantine :: "call_env \<Rightarrow> Quarantine \<Rightarrow> Quarantine" where
  "stamp_quarantine ce q =
     (let q1 = (if qr_ID q = [] then q\<lparr>qr_ID := store_newID ''quar'' ce\<rparr> else q)
      in if IsZero (qr_QuarantinedAt q1) then q1\<lparr>qr_QuarantinedAt := ce_stamp ce\<rparr> else q1)"

lemma stamp_fields [simp]:
  "pm_DecisionID (stamp_promotion ce p) = pm_DecisionID p"
  "pm_Digest (stamp_promotion ce p) = pm_Digest p"
  "pm_Environment (stamp_promotion ce p) = pm_Environment p"
  "rv_Digest (stamp_revocation ce r) = rv_Digest r"
  "rv_Environment (stamp_revocation ce r) = rv_Environment r"
  "qr_Digest (stamp_quarantine ce q) = qr_Digest q"
  "qr_Environment (stamp_quarantine ce q) = qr_Environment q"
  by (simp_all add: stamp_promotion_def stamp_revocation_def stamp_quarantine_def Let_def)

section \<open>The ledger: what a store is for\<close>

record ledger =
  lg_decisions :: "Decision list"
  lg_promotions :: "Promotion list"
  lg_revocations :: "Revocation list"
  lg_quarantines :: "Quarantine list"

definition promotion_error :: "ledger \<Rightarrow> go_time \<Rightarrow> Promotion \<Rightarrow> go_error option" where
  "promotion_error g now p =
     (if pm_DecisionID p = []
      then Some (errors_New ''promotion requires a valid decision_id proving prior ALLOW admission decision'')
      else case find (\<lambda>d. d_DecisionID d = pm_DecisionID p) (lg_decisions g) of
        None \<Rightarrow> Some (Errorf ''decision_id %q not found in decision store'' [S (pm_DecisionID p)])
      | Some d \<Rightarrow>
          (case promotion_decision_error now p d of
             Some e \<Rightarrow> Some e
           | None \<Rightarrow>
               first_error
                 [(\<exists>r \<in> set (lg_revocations g). revokes (pm_Digest p) (pm_Environment p) r,
                     Errorf ''digest %s is revoked in environment %q, promotion denied''
                       [S (pm_Digest p), S (pm_Environment p)]),
                  (\<exists>q \<in> set (lg_quarantines g). quarantines (pm_Digest p) (pm_Environment p) q,
                     Errorf ''digest %s is quarantined in environment %q, promotion denied''
                       [S (pm_Digest p), S (pm_Environment p)])]))"

text \<open>The decision that justifies a promotion.\<close>

definition justifies :: "Decision \<Rightarrow> Promotion \<Rightarrow> bool" where
  "justifies d p \<longleftrightarrow>
     d_DecisionID d = pm_DecisionID p \<and> d_Decision d = Allow
     \<and> as_Digest (d_Subject d) = pm_Digest p \<and> d_Environment d = pm_Environment p"

definition justified :: "ledger \<Rightarrow> bool" where
  "justified g \<longleftrightarrow> (\<forall>p \<in> set (lg_promotions g). \<exists>d \<in> set (lg_decisions g). justifies d p)"

definition blocked :: "ledger \<Rightarrow> string \<Rightarrow> string \<Rightarrow> bool" where
  "blocked g dg env \<longleftrightarrow>
     (\<exists>r \<in> set (lg_revocations g). revokes dg env r) \<or>
     (\<exists>q \<in> set (lg_quarantines g). quarantines dg env q)"

lemma promotion_decision_error_None:
  "promotion_decision_error now p d = None \<longleftrightarrow>
     d_Decision d = Allow \<and> as_Digest (d_Subject d) = pm_Digest p
     \<and> d_Environment d = pm_Environment p \<and> (d_ExpiresAt d = time_zero \<or> now \<le> d_ExpiresAt d)"
  by (auto simp: promotion_decision_error_def IsZero_def After_def)

lemma promotion_error_None:
  "promotion_error g now p = None \<longleftrightarrow>
     pm_DecisionID p \<noteq> [] \<and>
     (\<exists>d. find (\<lambda>d. d_DecisionID d = pm_DecisionID p) (lg_decisions g) = Some d
          \<and> justifies d p \<and> (d_ExpiresAt d = time_zero \<or> now \<le> d_ExpiresAt d))
     \<and> \<not> blocked g (pm_Digest p) (pm_Environment p)"
proof (cases "find (\<lambda>d. d_DecisionID d = pm_DecisionID p) (lg_decisions g)")
  case None
  then show ?thesis by (simp add: promotion_error_def)
next
  case (Some d)
  have "d_DecisionID d = pm_DecisionID p"
    using Some by (auto simp: find_Some_iff)
  then show ?thesis
    using Some promotion_decision_error_None [of now p d]
    by (cases "promotion_decision_error now p d") (auto simp: promotion_error_def justifies_def blocked_def)
qed

lemma promotion_error_justified:
  assumes "promotion_error g now p = None"
  shows "\<exists>d \<in> set (lg_decisions g). justifies d p \<and> (d_ExpiresAt d = time_zero \<or> now \<le> d_ExpiresAt d)"
    and "\<not> blocked g (pm_Digest p) (pm_Environment p)"
  using assms unfolding promotion_error_None by (auto simp: find_Some_iff)

section \<open>The interface of a store\<close>

text \<open>The state-changing calls of the interface \<open>Store\<close> other than \<open>Restore\<close>.\<close>

datatype store_op =
    SaveDecisionOp Decision
  | PromoteOp Promotion
  | RevokeOp Revocation
  | QuarantineOp Quarantine
  | UnquarantineOp string

text \<open>
  What a call may do to the ledger: a refused call changes nothing; saving a decision adds
  it, or finds its id taken; a promotion is recorded only when a stored decision justifies
  it and nothing blocks it; records are added with the digest and environment given (a
  store may fill in the id and the time, and drop or round other fields); \<open>Unquarantine\<close> removes the quarantines with that id or digest.
  The order of the records is left to the store.
\<close>

inductive ledger_step ::
    "call_env \<Rightarrow> store_op \<Rightarrow> ledger \<Rightarrow> go_error option \<Rightarrow> ledger \<Rightarrow> bool" for ce where
  refused: "ledger_step ce op g (Some e) g"
| decision_saved:
    "set ds = insert d (set (lg_decisions g)) \<Longrightarrow>
       ledger_step ce (SaveDecisionOp d) g None (g\<lparr>lg_decisions := ds\<rparr>)"
| decision_known:
    "d' \<in> set (lg_decisions g) \<Longrightarrow> d_DecisionID d' = d_DecisionID d \<Longrightarrow>
       ledger_step ce (SaveDecisionOp d) g None g"
| promoted:
    "d \<in> set (lg_decisions g) \<Longrightarrow> justifies d p \<Longrightarrow>
     d_ExpiresAt d = time_zero \<or> ce_now ce \<le> d_ExpiresAt d \<Longrightarrow>
     \<not> blocked g (pm_Digest p) (pm_Environment p) \<Longrightarrow>
     pm_DecisionID p' = pm_DecisionID p \<Longrightarrow> pm_Digest p' = pm_Digest p \<Longrightarrow>
     pm_Environment p' = pm_Environment p \<Longrightarrow>
     set ps = insert p' (set (lg_promotions g)) \<Longrightarrow>
       ledger_step ce (PromoteOp p) g None (g\<lparr>lg_promotions := ps\<rparr>)"
| revoked:
    "rv_Digest r' = rv_Digest r \<Longrightarrow> rv_Environment r' = rv_Environment r \<Longrightarrow>
     set rs = insert r' (set (lg_revocations g)) \<Longrightarrow>
       ledger_step ce (RevokeOp r) g None (g\<lparr>lg_revocations := rs\<rparr>)"
| quarantined:
    "qr_Digest q' = qr_Digest q \<Longrightarrow> qr_Environment q' = qr_Environment q \<Longrightarrow>
     set qs = insert q' (set (lg_quarantines g)) \<Longrightarrow>
       ledger_step ce (QuarantineOp q) g None (g\<lparr>lg_quarantines := qs\<rparr>)"
| unquarantined:
    "set qs = {q \<in> set (lg_quarantines g). qr_ID q \<noteq> x \<and> qr_Digest q \<noteq> x} \<Longrightarrow>
       ledger_step ce (UnquarantineOp x) g None (g\<lparr>lg_quarantines := qs\<rparr>)"

inductive_cases promote_stepE: "ledger_step ce (PromoteOp p) g r g'"
inductive_cases revoke_stepE: "ledger_step ce (RevokeOp x) g r g'"
inductive_cases quarantine_stepE: "ledger_step ce (QuarantineOp x) g r g'"

lemma ledger_step_justified:
  assumes "ledger_step ce op g r g'" "justified g"
  shows "justified g'"
  using assms
  by (cases rule: ledger_step.cases) (auto simp: justified_def justifies_def)

lemma ledger_step_revocations:
  assumes "ledger_step ce op g r g'"
  shows "set (lg_revocations g) \<subseteq> set (lg_revocations g')"
    and "set (lg_decisions g) \<subseteq> set (lg_decisions g')"
    and "set (lg_promotions g) \<subseteq> set (lg_promotions g')"
  using assms by (cases rule: ledger_step.cases; auto)+

text \<open>A digest that some revocation withdraws in an environment.\<close>

definition withdrawn :: "ledger \<Rightarrow> string \<Rightarrow> string \<Rightarrow> bool" where
  "withdrawn g dg env \<longleftrightarrow> (\<exists>r \<in> set (lg_revocations g). revokes dg env r)"

lemma withdrawn_blocked: "withdrawn g dg env \<Longrightarrow> blocked g dg env"
  by (auto simp: withdrawn_def blocked_def)

text \<open>A run of calls: the results are dropped, the state is threaded.\<close>

fun run_ops :: "(call_env \<Rightarrow> store_op \<Rightarrow> 's \<Rightarrow> go_error option \<times> 's) \<Rightarrow> (call_env \<times> store_op) list \<Rightarrow> 's \<Rightarrow> 's" where
  "run_ops exec [] s = s"
| "run_ops exec ((ce, op) # ops) s = run_ops exec ops (snd (exec ce op s))"

text \<open>All state-changing calls: those above and \<open>Restore\<close> with the document it reads.\<close>

datatype data_call = Call store_op | RestoreCall string

fun exec_call ::
    "(call_env \<Rightarrow> store_op \<Rightarrow> 's \<Rightarrow> go_error option \<times> 's) \<Rightarrow> (string \<Rightarrow> 's \<Rightarrow> go_error option \<times> 's)
       \<Rightarrow> call_env \<Rightarrow> data_call \<Rightarrow> 's \<Rightarrow> go_error option \<times> 's" where
  "exec_call exec restore ce (Call op) s = exec ce op s"
| "exec_call exec restore ce (RestoreCall data) s = restore data s"

fun run_calls ::
    "(call_env \<Rightarrow> store_op \<Rightarrow> 's \<Rightarrow> go_error option \<times> 's) \<Rightarrow> (string \<Rightarrow> 's \<Rightarrow> go_error option \<times> 's)
       \<Rightarrow> (call_env \<times> data_call) list \<Rightarrow> 's \<Rightarrow> 's" where
  "run_calls exec restore [] s = s"
| "run_calls exec restore ((ce, c) # cs) s = run_calls exec restore cs (snd (exec_call exec restore ce c s))"

text \<open>
  A condition on the calls of a run: \<open>fits\<close> for the records written, and a condition on the
  ledger a restored document describes (\<open>content\<close>: \<open>None\<close> if it describes none).
\<close>

fun call_fits ::
    "(call_env \<Rightarrow> store_op \<Rightarrow> bool) \<Rightarrow> (string \<Rightarrow> ledger option) \<Rightarrow> (ledger \<Rightarrow> bool) \<Rightarrow> call_env \<Rightarrow> data_call \<Rightarrow> bool" where
  "call_fits fits content good ce (Call op) = fits ce op"
| "call_fits fits content good ce (RestoreCall data) = (case content data of None \<Rightarrow> True | Some l \<Rightarrow> good l)"

locale store_contract =
  fixes exec :: "call_env \<Rightarrow> store_op \<Rightarrow> 's \<Rightarrow> go_error option \<times> 's"
    and view :: "'s \<Rightarrow> ledger \<Rightarrow> bool"
    and fits :: "call_env \<Rightarrow> store_op \<Rightarrow> bool"
  assumes step: "view s g \<Longrightarrow> fits ce op \<Longrightarrow> exec ce op s = (r, s') \<Longrightarrow>
      \<exists>g'. view s' g' \<and> ledger_step ce op g r g'"
begin

lemma step_snd:
  assumes "view s g" "fits ce op"
  obtains g' where "view (snd (exec ce op s)) g'" "ledger_step ce op g (fst (exec ce op s)) g'"
  using step [OF assms, of "fst (exec ce op s)" "snd (exec ce op s)"] by auto

end

text \<open>
  A store that can be restored: the call installs the ledger the document describes, whatever
  was there, or fails and leaves the ledger alone. It checks nothing: what holds of the
  documents is the caller's business.
\<close>

locale restorable_store = store_contract exec view fits
  for exec :: "call_env \<Rightarrow> store_op \<Rightarrow> 's \<Rightarrow> go_error option \<times> 's"
    and view :: "'s \<Rightarrow> ledger \<Rightarrow> bool"
    and fits :: "call_env \<Rightarrow> store_op \<Rightarrow> bool" +
  fixes restore :: "string \<Rightarrow> 's \<Rightarrow> go_error option \<times> 's"
    and content :: "string \<Rightarrow> ledger option"
    and encodable :: "ledger \<Rightarrow> bool"
  assumes restore_step:
    "view s g \<Longrightarrow> \<forall>l. content data = Some l \<longrightarrow> encodable l \<Longrightarrow> restore data s = (r, s') \<Longrightarrow>
       r \<noteq> None \<and> view s' g \<or> r = None \<and> (\<exists>l. content data = Some l \<and> view s' l)"
begin

lemma call_step:
  assumes "view s g" "call_fits fits content (\<lambda>l. encodable l \<and> good l) ce c"
  shows "\<exists>g'. view (snd (exec_call exec restore ce c s)) g'
    \<and> (g' = g \<or> good g' \<or> (\<exists>op r. ledger_step ce op g r g'))"
proof (cases c)
  case (Call op)
  then show ?thesis using step_snd [OF assms(1), of ce op] assms(2) by simp metis
next
  case (RestoreCall data)
  obtain r s' where r: "restore data s = (r, s')" by fastforce
  have "\<forall>l. content data = Some l \<longrightarrow> encodable l \<and> good l"
    using assms(2) RestoreCall by (simp split: option.splits)
  with restore_step [OF assms(1) _ r] RestoreCall r show ?thesis by fastforce
qed

text \<open>
  What every step keeps and every restored document has, a run keeps.
\<close>

lemma run_keeps:
  assumes "view s g" "good g" "\<forall>(ce, c) \<in> set cs. call_fits fits content (\<lambda>l. encodable l \<and> good l) ce c"
    "\<And>ce op g r g'. ledger_step ce op g r g' \<Longrightarrow> good g \<Longrightarrow> good g'"
  shows "\<exists>g'. view (run_calls exec restore cs s) g' \<and> good g'"
  using assms(1-3)
proof (induction cs arbitrary: s g)
  case (Cons cc cs)
  obtain ce c where [simp]: "cc = (ce, c)" by (cases cc)
  have "call_fits fits content (\<lambda>l. encodable l \<and> good l) ce c" using Cons.prems(3) by simp
  from call_step [OF Cons.prems(1) this] obtain g1 where
    "view (snd (exec_call exec restore ce c s)) g1" "good g1"
    using Cons.prems(2) assms(4) by metis
  with Cons.IH Cons.prems(3) show ?case by auto
qed auto

lemma run_justified:
  assumes "view s g" "justified g"
    "\<forall>(ce, c) \<in> set cs. call_fits fits content (\<lambda>l. encodable l \<and> justified l) ce c"
  shows "\<exists>g'. view (run_calls exec restore cs s) g' \<and> justified g'"
  using assms ledger_step_justified by (rule run_keeps)

end

text \<open>
  A store that also answers lookups: what \<open>IsQuarantined\<close> says is what blocks a promotion.
\<close>

locale store_lookup = store_contract +
  fixes isQuarantined :: "string \<Rightarrow> string \<Rightarrow> 's \<Rightarrow> bool result \<times> 's"
  assumes quarantine_lookup:
    "view s g \<Longrightarrow> isQuarantined dg env s = (Inr (\<exists>q \<in> set (lg_quarantines g). quarantines dg env q), s)"
begin

lemma quarantine_seen:
  assumes "view s g" "fits ce (QuarantineOp q)" "exec ce (QuarantineOp q) s = (None, s')"
    "qr_Environment q = [] \<or> qr_Environment q = env"
  shows "fst (isQuarantined (qr_Digest q) env s') = Inr True"
proof -
  obtain g' where g': "view s' g'" "ledger_step ce (QuarantineOp q) g None g'"
    using step [OF assms(1-3)] by blast
  from g'(2) have "\<exists>x \<in> set (lg_quarantines g'). quarantines (qr_Digest q) env x"
    by (rule quarantine_stepE) (use assms(4) in \<open>auto simp: quarantines_def\<close>)
  then show ?thesis using quarantine_lookup [OF g'(1)] by simp
qed

lemma promotion_needs_no_quarantine:
  assumes "view s g" "fits ce (PromoteOp p)" "exec ce (PromoteOp p) s = (None, s')"
  shows "fst (isQuarantined (pm_Digest p) (pm_Environment p) s) = Inr False"
proof -
  obtain g' where "ledger_step ce (PromoteOp p) g None g'"
    using step [OF assms] by blast
  then have "\<not> blocked g (pm_Digest p) (pm_Environment p)" by (auto elim: promote_stepE)
  then have "\<not> (\<exists>q \<in> set (lg_quarantines g). quarantines (pm_Digest p) (pm_Environment p) q)"
    by (auto simp: blocked_def)
  then show ?thesis using quarantine_lookup [OF assms(1)] by simp
qed

end

end
