(* ===== verification/Go_Files.thy ===== *)
theory Go_Files
  imports Go_Strings
begin

text \<open>
  The files the store writes. A \<^emph>\<open>world\<close> holds the contents of the files by path, the
  directories, and a list of faults: every system call consumes one entry, and a \<open>Some\<close>
  entry makes that call fail (a failing read or write transfers some bytes first). An empty
  list means that no call fails any more. Failures the model does not compute (permissions,
  a full disk, a missing parent directory) are faults.

  Line-delimited JSON is read by \<open>bufio.Scanner\<close>, whose tokens are limited to 64 KiB.
  \<open>json.Marshal\<close> and \<open>json.Unmarshal\<close> for a type are the parameter \<open>codec\<close>.
\<close>

section \<open>System calls\<close>

record fault =
  flt_err :: go_error
  flt_bytes :: nat

record world =
  w_files :: "string \<rightharpoonup> string"
  w_dirs :: "string list"
  w_faults :: "fault option list"

fun next_fault :: "world \<Rightarrow> fault option \<times> world" where
  "next_fault w =
     (case w_faults w of
        [] \<Rightarrow> (None, w)
      | f # fs \<Rightarrow> (f, w\<lparr>w_faults := fs\<rparr>))"

definition os_MkdirAll :: "string \<Rightarrow> world \<Rightarrow> go_error option \<times> world" where
  "os_MkdirAll path w =
     (case next_fault w of
        (Some f, w1) \<Rightarrow> (Some (flt_err f), w1)
      | (None, w1) \<Rightarrow>
          if path = [] then (Some (errors_New ''mkdir : no such file or directory''), w1)
          else (None, w1\<lparr>w_dirs := path # w_dirs w1\<rparr>))"

definition os_Stat :: "string \<Rightarrow> world \<Rightarrow> go_error option \<times> world" where
  "os_Stat path w =
     (case next_fault w of
        (Some f, w1) \<Rightarrow> (Some (flt_err f), w1)
      | (None, w1) \<Rightarrow>
          if path \<in> set (w_dirs w1) \<or> path \<in> dom (w_files w1) then (None, w1)
          else (Some (Errorf ''stat %s: no such file or directory'' [S path]), w1))"

text \<open>Opening with \<open>O_CREATE|O_APPEND|O_WRONLY\<close> creates a missing file, empty.\<close>

definition os_OpenAppend :: "string \<Rightarrow> world \<Rightarrow> go_error option \<times> world" where
  "os_OpenAppend path w =
     (case next_fault w of
        (Some f, w1) \<Rightarrow> (Some (flt_err f), w1)
      | (None, w1) \<Rightarrow>
          (None, if path \<in> dom (w_files w1) then w1
                 else w1\<lparr>w_files := (w_files w1)(path \<mapsto> [])\<rparr>))"

definition file_bytes :: "world \<Rightarrow> string \<Rightarrow> string" where
  "file_bytes w path = (case w_files w path of None \<Rightarrow> [] | Some b \<Rightarrow> b)"

definition append_bytes :: "string \<Rightarrow> string \<Rightarrow> world \<Rightarrow> world" where
  "append_bytes path b w = w\<lparr>w_files := (w_files w)(path \<mapsto> file_bytes w path @ b)\<rparr>"

definition file_Write :: "string \<Rightarrow> string \<Rightarrow> world \<Rightarrow> go_error option \<times> world" where
  "file_Write path b w =
     (case next_fault w of
        (Some f, w1) \<Rightarrow> (Some (flt_err f), append_bytes path (take (flt_bytes f) b) w1)
      | (None, w1) \<Rightarrow> (None, append_bytes path b w1))"

definition file_Sync :: "world \<Rightarrow> go_error option \<times> world" where
  "file_Sync w =
     (case next_fault w of
        (Some f, w1) \<Rightarrow> (Some (flt_err f), w1)
      | (None, w1) \<Rightarrow> (None, w1))"

text \<open>\<open>os.WriteFile\<close>: create or truncate, then write.\<close>

definition os_WriteFile :: "string \<Rightarrow> string \<Rightarrow> world \<Rightarrow> go_error option \<times> world" where
  "os_WriteFile path b w =
     (case next_fault w of
        (Some f, w1) \<Rightarrow> (Some (flt_err f), w1)
      | (None, w1) \<Rightarrow> file_Write path b (w1\<lparr>w_files := (w_files w1)(path \<mapsto> [])\<rparr>))"

text \<open>\<open>os.ReadFile\<close>: open, then read.\<close>

definition os_ReadFile :: "string \<Rightarrow> world \<Rightarrow> string result \<times> world" where
  "os_ReadFile path w =
     (case next_fault w of
        (Some f, w1) \<Rightarrow> (Inl (flt_err f), w1)
      | (None, w1) \<Rightarrow>
          (case w_files w1 path of
             None \<Rightarrow> (Inl (Errorf ''open %s: no such file or directory'' [S path]), w1)
           | Some b \<Rightarrow>
               (case next_fault w1 of
                  (Some f, w2) \<Rightarrow> (Inl (flt_err f), w2)
                | (None, w2) \<Rightarrow> (Inr b, w2))))"

lemma os_ReadFile_ok:
  "w_faults w = [] \<Longrightarrow> w_files w path = Some b \<Longrightarrow> os_ReadFile path w = (Inr b, w)"
  by (simp add: os_ReadFile_def)

text \<open>\<open>os.Remove\<close>; every caller drops its error.\<close>

definition os_Remove :: "string \<Rightarrow> world \<Rightarrow> world" where
  "os_Remove path w =
     (case next_fault w of
        (Some f, w1) \<Rightarrow> w1
      | (None, w1) \<Rightarrow> w1\<lparr>w_files := (w_files w1)(path := None)\<rparr>)"

section \<open>Line-delimited JSON\<close>

record 'a codec =
  c_Marshal :: "'a \<Rightarrow> string result"
  c_Unmarshal :: "string \<Rightarrow> 'a result"

abbreviation newline :: char where "newline \<equiv> CHR 0x0A"

definition MaxScanTokenSize :: nat where "MaxScanTokenSize = 65536"

definition ErrTooLong :: go_error where
  "ErrTooLong = errors_New ''bufio.Scanner: token too long''"

definition appendNDJSON :: "'a codec \<Rightarrow> string \<Rightarrow> 'a \<Rightarrow> world \<Rightarrow> go_error option \<times> world" where
  "appendNDJSON c path v w =
     (case os_OpenAppend path w of
        (Some err, w1) \<Rightarrow> (Some err, w1)
      | (None, w1) \<Rightarrow>
          (case c_Marshal c v of
             Inl err \<Rightarrow> (Some err, w1)
           | Inr b \<Rightarrow>
               (case file_Write path (b @ [newline]) w1 of
                  (Some err, w2) \<Rightarrow> (Some err, w2)
                | (None, w2) \<Rightarrow> file_Sync w2)))"

text \<open>
  The scanner loop over the lines: a line that does not fit the buffer stops it with
  \<open>ErrTooLong\<close>; blank lines are skipped; the first line that does not parse is the error.
\<close>

fun scan_lines :: "'a codec \<Rightarrow> string \<Rightarrow> string list \<Rightarrow> 'a list result" where
  "scan_lines c path [] = Inr []"
| "scan_lines c path (l # ls) =
     (if MaxScanTokenSize \<le> length l then Inl ErrTooLong
      else let line = TrimSpace l in
           if length line = 0 then scan_lines c path ls
           else case c_Unmarshal c line of
                  Inl e \<Rightarrow> Inl (Wrapf ''parse line in %s: %w'' [S path] e)
                | Inr item \<Rightarrow>
                    (case scan_lines c path ls of
                       Inl e \<Rightarrow> Inl e
                     | Inr items \<Rightarrow> Inr (item # items)))"

definition scan_bytes :: "'a codec \<Rightarrow> string \<Rightarrow> string \<Rightarrow> 'a list result" where
  "scan_bytes c path b = scan_lines c path (Split b newline)"

definition readNDJSON :: "'a codec \<Rightarrow> string \<Rightarrow> world \<Rightarrow> 'a list result \<times> world" where
  "readNDJSON c path w =
     (case next_fault w of
        (Some f, w1) \<Rightarrow> (Inl (flt_err f), w1)
      | (None, w1) \<Rightarrow>
          (case w_files w1 path of
             None \<Rightarrow> (Inr [], w1)
           | Some b \<Rightarrow>
               (case next_fault w1 of
                  (None, w2) \<Rightarrow> (scan_bytes c path b, w2)
                | (Some f, w2) \<Rightarrow>
                    (case scan_bytes c path (take (flt_bytes f) b) of
                       Inl e \<Rightarrow> (Inl e, w2)
                     | Inr _ \<Rightarrow> (Inl (flt_err f), w2)))))"

text \<open>Appending a list of records, stopping at the first error (the loops of \<open>Restore\<close>).\<close>

fun append_all :: "'a codec \<Rightarrow> string \<Rightarrow> 'a list \<Rightarrow> world \<Rightarrow> go_error option \<times> world" where
  "append_all c path [] w = (None, w)"
| "append_all c path (x # xs) w =
     (case appendNDJSON c path x w of
        (Some err, w1) \<Rightarrow> (Some err, w1)
      | (None, w1) \<Rightarrow> append_all c path xs w1)"

section \<open>What a file holds\<close>

text \<open>
  A line that stands for a value, and a file whose lines stand for a list of values, each
  line terminated.
\<close>

definition ndjson_line :: "'a codec \<Rightarrow> 'a \<Rightarrow> string \<Rightarrow> bool" where
  "ndjson_line c x s \<longleftrightarrow>
     c_Unmarshal c s = Inr x \<and> newline \<notin> set s \<and> s \<noteq> [] \<and> TrimSpace s = s
     \<and> length s < MaxScanTokenSize"

definition file_lines :: "string list \<Rightarrow> string" where
  "file_lines ss = concat (map (\<lambda>s. s @ [newline]) ss)"

definition file_holds :: "'a codec \<Rightarrow> world \<Rightarrow> string \<Rightarrow> 'a list \<Rightarrow> bool" where
  "file_holds c w path xs \<longleftrightarrow>
     (\<exists>ss. list_all2 (ndjson_line c) xs ss \<and> file_bytes w path = file_lines ss)"

text \<open>A value that survives being written and read back.\<close>

definition storable :: "'a codec \<Rightarrow> 'a \<Rightarrow> bool" where
  "storable c x \<longleftrightarrow> (\<exists>s. c_Marshal c x = Inr s \<and> ndjson_line c x s)"

lemma file_lines_simps [simp]:
  "file_lines [] = []" "file_lines (s # ss) = s @ newline # file_lines ss"
  "file_lines (ss @ ts) = file_lines ss @ file_lines ts"
  by (simp_all add: file_lines_def)

lemma Split_file_lines:
  "\<forall>s \<in> set ss. newline \<notin> set s \<Longrightarrow> Split (file_lines ss) newline = ss @ [[]]"
  by (induction ss) (simp_all add: Split_append_sep)

lemma scan_lines_hold:
  "list_all2 (ndjson_line c) xs ss \<Longrightarrow> scan_lines c path (ss @ [[]]) = Inr xs"
  by (induction rule: list_all2_induct)
    (simp_all add: ndjson_line_def Let_def MaxScanTokenSize_def)

lemma scan_bytes_hold:
  assumes "list_all2 (ndjson_line c) xs ss"
  shows "scan_bytes c path (file_lines ss) = Inr xs"
proof -
  have "\<forall>s \<in> set ss. newline \<notin> set s"
    using assms by (auto simp: list_all2_conv_all_nth in_set_conv_nth ndjson_line_def)
  then show ?thesis
    by (simp add: scan_bytes_def Split_file_lines scan_lines_hold [OF assms])
qed

lemma readNDJSON_holds:
  assumes "file_holds c w path xs" "w_faults w = []"
  shows "readNDJSON c path w = (Inr xs, w)"
proof -
  obtain ss where ss: "list_all2 (ndjson_line c) xs ss" "file_bytes w path = file_lines ss"
    using assms(1) by (auto simp: file_holds_def)
  show ?thesis
  proof (cases "w_files w path")
    case None
    then have "file_lines ss = []" using ss(2) by (simp add: file_bytes_def)
    then have "ss = []" by (cases ss) auto
    then show ?thesis using None ss(1) assms(2) by (simp add: readNDJSON_def)
  next
    case (Some b)
    then have "b = file_lines ss" using ss(2) by (simp add: file_bytes_def)
    then show ?thesis using Some assms(2) scan_bytes_hold [OF ss(1)] by (simp add: readNDJSON_def)
  qed
qed

text \<open>Reading never changes the files, and without faults it changes nothing.\<close>

lemma readNDJSON_files [simp]: "w_files (snd (readNDJSON c path w)) = w_files w"
  by (auto simp: readNDJSON_def split: list.splits option.splits sum.splits)

lemma readNDJSON_no_faults: "w_faults w = [] \<Longrightarrow> snd (readNDJSON c path w) = w"
  by (auto simp: readNDJSON_def split: option.splits sum.splits)

lemma appendNDJSON_no_faults: "w_faults w = [] \<Longrightarrow> w_faults (snd (appendNDJSON c path x w)) = []"
  by (auto simp: appendNDJSON_def os_OpenAppend_def file_Write_def file_Sync_def append_bytes_def
      split: option.splits sum.splits if_splits)

text \<open>Appending without faults.\<close>

lemma appendNDJSON_ok:
  assumes "w_faults w = []" "c_Marshal c x = Inr s"
  shows "appendNDJSON c path x w = (None, append_bytes path (s @ [newline]) w)"
  using assms
  by (auto simp: appendNDJSON_def os_OpenAppend_def file_Write_def file_Sync_def append_bytes_def
      file_bytes_def split: option.splits)

lemma append_bytes_simps [simp]:
  "w_faults (append_bytes path b w) = w_faults w"
  "w_dirs (append_bytes path b w) = w_dirs w"
  "file_bytes (append_bytes path b w) path = file_bytes w path @ b"
  "q \<noteq> path \<Longrightarrow> file_bytes (append_bytes path b w) q = file_bytes w q"
  "q \<noteq> path \<Longrightarrow> w_files (append_bytes path b w) q = w_files w q"
  by (simp_all add: append_bytes_def file_bytes_def)

lemma file_holds_append:
  assumes "file_holds c w path xs" "ndjson_line c x s"
  shows "file_holds c (append_bytes path (s @ [newline]) w) path (xs @ [x])"
proof -
  obtain ss where ss: "list_all2 (ndjson_line c) xs ss" "file_bytes w path = file_lines ss"
    using assms(1) by (auto simp: file_holds_def)
  have "list_all2 (ndjson_line c) (xs @ [x]) (ss @ [s])"
    using ss(1) assms(2) by (simp add: list_all2_appendI)
  then show ?thesis
    unfolding file_holds_def by (rule_tac exI [of _ "ss @ [s]"]) (simp add: ss(2))
qed

lemma file_holds_other:
  "q \<noteq> path \<Longrightarrow> file_holds c (append_bytes path b w) q xs = file_holds c w q xs"
  by (simp add: file_holds_def)

lemma appendNDJSON_storable:
  assumes "w_faults w = []" "storable c x" "file_holds c w path xs"
  obtains w' where "appendNDJSON c path x w = (None, w')" "w_faults w' = []" "w_dirs w' = w_dirs w"
    "file_holds c w' path (xs @ [x])" "\<And>q. q \<noteq> path \<Longrightarrow> file_bytes w' q = file_bytes w q"
proof -
  obtain s where s: "c_Marshal c x = Inr s" "ndjson_line c x s"
    using assms(2) by (auto simp: storable_def)
  show thesis
    by (rule that [of "append_bytes path (s @ [newline]) w"])
      (use assms s appendNDJSON_ok [OF assms(1) s(1)] file_holds_append in \<open>simp_all\<close>)
qed

text \<open>With any faults, appending only ever extends the one file, by a piece of the line.\<close>

lemma next_fault_files [simp]: "w_files (snd (next_fault w)) = w_files w"
  by (simp split: list.splits)

lemma os_OpenAppend_files:
  assumes "os_OpenAppend path w = (r, w1)"
  shows "file_bytes w1 q = file_bytes w q" "q \<noteq> path \<Longrightarrow> w_files w1 q = w_files w q"
  using assms by (auto simp: os_OpenAppend_def file_bytes_def split: list.splits option.splits if_splits)

lemma file_Write_files:
  assumes "file_Write path b w = (r, w1)"
  shows "q \<noteq> path \<Longrightarrow> w_files w1 q = w_files w q"
    and "\<exists>b'. prefix b' b \<and> file_bytes w1 path = file_bytes w path @ b' \<and> (r = None \<longrightarrow> b' = b)"
  using assms
  by (auto simp: file_Write_def append_bytes_def file_bytes_def take_is_prefix split: list.splits option.splits)

lemma file_Sync_files: "file_Sync w = (r, w1) \<Longrightarrow> w_files w1 = w_files w"
  by (auto simp: file_Sync_def split: list.splits option.splits)

lemma appendNDJSON_cases:
  assumes "appendNDJSON c path x w = (r, w')"
  obtains (failed) w1 e where "os_OpenAppend path w = (e, w1)" "w' = w1" "r \<noteq> None"
  | (written) w1 s e w2 where "os_OpenAppend path w = (None, w1)" "c_Marshal c x = Inr s"
      "file_Write path (s @ [newline]) w1 = (e, w2)" "w_files w' = w_files w2" "r = None \<longrightarrow> e = None"
proof -
  obtain e w1 where o: "os_OpenAppend path w = (e, w1)" by fastforce
  show thesis
  proof (cases "e = None \<and> is_ok (c_Marshal c x)")
    case True
    then obtain s where s: "c_Marshal c x = Inr s" by (auto simp: is_ok_iff)
    obtain e2 w2 where wr: "file_Write path (s @ [newline]) w1 = (e2, w2)" by fastforce
    show thesis
      by (rule written [OF _ s wr])
        (use True o s wr assms file_Sync_files in
          \<open>auto simp: appendNDJSON_def split: option.splits\<close>)
  next
    case False
    show thesis
      by (rule failed [OF o])
        (use False o assms in \<open>auto simp: appendNDJSON_def is_ok_iff split: option.splits sum.splits\<close>)
  qed
qed

lemma appendNDJSON_extends:
  assumes "appendNDJSON c path x w = (r, w')"
  shows "q \<noteq> path \<Longrightarrow> w_files w' q = w_files w q"
    and "\<exists>b. file_bytes w' path = file_bytes w path @ b
          \<and> (b = [] \<or> (\<exists>s. c_Marshal c x = Inr s \<and> prefix b (s @ [newline])))
          \<and> (r = None \<longrightarrow> (\<exists>s. c_Marshal c x = Inr s \<and> b = s @ [newline]))"
proof -
  from assms have "(q \<noteq> path \<longrightarrow> w_files w' q = w_files w q)
      \<and> (\<exists>b. file_bytes w' path = file_bytes w path @ b
          \<and> (b = [] \<or> (\<exists>s. c_Marshal c x = Inr s \<and> prefix b (s @ [newline])))
          \<and> (r = None \<longrightarrow> (\<exists>s. c_Marshal c x = Inr s \<and> b = s @ [newline])))"
  proof (cases rule: appendNDJSON_cases)
    case (failed w1 e)
    then show ?thesis using os_OpenAppend_files [OF failed(1)] by auto
  next
    case (written w1 s e w2)
    obtain b where b: "prefix b (s @ [newline])" "file_bytes w2 path = file_bytes w1 path @ b"
      "e = None \<longrightarrow> b = s @ [newline]"
      using file_Write_files(2) [OF written(3)] by blast
    have "file_bytes w' path = file_bytes w path @ b"
      using b(2) os_OpenAppend_files(1) [OF written(1)] written(4) by (simp add: file_bytes_def)
    moreover have "q \<noteq> path \<longrightarrow> w_files w' q = w_files w q"
      using written(4) file_Write_files(1) [OF written(3)] os_OpenAppend_files(2) [OF written(1)] by simp
    ultimately show ?thesis using b(1,3) written(2,5) by blast
  qed
  then show "q \<noteq> path \<Longrightarrow> w_files w' q = w_files w q"
    and "\<exists>b. file_bytes w' path = file_bytes w path @ b
          \<and> (b = [] \<or> (\<exists>s. c_Marshal c x = Inr s \<and> prefix b (s @ [newline])))
          \<and> (r = None \<longrightarrow> (\<exists>s. c_Marshal c x = Inr s \<and> b = s @ [newline]))"
    by blast+
qed

end
