(* ===== verification/File_Store.thy ===== *)
theory File_Store
  imports Store_Model Go_Files
begin

text \<open>
  \<open>internal/store/file.go\<close>: the store that keeps four line-delimited JSON files. Every
  operation runs under the store's lock, so an operation is one atomic step from world to
  world; the system calls inside it may fail (see \<open>Go_Files\<close>).

  \<open>filepath.Join(dataDir, name)\<close> is modelled as \<open>dataDir/name\<close>, which names the same file
  (\<open>Join\<close> only normalises the spelling). The JSON codecs are the record \<open>store_json\<close>.
\<close>

section \<open>The store and its codecs\<close>

record FileStore =
  fs_dataDir :: string
  fs_decisions :: string
  fs_promotions :: string
  fs_revocations :: string
  fs_quarantines :: string

record store_json =
  j_decision :: "Decision codec"
  j_promotion :: "Promotion codec"
  j_revocation :: "Revocation codec"
  j_quarantine :: "Quarantine codec"
  j_backup :: "BackupData codec"

definition filepath_Join :: "string \<Rightarrow> string \<Rightarrow> string" where
  "filepath_Join dir name = dir @ ''/'' @ name"

definition file_store :: "string \<Rightarrow> FileStore" where
  "file_store dataDir =
     \<lparr>fs_dataDir = dataDir,
      fs_decisions = filepath_Join dataDir ''decisions.ndjson'',
      fs_promotions = filepath_Join dataDir ''promotions.ndjson'',
      fs_revocations = filepath_Join dataDir ''revocations.ndjson'',
      fs_quarantines = filepath_Join dataDir ''quarantines.ndjson''\<rparr>"

definition NewFileStore :: "string \<Rightarrow> world \<Rightarrow> FileStore result \<times> world" where
  "NewFileStore dataDir w =
     (case os_MkdirAll dataDir w of
        (Some err, w1) \<Rightarrow> (Inl err, w1)
      | (None, w1) \<Rightarrow> (Inr (file_store dataDir), w1))"

text \<open>The package \<open>audit\<close> is a second name for the file store.\<close>

type_synonym audit_Store = FileStore

definition audit_New :: "string \<Rightarrow> world \<Rightarrow> audit_Store result \<times> world" where
  "audit_New dataDir = NewFileStore dataDir"

definition file_Ping :: "FileStore \<Rightarrow> world \<Rightarrow> go_error option \<times> world" where
  "file_Ping fs w =
     (case os_Stat (fs_dataDir fs) w of
        (Some err, w1) \<Rightarrow> (Some (Wrapf ''data directory unavailable: %w'' [] err), w1)
      | (None, w1) \<Rightarrow>
          (let probe = filepath_Join (fs_dataDir fs) ''.ping-probe'' in
           case os_WriteFile probe ''ok'' w1 of
             (Some err, w2) \<Rightarrow> (Some (Wrapf ''data directory write check failed: %w'' [] err), w2)
           | (None, w2) \<Rightarrow> (None, os_Remove probe w2)))"

section \<open>Operations\<close>

definition file_SaveDecision ::
    "store_json \<Rightarrow> FileStore \<Rightarrow> Decision \<Rightarrow> world \<Rightarrow> go_error option \<times> world" where
  "file_SaveDecision js fs d w = appendNDJSON (j_decision js) (fs_decisions fs) d w"

definition file_GetDecisions :: "store_json \<Rightarrow> FileStore \<Rightarrow> world \<Rightarrow> Decision list result \<times> world" where
  "file_GetDecisions js fs w = readNDJSON (j_decision js) (fs_decisions fs) w"

definition file_Promote ::
    "store_json \<Rightarrow> FileStore \<Rightarrow> call_env \<Rightarrow> Promotion \<Rightarrow> world \<Rightarrow> go_error option \<times> world" where
  "file_Promote js fs ce p w =
     (if pm_DecisionID p = []
      then (Some (errors_New ''promotion requires a valid decision_id proving prior ALLOW admission decision''), w)
      else case readNDJSON (j_decision js) (fs_decisions fs) w of
        (Inl err, w1) \<Rightarrow> (Some (Wrapf ''read decisions for promotion check: %w'' [] err), w1)
      | (Inr decs, w1) \<Rightarrow>
      (case find (\<lambda>d. d_DecisionID d = pm_DecisionID p) decs of
        None \<Rightarrow> (Some (Errorf ''decision_id %q not found in decision store'' [S (pm_DecisionID p)]), w1)
      | Some validDecision \<Rightarrow>
      (case promotion_decision_error (ce_now ce) p validDecision of
        Some err \<Rightarrow> (Some err, w1)
      | None \<Rightarrow>
      (case readNDJSON (j_revocation js) (fs_revocations fs) w1 of
        (Inl err, w2) \<Rightarrow> (Some (Wrapf ''read revocations for promotion check: %w'' [] err), w2)
      | (Inr allRevs, w2) \<Rightarrow>
      (if \<exists>r \<in> set allRevs. revokes (pm_Digest p) (pm_Environment p) r
       then (Some (Errorf ''digest %s is revoked in environment %q, promotion denied''
                     [S (pm_Digest p), S (pm_Environment p)]), w2)
       else case readNDJSON (j_quarantine js) (fs_quarantines fs) w2 of
        (Inl err, w3) \<Rightarrow> (Some (Wrapf ''read quarantines for promotion check: %w'' [] err), w3)
      | (Inr allQuars, w3) \<Rightarrow>
      (if \<exists>q \<in> set allQuars. quarantines (pm_Digest p) (pm_Environment p) q
       then (Some (Errorf ''digest %s is quarantined in environment %q, promotion denied''
                     [S (pm_Digest p), S (pm_Environment p)]), w3)
       else appendNDJSON (j_promotion js) (fs_promotions fs) (stamp_promotion ce p) w3))))))"

definition file_GetPromotions ::
    "store_json \<Rightarrow> FileStore \<Rightarrow> string \<Rightarrow> world \<Rightarrow> Promotion list result \<times> world" where
  "file_GetPromotions js fs env w =
     (case readNDJSON (j_promotion js) (fs_promotions fs) w of
        (Inl err, w1) \<Rightarrow> (Inl err, w1)
      | (Inr xs, w1) \<Rightarrow>
          (Inr (if env = [] then xs else filter (\<lambda>item. pm_Environment item = env) xs), w1))"

definition file_Revoke ::
    "store_json \<Rightarrow> FileStore \<Rightarrow> call_env \<Rightarrow> Revocation \<Rightarrow> world \<Rightarrow> go_error option \<times> world" where
  "file_Revoke js fs ce r w =
     appendNDJSON (j_revocation js) (fs_revocations fs) (stamp_revocation ce r) w"

definition file_GetRevocations ::
    "store_json \<Rightarrow> FileStore \<Rightarrow> string \<Rightarrow> world \<Rightarrow> Revocation list result \<times> world" where
  "file_GetRevocations js fs env w =
     (case readNDJSON (j_revocation js) (fs_revocations fs) w of
        (Inl err, w1) \<Rightarrow> (Inl err, w1)
      | (Inr xs, w1) \<Rightarrow>
          (Inr (if env = [] then xs else filter (\<lambda>item. rv_Environment item = env) xs), w1))"

definition file_IsRevoked ::
    "store_json \<Rightarrow> FileStore \<Rightarrow> string \<Rightarrow> string \<Rightarrow> world \<Rightarrow> bool result \<times> world" where
  "file_IsRevoked js fs dg env w =
     (case file_GetRevocations js fs env w of
        (Inl err, w1) \<Rightarrow> (Inl err, w1)
      | (Inr revs, w1) \<Rightarrow> (Inr (\<exists>r \<in> set revs. revokes dg env r), w1))"

definition file_Quarantine ::
    "store_json \<Rightarrow> FileStore \<Rightarrow> call_env \<Rightarrow> Quarantine \<Rightarrow> world \<Rightarrow> go_error option \<times> world" where
  "file_Quarantine js fs ce q w =
     appendNDJSON (j_quarantine js) (fs_quarantines fs) (stamp_quarantine ce q) w"

definition file_GetQuarantines ::
    "store_json \<Rightarrow> FileStore \<Rightarrow> string \<Rightarrow> world \<Rightarrow> Quarantine list result \<times> world" where
  "file_GetQuarantines js fs env w =
     (case readNDJSON (j_quarantine js) (fs_quarantines fs) w of
        (Inl err, w1) \<Rightarrow> (Inl err, w1)
      | (Inr xs, w1) \<Rightarrow>
          (Inr (if env = [] then xs
                else filter (\<lambda>item. qr_Environment item = [] \<or> qr_Environment item = env) xs), w1))"

definition file_IsQuarantined ::
    "store_json \<Rightarrow> FileStore \<Rightarrow> string \<Rightarrow> string \<Rightarrow> world \<Rightarrow> bool result \<times> world" where
  "file_IsQuarantined js fs dg env w =
     (case file_GetQuarantines js fs env w of
        (Inl err, w1) \<Rightarrow> (Inl err, w1)
      | (Inr quars, w1) \<Rightarrow> (Inr (\<exists>q \<in> set quars. quarantines dg env q), w1))"

definition file_Unquarantine ::
    "store_json \<Rightarrow> FileStore \<Rightarrow> string \<Rightarrow> world \<Rightarrow> go_error option \<times> world" where
  "file_Unquarantine js fs x w =
     (case readNDJSON (j_quarantine js) (fs_quarantines fs) w of
        (Inl err, w1) \<Rightarrow> (Some err, w1)
      | (Inr xs, w1) \<Rightarrow>
          append_all (j_quarantine js) (fs_quarantines fs)
            (filter (\<lambda>q. qr_ID q \<noteq> x \<and> qr_Digest q \<noteq> x) xs)
            (os_Remove (fs_quarantines fs) w1))"

section \<open>Backup and restore\<close>

definition file_Backup ::
    "store_json \<Rightarrow> FileStore \<Rightarrow> call_env \<Rightarrow> world \<Rightarrow> string result \<times> world" where
  "file_Backup js fs ce w =
     (case readNDJSON (j_decision js) (fs_decisions fs) w of
        (Inl err, w1) \<Rightarrow> (Inl (Wrapf ''read decisions for backup: %w'' [] err), w1)
      | (Inr decs, w1) \<Rightarrow>
     (case readNDJSON (j_promotion js) (fs_promotions fs) w1 of
        (Inl err, w2) \<Rightarrow> (Inl (Wrapf ''read promotions for backup: %w'' [] err), w2)
      | (Inr proms, w2) \<Rightarrow>
     (case readNDJSON (j_revocation js) (fs_revocations fs) w2 of
        (Inl err, w3) \<Rightarrow> (Inl (Wrapf ''read revocations for backup: %w'' [] err), w3)
      | (Inr revs, w3) \<Rightarrow>
     (case readNDJSON (j_quarantine js) (fs_quarantines fs) w3 of
        (Inl err, w4) \<Rightarrow> (Inl (Wrapf ''read quarantines for backup: %w'' [] err), w4)
      | (Inr quars, w4) \<Rightarrow>
          (c_Marshal (j_backup js)
             \<lparr>bk_SchemaVersion = ''1.0.0'', bk_ExportedAt = ce_stamp ce, bk_Decisions = decs,
              bk_Promotions = proms, bk_Revocations = revs, bk_Quarantines = quars\<rparr>, w4)))))"

definition file_Restore ::
    "store_json \<Rightarrow> FileStore \<Rightarrow> string \<Rightarrow> world \<Rightarrow> go_error option \<times> world" where
  "file_Restore js fs data w =
     (case c_Unmarshal (j_backup js) data of
        Inl err \<Rightarrow> (Some (Wrapf ''unmarshal backup data: %w'' [] err), w)
      | Inr backup \<Rightarrow>
     (let w1 = os_Remove (fs_quarantines fs) (os_Remove (fs_revocations fs)
                 (os_Remove (fs_promotions fs) (os_Remove (fs_decisions fs) w)))
      in case append_all (j_decision js) (fs_decisions fs) (bk_Decisions backup) w1 of
        (Some err, w2) \<Rightarrow> (Some err, w2)
      | (None, w2) \<Rightarrow>
     (case append_all (j_promotion js) (fs_promotions fs) (bk_Promotions backup) w2 of
        (Some err, w3) \<Rightarrow> (Some err, w3)
      | (None, w3) \<Rightarrow>
     (case append_all (j_revocation js) (fs_revocations fs) (bk_Revocations backup) w3 of
        (Some err, w4) \<Rightarrow> (Some err, w4)
      | (None, w4) \<Rightarrow>
          append_all (j_quarantine js) (fs_quarantines fs) (bk_Quarantines backup) w4))))"

section \<open>The ledger in the files\<close>

definition paths_distinct :: "FileStore \<Rightarrow> bool" where
  "paths_distinct fs \<longleftrightarrow>
     distinct [fs_decisions fs, fs_promotions fs, fs_revocations fs, fs_quarantines fs]"

definition storable_ledger :: "store_json \<Rightarrow> ledger \<Rightarrow> bool" where
  "storable_ledger js g \<longleftrightarrow>
     list_all (storable (j_decision js)) (lg_decisions g)
     \<and> list_all (storable (j_promotion js)) (lg_promotions g)
     \<and> list_all (storable (j_revocation js)) (lg_revocations g)
     \<and> list_all (storable (j_quarantine js)) (lg_quarantines g)"

definition file_view :: "store_json \<Rightarrow> FileStore \<Rightarrow> world \<Rightarrow> ledger \<Rightarrow> bool" where
  "file_view js fs w g \<longleftrightarrow>
     paths_distinct fs \<and> w_faults w = [] \<and> storable_ledger js g
     \<and> file_holds (j_decision js) w (fs_decisions fs) (lg_decisions g)
     \<and> file_holds (j_promotion js) w (fs_promotions fs) (lg_promotions g)
     \<and> file_holds (j_revocation js) w (fs_revocations fs) (lg_revocations g)
     \<and> file_holds (j_quarantine js) w (fs_quarantines fs) (lg_quarantines g)"

definition file_exec ::
    "store_json \<Rightarrow> FileStore \<Rightarrow> call_env \<Rightarrow> store_op \<Rightarrow> world \<Rightarrow> go_error option \<times> world" where
  "file_exec js fs ce op w =
     (case op of
        SaveDecisionOp d \<Rightarrow> file_SaveDecision js fs d w
      | PromoteOp p \<Rightarrow> file_Promote js fs ce p w
      | RevokeOp r \<Rightarrow> file_Revoke js fs ce r w
      | QuarantineOp q \<Rightarrow> file_Quarantine js fs ce q w
      | UnquarantineOp x \<Rightarrow> file_Unquarantine js fs x w)"

text \<open>The record the call would write survives the way through the file.\<close>

definition file_fits :: "store_json \<Rightarrow> call_env \<Rightarrow> store_op \<Rightarrow> bool" where
  "file_fits js ce op =
     (case op of
        SaveDecisionOp d \<Rightarrow> storable (j_decision js) d
      | PromoteOp p \<Rightarrow> storable (j_promotion js) (stamp_promotion ce p)
      | RevokeOp r \<Rightarrow> storable (j_revocation js) (stamp_revocation ce r)
      | QuarantineOp q \<Rightarrow> storable (j_quarantine js) (stamp_quarantine ce q)
      | UnquarantineOp x \<Rightarrow> True)"

section \<open>Operations on a readable store\<close>

lemma file_store_paths: "paths_distinct (file_store dir)"
  by (simp add: paths_distinct_def file_store_def filepath_Join_def)

lemma file_holds_cong:
  "file_bytes w' q = file_bytes w q \<Longrightarrow> file_holds c w q xs \<Longrightarrow> file_holds c w' q xs"
  by (simp add: file_holds_def)

lemma os_Remove_ok:
  assumes "w_faults w = []"
  shows "w_faults (os_Remove path w) = []" "file_holds c (os_Remove path w) path []"
    "q \<noteq> path \<Longrightarrow> file_bytes (os_Remove path w) q = file_bytes w q"
    "w_dirs (os_Remove path w) = w_dirs w" "file_bytes (os_Remove path w) path = []"
  using assms
  by (auto simp: os_Remove_def file_holds_def file_bytes_def intro: exI [of _ "[]"])

lemma append_all_ok:
  assumes "w_faults w = []" "list_all (storable c) xs" "file_holds c w path ys"
  shows "\<exists>w'. append_all c path xs w = (None, w') \<and> w_faults w' = []
     \<and> file_holds c w' path (ys @ xs) \<and> (\<forall>q. q \<noteq> path \<longrightarrow> file_bytes w' q = file_bytes w q)"
  using assms
proof (induction xs arbitrary: w ys)
  case (Cons x xs)
  have "storable c x" using Cons.prems(2) by simp
  from appendNDJSON_storable [OF Cons.prems(1) this Cons.prems(3)]
  obtain w1 where w1: "appendNDJSON c path x w = (None, w1)" "w_faults w1 = []"
    "file_holds c w1 path (ys @ [x])" "\<And>q. q \<noteq> path \<Longrightarrow> file_bytes w1 q = file_bytes w q"
    by metis
  show ?case using Cons.IH [OF w1(2) _ w1(3)] Cons.prems(2) w1 by auto
qed simp

text \<open>Appending one record to one of the four files keeps the others.\<close>

lemma view_append_decision:
  assumes "file_view js fs w g" "storable (j_decision js) d"
  shows "\<exists>w'. appendNDJSON (j_decision js) (fs_decisions fs) d w = (None, w')
     \<and> file_view js fs w' (g\<lparr>lg_decisions := lg_decisions g @ [d]\<rparr>)"
proof -
  have h: "w_faults w = []" "file_holds (j_decision js) w (fs_decisions fs) (lg_decisions g)"
    using assms(1) by (simp_all add: file_view_def)
  from appendNDJSON_storable [OF h(1) assms(2) h(2)] obtain w' where
    w': "appendNDJSON (j_decision js) (fs_decisions fs) d w = (None, w')" "w_faults w' = []"
      "file_holds (j_decision js) w' (fs_decisions fs) (lg_decisions g @ [d])"
      "\<And>q. q \<noteq> fs_decisions fs \<Longrightarrow> file_bytes w' q = file_bytes w q" by metis
  then show ?thesis using assms
    by (auto simp: file_view_def storable_ledger_def paths_distinct_def intro!: file_holds_cong [of w' _ w])
qed

lemma view_append_promotion:
  assumes "file_view js fs w g" "storable (j_promotion js) p"
  shows "\<exists>w'. appendNDJSON (j_promotion js) (fs_promotions fs) p w = (None, w')
     \<and> file_view js fs w' (g\<lparr>lg_promotions := lg_promotions g @ [p]\<rparr>)"
proof -
  have h: "w_faults w = []" "file_holds (j_promotion js) w (fs_promotions fs) (lg_promotions g)"
    using assms(1) by (simp_all add: file_view_def)
  from appendNDJSON_storable [OF h(1) assms(2) h(2)] obtain w' where
    w': "appendNDJSON (j_promotion js) (fs_promotions fs) p w = (None, w')" "w_faults w' = []"
      "file_holds (j_promotion js) w' (fs_promotions fs) (lg_promotions g @ [p])"
      "\<And>q. q \<noteq> fs_promotions fs \<Longrightarrow> file_bytes w' q = file_bytes w q" by metis
  then show ?thesis using assms
    by (auto simp: file_view_def storable_ledger_def paths_distinct_def intro!: file_holds_cong [of w' _ w])
qed

lemma view_append_revocation:
  assumes "file_view js fs w g" "storable (j_revocation js) r"
  shows "\<exists>w'. appendNDJSON (j_revocation js) (fs_revocations fs) r w = (None, w')
     \<and> file_view js fs w' (g\<lparr>lg_revocations := lg_revocations g @ [r]\<rparr>)"
proof -
  have h: "w_faults w = []" "file_holds (j_revocation js) w (fs_revocations fs) (lg_revocations g)"
    using assms(1) by (simp_all add: file_view_def)
  from appendNDJSON_storable [OF h(1) assms(2) h(2)] obtain w' where
    w': "appendNDJSON (j_revocation js) (fs_revocations fs) r w = (None, w')" "w_faults w' = []"
      "file_holds (j_revocation js) w' (fs_revocations fs) (lg_revocations g @ [r])"
      "\<And>q. q \<noteq> fs_revocations fs \<Longrightarrow> file_bytes w' q = file_bytes w q" by metis
  then show ?thesis using assms
    by (auto simp: file_view_def storable_ledger_def paths_distinct_def intro!: file_holds_cong [of w' _ w])
qed

text \<open>Replacing the quarantine file.\<close>

lemma view_quarantines:
  assumes "file_view js fs w g" "w_faults w' = []" "list_all (storable (j_quarantine js)) qs"
    "file_holds (j_quarantine js) w' (fs_quarantines fs) qs"
    "\<forall>q. q \<noteq> fs_quarantines fs \<longrightarrow> file_bytes w' q = file_bytes w q"
  shows "file_view js fs w' (g\<lparr>lg_quarantines := qs\<rparr>)"
  using assms
  by (auto simp: file_view_def storable_ledger_def paths_distinct_def intro!: file_holds_cong [of w' _ w])

lemma view_append_quarantine:
  assumes "file_view js fs w g" "storable (j_quarantine js) q"
  shows "\<exists>w'. appendNDJSON (j_quarantine js) (fs_quarantines fs) q w = (None, w')
     \<and> file_view js fs w' (g\<lparr>lg_quarantines := lg_quarantines g @ [q]\<rparr>)"
proof -
  have h: "w_faults w = []" "file_holds (j_quarantine js) w (fs_quarantines fs) (lg_quarantines g)"
    "list_all (storable (j_quarantine js)) (lg_quarantines g)"
    using assms(1) by (simp_all add: file_view_def storable_ledger_def)
  from appendNDJSON_storable [OF h(1) assms(2) h(2)] obtain w' where
    w': "appendNDJSON (j_quarantine js) (fs_quarantines fs) q w = (None, w')" "w_faults w' = []"
      "file_holds (j_quarantine js) w' (fs_quarantines fs) (lg_quarantines g @ [q])"
      "\<And>p. p \<noteq> fs_quarantines fs \<Longrightarrow> file_bytes w' p = file_bytes w p" by metis
  have "file_view js fs w' (g\<lparr>lg_quarantines := lg_quarantines g @ [q]\<rparr>)"
    by (rule view_quarantines [OF assms(1) w'(2)]) (use h(3) assms(2) w' in auto)
  then show ?thesis using w'(1) by blast
qed

text \<open>Reading a readable store returns the ledger and leaves the world alone.\<close>

lemma view_reads:
  assumes "file_view js fs w g"
  shows "readNDJSON (j_decision js) (fs_decisions fs) w = (Inr (lg_decisions g), w)"
    "readNDJSON (j_promotion js) (fs_promotions fs) w = (Inr (lg_promotions g), w)"
    "readNDJSON (j_revocation js) (fs_revocations fs) w = (Inr (lg_revocations g), w)"
    "readNDJSON (j_quarantine js) (fs_quarantines fs) w = (Inr (lg_quarantines g), w)"
  using assms by (auto simp: file_view_def intro!: readNDJSON_holds)

lemma file_Promote_view:
  assumes "file_view js fs w g"
  shows "file_Promote js fs ce p w =
    (case promotion_error g (ce_now ce) p of
       Some e \<Rightarrow> (Some e, w)
     | None \<Rightarrow> appendNDJSON (j_promotion js) (fs_promotions fs) (stamp_promotion ce p) w)"
  by (simp add: file_Promote_def promotion_error_def view_reads [OF assms] split: option.splits)

lemma file_Unquarantine_view:
  assumes "file_view js fs w g"
  shows "\<exists>w'. file_Unquarantine js fs x w = (None, w')
     \<and> file_view js fs w' (g\<lparr>lg_quarantines := filter (\<lambda>q. qr_ID q \<noteq> x \<and> qr_Digest q \<noteq> x) (lg_quarantines g)\<rparr>)"
proof -
  let ?qs = "filter (\<lambda>q. qr_ID q \<noteq> x \<and> qr_Digest q \<noteq> x) (lg_quarantines g)"
  let ?w1 = "os_Remove (fs_quarantines fs) w"
  have nf: "w_faults w = []" and st: "list_all (storable (j_quarantine js)) ?qs"
    using assms by (auto simp: file_view_def storable_ledger_def list_all_iff)
  note rm = os_Remove_ok [OF nf, where path = "fs_quarantines fs"]
  obtain w' where w': "append_all (j_quarantine js) (fs_quarantines fs) ?qs ?w1 = (None, w')"
    "w_faults w' = []" "file_holds (j_quarantine js) w' (fs_quarantines fs) ?qs"
    "\<forall>q. q \<noteq> fs_quarantines fs \<longrightarrow> file_bytes w' q = file_bytes ?w1 q"
    using append_all_ok [OF rm(1) st rm(2)] by auto
  have "file_view js fs w' (g\<lparr>lg_quarantines := ?qs\<rparr>)"
    by (rule view_quarantines [OF assms w'(2) st w'(3)]) (use w'(4) rm(3) in simp)
  then show ?thesis using w'(1) by (simp add: file_Unquarantine_def view_reads [OF assms])
qed

section \<open>The interface, provided by the files\<close>

lemma file_step:
  assumes "file_view js fs w g" "file_fits js ce op" "file_exec js fs ce op w = (r, w')"
  shows "\<exists>g'. file_view js fs w' g' \<and> ledger_step ce op g r g'"
proof (cases op)
  case (SaveDecisionOp d)
  then show ?thesis
    using view_append_decision [OF assms(1), of d] assms(2,3)
    by (fastforce simp: file_exec_def file_fits_def file_SaveDecision_def intro: decision_saved)
next
  case (PromoteOp p)
  show ?thesis
  proof (cases "promotion_error g (ce_now ce) p")
    case (Some e)
    then have "r = Some e" "w' = w"
      using assms(3) PromoteOp file_Promote_view [OF assms(1), of ce p]
      by (simp_all add: file_exec_def)
    then show ?thesis using assms(1) refused by blast
  next
    case None
    obtain d where d: "d \<in> set (lg_decisions g)" "justifies d p"
        "d_ExpiresAt d = time_zero \<or> ce_now ce \<le> d_ExpiresAt d"
      using promotion_error_justified(1) [OF None] by blast
    have "storable (j_promotion js) (stamp_promotion ce p)"
      using assms(2) PromoteOp by (simp add: file_fits_def)
    then obtain w1 where "appendNDJSON (j_promotion js) (fs_promotions fs) (stamp_promotion ce p) w = (None, w1)"
        "file_view js fs w1 (g\<lparr>lg_promotions := lg_promotions g @ [stamp_promotion ce p]\<rparr>)"
      using view_append_promotion [OF assms(1)] by blast
    then have "r = None" "file_view js fs w' (g\<lparr>lg_promotions := lg_promotions g @ [stamp_promotion ce p]\<rparr>)"
      using assms(3) PromoteOp None file_Promote_view [OF assms(1), of ce p]
      by (simp_all add: file_exec_def)
    moreover have "ledger_step ce op g None (g\<lparr>lg_promotions := lg_promotions g @ [stamp_promotion ce p]\<rparr>)"
      unfolding PromoteOp
      by (rule promoted [OF d promotion_error_justified(2) [OF None], of "stamp_promotion ce p"]) simp_all
    ultimately show ?thesis by blast
  qed
next
  case (RevokeOp x)
  have "storable (j_revocation js) (stamp_revocation ce x)"
    using assms(2) RevokeOp by (simp add: file_fits_def)
  from view_append_revocation [OF assms(1) this]
  have "r = None" "file_view js fs w' (g\<lparr>lg_revocations := lg_revocations g @ [stamp_revocation ce x]\<rparr>)"
    using assms(3) RevokeOp by (auto simp: file_exec_def file_Revoke_def)
  moreover have "ledger_step ce op g None (g\<lparr>lg_revocations := lg_revocations g @ [stamp_revocation ce x]\<rparr>)"
    unfolding RevokeOp by (rule revoked [of "stamp_revocation ce x"]) simp_all
  ultimately show ?thesis by blast
next
  case (QuarantineOp x)
  have "storable (j_quarantine js) (stamp_quarantine ce x)"
    using assms(2) QuarantineOp by (simp add: file_fits_def)
  from view_append_quarantine [OF assms(1) this]
  have "r = None" "file_view js fs w' (g\<lparr>lg_quarantines := lg_quarantines g @ [stamp_quarantine ce x]\<rparr>)"
    using assms(3) QuarantineOp by (auto simp: file_exec_def file_Quarantine_def)
  moreover have "ledger_step ce op g None (g\<lparr>lg_quarantines := lg_quarantines g @ [stamp_quarantine ce x]\<rparr>)"
    unfolding QuarantineOp by (rule quarantined [of "stamp_quarantine ce x"]) simp_all
  ultimately show ?thesis by blast
next
  case (UnquarantineOp x)
  let ?g' = "g\<lparr>lg_quarantines := filter (\<lambda>q. qr_ID q \<noteq> x \<and> qr_Digest q \<noteq> x) (lg_quarantines g)\<rparr>"
  have "r = None" "file_view js fs w' ?g'"
    using file_Unquarantine_view [OF assms(1), of x] assms(3) UnquarantineOp
    by (auto simp: file_exec_def)
  moreover have "ledger_step ce op g None ?g'"
    unfolding UnquarantineOp by (rule unquarantined) auto
  ultimately show ?thesis by blast
qed

lemma file_IsQuarantined_view:
  assumes "file_view js fs w g"
  shows "file_IsQuarantined js fs dg env w = (Inr (\<exists>q \<in> set (lg_quarantines g). quarantines dg env q), w)"
  by (auto simp: file_IsQuarantined_def file_GetQuarantines_def view_reads [OF assms] quarantines_def)

interpretation file_ledger: store_lookup "file_exec js fs" "file_view js fs" "file_fits js"
    "file_IsQuarantined js fs" for js fs
  by unfold_locales (blast intro: file_step, rule file_IsQuarantined_view)

text \<open>What the lookups need of a store, whatever its decisions and promotions are.\<close>

definition file_blocks :: "store_json \<Rightarrow> FileStore \<Rightarrow> world \<Rightarrow> ledger \<Rightarrow> bool" where
  "file_blocks js fs w g \<longleftrightarrow>
     w_faults w = []
     \<and> file_holds (j_revocation js) w (fs_revocations fs) (lg_revocations g)
     \<and> file_holds (j_quarantine js) w (fs_quarantines fs) (lg_quarantines g)"

lemma view_blocks: "file_view js fs w g \<Longrightarrow> file_blocks js fs w g"
  by (simp add: file_view_def file_blocks_def)

lemma file_blocks_lookups:
  assumes "file_blocks js fs w g"
  shows "file_IsRevoked js fs dg env w =
      (Inr (\<exists>r \<in> set (lg_revocations g). rv_Digest r = dg \<and> rv_Environment r = env), w)"
    "file_IsQuarantined js fs dg env w = (Inr (\<exists>q \<in> set (lg_quarantines g). quarantines dg env q), w)"
proof -
  have "readNDJSON (j_revocation js) (fs_revocations fs) w = (Inr (lg_revocations g), w)"
    "readNDJSON (j_quarantine js) (fs_quarantines fs) w = (Inr (lg_quarantines g), w)"
    using assms by (auto simp: file_blocks_def intro!: readNDJSON_holds)
  then show "file_IsRevoked js fs dg env w =
      (Inr (\<exists>r \<in> set (lg_revocations g). rv_Digest r = dg \<and> rv_Environment r = env), w)"
    "file_IsQuarantined js fs dg env w = (Inr (\<exists>q \<in> set (lg_quarantines g). quarantines dg env q), w)"
    by (auto simp: file_IsRevoked_def file_GetRevocations_def revokes_def file_IsQuarantined_def
        file_GetQuarantines_def quarantines_def)
qed

lemma file_SaveDecision_other:
  "path \<noteq> fs_decisions fs \<Longrightarrow> file_bytes (snd (file_SaveDecision js fs d w)) path = file_bytes w path"
  by (cases "file_SaveDecision js fs d w") (simp add: file_SaveDecision_def file_bytes_def appendNDJSON_extends(1))

lemma file_blocks_save:
  assumes "paths_distinct fs" "file_blocks js fs w g"
  shows "file_blocks js fs (snd (file_SaveDecision js fs d w)) g"
proof -
  have "w_faults (snd (file_SaveDecision js fs d w)) = []"
    using assms(2) appendNDJSON_no_faults [of w] by (simp add: file_blocks_def file_SaveDecision_def)
  moreover have "fs_revocations fs \<noteq> fs_decisions fs" "fs_quarantines fs \<noteq> fs_decisions fs"
    using assms(1) by (auto simp: paths_distinct_def)
  ultimately show ?thesis
    using assms(2) by (simp add: file_blocks_def file_holds_cong [OF file_SaveDecision_other])
qed

section \<open>Success under arbitrary faults\<close>

text \<open>The records in a file, as a fault-free read would return them.\<close>

definition file_items :: "'a codec \<Rightarrow> world \<Rightarrow> string \<Rightarrow> 'a list result" where
  "file_items c w path = scan_bytes c path (file_bytes w path)"

lemma scan_bytes_empty [simp]: "scan_bytes c path [] = Inr []"
  by (simp add: scan_bytes_def MaxScanTokenSize_def)

lemma readNDJSON_Inr:
  assumes "readNDJSON c path w = (Inr xs, w')"
  shows "file_items c w path = Inr xs" "w_files w' = w_files w"
proof -
  have "w_files (snd (readNDJSON c path w)) = w_files w" by (rule readNDJSON_files)
  then show "w_files w' = w_files w" by (simp add: assms)
  show "file_items c w path = Inr xs"
    using assms
    by (auto simp: readNDJSON_def file_items_def file_bytes_def
        split: list.splits option.splits sum.splits)
qed

lemma file_items_cong: "w_files w' = w_files w \<Longrightarrow> file_items c w' path = file_items c w path"
  by (simp add: file_items_def file_bytes_def)

lemma file_items_holds: "file_holds c w path xs \<Longrightarrow> file_items c w path = Inr xs"
  using scan_bytes_hold by (auto simp: file_holds_def file_items_def)

section \<open>A concrete store\<close>

text \<open>Codecs that know one value each, an empty data directory, and a first decision.\<close>

definition one_codec :: "'a \<Rightarrow> 'a codec" where
  "one_codec v = \<lparr>c_Marshal = (\<lambda>_. Inr ''{}''), c_Unmarshal = (\<lambda>_. Inr v)\<rparr>"

lemma one_codec_storable [simp]: "storable (one_codec v) v"
  unfolding storable_def ndjson_line_def
  by (rule exI [of _ "''{}''"])
    (simp add: one_codec_def MaxScanTokenSize_def TrimSpace_graphic graphic_def less_eq_char_def)

definition sample_decision :: Decision where
  "sample_decision = Evaluate sample_env (evaluator_New sample_policy) sample_request"

definition sample_ce :: call_env where
  "sample_ce = \<lparr>ce_now = 3, ce_stamp = 3, ce_random = replicate 8 CHR 0x02\<rparr>"

definition sample_promotion :: Promotion where
  "sample_promotion =
     \<lparr>pm_ID = ''promo-1'', pm_DecisionID = d_DecisionID sample_decision, pm_Digest = sample_digest,
      pm_Environment = ''production'', pm_PromotedBy = ''ci'', pm_PromotedAt = 3, pm_Reason = []\<rparr>"

definition sample_revocation :: Revocation where
  "sample_revocation =
     \<lparr>rv_ID = ''rev-1'', rv_Digest = sample_digest, rv_Environment = [], rv_RevokedBy = ''sec'',
      rv_RevokedAt = 3, rv_ExpiresAt = None, rv_Reason = [], rv_IncidentID = []\<rparr>"

definition sample_quarantine :: Quarantine where
  "sample_quarantine =
     \<lparr>qr_ID = ''quar-1'', qr_Digest = sample_digest, qr_Environment = [], qr_QuarantinedBy = ''sec'',
      qr_QuarantinedAt = 3, qr_Reason = [], qr_IncidentID = []\<rparr>"

definition empty_ledger :: ledger where
  "empty_ledger = \<lparr>lg_decisions = [], lg_promotions = [], lg_revocations = [], lg_quarantines = []\<rparr>"

definition sample_ledger :: ledger where
  "sample_ledger = empty_ledger\<lparr>lg_decisions := [sample_decision]\<rparr>"

definition backup_of :: "call_env \<Rightarrow> ledger \<Rightarrow> BackupData" where
  "backup_of ce g =
     \<lparr>bk_SchemaVersion = ''1.0.0'', bk_ExportedAt = ce_stamp ce, bk_Decisions = lg_decisions g,
      bk_Promotions = lg_promotions g, bk_Revocations = lg_revocations g,
      bk_Quarantines = lg_quarantines g\<rparr>"

definition sample_json :: store_json where
  "sample_json =
     \<lparr>j_decision = one_codec sample_decision, j_promotion = one_codec sample_promotion,
      j_revocation = one_codec sample_revocation, j_quarantine = one_codec sample_quarantine,
      j_backup = one_codec (backup_of sample_ce sample_ledger)\<rparr>"

definition empty_world :: world where
  "empty_world = \<lparr>w_files = Map.empty, w_dirs = [], w_faults = []\<rparr>"

lemma stamp_samples [simp]:
  "stamp_promotion ce sample_promotion = sample_promotion"
  "stamp_revocation ce sample_revocation = sample_revocation"
  "stamp_quarantine ce sample_quarantine = sample_quarantine"
  by (simp_all add: stamp_promotion_def stamp_revocation_def stamp_quarantine_def Let_def
      sample_promotion_def sample_revocation_def sample_quarantine_def time_defs)

lemma NewFileStore_view:
  assumes "dir \<noteq> []" "w_faults w = []" "\<forall>p. file_bytes w p = []"
  shows "\<exists>w'. NewFileStore dir w = (Inr (file_store dir), w')
           \<and> file_view js (file_store dir) w' empty_ledger"
  using assms
  by (auto simp: NewFileStore_def os_MkdirAll_def file_view_def file_store_paths empty_ledger_def
      storable_ledger_def file_holds_def file_bytes_def intro!: exI [of _ "[]"])

lemma empty_ledger_justified [simp]: "justified empty_ledger"
  by (simp add: justified_def empty_ledger_def)

lemma empty_world_view: "file_view js (file_store ''data'') empty_world empty_ledger"
  by (auto simp: empty_world_def file_view_def file_store_paths empty_ledger_def
      storable_ledger_def file_holds_def file_bytes_def intro!: exI [of _ "[]"])

definition sample_world :: world where
  "sample_world = snd (file_SaveDecision sample_json (file_store ''data'') sample_decision empty_world)"

lemma sample_world_view: "file_view sample_json (file_store ''data'') sample_world sample_ledger"
proof -
  have "storable (j_decision sample_json) sample_decision" by (simp add: sample_json_def)
  from view_append_decision [OF empty_world_view this] show ?thesis
    by (auto simp: sample_world_def file_SaveDecision_def sample_ledger_def empty_ledger_def)
qed

lemma sample_promotion_ok: "promotion_error sample_ledger (ce_now sample_ce) sample_promotion = None"
proof -
  have d: "d_Decision sample_decision = Allow"
    unfolding sample_decision_def by (rule sample_allowed)
  have "length (newID sample_env) = 24" by (simp add: newID_def sample_env_def)
  then have ne: "newID sample_env \<noteq> []" by auto
  have f: "d_DecisionID sample_decision = newID sample_env"
    "as_Digest (d_Subject sample_decision) = sample_digest"
    "d_Environment sample_decision = ''production''"
    "d_ExpiresAt sample_decision = 2 + 24 * time_hour"
    by (simp_all add: sample_decision_def sample_request_def sample_env_def Time_Add_def
        del: Evaluate_fields(1))
  show ?thesis
    using d f ne
    by (simp add: promotion_error_None justifies_def blocked_def sample_ledger_def empty_ledger_def
        sample_promotion_def sample_ce_def time_defs)
qed

section \<open>Restoring\<close>

text \<open>The ledger a backup document describes.\<close>

definition ledger_of :: "BackupData \<Rightarrow> ledger" where
  "ledger_of b =
     \<lparr>lg_decisions = bk_Decisions b, lg_promotions = bk_Promotions b, lg_revocations = bk_Revocations b,
      lg_quarantines = bk_Quarantines b\<rparr>"

definition file_content :: "store_json \<Rightarrow> string \<Rightarrow> ledger option" where
  "file_content js data =
     (case c_Unmarshal (j_backup js) data of Inl _ \<Rightarrow> None | Inr b \<Rightarrow> Some (ledger_of b))"

lemma file_holds_after_remove:
  assumes "w_faults w = []" "paths_distinct fs"
  defines "w1 \<equiv> os_Remove (fs_quarantines fs) (os_Remove (fs_revocations fs)
                 (os_Remove (fs_promotions fs) (os_Remove (fs_decisions fs) w)))"
  shows "w_faults w1 = []" "file_bytes w1 (fs_decisions fs) = []" "file_bytes w1 (fs_promotions fs) = []"
    "file_bytes w1 (fs_revocations fs) = []" "file_bytes w1 (fs_quarantines fs) = []"
proof -
  note rm = os_Remove_ok
  let ?a = "os_Remove (fs_decisions fs) w"
  let ?b = "os_Remove (fs_promotions fs) ?a"
  let ?c = "os_Remove (fs_revocations fs) ?b"
  have f: "w_faults ?a = []" "w_faults ?b = []" "w_faults ?c = []" using rm(1) assms(1) by blast+
  show "w_faults w1 = []" unfolding w1_def by (rule rm(1) [OF f(3)])
  have d: "fs_decisions fs \<noteq> fs_promotions fs" "fs_decisions fs \<noteq> fs_revocations fs"
    "fs_decisions fs \<noteq> fs_quarantines fs" "fs_promotions fs \<noteq> fs_revocations fs"
    "fs_promotions fs \<noteq> fs_quarantines fs" "fs_revocations fs \<noteq> fs_quarantines fs"
    using assms(2) by (auto simp: paths_distinct_def)
  show "file_bytes w1 (fs_decisions fs) = []" "file_bytes w1 (fs_promotions fs) = []"
    "file_bytes w1 (fs_revocations fs) = []" "file_bytes w1 (fs_quarantines fs) = []"
    unfolding w1_def using d rm(3,5) [OF assms(1)] rm(3,5) [OF f(1)] rm(3,5) [OF f(2)] rm(3,5) [OF f(3)]
    by simp_all
qed

lemma file_holds_empty: "file_bytes w q = [] \<Longrightarrow> file_holds c w q []"
  by (auto simp: file_holds_def intro: exI [of _ "[]"])

lemma append_all_empty:
  assumes "w_faults w = []" "list_all (storable c) xs" "file_bytes w path = []"
  obtains w' where "append_all c path xs w = (None, w')" "w_faults w' = []" "file_holds c w' path xs"
    "\<And>q. q \<noteq> path \<Longrightarrow> file_bytes w' q = file_bytes w q"
  using append_all_ok [OF assms(1,2) file_holds_empty [OF assms(3)]] by auto

lemma file_Restore_ok:
  assumes "storable_ledger js g" "paths_distinct fs" "w_faults w = []"
    "c_Unmarshal (j_backup js) data = Inr b" "g = ledger_of b"
  shows "\<exists>w'. file_Restore js fs data w = (None, w') \<and> file_view js fs w' g"
proof -
  let ?w1 = "os_Remove (fs_quarantines fs) (os_Remove (fs_revocations fs)
                 (os_Remove (fs_promotions fs) (os_Remove (fs_decisions fs) w)))"
  note e = file_holds_after_remove [OF assms(3,2)]
  have st: "list_all (storable (j_decision js)) (lg_decisions g)"
    "list_all (storable (j_promotion js)) (lg_promotions g)"
    "list_all (storable (j_revocation js)) (lg_revocations g)"
    "list_all (storable (j_quarantine js)) (lg_quarantines g)"
    using assms(1) by (simp_all add: storable_ledger_def)
  have d: "fs_decisions fs \<noteq> fs_promotions fs" "fs_decisions fs \<noteq> fs_revocations fs"
    "fs_decisions fs \<noteq> fs_quarantines fs" "fs_promotions fs \<noteq> fs_revocations fs"
    "fs_promotions fs \<noteq> fs_quarantines fs" "fs_revocations fs \<noteq> fs_quarantines fs"
    using assms(2) by (auto simp: paths_distinct_def)
  obtain w2 where w2: "append_all (j_decision js) (fs_decisions fs) (lg_decisions g) ?w1 = (None, w2)"
    "w_faults w2 = []" "file_holds (j_decision js) w2 (fs_decisions fs) (lg_decisions g)"
    "\<And>q. q \<noteq> fs_decisions fs \<Longrightarrow> file_bytes w2 q = file_bytes ?w1 q"
    using append_all_empty [OF e(1) st(1) e(2)] by blast
  have "file_bytes w2 (fs_promotions fs) = []" using w2(4) d e(3) by metis
  then obtain w3 where w3: "append_all (j_promotion js) (fs_promotions fs) (lg_promotions g) w2 = (None, w3)"
    "w_faults w3 = []" "file_holds (j_promotion js) w3 (fs_promotions fs) (lg_promotions g)"
    "\<And>q. q \<noteq> fs_promotions fs \<Longrightarrow> file_bytes w3 q = file_bytes w2 q"
    using append_all_empty [OF w2(2) st(2)] by blast
  have "file_bytes w3 (fs_revocations fs) = []" using w3(4) w2(4) d e(4) by metis
  then obtain w4 where w4: "append_all (j_revocation js) (fs_revocations fs) (lg_revocations g) w3 = (None, w4)"
    "w_faults w4 = []" "file_holds (j_revocation js) w4 (fs_revocations fs) (lg_revocations g)"
    "\<And>q. q \<noteq> fs_revocations fs \<Longrightarrow> file_bytes w4 q = file_bytes w3 q"
    using append_all_empty [OF w3(2) st(3)] by blast
  have "file_bytes w4 (fs_quarantines fs) = []" using w4(4) w3(4) w2(4) d e(5) by metis
  then obtain w5 where w5: "append_all (j_quarantine js) (fs_quarantines fs) (lg_quarantines g) w4 = (None, w5)"
    "w_faults w5 = []" "file_holds (j_quarantine js) w5 (fs_quarantines fs) (lg_quarantines g)"
    "\<And>q. q \<noteq> fs_quarantines fs \<Longrightarrow> file_bytes w5 q = file_bytes w4 q"
    using append_all_empty [OF w4(2) st(4)] by blast
  have "file_bytes w5 (fs_decisions fs) = file_bytes w2 (fs_decisions fs)"
    "file_bytes w5 (fs_promotions fs) = file_bytes w3 (fs_promotions fs)"
    "file_bytes w5 (fs_revocations fs) = file_bytes w4 (fs_revocations fs)"
    using w5(4) w4(4) w3(4) d by metis+
  then have "file_view js fs w5 g"
    unfolding file_view_def
    using assms(1,2) w5(2,3) file_holds_cong [OF _ w2(3)] file_holds_cong [OF _ w3(3)]
      file_holds_cong [OF _ w4(3)] by blast
  moreover have "file_Restore js fs data w = (None, w5)"
    using w2(1) w3(1) w4(1) w5(1)
    by (simp add: file_Restore_def assms(4,5) ledger_of_def Let_def)
  ultimately show ?thesis by blast
qed

lemma file_restore_step:
  assumes "file_view js fs w g" "\<forall>l. file_content js data = Some l \<longrightarrow> storable_ledger js l"
    "file_Restore js fs data w = (r, w')"
  shows "r \<noteq> None \<and> file_view js fs w' g \<or> r = None \<and> (\<exists>l. file_content js data = Some l \<and> file_view js fs w' l)"
proof (cases "c_Unmarshal (j_backup js) data")
  case (Inr b)
  have "storable_ledger js (ledger_of b)" "paths_distinct fs" "w_faults w = []"
    using assms(1,2) Inr by (simp_all add: file_content_def file_view_def)
  from file_Restore_ok [OF this Inr refl] show ?thesis using assms(3) Inr by (auto simp: file_content_def)
qed (use assms(1,3) in \<open>auto simp: file_Restore_def\<close>)

interpretation file_restorable: restorable_store "file_exec js fs" "file_view js fs" "file_fits js"
    "file_Restore js fs" "file_content js" "storable_ledger js" for js fs
  by unfold_locales (rule file_restore_step)

section \<open>The log only grows\<close>

lemma appendNDJSON_prefix: "prefix (file_bytes w q) (file_bytes (snd (appendNDJSON c path x w)) q)"
proof -
  obtain r w' where a: "appendNDJSON c path x w = (r, w')" by fastforce
  show ?thesis
  proof (cases "q = path")
    case True
    then show ?thesis using appendNDJSON_extends(2) [OF a] a by auto
  next
    case False
    then show ?thesis using appendNDJSON_extends(1) [OF a False] a by (simp add: file_bytes_def)
  qed
qed

lemma readNDJSON_same: "readNDJSON c path w = (x, w1) \<Longrightarrow> w_files w1 = w_files w"
  using readNDJSON_files [of c path w] by simp

lemma file_Promote_files:
  "w_files (snd (file_Promote js fs ce p w)) = w_files w
   \<or> (\<exists>w3. w_files w3 = w_files w \<and> snd (file_Promote js fs ce p w)
          = snd (appendNDJSON (j_promotion js) (fs_promotions fs) (stamp_promotion ce p) w3))"
proof -
  obtain x1 w1 where x1: "readNDJSON (j_decision js) (fs_decisions fs) w = (x1, w1)" by fastforce
  obtain x2 w2 where x2: "readNDJSON (j_revocation js) (fs_revocations fs) w1 = (x2, w2)" by fastforce
  obtain x3 w3 where x3: "readNDJSON (j_quarantine js) (fs_quarantines fs) w2 = (x3, w3)" by fastforce
  have "w_files w1 = w_files w" "w_files w2 = w_files w" "w_files w3 = w_files w"
    using readNDJSON_same [OF x1] readNDJSON_same [OF x2] readNDJSON_same [OF x3] by simp_all
  then show ?thesis
    unfolding file_Promote_def x1 x2 x3 by (auto simp: x2 x3 split: sum.splits option.splits)
qed

lemma append_all_other: "q \<noteq> path \<Longrightarrow> w_files (snd (append_all c path xs w)) q = w_files w q"
proof (induction xs arbitrary: w)
  case (Cons x xs)
  obtain r w1 where a: "appendNDJSON c path x w = (r, w1)" by fastforce
  show ?case using Cons.IH [OF Cons.prems, of w1] appendNDJSON_extends(1) [OF a Cons.prems] a
    by (simp split: option.splits)
qed simp

text \<open>Whatever fails, no call but \<open>Unquarantine\<close> (on its own file) removes a byte.\<close>

lemma file_exec_prefix:
  assumes "q \<noteq> fs_quarantines fs"
  shows "prefix (file_bytes w q) (file_bytes (snd (file_exec js fs ce op w)) q)"
proof (cases op)
  case (PromoteOp p)
  then show ?thesis
    using file_Promote_files [of js fs ce p w]
      appendNDJSON_prefix [of _ q "j_promotion js" "fs_promotions fs" "stamp_promotion ce p"]
    by (simp add: file_exec_def) (metis file_bytes_def prefix_order.refl)
next
  case (UnquarantineOp x)
  obtain y w1 where r: "readNDJSON (j_quarantine js) (fs_quarantines fs) w = (y, w1)" by fastforce
  have "w_files (os_Remove (fs_quarantines fs) w1) q = w_files w q"
    using assms readNDJSON_same [OF r] by (simp add: os_Remove_def split: list.splits option.splits)
  then have "w_files (snd (file_Unquarantine js fs x w)) q = w_files w q"
    using readNDJSON_same [OF r]
    by (simp add: file_Unquarantine_def r append_all_other [OF assms] split: sum.splits)
  then show ?thesis using UnquarantineOp by (simp add: file_exec_def file_bytes_def)
qed (simp_all add: file_exec_def file_SaveDecision_def file_Revoke_def file_Quarantine_def appendNDJSON_prefix)

lemma file_run_prefix:
  "q \<noteq> fs_quarantines fs \<Longrightarrow> prefix (file_bytes w q) (file_bytes (run_ops (file_exec js fs) ops w) q)"
proof (induction ops arbitrary: w)
  case (Cons cop ops)
  then show ?case
    using file_exec_prefix [OF Cons.prems] prefix_order.trans by (cases cop) (fastforce simp del: prefix_def)
qed simp

lemma scan_lines_append:
  "list_all2 (ndjson_line c) xs ss \<Longrightarrow>
     scan_lines c path (ss @ rest) =
       (case scan_lines c path rest of Inl e \<Rightarrow> Inl e | Inr ys \<Rightarrow> Inr (xs @ ys))"
  by (induction rule: list_all2_induct)
    (simp_all add: ndjson_line_def Let_def MaxScanTokenSize_def split: sum.splits)

lemma Split_file_lines_append:
  "\<forall>s \<in> set ss. newline \<notin> set s \<Longrightarrow> Split (file_lines ss @ rest) newline = ss @ Split rest newline"
  by (induction ss) (simp_all add: Split_append_sep)

text \<open>Reading what begins with whole lines fails or returns their records first.\<close>

lemma scan_bytes_prefix:
  assumes "list_all2 (ndjson_line c) xs ss" "scan_bytes c path (file_lines ss @ rest) = Inr ys"
  shows "set xs \<subseteq> set ys"
proof -
  have "\<forall>s \<in> set ss. newline \<notin> set s"
    using assms(1) by (auto simp: list_all2_conv_all_nth in_set_conv_nth ndjson_line_def)
  then show ?thesis
    using assms(2) scan_lines_append [OF assms(1), of path "Split rest newline"]
    by (auto simp: scan_bytes_def Split_file_lines_append split: sum.splits)
qed

text \<open>The conditions under which \<open>Promote\<close> reports success, whatever fails.\<close>

lemma file_Promote_success:
  assumes "file_Promote js fs ce p w = (None, w')"
  shows "\<exists>decs revs quars s.
      file_items (j_decision js) w (fs_decisions fs) = Inr decs
    \<and> file_items (j_revocation js) w (fs_revocations fs) = Inr revs
    \<and> file_items (j_quarantine js) w (fs_quarantines fs) = Inr quars
    \<and> promotion_error \<lparr>lg_decisions = decs, lg_promotions = [], lg_revocations = revs,
        lg_quarantines = quars\<rparr> (ce_now ce) p = None
    \<and> c_Marshal (j_promotion js) (stamp_promotion ce p) = Inr s
    \<and> file_bytes w' (fs_promotions fs) = file_bytes w (fs_promotions fs) @ s @ [newline]"
proof -
  note P = assms [unfolded file_Promote_def]
  have id: "pm_DecisionID p \<noteq> []" using P by (simp split: if_splits)
  obtain x1 w1 where x1: "readNDJSON (j_decision js) (fs_decisions fs) w = (x1, w1)" by fastforce
  have "is_ok x1" using P id x1 by (cases x1) simp_all
  then obtain decs where r1: "readNDJSON (j_decision js) (fs_decisions fs) w = (Inr decs, w1)"
    using x1 by (auto simp: is_ok_iff)
  have "find (\<lambda>d. d_DecisionID d = pm_DecisionID p) decs \<noteq> None"
    using P id r1 by (cases "find (\<lambda>d. d_DecisionID d = pm_DecisionID p) decs") simp_all
  then obtain d where d: "find (\<lambda>d. d_DecisionID d = pm_DecisionID p) decs = Some d" by blast
  have e: "promotion_decision_error (ce_now ce) p d = None"
    using P id r1 d by (cases "promotion_decision_error (ce_now ce) p d") simp_all
  obtain x2 w2 where x2: "readNDJSON (j_revocation js) (fs_revocations fs) w1 = (x2, w2)" by fastforce
  have "is_ok x2" using P id r1 d e x2 by (cases x2) simp_all
  then obtain revs where r2: "readNDJSON (j_revocation js) (fs_revocations fs) w1 = (Inr revs, w2)"
    using x2 by (auto simp: is_ok_iff)
  have nr: "\<not> (\<exists>r \<in> set revs. revokes (pm_Digest p) (pm_Environment p) r)"
    using P id r1 d e r2 by (simp split: if_splits)
  obtain x3 w3 where x3: "readNDJSON (j_quarantine js) (fs_quarantines fs) w2 = (x3, w3)" by fastforce
  have "is_ok x3" using P id r1 d e r2 nr x3 by (cases x3) simp_all
  then obtain quars where r3: "readNDJSON (j_quarantine js) (fs_quarantines fs) w2 = (Inr quars, w3)"
    using x3 by (auto simp: is_ok_iff)
  have nq: "\<not> (\<exists>q \<in> set quars. quarantines (pm_Digest p) (pm_Environment p) q)"
    using P id r1 d e r2 nr r3 by (simp split: if_splits)
  have ap: "appendNDJSON (j_promotion js) (fs_promotions fs) (stamp_promotion ce p) w3 = (None, w')"
    using P id r1 d e r2 nr r3 nq by (simp split: if_splits)
  have ok: "promotion_error \<lparr>lg_decisions = decs, lg_promotions = [], lg_revocations = revs,
        lg_quarantines = quars\<rparr> (ce_now ce) p = None"
    using id d e nr nq by (simp add: promotion_error_def)
  note same = readNDJSON_Inr(2) [OF r1] readNDJSON_Inr(2) [OF r2] readNDJSON_Inr(2) [OF r3]
  have "file_items (j_revocation js) w (fs_revocations fs) = Inr revs"
    using readNDJSON_Inr(1) [OF r2] file_items_cong [OF same(1)] by metis
  moreover have "file_items (j_quarantine js) w (fs_quarantines fs) = Inr quars"
    using readNDJSON_Inr(1) [OF r3] file_items_cong [OF trans [OF same(2,1)]] by metis
  moreover have "file_bytes w3 (fs_promotions fs) = file_bytes w (fs_promotions fs)"
    using same by (simp add: file_bytes_def)
  ultimately show ?thesis
    using readNDJSON_Inr(1) [OF r1] ok appendNDJSON_extends(2) [OF ap] by auto
qed

section \<open>Properties\<close>

text \<open>
  C24. \<open>Promote\<close> refines the abstract rule: on a readable store without faults it returns
  exactly the error the rule gives for the stored ledger, leaving the files alone, and when
  the rule gives none it succeeds and the ledger has the stamped promotion at its end.
\<close>

theorem file_Promote_refines:
  assumes "file_view js fs w g" "storable (j_promotion js) (stamp_promotion ce p)"
  shows "fst (file_Promote js fs ce p w) = promotion_error g (ce_now ce) p
    \<and> file_view js fs (snd (file_Promote js fs ce p w))
        (if promotion_error g (ce_now ce) p = None
         then g\<lparr>lg_promotions := lg_promotions g @ [stamp_promotion ce p]\<rparr> else g)"
proof (cases "promotion_error g (ce_now ce) p")
  case (Some e)
  then show ?thesis using assms(1) by (simp add: file_Promote_view)
next
  case None
  then show ?thesis
    using view_append_promotion [OF assms] by (auto simp: file_Promote_view [OF assms(1)])
qed

theorem file_Promote_refines_witness:
  "fst (file_Promote sample_json (file_store ''data'') sample_ce sample_promotion sample_world) = None"
  using file_Promote_refines [OF sample_world_view, of sample_ce sample_promotion] sample_promotion_ok
  by (simp add: sample_json_def)

text \<open>
  C10. The central safety property of the file store, without failing system calls: starting in
  an empty data directory, after any sequence of the state-changing calls, \<open>Restore\<close> included,
  every recorded promotion has its recorded ALLOW decision, for the same digest and
  environment. Two conditions on the run: every record written survives its encoding (in
  particular, its line is below 64 KiB), and every document restored describes a ledger of
  which both are true, since \<open>Restore\<close> checks nothing.
\<close>

theorem promotions_justified:
  assumes "dir \<noteq> []" "w_faults w = []" "\<forall>p. file_bytes w p = []" "NewFileStore dir w = (Inr fs, w0)"
    "\<forall>(ce, c) \<in> set calls.
       call_fits (file_fits js) (file_content js) (\<lambda>l. storable_ledger js l \<and> justified l) ce c"
  shows "\<exists>g. file_view js fs (run_calls (file_exec js fs) (file_Restore js fs) calls w0) g \<and> justified g"
proof -
  have "fs = file_store dir" "file_view js fs w0 empty_ledger"
    using NewFileStore_view [OF assms(1-3), of js] assms(4) by auto
  then show ?thesis
    using file_restorable.run_justified [OF _ empty_ledger_justified assms(5)] by blast
qed

lemma sample_ledger_justified: "justified sample_ledger"
  by (simp add: justified_def sample_ledger_def empty_ledger_def)

lemma sample_content: "file_content sample_json data = Some sample_ledger"
  by (simp add: file_content_def sample_json_def one_codec_def ledger_of_def backup_of_def)

lemma sample_ledger_storable: "storable_ledger sample_json sample_ledger"
  using sample_world_view by (simp add: file_view_def)

theorem promotions_justified_witness:
  "\<exists>g. file_view sample_json (file_store ''data'')
        (run_calls (file_exec sample_json (file_store ''data'')) (file_Restore sample_json (file_store ''data''))
           [(sample_ce, Call (SaveDecisionOp sample_decision)), (sample_ce, Call (PromoteOp sample_promotion)),
            (sample_ce, RestoreCall ''{}''), (sample_ce, Call (UnquarantineOp ''x''))]
           (empty_world\<lparr>w_dirs := [''data'']\<rparr>)) g \<and> justified g"
  by (rule promotions_justified [of "''data''" empty_world])
    (simp_all add: empty_world_def file_bytes_def NewFileStore_def os_MkdirAll_def file_fits_def
      sample_content sample_ledger_justified sample_ledger_storable, simp_all add: sample_json_def)

text \<open>
  \<open>Restore\<close> checks nothing: a document with a promotion that no decision of it justifies
  is installed like any other.
\<close>

theorem restore_accepts_unjustified:
  assumes "c_Unmarshal (j_backup js) data = Inr b" "storable_ledger js (ledger_of b)"
    "p \<in> set (bk_Promotions b)" "\<forall>d \<in> set (bk_Decisions b). \<not> justifies d p"
    "paths_distinct fs" "w_faults w = []"
  shows "\<exists>w'. file_Restore js fs data w = (None, w') \<and> file_view js fs w' (ledger_of b) \<and> \<not> justified (ledger_of b)"
  using file_Restore_ok [OF assms(2,5,6,1) refl] assms(3,4) by (auto simp: justified_def ledger_of_def)

theorem restore_accepts_unjustified_witness:
  "\<exists>js w' g. file_Restore js (file_store ''data'') ''{}'' empty_world = (None, w')
     \<and> file_view js (file_store ''data'') w' g \<and> \<not> justified g"
proof -
  let ?b = "backup_of sample_ce (empty_ledger\<lparr>lg_promotions := [sample_promotion]\<rparr>)"
  let ?js = "sample_json\<lparr>j_backup := one_codec ?b\<rparr>"
  have "c_Unmarshal (j_backup ?js) ''{}'' = Inr ?b" by (simp add: one_codec_def)
  moreover have "storable_ledger ?js (ledger_of ?b)" "sample_promotion \<in> set (bk_Promotions ?b)"
    "\<forall>d \<in> set (bk_Decisions ?b). \<not> justifies d sample_promotion" "w_faults empty_world = []"
    by (simp_all add: storable_ledger_def ledger_of_def backup_of_def empty_ledger_def sample_json_def empty_world_def)
  ultimately show ?thesis using restore_accepts_unjustified file_store_paths by blast
qed

text \<open>
  C11. Revocation is permanent, whatever system calls fail and whatever is written: once a
  revocation of a digest for an environment (or for all of them) is recorded in a readable
  revocation file, no later promotion of that digest there succeeds, after any sequence of the
  other state-changing calls. (\<open>Restore\<close> is not one of them: it replaces the revocations.)
\<close>

theorem revocation_permanent:
  assumes "paths_distinct fs" "file_holds (j_revocation js) w (fs_revocations fs) revs"
    "storable (j_revocation js) (stamp_revocation ce r)" "file_Revoke js fs ce r w = (None, w')"
    "rv_Environment r = [] \<or> rv_Environment r = pm_Environment p" "rv_Digest r = pm_Digest p"
  shows "fst (file_Promote js fs ce' p (run_ops (file_exec js fs) ops w')) \<noteq> None"
proof
  let ?w = "run_ops (file_exec js fs) ops w'"
  let ?r = "stamp_revocation ce r" and ?path = "fs_revocations fs"
  assume "fst (file_Promote js fs ce' p ?w) = None"
  then obtain w2 where "file_Promote js fs ce' p ?w = (None, w2)" by (metis prod.collapse)
  from file_Promote_success [OF this] obtain decs read quars where
    read: "file_items (j_revocation js) ?w ?path = Inr read"
    and ok: "promotion_error \<lparr>lg_decisions = decs, lg_promotions = [], lg_revocations = read,
        lg_quarantines = quars\<rparr> (ce_now ce') p = None" by blast
  obtain ss where ss: "list_all2 (ndjson_line (j_revocation js)) revs ss" "file_bytes w ?path = file_lines ss"
    using assms(2) by (auto simp: file_holds_def)
  obtain l where l: "c_Marshal (j_revocation js) ?r = Inr l" "ndjson_line (j_revocation js) ?r l"
    using assms(3) by (auto simp: storable_def)
  have w': "file_bytes w' ?path = file_lines (ss @ [l])"
    using appendNDJSON_extends(2) [OF assms(4) [unfolded file_Revoke_def]] l(1) ss(2) by auto
  have "?path \<noteq> fs_quarantines fs" using assms(1) by (auto simp: paths_distinct_def)
  from file_run_prefix [OF this, of w' js ops] obtain rest where
    "file_bytes ?w ?path = file_lines (ss @ [l]) @ rest"
    using w' by (auto simp: prefix_def file_bytes_def)
  moreover have "list_all2 (ndjson_line (j_revocation js)) (revs @ [?r]) (ss @ [l])"
    using ss(1) l(2) by (simp add: list_all2_appendI)
  ultimately have "?r \<in> set read"
    using read scan_bytes_prefix [of "j_revocation js" "revs @ [?r]" "ss @ [l]" ?path rest read]
    by (simp add: file_items_def)
  then have "blocked \<lparr>lg_decisions = decs, lg_promotions = [], lg_revocations = read, lg_quarantines = quars\<rparr>
      (pm_Digest p) (pm_Environment p)"
    using assms(5,6) by (auto simp: blocked_def revokes_def intro!: bexI [of _ ?r])
  then show False using promotion_error_justified(2) [OF ok] by simp
qed

text \<open>The disk is full as soon as the revocation is written: the calls that follow fail half way.\<close>

theorem revocation_permanent_witness:
  "\<exists>w'. file_Revoke sample_json (file_store ''data'') sample_ce sample_revocation
       (sample_world\<lparr>w_faults := [None, None, None, None, Some \<lparr>flt_err = errors_New ''disk full'', flt_bytes = 1\<rparr>]\<rparr>)
       = (None, w')
     \<and> fst (file_Promote sample_json (file_store ''data'') sample_ce sample_promotion
         (run_ops (file_exec sample_json (file_store ''data''))
            [(sample_ce, RevokeOp sample_revocation), (sample_ce, UnquarantineOp sample_digest)] w')) \<noteq> None"
proof -
  let ?w = "sample_world\<lparr>w_faults := [None, None, None, None, Some \<lparr>flt_err = errors_New ''disk full'', flt_bytes = 1\<rparr>]\<rparr>"
  have st: "storable (j_revocation sample_json) sample_revocation" by (simp add: sample_json_def)
  obtain e w' where rev: "file_Revoke sample_json (file_store ''data'') sample_ce sample_revocation ?w = (e, w')"
    by fastforce
  then have e: "e = None"
    by (auto simp: file_Revoke_def appendNDJSON_def os_OpenAppend_def file_Write_def file_Sync_def append_bytes_def
        sample_json_def one_codec_def split: if_splits)
  have r: "rv_Environment sample_revocation = []" "rv_Digest sample_revocation = pm_Digest sample_promotion"
    by (simp_all add: sample_revocation_def sample_promotion_def)
  have h: "file_holds (j_revocation sample_json) ?w (fs_revocations (file_store ''data'')) (lg_revocations sample_ledger)"
    using sample_world_view by (simp add: file_view_def file_holds_def file_bytes_def)
  show ?thesis
    using revocation_permanent [OF file_store_paths h, of sample_ce sample_revocation w' sample_promotion] st rev [unfolded e] r
    by (simp del: run_ops.simps)
qed

text \<open>
  C12. Whatever faults occur, a promotion that reports success met every condition on the
  records that were really in the files, and its line was appended whole.
\<close>

theorem file_Promote_success_under_faults:
  assumes "file_Promote js fs ce p w = (None, w')"
  shows "\<exists>decs revs quars s.
      file_items (j_decision js) w (fs_decisions fs) = Inr decs
    \<and> file_items (j_revocation js) w (fs_revocations fs) = Inr revs
    \<and> file_items (j_quarantine js) w (fs_quarantines fs) = Inr quars
    \<and> promotion_error \<lparr>lg_decisions = decs, lg_promotions = [], lg_revocations = revs,
        lg_quarantines = quars\<rparr> (ce_now ce) p = None
    \<and> c_Marshal (j_promotion js) (stamp_promotion ce p) = Inr s
    \<and> file_bytes w' (fs_promotions fs) = file_bytes w (fs_promotions fs) @ s @ [newline]"
  using assms by (rule file_Promote_success)

theorem file_Promote_success_under_faults_witness:
  "\<exists>decs. file_items (j_decision sample_json) sample_world (fs_decisions (file_store ''data'')) = Inr decs
     \<and> find (\<lambda>d. d_DecisionID d = pm_DecisionID sample_promotion) decs \<noteq> None"
proof -
  obtain w' where "file_Promote sample_json (file_store ''data'') sample_ce sample_promotion sample_world = (None, w')"
    using file_Promote_view [OF sample_world_view, of sample_ce sample_promotion] sample_promotion_ok
      view_append_promotion [OF sample_world_view, of sample_promotion]
    by (auto simp: sample_json_def)
  from file_Promote_success_under_faults [OF this] show ?thesis
    by (auto simp: promotion_error_None)
qed

text \<open>
  C19. \<open>IsRevoked\<close> answers for the revocations that name exactly the environment asked about
  (the lookup filters by it first). A revocation for all environments is therefore not
  reported for a named environment, although \<open>Promote\<close> refuses the promotion there.
\<close>

theorem file_IsRevoked_exact:
  assumes "file_view js fs w g"
  shows "file_IsRevoked js fs dg env w =
      (Inr (\<exists>r \<in> set (lg_revocations g). rv_Digest r = dg \<and> rv_Environment r = env), w)
    \<and> ((\<exists>r \<in> set (lg_revocations g). rv_Digest r = pm_Digest p \<and> rv_Environment r = [])
        \<longrightarrow> fst (file_Promote js fs ce p w) \<noteq> None)"
proof -
  have "promotion_error g (ce_now ce) p \<noteq> None"
    if "r \<in> set (lg_revocations g)" "rv_Digest r = pm_Digest p" "rv_Environment r = []" for r
    using that promotion_error_justified(2) [of g "ce_now ce" p]
    by (auto simp: blocked_def revokes_def)
  then have "fst (file_Promote js fs ce p w) \<noteq> None"
    if "r \<in> set (lg_revocations g)" "rv_Digest r = pm_Digest p" "rv_Environment r = []" for r
    using that file_Promote_view [OF assms, of ce p] by fastforce
  moreover have "file_IsRevoked js fs dg env w =
      (Inr (\<exists>r \<in> set (lg_revocations g). rv_Digest r = dg \<and> rv_Environment r = env), w)"
    by (auto simp: file_IsRevoked_def file_GetRevocations_def view_reads [OF assms] revokes_def)
  ultimately show ?thesis by blast
qed

theorem file_IsRevoked_exact_witness:
  "fst (file_IsRevoked sample_json (file_store ''data'') sample_digest ''production''
     (snd (file_Revoke sample_json (file_store ''data'') sample_ce sample_revocation sample_world))) = Inr False"
proof -
  have "storable (j_revocation sample_json) sample_revocation" by (simp add: sample_json_def)
  from view_append_revocation [OF sample_world_view this] obtain w' where
    rev: "file_Revoke sample_json (file_store ''data'') sample_ce sample_revocation sample_world = (None, w')"
    and v: "file_view sample_json (file_store ''data'') w'
       (sample_ledger\<lparr>lg_revocations := lg_revocations sample_ledger @ [sample_revocation]\<rparr>)"
    by (auto simp: file_Revoke_def)
  have "lg_revocations sample_ledger = []" "rv_Environment sample_revocation = []"
    by (simp_all add: sample_ledger_def empty_ledger_def sample_revocation_def)
  then show ?thesis
    using file_IsRevoked_exact [OF v, of sample_digest "''production''"] by (simp add: rev)
qed

text \<open>
  C26. The log is append-only: whatever faults occur, saving a decision, promoting, revoking
  and quarantining never remove or change a byte that is in a file.
\<close>

theorem file_store_append_only:
  "prefix (file_bytes w q) (file_bytes (snd (file_SaveDecision js fs d w)) q)
   \<and> prefix (file_bytes w q) (file_bytes (snd (file_Promote js fs ce p w)) q)
   \<and> prefix (file_bytes w q) (file_bytes (snd (file_Revoke js fs ce r w)) q)
   \<and> prefix (file_bytes w q) (file_bytes (snd (file_Quarantine js fs ce x w)) q)"
proof -
  have "prefix (file_bytes w q) (file_bytes (snd (file_Promote js fs ce p w)) q)"
    using file_Promote_files [of js fs ce p w] appendNDJSON_prefix
    by (metis (no_types, lifting) file_bytes_def prefix_order.refl)
  then show ?thesis
    by (simp add: file_SaveDecision_def file_Revoke_def file_Quarantine_def appendNDJSON_prefix)
qed

text \<open>
  C25. Backup and restore: what \<open>Backup\<close> returns for a readable store, restored without faults
  into the same data directory in any state, brings the whole ledger back, provided the
  backup document itself survives its encoding.
\<close>

theorem backup_restore_roundtrip:
  assumes "file_view js fs w g" "file_Backup js fs ce w = (Inr data, w1)"
    "c_Unmarshal (j_backup js) data = Inr (backup_of ce g)" "w_faults w2 = []"
  shows "w1 = w \<and> (\<exists>w3. file_Restore js fs data w2 = (None, w3) \<and> file_view js fs w3 g)"
proof -
  have "w1 = w" using assms(2) by (simp add: file_Backup_def view_reads [OF assms(1)])
  moreover have "storable_ledger js g" "paths_distinct fs"
    using assms(1) by (simp_all add: file_view_def)
  moreover have "g = ledger_of (backup_of ce g)" by (simp add: ledger_of_def backup_of_def)
  ultimately show ?thesis using file_Restore_ok [OF _ _ assms(4,3)] by blast
qed

theorem backup_restore_roundtrip_witness:
  "\<exists>w3. file_Restore sample_json (file_store ''data'') ''{}'' empty_world = (None, w3)
     \<and> file_view sample_json (file_store ''data'') w3 sample_ledger"
proof -
  have "file_Backup sample_json (file_store ''data'') sample_ce sample_world = (Inr ''{}'', sample_world)"
    by (simp add: file_Backup_def view_reads [OF sample_world_view])
      (simp add: sample_json_def one_codec_def)
  from backup_restore_roundtrip [OF sample_world_view this, of empty_world] show ?thesis
    by (simp add: sample_json_def one_codec_def empty_world_def)
qed

text \<open>
  \<open>Restore\<close> is not atomic: it removes all four files first, so when the first write after
  that fails, the call reports the error and every record, revocations included, is gone.
\<close>

theorem restore_failure_loses_revocations:
  assumes "c_Unmarshal (j_backup js) data = Inr b" "bk_Decisions b \<noteq> []" "paths_distinct fs"
    "w_faults w = [None, None, None, None, Some f]"
  shows "fst (file_Restore js fs data w) = Some (flt_err f)
    \<and> file_items (j_revocation js) (snd (file_Restore js fs data w)) (fs_revocations fs) = Inr []
    \<and> file_items (j_decision js) (snd (file_Restore js fs data w)) (fs_decisions fs) = Inr []"
proof -
  obtain d ds where b: "bk_Decisions b = d # ds" using assms(2) by (cases "bk_Decisions b") auto
  let ?w1 = "os_Remove (fs_quarantines fs) (os_Remove (fs_revocations fs)
                 (os_Remove (fs_promotions fs) (os_Remove (fs_decisions fs) w)))"
  have w1: "w_faults ?w1 = [Some f]" "w_files ?w1 = (w_files w)(fs_decisions fs := None,
      fs_promotions fs := None, fs_revocations fs := None, fs_quarantines fs := None)"
    using assms(4) by (simp_all add: os_Remove_def)
  have "file_Restore js fs data w = (Some (flt_err f), ?w1\<lparr>w_faults := []\<rparr>)"
    using w1(1) by (simp add: file_Restore_def assms(1) Let_def b appendNDJSON_def os_OpenAppend_def)
  moreover have "file_bytes (?w1\<lparr>w_faults := []\<rparr>) (fs_revocations fs) = []"
    "file_bytes (?w1\<lparr>w_faults := []\<rparr>) (fs_decisions fs) = []"
    using assms(3) by (simp_all add: file_bytes_def w1(2) paths_distinct_def)
  ultimately show ?thesis by (simp add: file_items_def)
qed

theorem restore_failure_loses_revocations_witness:
  "fst (file_Restore sample_json (file_store ''data'') ''{}''
      (sample_world\<lparr>w_faults := [None, None, None, None, Some \<lparr>flt_err = errors_New ''disk full'', flt_bytes = 0\<rparr>]\<rparr>))
     = Some (errors_New ''disk full'')"
  using restore_failure_loses_revocations
    [of sample_json "''{}''" "backup_of sample_ce sample_ledger" "file_store ''data''"
      "sample_world\<lparr>w_faults := [None, None, None, None, Some \<lparr>flt_err = errors_New ''disk full'', flt_bytes = 0\<rparr>]\<rparr>"]
  by (simp add: file_store_paths sample_json_def one_codec_def)
    (simp add: backup_of_def sample_ledger_def)

lemma scan_bytes_too_long:
  assumes "list_all2 (ndjson_line c) xs ss" "newline \<notin> set s" "MaxScanTokenSize \<le> length s"
  shows "scan_bytes c path (file_lines ss @ s @ [newline]) = Inl ErrTooLong"
proof -
  have "\<forall>t \<in> set (ss @ [s]). newline \<notin> set t"
    using assms(1,2) by (auto simp: list_all2_conv_all_nth in_set_conv_nth ndjson_line_def)
  then have "Split (file_lines (ss @ [s])) newline = ss @ [s] @ [[]]"
    by (simp only: Split_file_lines append_assoc)
  then show ?thesis
    using scan_lines_append [OF assms(1), of path "[s] @ [[]]"] assms(3)
    by (simp add: scan_bytes_def)
qed

lemma readNDJSON_error:
  "w_faults w = [] \<Longrightarrow> scan_bytes c path (file_bytes w path) = Inl e \<Longrightarrow> readNDJSON c path w = (Inl e, w)"
  by (auto simp: readNDJSON_def file_bytes_def split: option.splits)

text \<open>
  C35. Lines above the scanner's 64 KiB limit: a decision whose JSON is that long is saved
  without an error, and from then on the decisions cannot be read and no promotion of any
  decision succeeds.
\<close>

theorem oversized_decision_blocks_store:
  assumes "file_view js fs w g" "c_Marshal (j_decision js) d = Inr s"
    "newline \<notin> set s" "65536 \<le> length s" "file_SaveDecision js fs d w = (r, w')"
  shows "r = None \<and> file_GetDecisions js fs w' = (Inl ErrTooLong, w')
       \<and> fst (file_Promote js fs ce p w') \<noteq> None"
proof -
  obtain ss where ss: "list_all2 (ndjson_line (j_decision js)) (lg_decisions g) ss"
      "file_bytes w (fs_decisions fs) = file_lines ss" and nf: "w_faults w = []"
    using assms(1) by (auto simp: file_view_def file_holds_def)
  have w': "r = None" "w' = append_bytes (fs_decisions fs) (s @ [newline]) w"
    using assms(5) appendNDJSON_ok [OF nf assms(2)] by (simp_all add: file_SaveDecision_def)
  then have "scan_bytes (j_decision js) (fs_decisions fs) (file_bytes w' (fs_decisions fs)) = Inl ErrTooLong"
      and "w_faults w' = []"
    using nf scan_bytes_too_long [OF ss(1) assms(3)] assms(4) ss(2) by (simp_all add: MaxScanTokenSize_def)
  then have rd: "readNDJSON (j_decision js) (fs_decisions fs) w' = (Inl ErrTooLong, w')"
    by (rule readNDJSON_error [rotated])
  then show ?thesis using w'(1) by (simp add: file_GetDecisions_def file_Promote_def)
qed

theorem oversized_decision_blocks_store_witness:
  "fst (file_GetDecisions (sample_json\<lparr>j_decision := \<lparr>c_Marshal = \<lambda>_. Inr (replicate 65536 CHR ''x''),
        c_Unmarshal = c_Unmarshal (j_decision sample_json)\<rparr>\<rparr>) (file_store ''data'')
     (snd (file_SaveDecision (sample_json\<lparr>j_decision := \<lparr>c_Marshal = \<lambda>_. Inr (replicate 65536 CHR ''x''),
        c_Unmarshal = c_Unmarshal (j_decision sample_json)\<rparr>\<rparr>) (file_store ''data'') sample_decision empty_world)))
   = Inl ErrTooLong"
proof -
  let ?js = "sample_json\<lparr>j_decision := \<lparr>c_Marshal = \<lambda>_. Inr (replicate 65536 CHR ''x''),
        c_Unmarshal = c_Unmarshal (j_decision sample_json)\<rparr>\<rparr>"
  obtain r w' where sv: "file_SaveDecision ?js (file_store ''data'') sample_decision empty_world = (r, w')"
    by fastforce
  have "c_Marshal (j_decision ?js) sample_decision = Inr (replicate 65536 CHR ''x'')"
    "newline \<notin> set (replicate 65536 CHR ''x'')" "65536 \<le> length (replicate 65536 CHR ''x'')"
    by simp_all
  from oversized_decision_blocks_store [OF empty_world_view this sv] show ?thesis
    by (simp add: sv)
qed

section \<open>Health check\<close>

text \<open>
  \<open>Ping\<close> succeeds without faults exactly when the data directory exists, and a
  successful ping leaves every file but its probe as it was, and no probe behind.
\<close>

theorem file_Ping_clean:
  assumes "w_faults w = []"
  shows "(fst (file_Ping fs w) = None
            \<longleftrightarrow> fs_dataDir fs \<in> set (w_dirs w) \<or> fs_dataDir fs \<in> dom (w_files w))
       \<and> (fst (file_Ping fs w) = None \<longrightarrow>
            w_files (snd (file_Ping fs w))
              = (w_files w)(filepath_Join (fs_dataDir fs) ''.ping-probe'' := None))"
  using assms
  by (auto simp: file_Ping_def os_Stat_def os_WriteFile_def file_Write_def os_Remove_def
      append_bytes_def Let_def)

theorem file_Ping_clean_witness:
  "fst (file_Ping (file_store ''data'') (empty_world\<lparr>w_dirs := [''data'']\<rparr>)) = None"
  using file_Ping_clean [of "empty_world\<lparr>w_dirs := [''data'']\<rparr>" "file_store ''data''"]
  by (simp add: empty_world_def file_store_def)

end
