(* ===== verification/Sql_Engine.thy ===== *)
theory Sql_Engine
  imports Go_Prelude
begin

text \<open>
  What \<open>internal/store\<close> uses of \<open>database/sql\<close> and of the database behind it: statements
  that take effect at once, and transactions. A database is its committed content and the
  list of what will go wrong with the statements to come: nothing (\<open>None\<close>, or the list has
  ended), the statement is refused and has no effect, or it takes effect but the connection is
  lost before the answer arrives, so that the caller sees an error.

  A transaction works on a copy of the content. \<open>COMMIT\<close> makes the copy the content,
  \<open>ROLLBACK\<close> (also the one of a lost connection) drops it. No other session runs between
  \<open>BEGIN\<close> and \<open>COMMIT\<close> here.
\<close>

section \<open>Statements\<close>

datatype sql_fault = Refused go_error | Unacknowledged go_error

fun fault_error :: "sql_fault \<Rightarrow> go_error" where
  "fault_error (Refused e) = e"
| "fault_error (Unacknowledged e) = e"

record 'a database =
  db_tables :: 'a
  db_faults :: "sql_fault option list"

definition next_sql_fault :: "'a database \<Rightarrow> sql_fault option \<times> 'a database" where
  "next_sql_fault db =
     (case db_faults db of
        [] \<Rightarrow> (None, db)
      | f # fs \<Rightarrow> (f, db\<lparr>db_faults := fs\<rparr>))"

text \<open>A statement that changes nothing (a ping, \<open>BEGIN\<close>).\<close>

definition statement :: "'a database \<Rightarrow> go_error option \<times> 'a database" where
  "statement db = (let (f, db1) = next_sql_fault db in (map_option fault_error f, db1))"

text \<open>A statement outside a transaction, by what it does to the content or its error.\<close>

definition exec_statement :: "('a \<Rightarrow> 'a result) \<Rightarrow> 'a database \<Rightarrow> go_error option \<times> 'a database" where
  "exec_statement f db =
     (case next_sql_fault db of
        (Some (Refused e), db1) \<Rightarrow> (Some e, db1)
      | (Some (Unacknowledged e), db1) \<Rightarrow>
          (Some e, case f (db_tables db1) of Inl _ \<Rightarrow> db1 | Inr t \<Rightarrow> db1\<lparr>db_tables := t\<rparr>)
      | (None, db1) \<Rightarrow>
          (case f (db_tables db1) of
             Inl e \<Rightarrow> (Some e, db1)
           | Inr t \<Rightarrow> (None, db1\<lparr>db_tables := t\<rparr>)))"

definition query :: "('a \<Rightarrow> 'b) \<Rightarrow> 'a database \<Rightarrow> 'b result \<times> 'a database" where
  "query f db =
     (case next_sql_fault db of
        (Some e, db1) \<Rightarrow> (Inl (fault_error e), db1)
      | (None, db1) \<Rightarrow> (Inr (f (db_tables db1)), db1))"

section \<open>Transactions\<close>

text \<open>
  On an engine that aborts (PostgreSQL) an error ends the transaction: its further statements
  fail, and \<open>COMMIT\<close> rolls back.
\<close>

record 'a transaction =
  tx_tables :: 'a
  tx_aborts :: bool
  tx_dead :: bool

definition aborted_transaction :: go_error where
  "aborted_transaction =
     errors_New ''current transaction is aborted, commands ignored until end of transaction block''"

definition tx_begin :: "bool \<Rightarrow> 'a database \<Rightarrow> 'a transaction result \<times> 'a database" where
  "tx_begin aborts db =
     (case statement db of
        (Some e, db1) \<Rightarrow> (Inl e, db1)
      | (None, db1) \<Rightarrow> (Inr \<lparr>tx_tables = db_tables db1, tx_aborts = aborts, tx_dead = False\<rparr>, db1))"

text \<open>A statement of the transaction: a value and the new working copy, or an error.\<close>

definition tx_run ::
    "('a \<Rightarrow> ('b \<times> 'a) result) \<Rightarrow> 'a transaction \<times> 'a database \<Rightarrow> 'b result \<times> 'a transaction \<times> 'a database" where
  "tx_run f s =
     (let (tx, db) = s in
      if tx_dead tx then (Inl aborted_transaction, s)
      else case next_sql_fault db of
        (Some e, db1) \<Rightarrow> (Inl (fault_error e), tx\<lparr>tx_dead := tx_aborts tx\<rparr>, db1)
      | (None, db1) \<Rightarrow>
          (case f (tx_tables tx) of
             Inl e \<Rightarrow> (Inl e, tx\<lparr>tx_dead := tx_aborts tx\<rparr>, db1)
           | Inr (x, t) \<Rightarrow> (Inr x, tx\<lparr>tx_tables := t\<rparr>, db1)))"

definition tx_query ::
    "('a \<Rightarrow> 'b result) \<Rightarrow> 'a transaction \<times> 'a database \<Rightarrow> 'b result \<times> 'a transaction \<times> 'a database" where
  "tx_query f = tx_run (\<lambda>t. case f t of Inl e \<Rightarrow> Inl e | Inr x \<Rightarrow> Inr (x, t))"

definition tx_exec ::
    "('a \<Rightarrow> 'a result) \<Rightarrow> 'a transaction \<times> 'a database \<Rightarrow> go_error option \<times> 'a transaction \<times> 'a database" where
  "tx_exec f s =
     (case tx_run (\<lambda>t. case f t of Inl e \<Rightarrow> Inl e | Inr t' \<Rightarrow> Inr ((), t')) s of
        (Inl e, s1) \<Rightarrow> (Some e, s1)
      | (Inr _, s1) \<Rightarrow> (None, s1))"

text \<open>Several statements, in one \<open>Exec\<close> or in several, stopping at the first error.\<close>

fun tx_exec_all ::
    "('a \<Rightarrow> 'a result) list \<Rightarrow> 'a transaction \<times> 'a database \<Rightarrow> go_error option \<times> 'a transaction \<times> 'a database" where
  "tx_exec_all [] s = (None, s)"
| "tx_exec_all (f # fs) s =
     (case tx_exec f s of
        (Some e, s1) \<Rightarrow> (Some e, s1)
      | (None, s1) \<Rightarrow> tx_exec_all fs s1)"

definition tx_rollback :: "'a transaction \<times> 'a database \<Rightarrow> 'a database" where
  "tx_rollback s = snd s"

definition tx_commit :: "'a transaction \<times> 'a database \<Rightarrow> go_error option \<times> 'a database" where
  "tx_commit s =
     (let (tx, db) = s in
      if tx_dead tx then (Some aborted_transaction, tx_rollback s)
      else exec_statement (\<lambda>_. Inr (tx_tables tx)) db)"

section \<open>Lemmas\<close>

text \<open>What the statements do to the content when nothing goes wrong.\<close>

fun run_all :: "('a \<Rightarrow> 'a result) list \<Rightarrow> 'a \<Rightarrow> 'a result" where
  "run_all [] t = Inr t"
| "run_all (f # fs) t = (case f t of Inl e \<Rightarrow> Inl e | Inr t' \<Rightarrow> run_all fs t')"

lemma run_all_append:
  "run_all (fs @ hs) t = (case run_all fs t of Inl e \<Rightarrow> Inl e | Inr t' \<Rightarrow> run_all hs t')"
  by (induction fs arbitrary: t) (auto split: sum.splits)

lemma no_faults [simp]:
  "db_faults db = [] \<Longrightarrow> next_sql_fault db = (None, db)"
  "db_faults db = [] \<Longrightarrow> statement db = (None, db)"
  "db_faults db = [] \<Longrightarrow> query f db = (Inr (f (db_tables db)), db)"
  "db_faults db = [] \<Longrightarrow> exec_statement h db =
     (case h (db_tables db) of Inl e \<Rightarrow> (Some e, db) | Inr t \<Rightarrow> (None, db\<lparr>db_tables := t\<rparr>))"
  by (simp_all add: next_sql_fault_def statement_def query_def exec_statement_def split: sum.splits)

text \<open>Reading never changes the content, and uses up faults that were there.\<close>

lemma next_sql_fault_tables [simp]: "db_tables (snd (next_sql_fault db)) = db_tables db"
  by (simp add: next_sql_fault_def split: list.splits)

lemma next_sql_fault_eq:
  assumes "next_sql_fault db = (f, db1)"
  shows "db_tables db1 = db_tables db" "set (db_faults db1) \<subseteq> set (db_faults db)"
    "f \<noteq> None \<Longrightarrow> f \<in> set (db_faults db)"
  using assms by (auto simp: next_sql_fault_def split: list.splits)

lemma statement_tables [simp]: "db_tables (snd (statement db)) = db_tables db"
  by (simp add: statement_def split: prod.splits) (metis next_sql_fault_eq(1))

lemma query_tables [simp]: "db_tables (snd (query f db)) = db_tables db"
  by (auto simp: query_def dest: next_sql_fault_eq(1) split: prod.splits option.splits)

lemma query_eq: "query f db = (Inr x, db1) \<Longrightarrow> x = f (db_tables db) \<and> db_tables db1 = db_tables db"
  by (auto simp: query_def dest: next_sql_fault_eq(1) split: prod.splits option.splits)

text \<open>A statement leaves the content alone or has its effect, and has it when it reports none.\<close>

lemma exec_statement_cases:
  assumes "exec_statement f db = (r, db1)"
  shows "r \<noteq> None \<and> db_tables db1 = db_tables db
    \<or> f (db_tables db) = Inr (db_tables db1) \<and> (r = None \<or> (\<exists>e. r = Some e \<and> Some (Unacknowledged e) \<in> set (db_faults db)))"
proof -
  obtain x db0 where n: "next_sql_fault db = (x, db0)" by fastforce
  note n' = next_sql_fault_eq [OF n]
  show ?thesis
  proof (cases x)
    case None
    then show ?thesis using assms n n'(1) by (auto simp: exec_statement_def split: sum.splits)
  next
    case (Some g)
    then show ?thesis using assms n n'(1,3)
      by (cases g) (auto simp: exec_statement_def split: sum.splits)
  qed
qed

lemma exec_statement_rel:
  assumes "exec_statement f db = (r, db1)" "R (db_tables db) (db_tables db)"
    "\<And>t'. f (db_tables db) = Inr t' \<Longrightarrow> R (db_tables db) t'"
  shows "R (db_tables db) (db_tables db1)"
  using exec_statement_cases [OF assms(1)] assms(2,3) by metis

text \<open>A transaction works on its copy only.\<close>

lemma tx_begin_eq:
  assumes "tx_begin aborts db = (r, db1)"
  shows "db_tables db1 = db_tables db" "set (db_faults db1) \<subseteq> set (db_faults db)"
    "r = Inr tx \<Longrightarrow> tx = \<lparr>tx_tables = db_tables db, tx_aborts = aborts, tx_dead = False\<rparr>"
proof -
  obtain f db0 where n: "next_sql_fault db = (f, db0)" by fastforce
  then show "db_tables db1 = db_tables db" "set (db_faults db1) \<subseteq> set (db_faults db)"
    "r = Inr tx \<Longrightarrow> tx = \<lparr>tx_tables = db_tables db, tx_aborts = aborts, tx_dead = False\<rparr>"
    using next_sql_fault_eq(1,2) [OF n] assms by (auto simp: tx_begin_def statement_def split: option.splits)
qed

lemma tx_run_eq:
  assumes "tx_run f (tx, db) = (r, tx1, db1)"
  shows "db_tables db1 = db_tables db" "set (db_faults db1) \<subseteq> set (db_faults db)"
    "r = Inr x \<Longrightarrow> f (tx_tables tx) = Inr (x, tx_tables tx1) \<and> \<not> tx_dead tx1 \<and> tx_aborts tx1 = tx_aborts tx"
    "\<not> is_ok r \<Longrightarrow> tx_tables tx1 = tx_tables tx \<and> tx_aborts tx1 = tx_aborts tx \<and> (tx_aborts tx \<or> tx_dead tx \<longrightarrow> tx_dead tx1)"
    "\<not> is_ok r \<Longrightarrow> \<not> tx_dead tx \<Longrightarrow> tx_dead tx1 = tx_aborts tx"
proof -
  obtain e db0 where n: "next_sql_fault db = (e, db0)" by fastforce
  note n' = next_sql_fault_eq(1,2) [OF n]
  show "db_tables db1 = db_tables db" "set (db_faults db1) \<subseteq> set (db_faults db)"
    "r = Inr x \<Longrightarrow> f (tx_tables tx) = Inr (x, tx_tables tx1) \<and> \<not> tx_dead tx1 \<and> tx_aborts tx1 = tx_aborts tx"
    "\<not> is_ok r \<Longrightarrow> tx_tables tx1 = tx_tables tx \<and> tx_aborts tx1 = tx_aborts tx \<and> (tx_aborts tx \<or> tx_dead tx \<longrightarrow> tx_dead tx1)"
    "\<not> is_ok r \<Longrightarrow> \<not> tx_dead tx \<Longrightarrow> tx_dead tx1 = tx_aborts tx"
    using assms n' by (auto simp: tx_run_def n split: if_splits option.splits sum.splits prod.splits)
qed

lemma tx_exec_eq:
  assumes "tx_exec f (tx, db) = (r, tx1, db1)" "\<not> tx_dead tx"
  shows "db_tables db1 = db_tables db" "set (db_faults db1) \<subseteq> set (db_faults db)"
    "r = None \<Longrightarrow> f (tx_tables tx) = Inr (tx_tables tx1) \<and> \<not> tx_dead tx1"
proof -
  obtain x where x: "tx_run (\<lambda>t. case f t of Inl e \<Rightarrow> Inl e | Inr t' \<Rightarrow> Inr ((), t')) (tx, db) = (x, tx1, db1)"
    using assms(1) by (auto simp: tx_exec_def split: prod.splits sum.splits)
  note X = tx_run_eq [OF x]
  show "db_tables db1 = db_tables db" "set (db_faults db1) \<subseteq> set (db_faults db)" by (rule X(1), rule X(2))
  assume "r = None"
  then have "x = Inr ()" using assms(1) by (cases x) (simp_all add: tx_exec_def x)
  then show "f (tx_tables tx) = Inr (tx_tables tx1) \<and> \<not> tx_dead tx1"
    using X(3) [of "()"] by (auto split: sum.splits)
qed

lemma tx_exec_all_eq:
  assumes "tx_exec_all fs (tx, db) = (r, tx1, db1)" "\<not> tx_dead tx"
  shows "db_tables db1 = db_tables db \<and> set (db_faults db1) \<subseteq> set (db_faults db)
    \<and> (r = None \<longrightarrow> run_all fs (tx_tables tx) = Inr (tx_tables tx1) \<and> \<not> tx_dead tx1)"
  using assms
proof (induction fs arbitrary: tx db)
  case (Cons f fs)
  obtain e tx0 db0 where 1: "tx_exec f (tx, db) = (e, tx0, db0)" by (metis prod_cases3)
  note F = tx_exec_eq [OF 1 Cons.prems(2)]
  show ?case
  proof (cases e)
    case None
    with Cons.IH [of tx0 db0] Cons.prems(1) 1 F show ?thesis by auto
  qed (use Cons.prems(1) 1 F(1,2) in auto)
qed simp

lemma tx_commit_cases:
  assumes "tx_commit (tx, db) = (r, db1)"
  shows "r \<noteq> None \<and> db_tables db1 = db_tables db
    \<or> \<not> tx_dead tx \<and> db_tables db1 = tx_tables tx
       \<and> (r = None \<or> (\<exists>e. r = Some e \<and> Some (Unacknowledged e) \<in> set (db_faults db)))"
  using assms exec_statement_cases [of "\<lambda>_. Inr (tx_tables tx)" db r db1]
  by (cases "tx_dead tx") (auto simp: tx_commit_def tx_rollback_def)

text \<open>Transactions to which nothing happens.\<close>

lemma tx_no_faults:
  assumes "db_faults db = []"
  shows "tx_begin aborts db = (Inr \<lparr>tx_tables = db_tables db, tx_aborts = aborts, tx_dead = False\<rparr>, db)"
    and "\<not> tx_dead tx \<Longrightarrow> tx_query q (tx, db) =
      (case q (tx_tables tx) of
         Inl e \<Rightarrow> (Inl e, tx\<lparr>tx_dead := tx_aborts tx\<rparr>, db) | Inr x \<Rightarrow> (Inr x, tx, db))"
    and "\<not> tx_dead tx \<Longrightarrow> tx_exec f (tx, db) =
      (case f (tx_tables tx) of
         Inl e \<Rightarrow> (Some e, tx\<lparr>tx_dead := tx_aborts tx\<rparr>, db) | Inr t \<Rightarrow> (None, tx\<lparr>tx_tables := t\<rparr>, db))"
    and "tx_commit (tx, db) = (if tx_dead tx then (Some aborted_transaction, db) else (None, db\<lparr>db_tables := tx_tables tx\<rparr>))"
  using assms
  by (simp_all add: tx_begin_def tx_query_def tx_exec_def tx_run_def tx_commit_def tx_rollback_def split: sum.splits)

lemma tx_exec_all_no_faults:
  assumes "db_faults db = []" "\<not> tx_dead tx"
  shows "case run_all fs (tx_tables tx) of
      Inl e \<Rightarrow> \<exists>tx'. tx_exec_all fs (tx, db) = (Some e, tx', db)
    | Inr t \<Rightarrow> tx_exec_all fs (tx, db) = (None, tx\<lparr>tx_tables := t\<rparr>, db)"
  using assms(2)
proof (induction fs arbitrary: tx)
  case (Cons f fs)
  show ?case
  proof (cases "f (tx_tables tx)")
    case (Inr t)
    with Cons.IH [of "tx\<lparr>tx_tables := t\<rparr>"] Cons.prems show ?thesis
      by (cases "run_all fs t") (auto simp: tx_no_faults(3) [OF assms(1)])
  qed (use Cons.prems in \<open>simp add: tx_no_faults(3) [OF assms(1)]\<close>)
qed simp

section \<open>Tables with a primary key\<close>

text \<open>
  A table as a part of the content (\<open>get\<close>, \<open>put\<close>) with the column of its primary key, and
  its \<open>INSERT\<close>, which is an error when the key is taken.
\<close>

locale keyed_table =
  fixes get :: "'a \<Rightarrow> 'r list" and put :: "'r list \<Rightarrow> 'a \<Rightarrow> 'a"
    and key :: "'r \<Rightarrow> string" and ins :: "'r \<Rightarrow> 'a \<Rightarrow> 'a result"
  assumes get_put: "get (put xs t) = xs" and put_put: "put xs (put ys t) = put xs t"
    and put_get: "put (get t) t = t"
    and ins_free: "key row \<notin> key ` set (get t) \<Longrightarrow> ins row t = Inr (put (get t @ [row]) t)"
    and ins_taken: "key row \<in> key ` set (get t) \<Longrightarrow> \<not> is_ok (ins row t)"
begin

text \<open>Inserting a list of rows succeeds exactly when all keys are new and distinct.\<close>

lemma insert_rows:
  "run_all (map ins rows) t =
     (if distinct (map key rows) \<and> key ` set rows \<inter> key ` set (get t) = {}
      then Inr (put (get t @ rows) t) else run_all (map ins rows) t)"
proof (induction rows arbitrary: t)
  case (Cons r rows)
  show ?case
  proof (cases "key r \<in> key ` set (get t)")
    case False
    with Cons.IH [of "put (get t @ [r]) t"] show ?thesis
      by (auto simp: ins_free get_put put_put)
  qed auto
qed (simp add: put_get)

lemma insert_rows_ok:
  "is_ok (run_all (map ins rows) t) \<longleftrightarrow> distinct (map key rows) \<and> key ` set rows \<inter> key ` set (get t) = {}"
proof (induction rows arbitrary: t)
  case (Cons r rows)
  show ?case
  proof (cases "key r \<in> key ` set (get t)")
    case True
    then have "\<not> is_ok (ins r t)" by (rule ins_taken)
    with True show ?thesis by (cases "ins r t") auto
  next
    case False
    then show ?thesis by (auto simp: ins_free Cons.IH get_put)
  qed
qed simp

lemma insert_rows_empty:
  "get t = [] \<Longrightarrow> distinct (map key rows) \<Longrightarrow> run_all (map ins rows) t = Inr (put rows t)"
  using insert_rows [of rows t] by simp

lemma insert_rows_distinct: "is_ok (run_all (map ins rows) t) \<Longrightarrow> distinct (map key rows)"
  using insert_rows_ok by blast

end

end
