(* ===== verification/Sql_Store.thy ===== *)
theory Sql_Store
  imports File_Store Sql_Engine
begin

text \<open>
  \<open>internal/store/postgres.go\<close> and the tables of \<open>internal/store/migrations.go\<close>: the store
  that keeps four tables. Every method is a sequence of statements of the engine in
  \<open>Sql_Engine\<close>, each of which can fail (the connection, and limits the model does not compute:
  column widths, encodings). Primary keys, \<open>ON CONFLICT DO NOTHING\<close>, \<open>WHERE\<close>, \<open>ORDER BY\<close> and
  the transaction of \<open>Restore\<close> are carried out as SQL defines them; rows with equal sort keys
  are returned in insertion order.

  Parameters (\<open>sql_api\<close>): the JSON codecs of decisions and backups, and the rounding a
  timestamp column applies.
\<close>

section \<open>Tables\<close>

record decision_row =
  dr_decision_id :: string
  dr_schema_version :: string
  dr_decision :: string
  dr_subject_name :: string
  dr_subject_version :: string
  dr_subject_digest :: string
  dr_environment :: string
  dr_policy_name :: string
  dr_policy_digest :: string
  dr_evaluated_at :: go_time
  dr_data :: string

text \<open>
  The rows of the other tables have the columns of the record types, revocations without
  \<open>ExpiresAt\<close> and \<open>IncidentID\<close>.
\<close>

record tables =
  tb_decisions :: "decision_row list"
  tb_promotions :: "Promotion list"
  tb_revocations :: "Revocation list"
  tb_quarantines :: "Quarantine list"

type_synonym sql_db = "tables database"

record sql_api =
  sq_decision :: "Decision codec"
  sq_backup :: "BackupData codec"
  sq_time :: "go_time \<Rightarrow> go_time"

definition unique_violation :: "string \<Rightarrow> go_error" where
  "unique_violation key = Errorf ''duplicate key value violates unique constraint: %s'' [S key]"

definition decision_columns :: "sql_api \<Rightarrow> Decision \<Rightarrow> string \<Rightarrow> decision_row" where
  "decision_columns api d b =
     \<lparr>dr_decision_id = d_DecisionID d, dr_schema_version = d_SchemaVersion d,
      dr_decision = d_Decision d, dr_subject_name = as_Name (d_Subject d),
      dr_subject_version = as_Version (d_Subject d), dr_subject_digest = as_Digest (d_Subject d),
      dr_environment = d_Environment d, dr_policy_name = d_PolicyName d,
      dr_policy_digest = d_PolicyDigest d, dr_evaluated_at = sq_time api (d_EvaluatedAt d),
      dr_data = b\<rparr>"

definition promotion_columns :: "sql_api \<Rightarrow> Promotion \<Rightarrow> Promotion" where
  "promotion_columns api p = p\<lparr>pm_PromotedAt := sq_time api (pm_PromotedAt p)\<rparr>"

definition revocation_columns :: "sql_api \<Rightarrow> Revocation \<Rightarrow> Revocation" where
  "revocation_columns api r =
     r\<lparr>rv_RevokedAt := sq_time api (rv_RevokedAt r), rv_ExpiresAt := None, rv_IncidentID := []\<rparr>"

definition quarantine_columns :: "sql_api \<Rightarrow> Quarantine \<Rightarrow> Quarantine" where
  "quarantine_columns api q = q\<lparr>qr_QuarantinedAt := sq_time api (qr_QuarantinedAt q)\<rparr>"

text \<open>The four \<open>INSERT\<close>s on the tables: an id that is taken is an error.\<close>

definition insert_decision :: "decision_row \<Rightarrow> tables \<Rightarrow> tables result" where
  "insert_decision row t =
     (if \<exists>x \<in> set (tb_decisions t). dr_decision_id x = dr_decision_id row
      then Inl (unique_violation (dr_decision_id row))
      else Inr (t\<lparr>tb_decisions := tb_decisions t @ [row]\<rparr>))"

definition insert_promotion :: "Promotion \<Rightarrow> tables \<Rightarrow> tables result" where
  "insert_promotion row t =
     (if \<exists>x \<in> set (tb_promotions t). pm_ID x = pm_ID row then Inl (unique_violation (pm_ID row))
      else Inr (t\<lparr>tb_promotions := tb_promotions t @ [row]\<rparr>))"

definition insert_revocation :: "Revocation \<Rightarrow> tables \<Rightarrow> tables result" where
  "insert_revocation row t =
     (if \<exists>x \<in> set (tb_revocations t). rv_ID x = rv_ID row then Inl (unique_violation (rv_ID row))
      else Inr (t\<lparr>tb_revocations := tb_revocations t @ [row]\<rparr>))"

definition insert_quarantine :: "Quarantine \<Rightarrow> tables \<Rightarrow> tables result" where
  "insert_quarantine row t =
     (if \<exists>x \<in> set (tb_quarantines t). qr_ID x = qr_ID row then Inl (unique_violation (qr_ID row))
      else Inr (t\<lparr>tb_quarantines := tb_quarantines t @ [row]\<rparr>))"

section \<open>Operations\<close>

definition sql_Ping :: "sql_db \<Rightarrow> go_error option \<times> sql_db" where
  "sql_Ping db = statement db"

definition sql_SaveDecision :: "sql_api \<Rightarrow> Decision \<Rightarrow> sql_db \<Rightarrow> go_error option \<times> sql_db" where
  "sql_SaveDecision api d db =
     (case c_Marshal (sq_decision api) d of
        Inl err \<Rightarrow> (Some err, db)
      | Inr b \<Rightarrow>
          exec_statement
            (\<lambda>t. case insert_decision (decision_columns api d b) t of
                   Inl _ \<Rightarrow> Inr t
                 | Inr t' \<Rightarrow> Inr t') db)"

fun unmarshal_rows :: "sql_api \<Rightarrow> decision_row list \<Rightarrow> Decision list result" where
  "unmarshal_rows api [] = Inr []"
| "unmarshal_rows api (row # rows) =
     (case c_Unmarshal (sq_decision api) (dr_data row) of
        Inl err \<Rightarrow> Inl err
      | Inr d \<Rightarrow>
          (case unmarshal_rows api rows of
             Inl err \<Rightarrow> Inl err
           | Inr ds \<Rightarrow> Inr (d # ds)))"

definition sql_GetDecisions :: "sql_api \<Rightarrow> sql_db \<Rightarrow> Decision list result \<times> sql_db" where
  "sql_GetDecisions api db =
     (case query (\<lambda>t. sort_key dr_evaluated_at (tb_decisions t)) db of
        (Inl err, db1) \<Rightarrow> (Inl err, db1)
      | (Inr rows, db1) \<Rightarrow> (unmarshal_rows api rows, db1))"

definition sql_GetPromotions :: "string \<Rightarrow> sql_db \<Rightarrow> Promotion list result \<times> sql_db" where
  "sql_GetPromotions env db =
     query (\<lambda>t. sort_key pm_PromotedAt
                  (filter (\<lambda>p. env = [] \<or> pm_Environment p = env) (tb_promotions t))) db"

definition sql_Revoke :: "sql_api \<Rightarrow> call_env \<Rightarrow> Revocation \<Rightarrow> sql_db \<Rightarrow> go_error option \<times> sql_db" where
  "sql_Revoke api ce r db =
     exec_statement (insert_revocation (revocation_columns api (stamp_revocation ce r))) db"

definition sql_GetRevocations :: "string \<Rightarrow> sql_db \<Rightarrow> Revocation list result \<times> sql_db" where
  "sql_GetRevocations env db =
     query (\<lambda>t. sort_key rv_RevokedAt
                  (filter (\<lambda>r. env = [] \<or> rv_Environment r = env) (tb_revocations t))) db"

definition sql_IsRevoked :: "string \<Rightarrow> string \<Rightarrow> sql_db \<Rightarrow> bool result \<times> sql_db" where
  "sql_IsRevoked dg env db =
     (case query (\<lambda>t. length (filter (revokes dg env) (tb_revocations t))) db of
        (Inl err, db1) \<Rightarrow> (Inl err, db1)
      | (Inr count, db1) \<Rightarrow> (Inr (0 < count), db1))"

definition sql_Quarantine :: "sql_api \<Rightarrow> call_env \<Rightarrow> Quarantine \<Rightarrow> sql_db \<Rightarrow> go_error option \<times> sql_db" where
  "sql_Quarantine api ce q db =
     exec_statement (insert_quarantine (quarantine_columns api (stamp_quarantine ce q))) db"

definition sql_GetQuarantines :: "string \<Rightarrow> sql_db \<Rightarrow> Quarantine list result \<times> sql_db" where
  "sql_GetQuarantines env db =
     query (\<lambda>t. sort_key qr_QuarantinedAt
                  (filter (\<lambda>q. env = [] \<or> qr_Environment q = [] \<or> qr_Environment q = env)
                     (tb_quarantines t))) db"

definition sql_IsQuarantined :: "string \<Rightarrow> string \<Rightarrow> sql_db \<Rightarrow> bool result \<times> sql_db" where
  "sql_IsQuarantined dg env db =
     (case query (\<lambda>t. length (filter (quarantines dg env) (tb_quarantines t))) db of
        (Inl err, db1) \<Rightarrow> (Inl err, db1)
      | (Inr count, db1) \<Rightarrow> (Inr (0 < count), db1))"

definition sql_Unquarantine :: "string \<Rightarrow> sql_db \<Rightarrow> go_error option \<times> sql_db" where
  "sql_Unquarantine x db =
     exec_statement
       (\<lambda>t. Inr (t\<lparr>tb_quarantines := filter (\<lambda>q. \<not> (qr_ID q = x \<or> qr_Digest q = x)) (tb_quarantines t)\<rparr>)) db"

text \<open>
  \<open>Promote\<close> is a sequence of four statements outside any transaction: the decision, the two
  lookups, the \<open>INSERT\<close>. The first three are the guard.
\<close>

definition sql_promote_decision ::
    "sql_api \<Rightarrow> call_env \<Rightarrow> Promotion \<Rightarrow> sql_db \<Rightarrow> go_error option \<times> sql_db" where
  "sql_promote_decision api ce p db =
     (if pm_DecisionID p = []
      then (Some (errors_New ''promotion requires a valid decision_id proving prior ALLOW admission decision''), db)
      else case query (\<lambda>t. find (\<lambda>row. dr_decision_id row = pm_DecisionID p) (tb_decisions t)) db of
        (Inl err, db1) \<Rightarrow> (Some (Wrapf ''query decision_id: %w'' [] err), db1)
      | (Inr None, db1) \<Rightarrow>
          (Some (Errorf ''decision_id %q not found in decision store'' [S (pm_DecisionID p)]), db1)
      | (Inr (Some row), db1) \<Rightarrow>
          (case c_Unmarshal (sq_decision api) (dr_data row) of
             Inl err \<Rightarrow> (Some (Wrapf ''unmarshal decision data: %w'' [] err), db1)
           | Inr d \<Rightarrow> (promotion_decision_error (ce_now ce) p d, db1)))"

definition sql_promote_revoked :: "Promotion \<Rightarrow> sql_db \<Rightarrow> go_error option \<times> sql_db" where
  "sql_promote_revoked p db =
     (case sql_IsRevoked (pm_Digest p) (pm_Environment p) db of
        (Inl err, db1) \<Rightarrow> (Some (Wrapf ''check revocation for promotion: %w'' [] err), db1)
      | (Inr revoked, db1) \<Rightarrow>
          (if revoked then Some (Errorf ''digest %s is revoked in environment %q, promotion denied''
                                   [S (pm_Digest p), S (pm_Environment p)])
           else None, db1))"

definition sql_promote_quarantined :: "Promotion \<Rightarrow> sql_db \<Rightarrow> go_error option \<times> sql_db" where
  "sql_promote_quarantined p db =
     (case sql_IsQuarantined (pm_Digest p) (pm_Environment p) db of
        (Inl err, db1) \<Rightarrow> (Some (Wrapf ''check quarantine for promotion: %w'' [] err), db1)
      | (Inr quarantined, db1) \<Rightarrow>
          (if quarantined then Some (Errorf ''digest %s is quarantined in environment %q, promotion denied''
                                       [S (pm_Digest p), S (pm_Environment p)])
           else None, db1))"

definition sql_promote_insert ::
    "sql_api \<Rightarrow> call_env \<Rightarrow> Promotion \<Rightarrow> sql_db \<Rightarrow> go_error option \<times> sql_db" where
  "sql_promote_insert api ce p db =
     exec_statement (insert_promotion (promotion_columns api (stamp_promotion ce p))) db"

definition sql_Promote :: "sql_api \<Rightarrow> call_env \<Rightarrow> Promotion \<Rightarrow> sql_db \<Rightarrow> go_error option \<times> sql_db" where
  "sql_Promote api ce p db =
     (case sql_promote_decision api ce p db of
        (Some err, db1) \<Rightarrow> (Some err, db1)
      | (None, db1) \<Rightarrow>
     (case sql_promote_revoked p db1 of
        (Some err, db2) \<Rightarrow> (Some err, db2)
      | (None, db2) \<Rightarrow>
     (case sql_promote_quarantined p db2 of
        (Some err, db3) \<Rightarrow> (Some err, db3)
      | (None, db3) \<Rightarrow> sql_promote_insert api ce p db3)))"

section \<open>Backup and restore\<close>

definition sql_Backup :: "sql_api \<Rightarrow> call_env \<Rightarrow> sql_db \<Rightarrow> string result \<times> sql_db" where
  "sql_Backup api ce db =
     (case sql_GetDecisions api db of
        (Inl err, db1) \<Rightarrow> (Inl err, db1)
      | (Inr decs, db1) \<Rightarrow>
     (case sql_GetPromotions [] db1 of
        (Inl err, db2) \<Rightarrow> (Inl err, db2)
      | (Inr proms, db2) \<Rightarrow>
     (case sql_GetRevocations [] db2 of
        (Inl err, db3) \<Rightarrow> (Inl err, db3)
      | (Inr revs, db3) \<Rightarrow>
     (case sql_GetQuarantines [] db3 of
        (Inl err, db4) \<Rightarrow> (Inl err, db4)
      | (Inr quars, db4) \<Rightarrow>
          (c_Marshal (sq_backup api)
             \<lparr>bk_SchemaVersion = ''1.0.0'', bk_ExportedAt = ce_stamp ce, bk_Decisions = decs,
              bk_Promotions = proms, bk_Revocations = revs, bk_Quarantines = quars\<rparr>, db4)))))"

text \<open>\<open>b, _ := json.Marshal(d)\<close>: the error is dropped, the data is then empty.\<close>

definition marshal_or_empty :: "sql_api \<Rightarrow> Decision \<Rightarrow> string" where
  "marshal_or_empty api d = (case c_Marshal (sq_decision api) d of Inl _ \<Rightarrow> [] | Inr b \<Rightarrow> b)"

text \<open>One \<open>Exec\<close> deletes the rows of the four tables, one per record inserts a row.\<close>

definition restore_statements :: "sql_api \<Rightarrow> BackupData \<Rightarrow> (tables \<Rightarrow> tables result) list" where
  "restore_statements api backup =
     [\<lambda>t. Inr (t\<lparr>tb_decisions := []\<rparr>), \<lambda>t. Inr (t\<lparr>tb_promotions := []\<rparr>),
      \<lambda>t. Inr (t\<lparr>tb_revocations := []\<rparr>), \<lambda>t. Inr (t\<lparr>tb_quarantines := []\<rparr>)]
     @ map (\<lambda>d. insert_decision (decision_columns api d (marshal_or_empty api d))) (bk_Decisions backup)
     @ map (\<lambda>p. insert_promotion (promotion_columns api p)) (bk_Promotions backup)
     @ map (\<lambda>r. insert_revocation (revocation_columns api r)) (bk_Revocations backup)
     @ map (\<lambda>q. insert_quarantine (quarantine_columns api q)) (bk_Quarantines backup)"

text \<open>
  \<open>BEGIN\<close>, the statements on the transaction, \<open>COMMIT\<close>. The deferred \<open>Rollback\<close> drops the
  working copy after an error and does nothing after \<open>COMMIT\<close>. (Whether the engine aborts a
  failed transaction makes no difference: no statement follows the first error.)
\<close>

definition sql_Restore :: "sql_api \<Rightarrow> string \<Rightarrow> sql_db \<Rightarrow> go_error option \<times> sql_db" where
  "sql_Restore api data db =
     (case c_Unmarshal (sq_backup api) data of
        Inl err \<Rightarrow> (Some (Wrapf ''unmarshal backup: %w'' [] err), db)
      | Inr backup \<Rightarrow>
     (case tx_begin True db of
        (Inl err, db1) \<Rightarrow> (Some err, db1)
      | (Inr tx, db1) \<Rightarrow>
     (case tx_exec_all (restore_statements api backup) (tx, db1) of
        (Some err, s) \<Rightarrow> (Some err, tx_rollback s)
      | (None, s) \<Rightarrow> tx_commit s)))"

section \<open>The ledger in the tables\<close>

definition row_holds :: "sql_api \<Rightarrow> decision_row \<Rightarrow> Decision \<Rightarrow> bool" where
  "row_holds api row d \<longleftrightarrow>
     c_Unmarshal (sq_decision api) (dr_data row) = Inr d \<and> dr_decision_id row = d_DecisionID d"

definition sql_view :: "sql_api \<Rightarrow> sql_db \<Rightarrow> ledger \<Rightarrow> bool" where
  "sql_view api db g \<longleftrightarrow>
     db_faults db = []
     \<and> list_all2 (row_holds api) (tb_decisions (db_tables db)) (lg_decisions g)
     \<and> lg_promotions g = tb_promotions (db_tables db)
     \<and> lg_revocations g = tb_revocations (db_tables db)
     \<and> lg_quarantines g = tb_quarantines (db_tables db)"

definition sql_exec ::
    "sql_api \<Rightarrow> call_env \<Rightarrow> store_op \<Rightarrow> sql_db \<Rightarrow> go_error option \<times> sql_db" where
  "sql_exec api ce op db =
     (case op of
        SaveDecisionOp d \<Rightarrow> sql_SaveDecision api d db
      | PromoteOp p \<Rightarrow> sql_Promote api ce p db
      | RevokeOp r \<Rightarrow> sql_Revoke api ce r db
      | QuarantineOp q \<Rightarrow> sql_Quarantine api ce q db
      | UnquarantineOp x \<Rightarrow> sql_Unquarantine x db)"

text \<open>The decision survives its JSON encoding.\<close>

definition sql_fits :: "sql_api \<Rightarrow> call_env \<Rightarrow> store_op \<Rightarrow> bool" where
  "sql_fits api ce op =
     (case op of
        SaveDecisionOp d \<Rightarrow> (\<exists>b. c_Marshal (sq_decision api) d = Inr b \<and> c_Unmarshal (sq_decision api) b = Inr d)
      | _ \<Rightarrow> True)"

lemma filter_nonempty: "filter P xs \<noteq> [] \<longleftrightarrow> (\<exists>x \<in> set xs. P x)"
  by (simp add: filter_empty_conv)

lemma find_rows:
  assumes "list_all2 (row_holds api) rows ds"
  shows "case find (\<lambda>row. dr_decision_id row = x) rows of
           None \<Rightarrow> find (\<lambda>d. d_DecisionID d = x) ds = None
         | Some row \<Rightarrow> \<exists>d. find (\<lambda>d. d_DecisionID d = x) ds = Some d \<and> row_holds api row d"
  using assms by (induction rule: list_all2_induct) (auto simp: row_holds_def split: option.splits)

lemma sql_promote_decision_view:
  assumes "sql_view api db g" "pm_DecisionID p \<noteq> []"
  shows "sql_promote_decision api ce p db =
    (case find (\<lambda>d. d_DecisionID d = pm_DecisionID p) (lg_decisions g) of
       None \<Rightarrow> (Some (Errorf ''decision_id %q not found in decision store'' [S (pm_DecisionID p)]), db)
     | Some d \<Rightarrow> (promotion_decision_error (ce_now ce) p d, db))"
proof -
  have f: "db_faults db = []" and l: "list_all2 (row_holds api) (tb_decisions (db_tables db)) (lg_decisions g)"
    using assms(1) by (simp_all add: sql_view_def)
  show ?thesis
    using find_rows [OF l, of "pm_DecisionID p"] assms(2) f
    by (auto simp: sql_promote_decision_def row_holds_def split: option.splits)
qed

lemma sql_lookups_view:
  assumes "sql_view api db g"
  shows "sql_IsRevoked dg env db = (Inr (\<exists>r \<in> set (lg_revocations g). revokes dg env r), db)"
    and "sql_IsQuarantined dg env db = (Inr (\<exists>q \<in> set (lg_quarantines g). quarantines dg env q), db)"
  using assms
  by (simp_all add: sql_view_def sql_IsRevoked_def sql_IsQuarantined_def filter_nonempty)

lemma sql_Promote_view:
  assumes "sql_view api db g"
  shows "sql_Promote api ce p db =
    (case promotion_error g (ce_now ce) p of
       Some e \<Rightarrow> (Some e, db)
     | None \<Rightarrow> sql_promote_insert api ce p db)"
proof (cases "pm_DecisionID p = []")
  case True
  then show ?thesis
    by (simp add: sql_Promote_def sql_promote_decision_def promotion_error_def)
next
  case False
  show ?thesis
    unfolding sql_Promote_def sql_promote_decision_view [OF assms False]
    by (simp add: promotion_error_def False sql_promote_revoked_def sql_promote_quarantined_def
        sql_lookups_view [OF assms] split: option.splits)
qed

lemma sql_view_insert:
  assumes "sql_view api db g"
  shows "sql_view api (db\<lparr>db_tables := (db_tables db)\<lparr>tb_promotions := ps\<rparr>\<rparr>) (g\<lparr>lg_promotions := ps\<rparr>)"
    "sql_view api (db\<lparr>db_tables := (db_tables db)\<lparr>tb_revocations := rs\<rparr>\<rparr>) (g\<lparr>lg_revocations := rs\<rparr>)"
    "sql_view api (db\<lparr>db_tables := (db_tables db)\<lparr>tb_quarantines := qs\<rparr>\<rparr>) (g\<lparr>lg_quarantines := qs\<rparr>)"
  using assms by (simp_all add: sql_view_def)

lemma columns_fields [simp]:
  "pm_DecisionID (promotion_columns api p) = pm_DecisionID p"
  "pm_Digest (promotion_columns api p) = pm_Digest p"
  "pm_Environment (promotion_columns api p) = pm_Environment p"
  "rv_Digest (revocation_columns api r) = rv_Digest r"
  "rv_Environment (revocation_columns api r) = rv_Environment r"
  "qr_Digest (quarantine_columns api q) = qr_Digest q"
  "qr_Environment (quarantine_columns api q) = qr_Environment q"
  by (simp_all add: promotion_columns_def revocation_columns_def quarantine_columns_def)

lemma sql_save_step:
  assumes "sql_view api db g" "sql_fits api ce (SaveDecisionOp d)" "sql_SaveDecision api d db = (r, db')"
  shows "\<exists>g'. sql_view api db' g' \<and> ledger_step ce (SaveDecisionOp d) g r g'"
proof -
  obtain b where b: "c_Marshal (sq_decision api) d = Inr b" "c_Unmarshal (sq_decision api) b = Inr d"
    using assms(2) by (auto simp: sql_fits_def)
  have f: "db_faults db = []" and l: "list_all2 (row_holds api) (tb_decisions (db_tables db)) (lg_decisions g)"
    using assms(1) by (simp_all add: sql_view_def)
  let ?row = "decision_columns api d b"
  have row: "row_holds api ?row d" "dr_decision_id ?row = d_DecisionID d"
    by (simp_all add: row_holds_def decision_columns_def b(2))
  show ?thesis
  proof (cases "\<exists>x \<in> set (tb_decisions (db_tables db)). dr_decision_id x = d_DecisionID d")
    case True
    then obtain x where x: "x \<in> set (tb_decisions (db_tables db))" "dr_decision_id x = d_DecisionID d" by blast
    then obtain d' where "d' \<in> set (lg_decisions g)" "row_holds api x d'"
      using l by (metis list_all2_conv_all_nth in_set_conv_nth)
    then have "ledger_step ce (SaveDecisionOp d) g None g"
      using x(2) by (intro decision_known [of d']) (auto simp: row_holds_def)
    moreover have "r = None" "db' = db"
      using assms(3) b f True row(2) by (auto simp: sql_SaveDecision_def insert_decision_def split: if_splits)
    ultimately show ?thesis using assms(1) by blast
  next
    case False
    let ?db = "db\<lparr>db_tables := (db_tables db)\<lparr>tb_decisions := tb_decisions (db_tables db) @ [?row]\<rparr>\<rparr>"
    have "r = None" "db' = ?db"
      using assms(3) b f False row(2) by (auto simp: sql_SaveDecision_def insert_decision_def split: if_splits)
    moreover have "sql_view api ?db (g\<lparr>lg_decisions := lg_decisions g @ [d]\<rparr>)"
      using assms(1) l row(1) by (simp add: sql_view_def list_all2_appendI)
    moreover have "ledger_step ce (SaveDecisionOp d) g None (g\<lparr>lg_decisions := lg_decisions g @ [d]\<rparr>)"
      by (rule decision_saved) simp
    ultimately show ?thesis by blast
  qed
qed

lemma sql_promote_step:
  assumes "sql_view api db g" "sql_Promote api ce p db = (r, db')"
  shows "\<exists>g'. sql_view api db' g' \<and> ledger_step ce (PromoteOp p) g r g'"
proof (cases r)
  case (Some e)
  then have "db' = db"
    using assms by (auto simp: sql_Promote_view sql_promote_insert_def insert_promotion_def sql_view_def
        split: option.splits if_splits)
  then show ?thesis using assms(1) refused Some by blast
next
  case None
  let ?p = "promotion_columns api (stamp_promotion ce p)"
  have ok: "promotion_error g (ce_now ce) p = None"
    using assms None by (auto simp: sql_Promote_view split: option.splits)
  then have "db' = db\<lparr>db_tables := (db_tables db)\<lparr>tb_promotions := tb_promotions (db_tables db) @ [?p]\<rparr>\<rparr>"
    using assms None by (auto simp: sql_Promote_view sql_promote_insert_def insert_promotion_def sql_view_def
        split: if_splits)
  then have "sql_view api db' (g\<lparr>lg_promotions := lg_promotions g @ [?p]\<rparr>)"
    using sql_view_insert(1) [OF assms(1)] assms(1) by (simp add: sql_view_def)
  moreover obtain d where "d \<in> set (lg_decisions g)" "justifies d p"
      "d_ExpiresAt d = time_zero \<or> ce_now ce \<le> d_ExpiresAt d"
    using promotion_error_justified(1) [OF ok] by blast
  then have "ledger_step ce (PromoteOp p) g None (g\<lparr>lg_promotions := lg_promotions g @ [?p]\<rparr>)"
    using promotion_error_justified(2) [OF ok] by (intro promoted [of d g p ce ?p]) simp_all
  ultimately show ?thesis using None by blast
qed

lemma sql_step:
  assumes "sql_view api db g" "sql_fits api ce op" "sql_exec api ce op db = (r, db')"
  shows "\<exists>g'. sql_view api db' g' \<and> ledger_step ce op g r g'"
proof (cases op)
  case (SaveDecisionOp d)
  then show ?thesis using sql_save_step assms by (simp add: sql_exec_def)
next
  case (PromoteOp p)
  then show ?thesis using sql_promote_step assms by (simp add: sql_exec_def)
next
  case (RevokeOp x)
  let ?r = "revocation_columns api (stamp_revocation ce x)"
  have f: "db_faults db = []" using assms(1) by (simp add: sql_view_def)
  show ?thesis
  proof (cases r)
    case (Some e)
    then have "db' = db"
      using assms(3) f RevokeOp by (auto simp: sql_exec_def sql_Revoke_def insert_revocation_def split: if_splits)
    then show ?thesis using assms(1) refused Some by blast
  next
    case None
    then have "db' = db\<lparr>db_tables := (db_tables db)\<lparr>tb_revocations := lg_revocations g @ [?r]\<rparr>\<rparr>"
      using assms(1,3) f RevokeOp
      by (auto simp: sql_exec_def sql_Revoke_def insert_revocation_def sql_view_def split: if_splits)
    moreover have "ledger_step ce op g None (g\<lparr>lg_revocations := lg_revocations g @ [?r]\<rparr>)"
      unfolding RevokeOp by (rule revoked [of ?r]) simp_all
    ultimately show ?thesis using None sql_view_insert(2) [OF assms(1)] by blast
  qed
next
  case (QuarantineOp x)
  let ?q = "quarantine_columns api (stamp_quarantine ce x)"
  have f: "db_faults db = []" using assms(1) by (simp add: sql_view_def)
  show ?thesis
  proof (cases r)
    case (Some e)
    then have "db' = db"
      using assms(3) f QuarantineOp
      by (auto simp: sql_exec_def sql_Quarantine_def insert_quarantine_def split: if_splits)
    then show ?thesis using assms(1) refused Some by blast
  next
    case None
    then have "db' = db\<lparr>db_tables := (db_tables db)\<lparr>tb_quarantines := lg_quarantines g @ [?q]\<rparr>\<rparr>"
      using assms(1,3) f QuarantineOp
      by (auto simp: sql_exec_def sql_Quarantine_def insert_quarantine_def sql_view_def split: if_splits)
    moreover have "ledger_step ce op g None (g\<lparr>lg_quarantines := lg_quarantines g @ [?q]\<rparr>)"
      unfolding QuarantineOp by (rule quarantined [of ?q]) simp_all
    ultimately show ?thesis using None sql_view_insert(3) [OF assms(1)] by blast
  qed
next
  case (UnquarantineOp x)
  let ?qs = "filter (\<lambda>q. \<not> (qr_ID q = x \<or> qr_Digest q = x)) (lg_quarantines g)"
  have "r = None" "db' = db\<lparr>db_tables := (db_tables db)\<lparr>tb_quarantines := ?qs\<rparr>\<rparr>"
    using assms(1,3) UnquarantineOp by (auto simp: sql_exec_def sql_Unquarantine_def sql_view_def)
  moreover have "ledger_step ce op g None (g\<lparr>lg_quarantines := ?qs\<rparr>)"
    unfolding UnquarantineOp by (rule unquarantined) auto
  ultimately show ?thesis using sql_view_insert(3) [OF assms(1)] by blast
qed

interpretation sql_ledger: store_lookup "sql_exec api" "sql_view api" "sql_fits api" sql_IsQuarantined
    for api
  by unfold_locales (blast intro: sql_step, rule sql_lookups_view)

section \<open>Promotions interleaved with other sessions\<close>

text \<open>
  The statements of \<open>Promote\<close> run on one connection while other connections run calls of
  their own between them.
\<close>

definition interleaved_Promote ::
    "sql_api \<Rightarrow> call_env \<Rightarrow> Promotion \<Rightarrow> (call_env \<times> store_op) list \<Rightarrow> (call_env \<times> store_op) list
       \<Rightarrow> (call_env \<times> store_op) list \<Rightarrow> sql_db \<Rightarrow> go_error option \<times> sql_db" where
  "interleaved_Promote api ce p ops1 ops2 ops3 db =
     (case sql_promote_decision api ce p db of
        (Some err, db1) \<Rightarrow> (Some err, db1)
      | (None, db1) \<Rightarrow>
     (case sql_promote_revoked p (run_ops (sql_exec api) ops1 db1) of
        (Some err, db2) \<Rightarrow> (Some err, db2)
      | (None, db2) \<Rightarrow>
     (case sql_promote_quarantined p (run_ops (sql_exec api) ops2 db2) of
        (Some err, db3) \<Rightarrow> (Some err, db3)
      | (None, db3) \<Rightarrow> sql_promote_insert api ce p (run_ops (sql_exec api) ops3 db3))))"

lemma interleaved_none: "interleaved_Promote api ce p [] [] [] db = sql_Promote api ce p db"
  by (simp add: interleaved_Promote_def sql_Promote_def cong: option.case_cong prod.case_cong)

lemma sql_promote_insert_view:
  assumes "sql_view api db g" "sql_promote_insert api ce p db = (None, db')"
  shows "sql_view api db' (g\<lparr>lg_promotions := lg_promotions g @ [promotion_columns api (stamp_promotion ce p)]\<rparr>)"
proof -
  have "db' = db\<lparr>db_tables := (db_tables db)\<lparr>tb_promotions :=
      tb_promotions (db_tables db) @ [promotion_columns api (stamp_promotion ce p)]\<rparr>\<rparr>"
    using assms by (auto simp: sql_promote_insert_def insert_promotion_def sql_view_def split: if_splits)
  then show ?thesis using sql_view_insert(1) [OF assms(1)] assms(1) by (simp add: sql_view_def)
qed

section \<open>Properties\<close>

definition empty_tables :: tables where
  "empty_tables = \<lparr>tb_decisions = [], tb_promotions = [], tb_revocations = [], tb_quarantines = []\<rparr>"

definition empty_db :: sql_db where
  "empty_db = \<lparr>db_tables = empty_tables, db_faults = []\<rparr>"

definition sample_sql :: sql_api where
  "sample_sql =
     \<lparr>sq_decision = one_codec sample_decision,
      sq_backup = one_codec (backup_of sample_ce sample_ledger), sq_time = id\<rparr>"

lemma empty_db_view: "sql_view api empty_db empty_ledger"
  by (simp add: sql_view_def empty_db_def empty_tables_def empty_ledger_def)

lemma sample_sql_fits: "sql_fits sample_sql ce (SaveDecisionOp sample_decision)"
  by (simp add: sql_fits_def sample_sql_def one_codec_def)

lemma sample_db_view:
  "\<exists>db. sql_SaveDecision sample_sql sample_decision empty_db = (None, db) \<and> sql_view sample_sql db sample_ledger"
  by (simp add: sql_SaveDecision_def sample_sql_def one_codec_def empty_db_def insert_decision_def
      empty_tables_def sql_view_def sample_ledger_def empty_ledger_def row_holds_def decision_columns_def)

lemma interleaved_success:
  assumes "sql_view api db g" "promotion_error g (ce_now ce) p = None"
    "\<forall>x \<in> set (lg_promotions g). pm_ID x \<noteq> pm_ID (stamp_promotion ce p)"
    "\<forall>x \<in> set (lg_revocations g). rv_ID x \<noteq> rv_ID (stamp_revocation ce' r)"
  shows "\<exists>db'. interleaved_Promote api ce p [] [(ce', RevokeOp r)] [] db = (None, db')
     \<and> sql_view api db' (g\<lparr>lg_revocations := lg_revocations g @ [revocation_columns api (stamp_revocation ce' r)],
          lg_promotions := lg_promotions g @ [promotion_columns api (stamp_promotion ce p)]\<rparr>)"
proof -
  let ?r = "revocation_columns api (stamp_revocation ce' r)"
  let ?db = "db\<lparr>db_tables := (db_tables db)\<lparr>tb_revocations := lg_revocations g @ [?r]\<rparr>\<rparr>"
  let ?g = "g\<lparr>lg_revocations := lg_revocations g @ [?r]\<rparr>"
  have f: "db_faults db = []" using assms(1) by (simp add: sql_view_def)
  obtain d where id: "pm_DecisionID p \<noteq> []"
      and d: "find (\<lambda>d. d_DecisionID d = pm_DecisionID p) (lg_decisions g) = Some d"
      "promotion_decision_error (ce_now ce) p d = None" and nb: "\<not> blocked g (pm_Digest p) (pm_Environment p)"
    using assms(2) by (auto simp: promotion_error_None promotion_decision_error_None justifies_def)
  have s1: "sql_promote_decision api ce p db = (None, db)"
    using d by (simp add: sql_promote_decision_view [OF assms(1) id])
  have s2: "sql_promote_revoked p db = (None, db)"
    using nb by (auto simp: sql_promote_revoked_def sql_lookups_view [OF assms(1)] blocked_def)
  have rev: "run_ops (sql_exec api) [(ce', RevokeOp r)] db = ?db"
    using f assms(1,4) by (auto simp: sql_exec_def sql_Revoke_def insert_revocation_def sql_view_def
        revocation_columns_def)
  have v: "sql_view api ?db ?g" by (rule sql_view_insert(2) [OF assms(1)])
  have s3: "sql_promote_quarantined p ?db = (None, ?db)"
    using nb by (auto simp: sql_promote_quarantined_def sql_lookups_view [OF v] blocked_def)
  obtain db' where s4: "sql_promote_insert api ce p ?db = (None, db')"
    using f assms(1,3) by (auto simp: sql_promote_insert_def insert_promotion_def sql_view_def
        promotion_columns_def)
  have "interleaved_Promote api ce p [] [(ce', RevokeOp r)] [] db = (None, db')"
    by (simp add: interleaved_Promote_def s1 s2 rev [simplified] s3 s4)
  then show ?thesis using sql_promote_insert_view [OF v s4] by auto
qed

text \<open>
  C36. A race in the SQL store: the checks and the \<open>INSERT\<close> of \<open>Promote\<close> are not one
  transaction, so a revocation that is recorded between the revocation check and the
  \<open>INSERT\<close> does not stop the promotion: it succeeds although the digest is already revoked.
\<close>

theorem sql_Promote_race:
  assumes "sql_view api db g" "promotion_error g (ce_now ce) p = None"
    "\<forall>x \<in> set (lg_promotions g). pm_ID x \<noteq> pm_ID (stamp_promotion ce p)"
    "\<forall>x \<in> set (lg_revocations g). rv_ID x \<noteq> rv_ID (stamp_revocation ce' r)"
    "rv_Digest r = pm_Digest p" "rv_Environment r = []"
  shows "fst (sql_Promote api ce p (run_ops (sql_exec api) [(ce', RevokeOp r)] db)) \<noteq> None
    \<and> (\<exists>db' g'. interleaved_Promote api ce p [] [(ce', RevokeOp r)] [] db = (None, db')
         \<and> sql_view api db' g' \<and> withdrawn g' (pm_Digest p) (pm_Environment p)
         \<and> promotion_columns api (stamp_promotion ce p) \<in> set (lg_promotions g'))"
proof -
  let ?r = "revocation_columns api (stamp_revocation ce' r)"
  have f: "db_faults db = []" using assms(1) by (simp add: sql_view_def)
  have "run_ops (sql_exec api) [(ce', RevokeOp r)] db
      = db\<lparr>db_tables := (db_tables db)\<lparr>tb_revocations := lg_revocations g @ [?r]\<rparr>\<rparr>"
    using f assms(1,4) by (auto simp: sql_exec_def sql_Revoke_def insert_revocation_def sql_view_def
        revocation_columns_def)
  then have v: "sql_view api (run_ops (sql_exec api) [(ce', RevokeOp r)] db)
      (g\<lparr>lg_revocations := lg_revocations g @ [?r]\<rparr>)"
    using sql_view_insert(2) [OF assms(1)] by simp
  have "blocked (g\<lparr>lg_revocations := lg_revocations g @ [?r]\<rparr>) (pm_Digest p) (pm_Environment p)"
    using assms(5,6) by (auto simp: blocked_def revokes_def)
  then have "promotion_error (g\<lparr>lg_revocations := lg_revocations g @ [?r]\<rparr>) (ce_now ce) p \<noteq> None"
    using promotion_error_justified(2) by blast
  then have "fst (sql_Promote api ce p (run_ops (sql_exec api) [(ce', RevokeOp r)] db)) \<noteq> None"
    using sql_Promote_view [OF v] by fastforce
  moreover have "withdrawn (g\<lparr>lg_revocations := lg_revocations g @ [?r],
      lg_promotions := lg_promotions g @ [promotion_columns api (stamp_promotion ce p)]\<rparr>)
      (pm_Digest p) (pm_Environment p)"
    using assms(5,6) by (auto simp: withdrawn_def revokes_def)
  ultimately show ?thesis using interleaved_success [OF assms(1-4)] by fastforce
qed

theorem sql_Promote_race_witness:
  "\<exists>db. sql_SaveDecision sample_sql sample_decision empty_db = (None, db)
     \<and> fst (interleaved_Promote sample_sql sample_ce sample_promotion []
              [(sample_ce, RevokeOp sample_revocation)] [] db) = None"
proof -
  obtain db where db: "sql_SaveDecision sample_sql sample_decision empty_db = (None, db)"
      "sql_view sample_sql db sample_ledger"
    using sample_db_view by blast
  have "rv_Digest sample_revocation = pm_Digest sample_promotion" "rv_Environment sample_revocation = []"
    by (simp_all add: sample_revocation_def sample_promotion_def)
  then show ?thesis
    using sql_Promote_race [OF db(2) sample_promotion_ok, of sample_ce sample_revocation] db(1)
    by (auto simp: sample_ledger_def empty_ledger_def)
qed

section \<open>Restore is all or nothing\<close>

interpretation decisions_table: keyed_table tb_decisions "\<lambda>xs t. t\<lparr>tb_decisions := xs\<rparr>" dr_decision_id insert_decision
  by unfold_locales (auto simp: insert_decision_def image_iff)

interpretation promotions_table: keyed_table tb_promotions "\<lambda>xs t. t\<lparr>tb_promotions := xs\<rparr>" pm_ID insert_promotion
  by unfold_locales (auto simp: insert_promotion_def image_iff)

interpretation revocations_table: keyed_table tb_revocations "\<lambda>xs t. t\<lparr>tb_revocations := xs\<rparr>" rv_ID insert_revocation
  by unfold_locales (auto simp: insert_revocation_def image_iff)

interpretation quarantines_table: keyed_table tb_quarantines "\<lambda>xs t. t\<lparr>tb_quarantines := xs\<rparr>" qr_ID insert_quarantine
  by unfold_locales (auto simp: insert_quarantine_def image_iff)

text \<open>The four tables a backup describes, and the backups that can be restored: no id twice.\<close>

definition backup_tables :: "sql_api \<Rightarrow> BackupData \<Rightarrow> tables" where
  "backup_tables api b =
     \<lparr>tb_decisions = map (\<lambda>d. decision_columns api d (marshal_or_empty api d)) (bk_Decisions b),
      tb_promotions = map (promotion_columns api) (bk_Promotions b),
      tb_revocations = map (revocation_columns api) (bk_Revocations b),
      tb_quarantines = map (quarantine_columns api) (bk_Quarantines b)\<rparr>"

definition distinct_ids :: "BackupData \<Rightarrow> bool" where
  "distinct_ids b \<longleftrightarrow>
     distinct (map d_DecisionID (bk_Decisions b)) \<and> distinct (map pm_ID (bk_Promotions b))
     \<and> distinct (map rv_ID (bk_Revocations b)) \<and> distinct (map qr_ID (bk_Quarantines b))"

lemma restore_statements_map:
  "restore_statements api b =
     [\<lambda>t. Inr (t\<lparr>tb_decisions := []\<rparr>), \<lambda>t. Inr (t\<lparr>tb_promotions := []\<rparr>),
      \<lambda>t. Inr (t\<lparr>tb_revocations := []\<rparr>), \<lambda>t. Inr (t\<lparr>tb_quarantines := []\<rparr>)]
     @ map insert_decision (tb_decisions (backup_tables api b))
     @ map insert_promotion (tb_promotions (backup_tables api b))
     @ map insert_revocation (tb_revocations (backup_tables api b))
     @ map insert_quarantine (tb_quarantines (backup_tables api b))"
  by (simp add: restore_statements_def backup_tables_def)

lemma backup_tables_keys:
  "distinct_ids b \<longleftrightarrow>
     distinct (map dr_decision_id (tb_decisions (backup_tables api b)))
     \<and> distinct (map pm_ID (tb_promotions (backup_tables api b)))
     \<and> distinct (map rv_ID (tb_revocations (backup_tables api b)))
     \<and> distinct (map qr_ID (tb_quarantines (backup_tables api b)))"
  by (simp add: distinct_ids_def backup_tables_def comp_def decision_columns_def promotion_columns_def
      revocation_columns_def quarantine_columns_def)

lemma run_restore:
  "distinct_ids b \<Longrightarrow> run_all (restore_statements api b) t = Inr (backup_tables api b)"
  "\<not> distinct_ids b \<Longrightarrow> \<not> is_ok (run_all (restore_statements api b) t)"
proof -
  let ?T = "backup_tables api b"
  let ?d = "tb_decisions ?T" and ?p = "tb_promotions ?T" and ?r = "tb_revocations ?T" and ?q = "tb_quarantines ?T"
  let ?cont = "\<lambda>x fs. case x of Inl e \<Rightarrow> Inl e | Inr t \<Rightarrow> run_all fs t"
  let ?t = "\<lparr>tb_decisions = [], tb_promotions = [], tb_revocations = [], tb_quarantines = []\<rparr>"
  have R: "run_all (restore_statements api b) t =
      ?cont (?cont (?cont (run_all (map insert_decision ?d) ?t) (map insert_promotion ?p))
        (map insert_revocation ?r)) (map insert_quarantine ?q)"
    by (cases t) (simp add: restore_statements_map run_all_append split: sum.splits)
  note ok = decisions_table.insert_rows_empty promotions_table.insert_rows_empty
    revocations_table.insert_rows_empty quarantines_table.insert_rows_empty
  note bad = decisions_table.insert_rows_distinct promotions_table.insert_rows_distinct
    revocations_table.insert_rows_distinct quarantines_table.insert_rows_distinct
  show "run_all (restore_statements api b) t = Inr ?T" if "distinct_ids b"
    using that unfolding R backup_tables_keys [of b api] by (simp add: ok)
  show "\<not> is_ok (run_all (restore_statements api b) t)" if "\<not> distinct_ids b"
  proof -
    have s: "is_ok (?cont x fs) \<Longrightarrow> is_ok x" for x :: "tables result" and fs by (cases x) simp_all
    show ?thesis
    proof
      assume a: "is_ok (run_all (restore_statements api b) t)"
      note a1 = s [OF a [unfolded R]] note a2 = s [OF a1] note a3 = s [OF a2]
      have d: "distinct (map dr_decision_id ?d)" using a3 by (rule bad(1))
      have p: "distinct (map pm_ID ?p)" using a2 by (auto simp: ok(1) [OF _ d] intro: bad(2))
      have r: "distinct (map rv_ID ?r)" using a1 by (auto simp: ok(1) [OF _ d] ok(2) [OF _ p] intro: bad(3))
      have "distinct (map qr_ID ?q)"
        using a [unfolded R] by (auto simp: ok(1) [OF _ d] ok(2) [OF _ p] ok(3) [OF _ r] intro: bad(4))
      with d p r that show False using backup_tables_keys [of b api] by blast
    qed
  qed
qed

lemma sql_Restore_cases:
  assumes "sql_Restore api data db = (r, db')"
  shows "r \<noteq> None \<and> db_tables db' = db_tables db
    \<or> (\<exists>b. c_Unmarshal (sq_backup api) data = Inr b \<and> distinct_ids b \<and> db_tables db' = backup_tables api b
         \<and> (r = None \<or> (\<exists>e. r = Some e \<and> Some (Unacknowledged e) \<in> set (db_faults db))))"
proof (cases "c_Unmarshal (sq_backup api) data")
  case (Inr b)
  obtain x db1 where B: "tx_begin True db = (x, db1)" by fastforce
  note B' = tx_begin_eq [OF B]
  show ?thesis
  proof (cases x)
    case x: (Inr tx)
    have tx: "tx_tables tx = db_tables db" "\<not> tx_dead tx" using B'(3) [OF x] by simp_all
    obtain e tx2 db2 where E: "tx_exec_all (restore_statements api b) (tx, db1) = (e, tx2, db2)"
      by (metis prod_cases3)
    note E' = tx_exec_all_eq [OF E tx(2)]
    show ?thesis
    proof (cases e)
      case None
      then have run: "run_all (restore_statements api b) (db_tables db) = Inr (tx_tables tx2)" "\<not> tx_dead tx2"
        using E' tx by simp_all
      then have ids: "distinct_ids b" "tx_tables tx2 = backup_tables api b"
        using run_restore [of b api "db_tables db"] by (cases "distinct_ids b"; simp)+
      have "tx_commit (tx2, db2) = (r, db')" using assms Inr B x E None by (simp add: sql_Restore_def)
      from tx_commit_cases [OF this] show ?thesis using ids E' B' Inr by auto
    next
      case (Some y)
      then show ?thesis using assms Inr B x E E' B'(1) by (auto simp: sql_Restore_def tx_rollback_def)
    qed
  qed (use assms Inr B B'(1) in \<open>auto simp: sql_Restore_def\<close>)
qed (use assms in \<open>auto simp: sql_Restore_def\<close>)

lemma sql_Restore_no_faults:
  assumes "db_faults db = []" "c_Unmarshal (sq_backup api) data = Inr b"
  shows "distinct_ids b \<Longrightarrow> sql_Restore api data db = (None, db\<lparr>db_tables := backup_tables api b\<rparr>)"
    and "\<not> distinct_ids b \<Longrightarrow> \<exists>e. sql_Restore api data db = (Some e, db)"
  using run_restore [of b api "db_tables db"]
    tx_exec_all_no_faults [OF assms(1), of "\<lparr>tx_tables = db_tables db, tx_aborts = True, tx_dead = False\<rparr>"
      "restore_statements api b"]
  by (auto simp: sql_Restore_def assms tx_no_faults [OF assms(1)] tx_rollback_def split: sum.splits)

text \<open>
  C27. \<open>Restore\<close> of the SQL store is all or nothing, whatever statement fails. When it reports
  success the four tables hold exactly the rows of the backup, each in its own table, and
  nothing of what was there before. When it reports an error the tables are as they were, or,
  only if the connection was lost while \<open>COMMIT\<close> was carried out, they are the backup's. Without
  faults it succeeds exactly for a document that decodes to a backup in which no id occurs
  twice.
\<close>

theorem sql_Restore_all_or_nothing:
  assumes "sql_Restore api data db = (r, db')"
  shows "(case r of
        None \<Rightarrow> \<exists>b. c_Unmarshal (sq_backup api) data = Inr b \<and> db_tables db' = backup_tables api b
      | Some e \<Rightarrow> db_tables db' = db_tables db
          \<or> Some (Unacknowledged e) \<in> set (db_faults db)
            \<and> (\<exists>b. c_Unmarshal (sq_backup api) data = Inr b \<and> db_tables db' = backup_tables api b))
    \<and> (db_faults db = [] \<longrightarrow>
        (r = None \<longleftrightarrow> (\<exists>b. c_Unmarshal (sq_backup api) data = Inr b \<and> distinct_ids b)))"
proof -
  have "r = None \<longleftrightarrow> (\<exists>b. c_Unmarshal (sq_backup api) data = Inr b \<and> distinct_ids b)" if "db_faults db = []"
  proof (cases "c_Unmarshal (sq_backup api) data")
    case (Inr b)
    then show ?thesis using sql_Restore_no_faults [OF that Inr] assms by (cases "distinct_ids b") auto
  qed (use assms in \<open>auto simp: sql_Restore_def\<close>)
  then show ?thesis using sql_Restore_cases [OF assms] by (auto split: option.splits)
qed

text \<open>
  A restore over a stored revocation in which the connection is lost: while the third
  statement runs nothing changes, while \<open>COMMIT\<close> runs the backup is there.
\<close>

theorem sql_Restore_all_or_nothing_witness:
  "\<exists>lost. let full = \<lambda>fs. \<lparr>db_tables = empty_tables\<lparr>tb_revocations := [sample_revocation]\<rparr>, db_faults = fs\<rparr> in
     db_tables (snd (sql_Restore sample_sql ''{}'' (full [None, None, None, Some (Refused lost)])))
       = empty_tables\<lparr>tb_revocations := [sample_revocation]\<rparr>
     \<and> db_tables (snd (sql_Restore sample_sql ''{}'' (full [None, None, None, None, None, None, Some (Unacknowledged lost)])))
       = backup_tables sample_sql (backup_of sample_ce sample_ledger)
     \<and> fst (sql_Restore sample_sql ''{}'' (full [])) = None"
proof -
  let ?lost = "errors_New ''connection lost''"
  let ?full = "\<lambda>fs. \<lparr>db_tables = empty_tables\<lparr>tb_revocations := [sample_revocation]\<rparr>, db_faults = fs\<rparr>"
  have u: "c_Unmarshal (sq_backup sample_sql) ''{}'' = Inr (backup_of sample_ce sample_ledger)"
    "distinct_ids (backup_of sample_ce sample_ledger)"
    by (simp_all add: sample_sql_def one_codec_def distinct_ids_def backup_of_def sample_ledger_def empty_ledger_def)
  note S = sql_Restore_def u restore_statements_def backup_of_def sample_ledger_def empty_ledger_def tx_begin_def
    statement_def next_sql_fault_def tx_exec_def tx_run_def tx_rollback_def tx_commit_def exec_statement_def
    insert_decision_def
  obtain db1 where 1: "sql_Restore sample_sql ''{}'' (?full [None, None, None, Some (Refused ?lost)]) = (Some ?lost, db1)"
    by (simp add: S)
  obtain db2 where 2: "sql_Restore sample_sql ''{}''
      (?full [None, None, None, None, None, None, Some (Unacknowledged ?lost)]) = (Some ?lost, db2)"
      "db_tables db2 \<noteq> empty_tables\<lparr>tb_revocations := [sample_revocation]\<rparr>"
    by (simp add: S empty_tables_def)
  obtain r db3 where 3: "sql_Restore sample_sql ''{}'' (?full []) = (r, db3)" by fastforce
  show ?thesis
    using sql_Restore_all_or_nothing [OF 1] sql_Restore_all_or_nothing [OF 2(1)] 2(2)
      sql_Restore_all_or_nothing [OF 3] u
    by (intro exI [of _ ?lost]) (simp add: 1 2(1) 3 Let_def)
qed

text \<open>
  What \<open>Restore\<close> of the SQL store brings back: from any state, a backup whose ids are
  distinct and whose decisions survive their encoding is restored completely, decisions and
  all fields of promotions and quarantines (times as the columns round them); revocations
  lose their expiry and incident.
\<close>

theorem sql_Restore_exact:
  assumes "db_faults db = []" "c_Unmarshal (sq_backup api) data = Inr b" "distinct_ids b"
    "\<forall>d \<in> set (bk_Decisions b). \<exists>s. c_Marshal (sq_decision api) d = Inr s \<and> c_Unmarshal (sq_decision api) s = Inr d"
  shows "\<exists>db'. sql_Restore api data db = (None, db') \<and> sql_view api db'
    \<lparr>lg_decisions = bk_Decisions b,
     lg_promotions = map (\<lambda>p. p\<lparr>pm_PromotedAt := sq_time api (pm_PromotedAt p)\<rparr>) (bk_Promotions b),
     lg_revocations = map (\<lambda>r. r\<lparr>rv_RevokedAt := sq_time api (rv_RevokedAt r),
                                 rv_ExpiresAt := None, rv_IncidentID := []\<rparr>) (bk_Revocations b),
     lg_quarantines = map (\<lambda>q. q\<lparr>qr_QuarantinedAt := sq_time api (qr_QuarantinedAt q)\<rparr>) (bk_Quarantines b)\<rparr>"
proof -
  have "list_all2 (row_holds api)
      (map (\<lambda>d. decision_columns api d (marshal_or_empty api d)) (bk_Decisions b)) (bk_Decisions b)"
    using assms(4)
    by (fastforce simp: list_all2_conv_all_nth row_holds_def decision_columns_def marshal_or_empty_def
        dest!: nth_mem)
  then show ?thesis
    using assms(1) sql_Restore_no_faults(1) [OF assms(1-3)]
    by (simp add: sql_view_def backup_tables_def
        promotion_columns_def [abs_def] revocation_columns_def [abs_def] quarantine_columns_def [abs_def])
qed

theorem sql_Restore_exact_witness:
  "\<exists>db'. sql_Restore sample_sql ''{}'' empty_db = (None, db') \<and> sql_view sample_sql db' sample_ledger"
  using sql_Restore_exact [of empty_db sample_sql "''{}''" "backup_of sample_ce sample_ledger"]
  by (simp add: empty_db_def sample_sql_def one_codec_def)
    (simp add: backup_of_def sample_ledger_def empty_ledger_def distinct_ids_def)

text \<open>The ledger a document describes to the SQL store; \<open>None\<close> if it cannot be restored.\<close>

definition sql_content :: "sql_api \<Rightarrow> string \<Rightarrow> ledger option" where
  "sql_content api data =
     (case c_Unmarshal (sq_backup api) data of
        Inl _ \<Rightarrow> None
      | Inr b \<Rightarrow>
          if distinct_ids b
          then Some \<lparr>lg_decisions = bk_Decisions b, lg_promotions = map (promotion_columns api) (bk_Promotions b),
                     lg_revocations = map (revocation_columns api) (bk_Revocations b),
                     lg_quarantines = map (quarantine_columns api) (bk_Quarantines b)\<rparr>
          else None)"

definition sql_encodable :: "sql_api \<Rightarrow> ledger \<Rightarrow> bool" where
  "sql_encodable api g \<longleftrightarrow>
     (\<forall>d \<in> set (lg_decisions g). \<exists>s. c_Marshal (sq_decision api) d = Inr s \<and> c_Unmarshal (sq_decision api) s = Inr d)"

lemma sql_restore_step:
  assumes "sql_view api db g" "\<forall>l. sql_content api data = Some l \<longrightarrow> sql_encodable api l"
    "sql_Restore api data db = (r, db')"
  shows "r \<noteq> None \<and> sql_view api db' g \<or> r = None \<and> (\<exists>l. sql_content api data = Some l \<and> sql_view api db' l)"
proof (cases "c_Unmarshal (sq_backup api) data")
  case (Inr b)
  have f: "db_faults db = []" using assms(1) by (simp add: sql_view_def)
  show ?thesis
  proof (cases "distinct_ids b")
    case True
    then have c: "sql_content api data = Some \<lparr>lg_decisions = bk_Decisions b,
        lg_promotions = map (promotion_columns api) (bk_Promotions b),
        lg_revocations = map (revocation_columns api) (bk_Revocations b),
        lg_quarantines = map (quarantine_columns api) (bk_Quarantines b)\<rparr>"
      by (simp add: sql_content_def Inr)
    then have "\<forall>d \<in> set (bk_Decisions b). \<exists>s. c_Marshal (sq_decision api) d = Inr s \<and> c_Unmarshal (sq_decision api) s = Inr d"
      using assms(2) by (simp add: sql_encodable_def)
    from sql_Restore_exact [OF f Inr True this] show ?thesis
      using c assms(3)
      by (auto simp: promotion_columns_def [abs_def] revocation_columns_def [abs_def] quarantine_columns_def [abs_def])
  next
    case False
    then show ?thesis using sql_Restore_no_faults(2) [OF f Inr] assms(1,3) by fastforce
  qed
qed (use assms(1,3) in \<open>auto simp: sql_Restore_def\<close>)

interpretation sql_restorable: restorable_store "sql_exec api" "sql_view api" "sql_fits api"
    "sql_Restore api" "sql_content api" "sql_encodable api" for api
  by unfold_locales (rule sql_restore_step)

end
