(* ===== verification/Store_Setup.thy ===== *)
theory Store_Setup
  imports Sql_Store
begin

text \<open>
  \<open>internal/store/migrations.go\<close> and \<open>internal/store/factory.go\<close>: the schema migrations of the
  SQL store and the choice of a store by its engine name.

  The schema is the tables, the indexes and the versions recorded in \<open>schema_migrations\<close>; each
  migration is a transaction of \<open>Sql_Engine\<close> on it, in which every single statement can fail.
  \<open>aborts\<close> says whether an error inside a transaction aborts it, so that every further statement
  fails (PostgreSQL) or not (the drivers of the tests).
\<close>

section \<open>Migrations\<close>

datatype ddl = CreateTable string | CreateIndex string string

record Migration =
  mg_Version :: int
  mg_Name :: string
  mg_SQL :: "ddl list"

text \<open>The statements of each migration; an index by its name and the table it is on.\<close>

definition migrations :: "Migration list" where
  "migrations =
     [\<lparr>mg_Version = 1, mg_Name = ''initial_schema'',
       mg_SQL =
         [CreateTable ''schema_migrations'', CreateTable ''decisions'', CreateTable ''promotions'',
          CreateTable ''revocations'',
          CreateIndex ''idx_decisions_subject_digest'' ''decisions'',
          CreateIndex ''idx_promotions_digest'' ''promotions'',
          CreateIndex ''idx_revocations_digest'' ''revocations'']\<rparr>,
      \<lparr>mg_Version = 2, mg_Name = ''quarantines_schema'',
       mg_SQL =
         [CreateTable ''quarantines'', CreateIndex ''idx_quarantines_digest'' ''quarantines'']\<rparr>]"

record schema =
  sc_tables :: "string list"
  sc_indexes :: "string list"
  sc_versions :: "int list"

type_synonym schema_db = "schema database"

definition missing_table :: "string \<Rightarrow> go_error" where
  "missing_table t = Errorf ''relation %s does not exist'' [S t]"

text \<open>\<open>CREATE TABLE IF NOT EXISTS\<close>, \<open>CREATE INDEX IF NOT EXISTS\<close>.\<close>

fun create :: "ddl \<Rightarrow> schema \<Rightarrow> schema result" where
  "create (CreateTable t) s =
     Inr (if t \<in> set (sc_tables s) then s else s\<lparr>sc_tables := sc_tables s @ [t]\<rparr>)"
| "create (CreateIndex i t) s =
     (if t \<notin> set (sc_tables s) then Inl (missing_table t)
      else Inr (if i \<in> set (sc_indexes s) then s else s\<lparr>sc_indexes := sc_indexes s @ [i]\<rparr>))"

text \<open>How many rows of \<open>schema_migrations\<close> have the version.\<close>

definition count_version :: "int \<Rightarrow> schema \<Rightarrow> nat result" where
  "count_version v s =
     (if ''schema_migrations'' \<notin> set (sc_tables s) then Inl (missing_table ''schema_migrations'')
      else Inr (length (filter (\<lambda>x. x = v) (sc_versions s))))"

definition insert_version :: "int \<Rightarrow> schema \<Rightarrow> schema result" where
  "insert_version v s =
     (if ''schema_migrations'' \<notin> set (sc_tables s) then Inl (missing_table ''schema_migrations'')
      else if v \<in> set (sc_versions s) then Inl (unique_violation ''schema_migrations'')
      else Inr (s\<lparr>sc_versions := sc_versions s @ [v]\<rparr>))"

text \<open>
  One round of the loop: its own transaction. An error of the query for the version is not
  looked at: the migration is then carried out as if the version were not there.
\<close>

definition migrate_one :: "bool \<Rightarrow> Migration \<Rightarrow> schema_db \<Rightarrow> go_error option \<times> schema_db" where
  "migrate_one aborts m db =
     (case tx_begin aborts db of
        (Inl err, db1) \<Rightarrow> (Some err, db1)
      | (Inr tx, db1) \<Rightarrow>
     (case tx_query (count_version (mg_Version m)) (tx, db1) of (count, s2) \<Rightarrow>
      if (case count of Inr n \<Rightarrow> 0 < n | Inl _ \<Rightarrow> False) then (None, tx_rollback s2)
      else case tx_exec_all (map create (mg_SQL m)) s2 of
        (Some err, s3) \<Rightarrow>
          (Some (Wrapf ''migration %d (%s) failed: %w'' [I (mg_Version m), S (mg_Name m)] err), tx_rollback s3)
      | (None, s3) \<Rightarrow>
     (case tx_exec (insert_version (mg_Version m)) s3 of
        (Some err, s4) \<Rightarrow>
          (Some (Wrapf ''record migration %d failed: %w'' [I (mg_Version m)] err), tx_rollback s4)
      | (None, s4) \<Rightarrow> tx_commit s4)))"

fun migrate_all :: "bool \<Rightarrow> Migration list \<Rightarrow> schema_db \<Rightarrow> go_error option \<times> schema_db" where
  "migrate_all aborts [] db = (None, db)"
| "migrate_all aborts (m # ms) db =
     (case migrate_one aborts m db of
        (Some err, db1) \<Rightarrow> (Some err, db1)
      | (None, db1) \<Rightarrow> migrate_all aborts ms db1)"

definition Migrate :: "bool \<Rightarrow> schema_db \<Rightarrow> go_error option \<times> schema_db" where
  "Migrate aborts db = migrate_all aborts migrations db"

definition NewSQLStore :: "bool \<Rightarrow> schema_db \<Rightarrow> go_error option \<times> schema_db" where
  "NewSQLStore aborts db =
     (case Migrate aborts db of
        (Some err, db1) \<Rightarrow> (Some (Wrapf ''run schema migrations: %w'' [] err), db1)
      | (None, db1) \<Rightarrow> (None, db1))"

section \<open>The factory\<close>

datatype store_handle = FileHandle FileStore | SqlHandle string

text \<open>
  \<open>sql.Open("postgres", dsn)\<close> is the argument \<open>open_db\<close>: an error, for instance when no such
  driver is registered, or the schema behind the data source name.
\<close>

definition NewStore ::
    "bool \<Rightarrow> (string \<Rightarrow> schema_db result) \<Rightarrow> string \<Rightarrow> string \<Rightarrow> string \<Rightarrow> world \<Rightarrow> store_handle result \<times> world" where
  "NewStore aborts open_db engine dataDir dsn w =
     (if ToLower engine \<in> {''postgres'', ''postgresql'', ''sql''} then
        (if dsn = [] then (Inl (Errorf ''storage engine %q requires a non-empty dsn'' [S engine]), w)
         else case open_db dsn of
           Inl err \<Rightarrow> (Inl (Wrapf ''open database: %w'' [] err), w)
         | Inr db \<Rightarrow>
             (case fst (NewSQLStore aborts db) of
                Some err \<Rightarrow> (Inl err, w)
              | None \<Rightarrow> (Inr (SqlHandle dsn), w)))
      else if ToLower engine \<in> {'''', ''file'', ''ndjson''} then
        (case NewFileStore (if dataDir = [] then ''./data'' else dataDir) w of
           (Inl err, w1) \<Rightarrow> (Inl err, w1)
         | (Inr fs, w1) \<Rightarrow> (Inr (FileHandle fs), w1))
      else (Inl (Errorf ''unsupported storage engine %q (supported: file, postgres)'' [S engine]), w))"

section \<open>The schema after the first migrations\<close>

definition schema_at :: "nat \<Rightarrow> schema" where
  "schema_at k =
     \<lparr>sc_tables = [t. m \<leftarrow> take k migrations, CreateTable t \<leftarrow> mg_SQL m],
      sc_indexes = [i. m \<leftarrow> take k migrations, CreateIndex i t \<leftarrow> mg_SQL m],
      sc_versions = map mg_Version (take k migrations)\<rparr>"

lemma three_cases: "k \<le> 2 \<Longrightarrow> k = 0 \<or> k = 1 \<or> k = (2 :: nat)"
  by auto

lemmas migration_simps = schema_at_def migrations_def count_version_def insert_version_def

text \<open>
  On the schema after \<open>k\<close> migrations: the versions that are there, the statements of a
  migration that has been carried out change nothing, those of the next lead on.
\<close>

lemma versions_at:
  assumes "k \<le> 2" "n < 2"
  shows "count_version (mg_Version (migrations ! n)) (schema_at k) =
      (if k = 0 then Inl (missing_table ''schema_migrations'') else Inr (if n < k then 1 else 0))"
    and "n < k \<Longrightarrow> insert_version (mg_Version (migrations ! n)) (schema_at k) = Inl (unique_violation ''schema_migrations'')"
    and "n < k \<Longrightarrow> run_all (map create (mg_SQL (migrations ! n))) (schema_at k) = Inr (schema_at k)"
    and "n = k \<Longrightarrow> \<exists>s. run_all (map create (mg_SQL (migrations ! n))) (schema_at k) = Inr s
      \<and> insert_version (mg_Version (migrations ! n)) s = Inr (schema_at (Suc k))"
proof -
  have n: "n = 0 \<or> n = 1" using assms(2) by auto
  show "count_version (mg_Version (migrations ! n)) (schema_at k) =
      (if k = 0 then Inl (missing_table ''schema_migrations'') else Inr (if n < k then 1 else 0))"
    using n three_cases [OF assms(1)] by (elim disjE) (simp_all add: migration_simps)
  show "n < k \<Longrightarrow> insert_version (mg_Version (migrations ! n)) (schema_at k) = Inl (unique_violation ''schema_migrations'')"
    using n three_cases [OF assms(1)] by (elim disjE) (simp_all add: migration_simps)
  show "n < k \<Longrightarrow> run_all (map create (mg_SQL (migrations ! n))) (schema_at k) = Inr (schema_at k)"
    using n three_cases [OF assms(1)] by (elim disjE) (simp_all add: migration_simps)
  show "n = k \<Longrightarrow> \<exists>s. run_all (map create (mg_SQL (migrations ! n))) (schema_at k) = Inr s
      \<and> insert_version (mg_Version (migrations ! n)) s = Inr (schema_at (Suc k))"
  proof -
    assume [simp]: "n = k"
    from n have "k = 0 \<or> k = 1" by simp
    then show ?thesis by (elim disjE; hypsubst) (simp_all add: migration_simps)
  qed
qed

section \<open>One migration\<close>

text \<open>Whatever fails: the transaction leaves the schema alone or carries out its whole migration.\<close>

lemma migrate_one_cases:
  assumes "migrate_one aborts m db = (r, db')"
  shows "db_tables db' = db_tables db \<and> (r = None \<longrightarrow> (\<exists>n > 0. count_version (mg_Version m) (db_tables db) = Inr n))
     \<or> (\<exists>s. run_all (map create (mg_SQL m)) (db_tables db) = Inr s
          \<and> insert_version (mg_Version m) s = Inr (db_tables db'))"
proof -
  obtain b db1 where B: "tx_begin aborts db = (b, db1)" by fastforce
  note B' = tx_begin_eq(1,3) [OF B]
  show ?thesis
  proof (cases b)
    case b: (Inr tx)
    have tx: "tx_tables tx = db_tables db" "\<not> tx_dead tx" using B'(2) [OF b] by simp_all
    obtain c tx2 db2 where Q: "tx_query (count_version (mg_Version m)) (tx, db1) = (c, tx2, db2)" by (metis prod_cases3)
    note Q' = tx_run_eq [OF Q [unfolded tx_query_def]]
    have t2: "db_tables db2 = db_tables db" "tx_tables tx2 = db_tables db"
      using Q'(1,3,4) B'(1) tx by (cases c; auto split: sum.splits)+
    have c: "c = Inr n \<Longrightarrow> count_version (mg_Version m) (db_tables db) = Inr n" for n
      using Q'(3) [of n] tx by (auto split: sum.splits)
    note M = assms [unfolded migrate_one_def B b, simplified, unfolded Q, simplified]
    obtain e3 tx3 db3 where E: "tx_exec_all (map create (mg_SQL m)) (tx2, db2) = (e3, tx3, db3)" by (metis prod_cases3)
    obtain e4 tx4 db4 where V: "tx_exec (insert_version (mg_Version m)) (tx3, db3) = (e4, tx4, db4)" by (metis prod_cases3)
    consider n where "c = Inr n" "0 < n" | "tx_dead tx2" "\<nexists>n. c = Inr n \<and> 0 < n" | "\<not> tx_dead tx2" "\<nexists>n. c = Inr n \<and> 0 < n"
      by blast
    then show ?thesis
    proof cases
      case 1
      then show ?thesis using M c t2 by (auto simp: tx_rollback_def)
    next
      case 2
      then have nz: "\<not> (case c of Inl _ \<Rightarrow> False | Inr n \<Rightarrow> 0 < n)" by (auto split: sum.splits)
      have dead: "tx_exec f (tx2, db2) = (Some aborted_transaction, tx2, db2)" for f
        using 2(1) by (simp add: tx_exec_def tx_run_def)
      show ?thesis using M nz dead t2 by (cases "mg_SQL m") (auto simp: tx_rollback_def tx_commit_def)
    next
      case 3
      then have nz: "\<not> (case c of Inl _ \<Rightarrow> False | Inr n \<Rightarrow> 0 < n)" by (auto split: sum.splits)
      note E' = tx_exec_all_eq [OF E 3(1)]
      show ?thesis
      proof (cases "e3 = None \<and> e4 = None")
        case True
        then have x3: "run_all (map create (mg_SQL m)) (db_tables db) = Inr (tx_tables tx3)" "\<not> tx_dead tx3"
          using E' t2 by simp_all
        note V' = tx_exec_eq [OF V x3(2)]
        have "tx_commit (tx4, db4) = (r, db')" using M nz E V True by simp
        from tx_commit_cases [OF this] show ?thesis using V' E' t2 x3(1) True by auto
      next
        case False
        have "db_tables db3 = db_tables db" using E' t2 by simp
        moreover have "e3 = None \<Longrightarrow> db_tables db4 = db_tables db"
          using tx_exec_eq(1) [OF V] E' t2 by simp
        ultimately show ?thesis using M nz E V False by (auto simp: tx_rollback_def split: option.splits)
      qed
    qed
  qed (use assms B B'(1) in \<open>auto simp: migrate_one_def\<close>)
qed

text \<open>Migration number \<open>n\<close> on the schema after \<open>k\<close> of them.\<close>

lemma migrate_one_at:
  assumes "migrate_one aborts (migrations ! n) db = (r, db')" "db_tables db = schema_at k" "k \<le> 2" "n < 2" "n \<le> k"
  shows "db_tables db' = schema_at k \<and> (r = None \<longrightarrow> n < k) \<or> n = k \<and> db_tables db' = schema_at (Suc k)"
  using migrate_one_cases [OF assms(1)] versions_at [OF assms(3,4)] assms(2,5)
  by (cases "n < k"; cases "k = 0") (auto split: if_splits)

lemma migrate_one_no_faults:
  assumes "db_faults db = []" "db_tables db = schema_at k" "k \<le> 2" "n < 2" "n \<le> k"
  shows "n < k \<Longrightarrow> migrate_one aborts (migrations ! n) db = (None, db)"
    and "n = k \<Longrightarrow> \<not> (aborts \<and> k = 0) \<Longrightarrow>
      migrate_one aborts (migrations ! n) db = (None, db\<lparr>db_tables := schema_at (Suc k)\<rparr>)"
    and "aborts \<Longrightarrow> k = 0 \<Longrightarrow> \<exists>e. migrate_one aborts (migrations ! n) db = (Some e, db)"
proof -
  let ?tx = "\<lparr>tx_tables = schema_at k, tx_aborts = aborts, tx_dead = False\<rparr>"
  note V = versions_at [OF assms(3,4)] and N = tx_no_faults [OF assms(1)]
  show "n < k \<Longrightarrow> migrate_one aborts (migrations ! n) db = (None, db)"
    using V(1) by (simp add: migrate_one_def N assms(2) tx_rollback_def)
  show "migrate_one aborts (migrations ! n) db = (None, db\<lparr>db_tables := schema_at (Suc k)\<rparr>)"
    if nk: "n = k" and na: "\<not> (aborts \<and> k = 0)"
  proof -
    obtain s where s: "run_all (map create (mg_SQL (migrations ! n))) (schema_at k) = Inr s"
        "insert_version (mg_Version (migrations ! n)) s = Inr (schema_at (Suc k))"
      using V(4) [OF nk] by blast
    obtain c where "tx_query (count_version (mg_Version (migrations ! n))) (?tx, db) = (c, ?tx, db)"
        "\<not> (case c of Inl _ \<Rightarrow> False | Inr n \<Rightarrow> 0 < n)"
      using nk na V(1) by (cases "k = 0") (simp_all add: N)
    moreover have "tx_exec_all (map create (mg_SQL (migrations ! n))) (?tx, db) = (None, ?tx\<lparr>tx_tables := s\<rparr>, db)"
      using tx_exec_all_no_faults [OF assms(1), of ?tx "map create (mg_SQL (migrations ! n))"] s(1) by simp
    ultimately show ?thesis using s(2) by (simp add: migrate_one_def N assms(2))
  qed
  show "\<exists>e. migrate_one aborts (migrations ! n) db = (Some e, db)" if "aborts" "k = 0"
  proof -
    have n: "n = 0" using that assms(5) by simp
    have "tx_query (count_version (mg_Version (migrations ! n))) (?tx, db)
        = (Inl (missing_table ''schema_migrations''), ?tx\<lparr>tx_dead := True\<rparr>, db)"
      using that V(1) by (simp add: N)
    moreover have "mg_SQL (migrations ! n) \<noteq> []" using n by (simp add: migrations_def)
    ultimately show ?thesis
      by (cases "mg_SQL (migrations ! n)")
        (auto simp: migrate_one_def N assms(2) tx_exec_def tx_run_def tx_rollback_def)
  qed
qed

section \<open>Properties\<close>

lemma Migrate_two: "Migrate aborts db =
    (case migrate_one aborts (migrations ! 0) db of
       (Some err, db1) \<Rightarrow> (Some err, db1)
     | (None, db1) \<Rightarrow> migrate_one aborts (migrations ! 1) db1)"
proof -
  have "migrations = [migrations ! 0, migrations ! 1]" by (simp add: migrations_def)
  then have "Migrate aborts db = migrate_all aborts [migrations ! 0, migrations ! 1] db" by (simp add: Migrate_def)
  then show ?thesis by (simp split: prod.splits option.splits)
qed

text \<open>
  C28. Every migration is carried out whole or not at all: from the schema after some of
  the migrations, whatever statement fails (or loses its answer), \<open>Migrate\<close> ends in the schema after
  as many or more of them, tables, indexes and versions alike, and after all of them if it
  reports no error. Without faults it carries out the ones that are missing and reports no
  error, so that running it again changes nothing; except that on an engine that aborts
  transactions (PostgreSQL) the probe of the missing table \<open>schema_migrations\<close> makes it fail on
  an empty database, every time.
\<close>

theorem Migrate_all_or_nothing:
  assumes "db_tables db = schema_at k" "k \<le> 2" "Migrate aborts db = (r, db')"
  shows "(\<exists>k'. k \<le> k' \<and> k' \<le> 2 \<and> db_tables db' = schema_at k' \<and> (r = None \<longrightarrow> k' = 2))
    \<and> (db_faults db = [] \<longrightarrow>
        (if aborts \<and> k = 0 then r \<noteq> None \<and> db' = db else r = None \<and> db' = db\<lparr>db_tables := schema_at 2\<rparr>))"
proof
  obtain r1 db1 where 1: "migrate_one aborts (migrations ! 0) db = (r1, db1)" by fastforce
  obtain r2 db2 where 2: "migrate_one aborts (migrations ! 1) db1 = (r2, db2)" by fastforce
  have M: "r1 = None \<Longrightarrow> r = r2 \<and> db' = db2" "r1 \<noteq> None \<Longrightarrow> r = r1 \<and> db' = db1"
    using assms(3) 2 by (auto simp: Migrate_two 1)
  obtain k1 where k1: "k \<le> k1" "k1 \<le> 2" "db_tables db1 = schema_at k1" "r1 = None \<longrightarrow> 0 < k1"
  proof -
    have "db_tables db1 = schema_at k \<and> (r1 = None \<longrightarrow> 0 < k) \<or> k = 0 \<and> db_tables db1 = schema_at (Suc k)"
      using migrate_one_at [OF 1 assms(1,2)] by auto
    then show thesis using that [of k] that [of "Suc k"] assms(2) by auto
  qed
  have "\<exists>k2. k1 \<le> k2 \<and> k2 \<le> 2 \<and> db_tables db2 = schema_at k2 \<and> (r2 = None \<longrightarrow> 1 < k2)" if "r1 = None"
    using migrate_one_at [OF 2 k1(3,2)] k1(2,4) that three_cases [OF k1(2)] by fastforce
  note two = this
  show "\<exists>k'. k \<le> k' \<and> k' \<le> 2 \<and> db_tables db' = schema_at k' \<and> (r = None \<longrightarrow> k' = 2)"
  proof (cases r1)
    case None
    then obtain k2 where "k1 \<le> k2" "k2 \<le> 2" "db_tables db2 = schema_at k2" "r2 = None \<longrightarrow> 1 < k2" using two by blast
    then show ?thesis using M(1) [OF None] k1(1) by (intro exI [of _ k2]) auto
  next
    case (Some e)
    then show ?thesis using M(2) k1 by (intro exI [of _ k1]) auto
  qed
next
  show "db_faults db = [] \<longrightarrow>
      (if aborts \<and> k = 0 then r \<noteq> None \<and> db' = db else r = None \<and> db' = db\<lparr>db_tables := schema_at 2\<rparr>)"
  proof
    assume f: "db_faults db = []"
    note Z = migrate_one_no_faults [OF f assms(1,2)]
    show "if aborts \<and> k = 0 then r \<noteq> None \<and> db' = db else r = None \<and> db' = db\<lparr>db_tables := schema_at 2\<rparr>"
    proof (cases "aborts \<and> k = 0")
      case True
      then show ?thesis using Z(3) [of 0 aborts] assms(3) by (auto simp: Migrate_two)
    next
      case False
      obtain j where j: "j = 1 \<or> j = 2"
          and 1: "migrate_one aborts (migrations ! 0) db = (None, db\<lparr>db_tables := schema_at j\<rparr>)"
      proof (cases "k = 0")
        case True
        with Z(2) [of 0 aborts] False that [of 1] show thesis by simp
      next
        case k: False
        with Z(1) [of 0 aborts] assms(1) that [of k] three_cases [OF assms(2)] show thesis by auto
      qed
      note Y = migrate_one_no_faults [of "db\<lparr>db_tables := schema_at j\<rparr>" j 1 aborts]
      have "migrate_one aborts (migrations ! 1) (db\<lparr>db_tables := schema_at j\<rparr>) = (None, db\<lparr>db_tables := schema_at 2\<rparr>)"
        using j
      proof
        assume "j = 1"
        with Y(2) f show ?thesis by (simp add: numeral_2_eq_2)
      next
        assume "j = 2"
        with Y(1) f show ?thesis by simp
      qed
      then show ?thesis using 1 False assms(3) by (auto simp: Migrate_two)
    qed
  qed
qed

text \<open>
  On an empty schema: the statement of an index fails, and nothing has been created; the
  connection is lost while the first \<open>COMMIT\<close> runs, and the first migration is there; nothing
  fails, and both are.
\<close>

lemmas migrate_eval = Migrate_two migrate_one_def tx_begin_def tx_query_def tx_run_def tx_exec_def tx_rollback_def
  tx_commit_def statement_def exec_statement_def next_sql_fault_def migration_simps

theorem Migrate_all_or_nothing_witness:
  "\<exists>lost e e' db1 db2.
     Migrate False \<lparr>db_tables = schema_at 0, db_faults = [None, None, None, None, None, None, None, Some (Refused lost)]\<rparr> = (Some e, db1)
     \<and> db_tables db1 = schema_at 0
     \<and> Migrate False \<lparr>db_tables = schema_at 0, db_faults = [None, None, None, None, None, None, None, None, None, None, Some (Unacknowledged lost)]\<rparr> = (Some e', db2)
     \<and> db_tables db2 = schema_at 1
     \<and> Migrate False \<lparr>db_tables = schema_at 0, db_faults = []\<rparr> = (None, \<lparr>db_tables = schema_at 2, db_faults = []\<rparr>)"
proof -
  let ?lost = "errors_New ''connection lost''"
  let ?db1 = "\<lparr>db_tables = schema_at 0, db_faults = [None, None, None, None, None, None, None, Some (Refused ?lost)]\<rparr>"
  let ?db2 = "\<lparr>db_tables = schema_at 0, db_faults = [None, None, None, None, None, None, None, None, None, None, Some (Unacknowledged ?lost)]\<rparr>"
  obtain e db1 where 1: "Migrate False ?db1 = (Some e, db1)" "sc_versions (db_tables db1) = []"
    by (simp add: migrate_eval)
  obtain e' db2 where 2: "Migrate False ?db2 = (Some e', db2)" "sc_versions (db_tables db2) = [1]"
    by (simp add: migrate_eval)
  obtain r db3 where 3: "Migrate False \<lparr>db_tables = schema_at 0, db_faults = []\<rparr> = (r, db3)" by fastforce
  obtain k1 where k1: "db_tables db1 = schema_at k1" "k1 \<le> 2"
    using Migrate_all_or_nothing [OF _ _ 1(1), of 0] by auto
  obtain k2 where k2: "db_tables db2 = schema_at k2" "k2 \<le> 2"
    using Migrate_all_or_nothing [OF _ _ 2(1), of 0] by auto
  have "r = None \<and> db3 = \<lparr>db_tables = schema_at 2, db_faults = []\<rparr>"
    using Migrate_all_or_nothing [OF _ _ 3, of 0] by simp
  moreover have "k1 = 0" "k2 = 1"
    using three_cases [OF k1(2)] three_cases [OF k2(2)] 1(2) 2(2) k1(1) k2(1)
    by (auto simp: schema_at_def migrations_def)
  ultimately show ?thesis using 1(1) 2(1) 3 k1(1) k2(1) by metis
qed

text \<open>
  On PostgreSQL the migrations of a fresh database fail with the error of the aborted
  transaction: the query on the missing table has already ended it.
\<close>

theorem Migrate_fresh_aborts:
  "Migrate True \<lparr>db_tables = schema_at 0, db_faults = []\<rparr> =
     (Some (Wrapf ''migration %d (%s) failed: %w'' [I 1, S ''initial_schema''] aborted_transaction),
      \<lparr>db_tables = schema_at 0, db_faults = []\<rparr>)"
  by (simp add: Migrate_two migrate_one_def tx_no_faults versions_at [where n = 0, simplified])
    (simp add: migrations_def tx_exec_def tx_run_def tx_rollback_def)

text \<open>
  The factory: without a registered database driver (every \<open>sql.Open\<close> fails) only the
  file engines yield a store, over the four files of the data directory (by default
  \<open>./data\<close>); any other engine name is an error, whatever its case.
\<close>

theorem NewStore_without_driver:
  assumes "\<And>dsn. \<not> is_ok (open_db dsn)" "w_faults w = []"
  shows "fst (NewStore aborts open_db engine dataDir dsn w) = Inr h \<longleftrightarrow>
     ToLower engine \<in> {'''', ''file'', ''ndjson''}
     \<and> h = FileHandle (file_store (if dataDir = [] then ''./data'' else dataDir))"
proof -
  have "\<exists>e. open_db dsn = Inl e" using assms(1) [of dsn] by (cases "open_db dsn") auto
  then show ?thesis
    using assms(2)
    by (auto simp: NewStore_def NewFileStore_def os_MkdirAll_def split: if_splits)
qed

theorem NewStore_without_driver_witness:
  "fst (NewStore True (\<lambda>_. Inl (errors_New ''sql: unknown driver'')) ''ndjson'' [] [] empty_world)
     = Inr (FileHandle (file_store ''./data''))"
  using NewStore_without_driver [of "\<lambda>_. Inl (errors_New ''sql: unknown driver'')" empty_world True
      "''ndjson''" "[]" "[]" "FileHandle (file_store ''./data'')"]
  by (simp add: empty_world_def lower_byte_def less_eq_char_def)

end
