(* ===== verification/Store_Api.thy ===== *)
theory Store_Api
  imports Store_Setup
begin

text \<open>
  The Go interface \<open>Store\<close> (\<open>internal/store/models.go\<close>) as a record of operations over a state
  of any type, the two stores as values of it, and an evaluation that looks the digest up
  in a store.
\<close>

section \<open>The interface as a record\<close>

record 's Store =
  st_Ping :: "'s \<Rightarrow> go_error option \<times> 's"
  st_SaveDecision :: "Decision \<Rightarrow> 's \<Rightarrow> go_error option \<times> 's"
  st_GetDecisions :: "'s \<Rightarrow> Decision list result \<times> 's"
  st_Promote :: "call_env \<Rightarrow> Promotion \<Rightarrow> 's \<Rightarrow> go_error option \<times> 's"
  st_GetPromotions :: "string \<Rightarrow> 's \<Rightarrow> Promotion list result \<times> 's"
  st_Revoke :: "call_env \<Rightarrow> Revocation \<Rightarrow> 's \<Rightarrow> go_error option \<times> 's"
  st_GetRevocations :: "string \<Rightarrow> 's \<Rightarrow> Revocation list result \<times> 's"
  st_IsRevoked :: "string \<Rightarrow> string \<Rightarrow> 's \<Rightarrow> bool result \<times> 's"
  st_Quarantine :: "call_env \<Rightarrow> Quarantine \<Rightarrow> 's \<Rightarrow> go_error option \<times> 's"
  st_GetQuarantines :: "string \<Rightarrow> 's \<Rightarrow> Quarantine list result \<times> 's"
  st_IsQuarantined :: "string \<Rightarrow> string \<Rightarrow> 's \<Rightarrow> bool result \<times> 's"
  st_Unquarantine :: "string \<Rightarrow> 's \<Rightarrow> go_error option \<times> 's"
  st_Backup :: "call_env \<Rightarrow> 's \<Rightarrow> string result \<times> 's"
  st_Restore :: "string \<Rightarrow> 's \<Rightarrow> go_error option \<times> 's"

definition file_Store :: "store_json \<Rightarrow> FileStore \<Rightarrow> world Store" where
  "file_Store js fs =
     \<lparr>st_Ping = file_Ping fs, st_SaveDecision = file_SaveDecision js fs,
      st_GetDecisions = file_GetDecisions js fs, st_Promote = file_Promote js fs,
      st_GetPromotions = file_GetPromotions js fs, st_Revoke = file_Revoke js fs,
      st_GetRevocations = file_GetRevocations js fs, st_IsRevoked = file_IsRevoked js fs,
      st_Quarantine = file_Quarantine js fs, st_GetQuarantines = file_GetQuarantines js fs,
      st_IsQuarantined = file_IsQuarantined js fs, st_Unquarantine = file_Unquarantine js fs,
      st_Backup = file_Backup js fs, st_Restore = file_Restore js fs\<rparr>"

definition sql_Store :: "sql_api \<Rightarrow> sql_db Store" where
  "sql_Store api =
     \<lparr>st_Ping = sql_Ping, st_SaveDecision = sql_SaveDecision api,
      st_GetDecisions = sql_GetDecisions api, st_Promote = sql_Promote api,
      st_GetPromotions = sql_GetPromotions, st_Revoke = sql_Revoke api,
      st_GetRevocations = sql_GetRevocations, st_IsRevoked = sql_IsRevoked,
      st_Quarantine = sql_Quarantine api, st_GetQuarantines = sql_GetQuarantines,
      st_IsQuarantined = sql_IsQuarantined, st_Unquarantine = sql_Unquarantine,
      st_Backup = sql_Backup api, st_Restore = sql_Restore api\<rparr>"

section \<open>Evaluation against a store\<close>

text \<open>
  An evaluator built with \<open>WithRevocations(st).WithQuarantines(st)\<close> asks the store once for
  each; the answers are threaded through the store's state and handed to \<open>Evaluate\<close> as its
  checkers. Without a store there are no checkers.
\<close>

definition evaluate_on ::
    "'s Store option \<Rightarrow> eval_env \<Rightarrow> Evaluator \<Rightarrow> EvaluationRequest \<Rightarrow> 's \<Rightarrow> Decision \<times> 's" where
  "evaluate_on st env e req s =
     (case st of
        None \<Rightarrow> (Evaluate env (WithQuarantines (WithRevocations e None) None) req, s)
      | Some st' \<Rightarrow>
          (let dg = as_Digest (rq_Subject req);
               (revoked, s1) = st_IsRevoked st' dg (rq_Environment req) s;
               (quarantined, s2) = st_IsQuarantined st' dg (rq_Environment req) s1
           in (Evaluate env
                 (WithQuarantines (WithRevocations e (Some (\<lambda>_ _. revoked))) (Some (\<lambda>_ _. quarantined)))
                 req, s2)))"

lemma evaluate_on_store:
  assumes "st_IsRevoked st (as_Digest (rq_Subject req)) (rq_Environment req) s = (r, s1)"
    "st_IsQuarantined st (as_Digest (rq_Subject req)) (rq_Environment req) s1 = (q, s2)"
  shows "evaluate_on (Some st) env e req s =
    (Evaluate env (WithQuarantines (WithRevocations e (Some (\<lambda>_ _. r))) (Some (\<lambda>_ _. q))) req, s2)"
  using assms by (simp add: evaluate_on_def Let_def)

text \<open>Whatever blocks the lookups blocks the evaluation.\<close>

lemma evaluate_on_blocked:
  assumes "st_IsRevoked st (as_Digest (rq_Subject req)) (rq_Environment req) s = (r, s1)"
    "st_IsQuarantined st (as_Digest (rq_Subject req)) (rq_Environment req) s1 = (q, s2)"
    "r \<noteq> Inr False \<or> q \<noteq> Inr False"
  shows "d_Decision (fst (evaluate_on (Some st) env e req s)) = Deny"
proof -
  have "must_deny env (WithQuarantines (WithRevocations e (Some (\<lambda>_ _. r))) (Some (\<lambda>_ _. q))) req"
    using assms(3) unfolding must_deny_def Let_def
    by (auto simp: revocation_blocks_def WithQuarantines_def WithRevocations_def)
  then show ?thesis
    by (simp add: evaluate_on_store [OF assms(1,2)] outcome_of_def)
qed

lemma sql_blocked_evaluation:
  assumes "sql_view api db g" "blocked g (as_Digest (rq_Subject req)) (rq_Environment req)"
  shows "d_Decision (fst (evaluate_on (Some (sql_Store api)) env e req db)) = Deny"
proof -
  have "st_IsRevoked (sql_Store api) (as_Digest (rq_Subject req)) (rq_Environment req) db
      = (Inr (\<exists>r \<in> set (lg_revocations g). revokes (as_Digest (rq_Subject req)) (rq_Environment req) r), db)"
    "st_IsQuarantined (sql_Store api) (as_Digest (rq_Subject req)) (rq_Environment req) db
      = (Inr (\<exists>q \<in> set (lg_quarantines g). quarantines (as_Digest (rq_Subject req)) (rq_Environment req) q), db)"
    by (simp_all add: sql_Store_def sql_lookups_view [OF assms(1)])
  from evaluate_on_blocked [OF this] show ?thesis using assms(2) by (auto simp: blocked_def)
qed

text \<open>
  Governance closes the loop on the SQL store: once a revocation or quarantine that
  covers the environment is stored, every evaluation of the digest there is DENY.
\<close>

theorem sql_evaluate_blocked:
  assumes "sql_view api db g" "blocked g (as_Digest (rq_Subject req)) (rq_Environment req)"
  shows "d_Decision (fst (evaluate_on (Some (sql_Store api)) env e req db)) = Deny"
  using assms by (rule sql_blocked_evaluation)

theorem sql_evaluate_blocked_witness:
  "d_Decision (fst (evaluate_on (Some (sql_Store sample_sql)) sample_env (evaluator_New sample_policy)
     sample_request (empty_db\<lparr>db_tables := empty_tables\<lparr>tb_revocations := [sample_revocation]\<rparr>\<rparr>))) = Deny"
proof -
  have "sql_view sample_sql (empty_db\<lparr>db_tables := empty_tables\<lparr>tb_revocations := [sample_revocation]\<rparr>\<rparr>)
      (empty_ledger\<lparr>lg_revocations := [sample_revocation]\<rparr>)"
    by (simp add: sql_view_def empty_db_def empty_tables_def empty_ledger_def)
  moreover have "blocked (empty_ledger\<lparr>lg_revocations := [sample_revocation]\<rparr>)
      (as_Digest (rq_Subject sample_request)) (rq_Environment sample_request)"
    by (simp add: blocked_def revokes_def sample_revocation_def sample_request_def)
  ultimately show ?thesis by (rule sql_evaluate_blocked)
qed

text \<open>
  On the file store an evaluation is DENY when a revocation names exactly its
  environment or a quarantine covers it; a revocation for all environments alone does not
  change the outcome: the decision is the one of an evaluation with empty lookups.
\<close>

theorem file_evaluate_blocked:
  assumes "file_view js fs w g"
  shows "((\<exists>r \<in> set (lg_revocations g). rv_Digest r = as_Digest (rq_Subject req) \<and> rv_Environment r = rq_Environment req)
        \<or> (\<exists>q \<in> set (lg_quarantines g). quarantines (as_Digest (rq_Subject req)) (rq_Environment req) q)
        \<longrightarrow> d_Decision (fst (evaluate_on (Some (file_Store js fs)) env e req w)) = Deny)
    \<and> (\<not> ((\<exists>r \<in> set (lg_revocations g). rv_Digest r = as_Digest (rq_Subject req) \<and> rv_Environment r = rq_Environment req)
        \<or> (\<exists>q \<in> set (lg_quarantines g). quarantines (as_Digest (rq_Subject req)) (rq_Environment req) q))
        \<longrightarrow> evaluate_on (Some (file_Store js fs)) env e req w =
             (Evaluate env (WithQuarantines (WithRevocations e (Some (\<lambda>_ _. Inr False))) (Some (\<lambda>_ _. Inr False))) req, w))"
proof -
  let ?r = "\<exists>r \<in> set (lg_revocations g). rv_Digest r = as_Digest (rq_Subject req) \<and> rv_Environment r = rq_Environment req"
  let ?q = "\<exists>q \<in> set (lg_quarantines g). quarantines (as_Digest (rq_Subject req)) (rq_Environment req) q"
  have l: "st_IsRevoked (file_Store js fs) (as_Digest (rq_Subject req)) (rq_Environment req) w = (Inr ?r, w)"
    "st_IsQuarantined (file_Store js fs) (as_Digest (rq_Subject req)) (rq_Environment req) w = (Inr ?q, w)"
    by (auto simp: file_Store_def file_IsQuarantined_view [OF assms] file_IsRevoked_def
        file_GetRevocations_def view_reads [OF assms] revokes_def)
  have "?r \<or> ?q \<longrightarrow> d_Decision (fst (evaluate_on (Some (file_Store js fs)) env e req w)) = Deny"
    using evaluate_on_blocked [OF l] by blast
  moreover have "evaluate_on (Some (file_Store js fs)) env e req w =
      (Evaluate env (WithQuarantines (WithRevocations e (Some (\<lambda>_ _. Inr ?r))) (Some (\<lambda>_ _. Inr ?q))) req, w)"
    by (rule evaluate_on_store [OF l])
  ultimately show ?thesis
  proof (intro conjI impI, goal_cases)
    case 1
    then show ?case by blast
  next
    case 2
    then have "?r = False" "?q = False" by blast+
    with 2(2) show ?case by (simp only: )
  qed
qed

theorem file_evaluate_blocked_witness:
  "d_Decision (fst (evaluate_on (Some (file_Store sample_json (file_store ''data''))) sample_env
     (evaluator_New sample_policy) sample_request
     (snd (file_Quarantine sample_json (file_store ''data'') sample_ce sample_quarantine sample_world)))) = Deny"
proof -
  have "storable (j_quarantine sample_json) sample_quarantine" by (simp add: sample_json_def)
  from view_append_quarantine [OF sample_world_view this] obtain w' where
    q: "file_Quarantine sample_json (file_store ''data'') sample_ce sample_quarantine sample_world = (None, w')"
    and v: "file_view sample_json (file_store ''data'') w'
       (sample_ledger\<lparr>lg_quarantines := lg_quarantines sample_ledger @ [sample_quarantine]\<rparr>)"
    by (auto simp: file_Quarantine_def)
  have "quarantines (as_Digest (rq_Subject sample_request)) (rq_Environment sample_request) sample_quarantine"
    by (simp add: quarantines_def sample_quarantine_def sample_request_def)
  then show ?thesis
    using file_evaluate_blocked [OF v, of sample_request sample_env "evaluator_New sample_policy"]
    by (simp add: q)
qed

end
