(* ===== verification/Server.thy ===== *)
theory Server
  imports Auth Store_Api "HOL-Library.Word"
begin

text \<open>
  \<open>internal/api/server.go\<close>: the server's state, the role check, the handlers and the routes.

  A handler takes the request and the server and returns its reply and the server after it.
  The store behind the interface is the field \<open>sv_state\<close>, the two metrics are 64-bit words
  (\<open>atomic.Uint64\<close>). JSON decoding of a request body and JWT decoding are the record
  \<open>server_api\<close>, clocks and random bytes the record \<open>server_env\<close>. A call through a nil pointer
  panics; the HTTP server recovers and drops the connection (\<open>Panicked\<close>).
\<close>

section \<open>Requests and replies\<close>

record http_request =
  hr_Method :: string
  hr_Path :: string
  hr_Authorization :: string
  hr_environment :: string
  hr_id :: string
  hr_Body :: string

text \<open>The values the handlers hand to the JSON encoder, and the plain texts.\<close>

datatype body =
    TextBody go_error
  | MetricsBody "64 word" "64 word"
  | ErrorBody string go_error nat go_time
  | DecisionBody Decision
  | DecisionsBody "Decision list"
  | PromotionBody Promotion
  | PromotionsBody "Promotion list"
  | RevocationBody Revocation
  | RevocationsBody "Revocation list"
  | QuarantineBody Quarantine
  | QuarantinesBody "Quarantine list"
  | UnquarantinedBody string

record response =
  rs_Status :: nat
  rs_Headers :: "(string \<times> string) list"
  rs_Body :: body

datatype reply = Reply response | Panicked

record server_env =
  sx_eval :: eval_env
  sx_call :: call_env
  sx_now :: go_time
  sx_order :: "string list"
  sx_stamp :: go_time

text \<open>
  \<open>http.MaxBytesReader\<close>: the bytes a reader yields and the error it ends with, none being
  the end of the body.
\<close>

definition MaxBytesReader :: "nat \<Rightarrow> string \<Rightarrow> string \<times> go_error option" where
  "MaxBytesReader n b =
     (if length b \<le> n then (b, None)
      else (take n b, Some (errors_New ''http: request body too large'')))"

definition max_body :: nat where "max_body = 1048576"

type_synonym 'a decoder = "string \<times> go_error option \<Rightarrow> 'a result"

record server_api =
  sa_jwt :: jwt_api
  sa_evaluation :: "EvaluationRequest decoder"
  sa_promotion :: "Promotion decoder"
  sa_revocation :: "Revocation decoder"
  sa_quarantine :: "Quarantine decoder"

section \<open>The server\<close>

record 's Server =
  sv_evaluator :: Evaluator
  sv_store :: "'s Store option"
  sv_authenticator :: "Authenticator option"
  sv_production :: bool
  sv_total :: "64 word"
  sv_denied :: "64 word"
  sv_state :: 's

definition api_New :: "Evaluator \<Rightarrow> 's Store option \<Rightarrow> string \<Rightarrow> bool \<Rightarrow> 's \<Rightarrow> 's Server" where
  "api_New e st token production s0 =
     \<lparr>sv_evaluator = e, sv_store = st, sv_authenticator = Some (NewAuthenticator token []),
      sv_production = production, sv_total = 0, sv_denied = 0, sv_state = s0\<rparr>"

definition WithAuthenticator :: "'s Server \<Rightarrow> Authenticator option \<Rightarrow> 's Server" where
  "WithAuthenticator s a = s\<lparr>sv_authenticator := a\<rparr>"

definition writeJSON :: "nat \<Rightarrow> body \<Rightarrow> reply" where
  "writeJSON status v =
     Reply \<lparr>rs_Status = status, rs_Headers = [(''Content-Type'', ''application/json'')], rs_Body = v\<rparr>"

definition writeErr :: "server_env \<Rightarrow> nat \<Rightarrow> string \<Rightarrow> go_error \<Rightarrow> reply" where
  "writeErr env status code msg = writeJSON status (ErrorBody code msg status (sx_stamp env))"

definition write_text :: "nat \<Rightarrow> go_error \<Rightarrow> reply" where
  "write_text status t = Reply \<lparr>rs_Status = status, rs_Headers = [], rs_Body = TextBody t\<rparr>"

section \<open>Open endpoints\<close>

definition healthz :: "'s Server \<Rightarrow> reply \<times> 's Server" where
  "healthz s = (write_text 200 (errors_New ''ok''), s)"

definition readyz_rest :: "'s Server \<Rightarrow> reply" where
  "readyz_rest s =
     (case Validate (e_Policy (sv_evaluator s)) of
        Some err \<Rightarrow> write_text 503 (Wrapf ''not ready: policy invalid: %v'' [] err)
      | None \<Rightarrow>
          (case (if sv_production s
                 then (case sv_authenticator s of None \<Rightarrow> None | Some a \<Rightarrow> ValidateReadiness a)
                 else None) of
             Some err \<Rightarrow> write_text 503 (Wrapf ''not ready: auth error: %v'' [] err)
           | None \<Rightarrow> write_text 200 (errors_New ''ready'')))"

definition readyz :: "'s Server \<Rightarrow> reply \<times> 's Server" where
  "readyz s =
     (case sv_store s of
        None \<Rightarrow> (readyz_rest s, s)
      | Some st \<Rightarrow>
          (case st_Ping st (sv_state s) of
             (Some err, s1) \<Rightarrow>
               (write_text 503 (Wrapf ''not ready: store error: %v'' [] err), s\<lparr>sv_state := s1\<rparr>)
           | (None, s1) \<Rightarrow> (readyz_rest s, s\<lparr>sv_state := s1\<rparr>)))"

definition metrics :: "'s Server \<Rightarrow> reply \<times> 's Server" where
  "metrics s =
     (Reply \<lparr>rs_Status = 200, rs_Headers = [(''Content-Type'', ''text/plain; version=0.0.4'')],
             rs_Body = MetricsBody (sv_total s) (sv_denied s)\<rparr>, s)"

section \<open>Handlers behind a role\<close>

text \<open>The metrics after a decision: every decision counts, and the ones that are not ALLOW.\<close>

definition count_decision :: "Decision \<Rightarrow> 's Server \<Rightarrow> 's Server" where
  "count_decision d s =
     (let s1 = s\<lparr>sv_total := sv_total s + 1\<rparr>
      in if d_Decision d \<noteq> Allow then s1\<lparr>sv_denied := sv_denied s1 + 1\<rparr> else s1)"

definition evaluate :: "server_api \<Rightarrow> server_env \<Rightarrow> http_request \<Rightarrow> 's Server \<Rightarrow> reply \<times> 's Server" where
  "evaluate api env r s =
     (case sa_evaluation api (MaxBytesReader max_body (hr_Body r)) of
        Inl err \<Rightarrow> (writeErr env 400 ''SKGATE-REQUEST-INVALID'' err, s)
      | Inr req \<Rightarrow>
          (let (decision, s1) = evaluate_on (sv_store s) (sx_eval env) (sv_evaluator s) req (sv_state s);
               s2 = count_decision decision (s\<lparr>sv_state := s1\<rparr>)
           in case sv_store s2 of
                None \<Rightarrow> (writeJSON 200 (DecisionBody decision), s2)
              | Some st \<Rightarrow>
                  (case st_SaveDecision st decision (sv_state s2) of
                     (Some err, s3) \<Rightarrow>
                       (writeErr env 500 ''SKGATE-AUDIT-WRITE-FAILED'' err, s2\<lparr>sv_state := s3\<rparr>)
                   | (None, s3) \<Rightarrow> (writeJSON 200 (DecisionBody decision), s2\<lparr>sv_state := s3\<rparr>))))"

text \<open>
  Every other handler makes one call of the store, through a nil pointer when there is none,
  and answers with an error of status 500 or with what the call returned.
\<close>

definition store_write ::
    "server_env \<Rightarrow> string \<Rightarrow> nat \<Rightarrow> body \<Rightarrow> ('s Store \<Rightarrow> 's \<Rightarrow> go_error option \<times> 's) \<Rightarrow> 's Server \<Rightarrow> reply \<times> 's Server" where
  "store_write env code status v call s =
     (case sv_store s of
        None \<Rightarrow> (Panicked, s)
      | Some st \<Rightarrow>
          (case call st (sv_state s) of
             (Some err, s1) \<Rightarrow> (writeErr env 500 code err, s\<lparr>sv_state := s1\<rparr>)
           | (None, s1) \<Rightarrow> (writeJSON status v, s\<lparr>sv_state := s1\<rparr>)))"

definition store_read ::
    "server_env \<Rightarrow> string \<Rightarrow> ('a \<Rightarrow> body) \<Rightarrow> ('s Store \<Rightarrow> 's \<Rightarrow> 'a result \<times> 's) \<Rightarrow> 's Server \<Rightarrow> reply \<times> 's Server" where
  "store_read env code v call s =
     (case sv_store s of
        None \<Rightarrow> (Panicked, s)
      | Some st \<Rightarrow>
          (case call st (sv_state s) of
             (Inl err, s1) \<Rightarrow> (writeErr env 500 code err, s\<lparr>sv_state := s1\<rparr>)
           | (Inr x, s1) \<Rightarrow> (writeJSON 200 (v x), s\<lparr>sv_state := s1\<rparr>)))"

definition promote :: "server_api \<Rightarrow> server_env \<Rightarrow> http_request \<Rightarrow> 's Server \<Rightarrow> reply \<times> 's Server" where
  "promote api env r s =
     (case sa_promotion api (MaxBytesReader max_body (hr_Body r)) of
        Inl err \<Rightarrow> (writeErr env 400 ''SKGATE-PROMOTION-INVALID'' err, s)
      | Inr p \<Rightarrow>
          if pm_DecisionID p = [] \<or> pm_Digest p = [] \<or> pm_Environment p = []
          then (writeErr env 400 ''SKGATE-PROMOTION-INVALID''
                  (errors_New ''decision_id, digest, and environment are required''), s)
          else store_write env ''SKGATE-PROMOTION-FAILED'' 201 (PromotionBody p)
                 (\<lambda>st. st_Promote st (sx_call env) p) s)"

definition getPromotions :: "server_env \<Rightarrow> http_request \<Rightarrow> 's Server \<Rightarrow> reply \<times> 's Server" where
  "getPromotions env r =
     store_read env ''SKGATE-PROMOTIONS-FAILED'' PromotionsBody (\<lambda>st. st_GetPromotions st (hr_environment r))"

definition revoke :: "server_api \<Rightarrow> server_env \<Rightarrow> http_request \<Rightarrow> 's Server \<Rightarrow> reply \<times> 's Server" where
  "revoke api env r s =
     (case sa_revocation api (MaxBytesReader max_body (hr_Body r)) of
        Inl err \<Rightarrow> (writeErr env 400 ''SKGATE-REVOCATION-INVALID'' err, s)
      | Inr rvk \<Rightarrow>
          if rv_Digest rvk = []
          then (writeErr env 400 ''SKGATE-REVOCATION-INVALID'' (errors_New ''digest is required''), s)
          else store_write env ''SKGATE-REVOCATION-FAILED'' 201 (RevocationBody rvk)
                 (\<lambda>st. st_Revoke st (sx_call env) rvk) s)"

definition getRevocations :: "server_env \<Rightarrow> http_request \<Rightarrow> 's Server \<Rightarrow> reply \<times> 's Server" where
  "getRevocations env r =
     store_read env ''SKGATE-REVOCATIONS-FAILED'' RevocationsBody (\<lambda>st. st_GetRevocations st (hr_environment r))"

definition quarantine :: "server_api \<Rightarrow> server_env \<Rightarrow> http_request \<Rightarrow> 's Server \<Rightarrow> reply \<times> 's Server" where
  "quarantine api env r s =
     (case sa_quarantine api (MaxBytesReader max_body (hr_Body r)) of
        Inl err \<Rightarrow> (writeErr env 400 ''SKGATE-QUARANTINE-INVALID'' err, s)
      | Inr q \<Rightarrow>
          if qr_Digest q = []
          then (writeErr env 400 ''SKGATE-QUARANTINE-INVALID'' (errors_New ''digest is required''), s)
          else store_write env ''SKGATE-QUARANTINE-FAILED'' 201 (QuarantineBody q)
                 (\<lambda>st. st_Quarantine st (sx_call env) q) s)"

definition getQuarantines :: "server_env \<Rightarrow> http_request \<Rightarrow> 's Server \<Rightarrow> reply \<times> 's Server" where
  "getQuarantines env r =
     store_read env ''SKGATE-QUARANTINES-FAILED'' QuarantinesBody (\<lambda>st. st_GetQuarantines st (hr_environment r))"

definition unquarantine :: "server_env \<Rightarrow> http_request \<Rightarrow> 's Server \<Rightarrow> reply \<times> 's Server" where
  "unquarantine env r s =
     (if hr_id r = []
      then (writeErr env 400 ''SKGATE-UNQUARANTINE-INVALID'' (errors_New ''id or digest parameter is required''), s)
      else store_write env ''SKGATE-UNQUARANTINE-FAILED'' 200 (UnquarantinedBody (hr_id r))
             (\<lambda>st. st_Unquarantine st (hr_id r)) s)"

definition getDecisions :: "server_env \<Rightarrow> 's Server \<Rightarrow> reply \<times> 's Server" where
  "getDecisions env =
     store_read env ''SKGATE-DECISIONS-FAILED'' DecisionsBody (\<lambda>st. st_GetDecisions st)"

section \<open>Roles\<close>

text \<open>
  \<open>Authenticate\<close> on a pointer: through nil the format of the header is checked, then the
  lookup of the token panics (no result).
\<close>

definition pointer_Authenticate ::
    "jwt_api \<Rightarrow> string list \<Rightarrow> Authenticator option \<Rightarrow> go_time \<Rightarrow> string \<Rightarrow> Role result option" where
  "pointer_Authenticate api order a now authHeader =
     (case a of
        Some a' \<Rightarrow> Some (Authenticate api order a' now authHeader)
      | None \<Rightarrow>
          if authHeader = [] then Some (Inl (errors_New ''missing authorization header''))
          else (case SplitN2 authHeader CHR '' '' of
            [scheme, token] \<Rightarrow>
              (if \<not> EqualFold_ascii scheme ''Bearer''
               then Some (Inl (errors_New ''invalid authorization header format'')) else None)
          | _ \<Rightarrow> Some (Inl (errors_New ''invalid authorization header format''))))"

definition requireRole ::
    "server_api \<Rightarrow> server_env \<Rightarrow> Role \<Rightarrow> (http_request \<Rightarrow> 's Server \<Rightarrow> reply \<times> 's Server)
       \<Rightarrow> http_request \<Rightarrow> 's Server \<Rightarrow> reply \<times> 's Server" where
  "requireRole api env requiredRole nxt r s =
     (if hr_Authorization r = [] then
        (if sv_production s
         then (writeErr env 503 ''SKGATE-AUTH-NOT-CONFIGURED''
                 (errors_New ''production mode requires authorization header''), s)
         else nxt r s)
      else case pointer_Authenticate (sa_jwt api) (sx_order env) (sv_authenticator s) (sx_now env)
                  (hr_Authorization r) of
        None \<Rightarrow> (Panicked, s)
      | Some (Inl err) \<Rightarrow> (writeErr env 401 ''SKGATE-UNAUTHORIZED'' err, s)
      | Some (Inr userRole) \<Rightarrow>
          if \<not> HasPermission userRole requiredRole
          then (writeErr env 403 ''SKGATE-FORBIDDEN''
                  (Sprintf ''role %s insufficient for required role %s'' [S userRole, S requiredRole]), s)
          else nxt r s)"

section \<open>Routes\<close>

datatype endpoint =
    Healthz | Readyz | Metrics | EvaluateE | PromoteE | PromotionsE | RevokeE | RevocationsE
  | QuarantineE | QuarantinesE | UnquarantineE | DecisionsE

definition routes :: "(string \<times> string \<times> endpoint) list" where
  "routes =
     [(''GET'', ''/healthz'', Healthz), (''GET'', ''/readyz'', Readyz), (''GET'', ''/metrics'', Metrics),
      (''POST'', ''/api/v1/evaluate'', EvaluateE),
      (''POST'', ''/api/v1/promotions'', PromoteE), (''GET'', ''/api/v1/promotions'', PromotionsE),
      (''POST'', ''/api/v1/revocations'', RevokeE), (''GET'', ''/api/v1/revocations'', RevocationsE),
      (''POST'', ''/api/v1/quarantines'', QuarantineE), (''GET'', ''/api/v1/quarantines'', QuarantinesE),
      (''DELETE'', ''/api/v1/quarantines'', UnquarantineE),
      (''GET'', ''/api/v1/decisions'', DecisionsE)]"

text \<open>
  \<open>http.ServeMux\<close> on a clean path: a pattern matches its method and path, a GET pattern
  HEAD requests as well.
\<close>

definition method_matches :: "string \<Rightarrow> string \<Rightarrow> bool" where
  "method_matches pat m \<longleftrightarrow> m = pat \<or> pat = ''GET'' \<and> m = ''HEAD''"

definition mux_match :: "http_request \<Rightarrow> endpoint option" where
  "mux_match r =
     map_option (\<lambda>(_, _, e). e)
       (find (\<lambda>(m, p, _). p = hr_Path r \<and> method_matches m (hr_Method r)) routes)"

fun required_role :: "endpoint \<Rightarrow> Role option" where
  "required_role EvaluateE = Some RoleEvaluator"
| "required_role PromoteE = Some RolePromoter"
| "required_role PromotionsE = Some RoleViewer"
| "required_role RevokeE = Some RoleAdmin"
| "required_role RevocationsE = Some RoleViewer"
| "required_role QuarantineE = Some RoleSecurityReviewer"
| "required_role QuarantinesE = Some RoleViewer"
| "required_role UnquarantineE = Some RoleSecurityReviewer"
| "required_role DecisionsE = Some RoleAuditor"
| "required_role _ = None"

fun handler_of ::
    "server_api \<Rightarrow> server_env \<Rightarrow> endpoint \<Rightarrow> http_request \<Rightarrow> 's Server \<Rightarrow> reply \<times> 's Server" where
  "handler_of api env Healthz r s = healthz s"
| "handler_of api env Readyz r s = readyz s"
| "handler_of api env Metrics r s = metrics s"
| "handler_of api env EvaluateE r s = evaluate api env r s"
| "handler_of api env PromoteE r s = promote api env r s"
| "handler_of api env PromotionsE r s = getPromotions env r s"
| "handler_of api env RevokeE r s = revoke api env r s"
| "handler_of api env RevocationsE r s = getRevocations env r s"
| "handler_of api env QuarantineE r s = quarantine api env r s"
| "handler_of api env QuarantinesE r s = getQuarantines env r s"
| "handler_of api env UnquarantineE r s = unquarantine env r s"
| "handler_of api env DecisionsE r s = getDecisions env s"

definition serve_endpoint ::
    "server_api \<Rightarrow> server_env \<Rightarrow> endpoint \<Rightarrow> http_request \<Rightarrow> 's Server \<Rightarrow> reply \<times> 's Server" where
  "serve_endpoint api env e r s =
     (case required_role e of
        None \<Rightarrow> handler_of api env e r s
      | Some role \<Rightarrow> requireRole api env role (handler_of api env e) r s)"

definition securityHeaders :: "reply \<Rightarrow> reply" where
  "securityHeaders rep =
     (case rep of
        Panicked \<Rightarrow> Panicked
      | Reply x \<Rightarrow>
          Reply (x\<lparr>rs_Headers :=
            [(''X-Content-Type-Options'', ''nosniff''), (''X-Frame-Options'', ''DENY''),
             (''Referrer-Policy'', ''no-referrer'')] @ rs_Headers x\<rparr>))"

definition Handler :: "server_api \<Rightarrow> server_env \<Rightarrow> http_request \<Rightarrow> 's Server \<Rightarrow> reply \<times> 's Server" where
  "Handler api env r s =
     (case mux_match r of
        Some e \<Rightarrow> (let (rep, s1) = serve_endpoint api env e r s in (securityHeaders rep, s1))
      | None \<Rightarrow>
          (securityHeaders
             (if \<exists>(m, p, e) \<in> set routes. p = hr_Path r
              then write_text 405 (errors_New ''Method Not Allowed'')
              else write_text 404 (errors_New ''404 page not found'')), s))"

section \<open>Who may do what\<close>

text \<open>
  The caller may use a handler for a role: with a header that authenticates to a role with
  the permission, or without a header outside production.
\<close>

definition authorised :: "server_api \<Rightarrow> server_env \<Rightarrow> Role \<Rightarrow> http_request \<Rightarrow> 's Server \<Rightarrow> bool" where
  "authorised api env role r s =
     (if hr_Authorization r = [] then \<not> sv_production s
      else case pointer_Authenticate (sa_jwt api) (sx_order env) (sv_authenticator s) (sx_now env)
                  (hr_Authorization r) of
        Some (Inr userRole) \<Rightarrow> HasPermission userRole role
      | _ \<Rightarrow> False)"

lemma requireRole_authorised:
  "authorised api env role r s \<Longrightarrow> requireRole api env role nxt r s = nxt r s"
  by (auto simp: authorised_def requireRole_def split: option.splits sum.splits if_splits)

lemma requireRole_refused:
  assumes "\<not> authorised api env role r s"
  shows "snd (requireRole api env role nxt r s) = s"
    and "fst (requireRole api env role nxt r s) = Panicked \<or>
      (\<exists>st code msg. st \<in> {401, 403, 503} \<and> fst (requireRole api env role nxt r s) = writeErr env st code msg)"
  using assms
  by (auto simp: authorised_def requireRole_def split: option.splits sum.splits if_splits)

lemma Handler_matched:
  "mux_match r = Some e \<Longrightarrow>
     Handler api env r s = (securityHeaders (fst (serve_endpoint api env e r s)), snd (serve_endpoint api env e r s))"
  by (simp add: Handler_def split_def Let_def)

lemma Handler_unmatched: "mux_match r = None \<Longrightarrow> snd (Handler api env r s) = s"
  by (simp add: Handler_def)

lemma securityHeaders_simps [simp]:
  "securityHeaders rep = Panicked \<longleftrightarrow> rep = Panicked"
  "securityHeaders (writeJSON st v) = Reply \<lparr>rs_Status = st, rs_Headers =
     [(''X-Content-Type-Options'', ''nosniff''), (''X-Frame-Options'', ''DENY''),
      (''Referrer-Policy'', ''no-referrer''), (''Content-Type'', ''application/json'')], rs_Body = v\<rparr>"
  by (simp_all add: securityHeaders_def writeJSON_def split: reply.splits)

fun reply_status :: "reply \<Rightarrow> nat option" where
  "reply_status Panicked = None"
| "reply_status (Reply x) = Some (rs_Status x)"

fun reply_body :: "reply \<Rightarrow> body option" where
  "reply_body Panicked = None"
| "reply_body (Reply x) = Some (rs_Body x)"

lemma securityHeaders_reply [simp]:
  "reply_status (securityHeaders rep) = reply_status rep"
  "reply_body (securityHeaders rep) = reply_body rep"
  by (cases rep; simp add: securityHeaders_def)+

lemma written_reply [simp]:
  "reply_status (writeJSON st v) = Some st" "reply_body (writeJSON st v) = Some v"
  "reply_status (writeErr env st code msg) = Some st"
  "reply_body (writeErr env st code msg) = Some (ErrorBody code msg st (sx_stamp env))"
  "reply_status (write_text st t) = Some st" "reply_body (write_text st t) = Some (TextBody t)"
  "writeJSON st v \<noteq> Panicked" "writeErr env st code msg \<noteq> Panicked" "write_text st t \<noteq> Panicked"
  by (simp_all add: writeJSON_def writeErr_def write_text_def)

text \<open>A refused request.\<close>

lemma refused_request:
  assumes "mux_match r = Some e" "required_role e = Some role" "\<not> authorised api env role r s"
  shows "snd (Handler api env r s) = s
    \<and> (fst (Handler api env r s) = Panicked \<or>
        (\<exists>st code msg. st \<in> {401, 403, 503} \<and> reply_status (fst (Handler api env r s)) = Some st
           \<and> reply_body (fst (Handler api env r s)) = Some (ErrorBody code msg st (sx_stamp env))))
    \<and> (hr_Authorization r = [] \<longrightarrow> sv_production s \<and> reply_status (fst (Handler api env r s)) = Some 503)"
proof (intro conjI)
  let ?h = "requireRole api env role (handler_of api env e) r s"
  have h: "Handler api env r s = (securityHeaders (fst ?h), snd ?h)"
    using assms(1,2) by (simp add: Handler_matched serve_endpoint_def)
  show "snd (Handler api env r s) = s" using requireRole_refused(1) [OF assms(3)] by (simp add: h)
  show "fst (Handler api env r s) = Panicked \<or>
      (\<exists>st code msg. st \<in> {401, 403, 503} \<and> reply_status (fst (Handler api env r s)) = Some st
         \<and> reply_body (fst (Handler api env r s)) = Some (ErrorBody code msg st (sx_stamp env)))"
    using requireRole_refused(2) [OF assms(3), of "handler_of api env e"]
  proof (elim disjE exE conjE)
    fix st code msg
    assume "st \<in> {401, 403, 503}" "fst ?h = writeErr env st code msg"
    then show ?thesis by (intro disjI2 exI [of _ st] exI [of _ code] exI [of _ msg]) (simp add: h)
  qed (simp add: h)
  show "hr_Authorization r = [] \<longrightarrow> sv_production s \<and> reply_status (fst (Handler api env r s)) = Some 503"
    using assms(3) by (cases "hr_Authorization r = []") (simp_all add: h authorised_def requireRole_def)
qed

lemma refused_status:
  assumes "mux_match r = Some e" "required_role e = Some role" "\<not> authorised api env role r s"
  shows "reply_status (fst (Handler api env r s)) \<in> {None, Some 401, Some 403, Some 503}"
  using refused_request [OF assms] by (auto simp del: insert_iff simp: insertI1 insertI2)

lemma refused_body:
  assumes "mux_match r = Some e" "required_role e = Some role" "\<not> authorised api env role r s"
    "reply_body (fst (Handler api env r s)) = Some b"
  shows "\<exists>code msg st. b = ErrorBody code msg st (sx_stamp env)"
  using refused_request [OF assms(1-3)] assms(4) by auto

text \<open>
  C8. A request for a protected route whose caller is not authorised changes nothing and
  gets no data: the reply is an error document of status 401, 403 or 503 (or the connection
  is dropped), whatever the body says. In production a request without an Authorization
  header is always one of these, with status 503.
\<close>

theorem Handler_refuses:
  assumes "mux_match r = Some e" "required_role e = Some role" "\<not> authorised api env role r s"
  shows "snd (Handler api env r s) = s
    \<and> (fst (Handler api env r s) = Panicked \<or>
        (\<exists>st code msg. st \<in> {401, 403, 503} \<and> reply_status (fst (Handler api env r s)) = Some st
           \<and> reply_body (fst (Handler api env r s)) = Some (ErrorBody code msg st (sx_stamp env))))
    \<and> (hr_Authorization r = [] \<longrightarrow> sv_production s \<and> reply_status (fst (Handler api env r s)) = Some 503)"
  by (rule refused_request [OF assms])

text \<open>What authorises in production.\<close>

lemma authorised_production:
  assumes "authorised api env role r s" "sv_production s" "sv_authenticator s = Some a"
  obtains userRole where "Authenticate (sa_jwt api) (sx_order env) a (sx_now env) (hr_Authorization r) = Inr userRole"
    "HasPermission userRole role"
  using assms by (auto simp: authorised_def pointer_Authenticate_def split: if_splits sum.splits)

section \<open>What the handlers do to the server\<close>

text \<open>Only the metrics and the store move.\<close>

definition same_setup :: "'s Server \<Rightarrow> 's Server \<Rightarrow> bool" where
  "same_setup s s' \<longleftrightarrow>
     sv_evaluator s' = sv_evaluator s \<and> sv_store s' = sv_store s
     \<and> sv_authenticator s' = sv_authenticator s \<and> sv_production s' = sv_production s"

lemma same_setup_refl [simp]: "same_setup s s"
  by (simp add: same_setup_def)

lemma same_setup_state [simp]: "same_setup s (s\<lparr>sv_state := x\<rparr>)"
  by (simp add: same_setup_def)

lemma count_decision_fields [simp]:
  "sv_evaluator (count_decision d s) = sv_evaluator s" "sv_store (count_decision d s) = sv_store s"
  "sv_authenticator (count_decision d s) = sv_authenticator s"
  "sv_production (count_decision d s) = sv_production s" "sv_state (count_decision d s) = sv_state s"
  by (simp_all add: count_decision_def Let_def)

lemma same_setup_count [simp]:
  "same_setup s (count_decision d (s\<lparr>sv_state := x\<rparr>))"
  "same_setup s ((count_decision d (s\<lparr>sv_state := x\<rparr>))\<lparr>sv_state := y\<rparr>)"
  by (simp_all add: same_setup_def)

text \<open>The counters of a server, as a pair.\<close>

definition counters :: "'s Server \<Rightarrow> 64 word \<times> 64 word" where
  "counters s = (sv_total s, sv_denied s)"

lemma counters_state [simp]: "counters (s\<lparr>sv_state := x\<rparr>) = counters s"
  by (simp add: counters_def)

lemma store_calls_setup [simp]:
  "same_setup s (snd (store_write env code st v call s))" "counters (snd (store_write env code st v call s)) = counters s"
  "same_setup s (snd (store_read env code w call' s))" "counters (snd (store_read env code w call' s)) = counters s"
  by (auto simp: store_write_def store_read_def split: option.splits prod.splits sum.splits)

lemma readyz_setup [simp]:
  "same_setup s (snd (readyz s))" "counters (snd (readyz s)) = counters s"
  by (auto simp: readyz_def split: option.splits prod.splits)

lemmas handler_defs = healthz_def metrics_def promote_def getPromotions_def revoke_def getRevocations_def
  quarantine_def getQuarantines_def unquarantine_def getDecisions_def

lemma evaluate_setup: "same_setup s (snd (evaluate api env r s))"
proof (cases "sa_evaluation api (MaxBytesReader max_body (hr_Body r))")
  case (Inr req)
  obtain d s1 where "evaluate_on (sv_store s) (sx_eval env) (sv_evaluator s) req (sv_state s) = (d, s1)"
    by fastforce
  with Inr show ?thesis
    by (simp add: evaluate_def Let_def split: option.splits prod.splits)
qed (simp add: evaluate_def)

lemma handler_setup:
  "same_setup s (snd (handler_of api env e r s))"
  "e \<noteq> EvaluateE \<Longrightarrow> counters (snd (handler_of api env e r s)) = counters s"
  by (cases e; simp add: handler_defs evaluate_setup split: sum.splits)+

lemma serve_endpoint_cases:
  "serve_endpoint api env e r s = handler_of api env e r s \<or> snd (serve_endpoint api env e r s) = s"
proof (cases "required_role e")
  case (Some role)
  then show ?thesis
    using requireRole_authorised [of api env role r s] requireRole_refused(1) [of api env role r s]
    by (cases "authorised api env role r s") (simp_all add: serve_endpoint_def)
qed (simp add: serve_endpoint_def)

lemma Handler_setup: "same_setup s (snd (Handler api env r s))"
proof (cases "mux_match r")
  case (Some e)
  then show ?thesis
    using serve_endpoint_cases [of api env e r s] handler_setup(1) [of s api env e r]
    by (auto simp: Handler_matched)
qed (simp add: Handler_unmatched)

section \<open>Evaluations\<close>

text \<open>What a request asks the evaluator, and the decision it gets.\<close>

definition evaluation_of :: "server_api \<Rightarrow> http_request \<Rightarrow> EvaluationRequest option" where
  "evaluation_of api r =
     (case sa_evaluation api (MaxBytesReader max_body (hr_Body r)) of Inl _ \<Rightarrow> None | Inr req \<Rightarrow> Some req)"

definition served_decision :: "server_api \<Rightarrow> server_env \<Rightarrow> http_request \<Rightarrow> 's Server \<Rightarrow> Decision option" where
  "served_decision api env r s =
     (if mux_match r = Some EvaluateE \<and> authorised api env RoleEvaluator r s
      then map_option (\<lambda>req. fst (evaluate_on (sv_store s) (sx_eval env) (sv_evaluator s) req (sv_state s)))
             (evaluation_of api r)
      else None)"

lemma Handler_evaluate:
  assumes "mux_match r = Some EvaluateE" "authorised api env RoleEvaluator r s"
  shows "Handler api env r s = (securityHeaders (fst (evaluate api env r s)), snd (evaluate api env r s))"
  using assms by (simp add: Handler_matched serve_endpoint_def requireRole_authorised)

lemma Handler_counters:
  "counters (snd (Handler api env r s)) =
     (case served_decision api env r s of
        None \<Rightarrow> counters s
      | Some d \<Rightarrow> (sv_total s + 1, if d_Decision d \<noteq> Allow then sv_denied s + 1 else sv_denied s))"
proof (cases "mux_match r")
  case None
  then show ?thesis by (simp add: Handler_unmatched served_decision_def)
next
  case (Some e)
  show ?thesis
  proof (cases "e = EvaluateE \<and> authorised api env RoleEvaluator r s")
    case True
    with Some show ?thesis
      by (auto simp: Handler_evaluate served_decision_def evaluation_of_def evaluate_def count_decision_def counters_def Let_def
          split: option.splits prod.splits sum.splits)
  next
    case False
    then have "counters (snd (serve_endpoint api env e r s)) = counters s"
      using handler_setup(2) [of e api env r s] requireRole_refused(1) [of api env RoleEvaluator r s]
        serve_endpoint_cases [of api env e r s]
      by (cases "e = EvaluateE") (auto simp: serve_endpoint_def)
    moreover have "served_decision api env r s = None" using False Some by (auto simp: served_decision_def)
    ultimately show ?thesis using Some by (simp add: Handler_matched)
  qed
qed

text \<open>
  C9. An evaluation answered with status 200 was asked by an authorised caller, its body is
  the decision of the evaluator on the store as it was, and that decision was saved: an
  audit write that fails is never a 200.
\<close>

theorem evaluate_200:
  assumes "mux_match r = Some EvaluateE" "reply_status (fst (Handler api env r s)) = Some 200"
  shows "\<exists>req d s1. authorised api env RoleEvaluator r s \<and> evaluation_of api r = Some req
    \<and> evaluate_on (sv_store s) (sx_eval env) (sv_evaluator s) req (sv_state s) = (d, s1)
    \<and> reply_body (fst (Handler api env r s)) = Some (DecisionBody d)
    \<and> (case sv_store s of
          None \<Rightarrow> True
        | Some st \<Rightarrow> st_SaveDecision st d s1 = (None, sv_state (snd (Handler api env r s))))"
proof -
  have a: "authorised api env RoleEvaluator r s"
    using refused_status [OF assms(1), of RoleEvaluator api env s] assms(2) by auto
  note H = Handler_evaluate [OF assms(1) a]
  obtain req where req: "sa_evaluation api (MaxBytesReader max_body (hr_Body r)) = Inr req"
    using assms(2) by (cases "sa_evaluation api (MaxBytesReader max_body (hr_Body r))") (auto simp: H evaluate_def)
  obtain d s1 where d: "evaluate_on (sv_store s) (sx_eval env) (sv_evaluator s) req (sv_state s) = (d, s1)"
    by fastforce
  show ?thesis
  proof (cases "sv_store s")
    case None
    with a req d show ?thesis by (simp add: H evaluate_def Let_def evaluation_of_def)
  next
    case (Some st)
    obtain e s3 where sd: "st_SaveDecision st d s1 = (e, s3)" by fastforce
    have "e = None" using assms(2) req d Some sd by (cases e) (simp_all add: H evaluate_def Let_def)
    with a req d Some sd show ?thesis by (simp add: H evaluate_def Let_def evaluation_of_def)
  qed
qed

section \<open>Runs and metrics\<close>

fun serve :: "server_api \<Rightarrow> (server_env \<times> http_request) list \<Rightarrow> 's Server \<Rightarrow> reply list \<times> 's Server" where
  "serve api [] s = ([], s)"
| "serve api ((env, r) # rs) s =
     (let (rep, s1) = Handler api env r s; (reps, s2) = serve api rs s1 in (rep # reps, s2))"

fun served_decisions :: "server_api \<Rightarrow> (server_env \<times> http_request) list \<Rightarrow> 's Server \<Rightarrow> Decision list" where
  "served_decisions api [] s = []"
| "served_decisions api ((env, r) # rs) s =
     (case served_decision api env r s of None \<Rightarrow> [] | Some d \<Rightarrow> [d])
       @ served_decisions api rs (snd (Handler api env r s))"

lemma serve_Cons:
  "snd (serve api ((env, r) # rs) s) = snd (serve api rs (snd (Handler api env r s)))"
  "fst (serve api ((env, r) # rs) s) = fst (Handler api env r s) # fst (serve api rs (snd (Handler api env r s)))"
  by (simp_all add: split_def Let_def)

lemma serve_setup: "same_setup s (snd (serve api rs s))"
proof (induction rs arbitrary: s)
  case (Cons er rs)
  obtain env r where [simp]: "er = (env, r)" by (cases er)
  have "same_setup s (snd (Handler api env r s))" by (rule Handler_setup)
  moreover have "same_setup (snd (Handler api env r s)) (snd (serve api rs (snd (Handler api env r s))))"
    by (rule Cons.IH)
  ultimately show ?case by (simp only: \<open>er = (env, r)\<close> serve_Cons) (simp add: same_setup_def)
qed simp

lemma length_served_decisions: "length (served_decisions api rs s) \<le> length rs"
proof (induction rs arbitrary: s)
  case (Cons er rs)
  obtain env r where [simp]: "er = (env, r)" by (cases er)
  show ?case using Cons.IH [of "snd (Handler api env r s)"] by (simp split: option.splits)
qed simp

lemma serve_counters:
  "counters (snd (serve api rs s)) =
     (sv_total s + of_nat (length (served_decisions api rs s)),
      sv_denied s + of_nat (length (filter (\<lambda>d. d_Decision d \<noteq> Allow) (served_decisions api rs s))))"
proof (induction rs arbitrary: s)
  case Nil
  show ?case by (simp add: counters_def)
next
  case (Cons er rs)
  obtain env r where [simp]: "er = (env, r)" by (cases er)
  show ?case
    using Handler_counters [of api env r s] Cons.IH [of "snd (Handler api env r s)"]
    by (auto simp: counters_def serve_Cons simp del: serve.simps split: option.splits)
qed

text \<open>
  The metrics of a server count its decisions: after any requests to a new server the
  two 64-bit counters are the numbers of decisions and of decisions other than ALLOW, modulo
  2^64; below 2^64 requests nothing wraps and the second never exceeds the first.
\<close>

theorem metrics_exact:
  fixes e st token production s0 api rs
  defines "s \<equiv> snd (serve api rs (api_New e st token production s0))"
    and "ds \<equiv> served_decisions api rs (api_New e st token production s0)"
  shows "sv_total s = of_nat (length ds)
    \<and> sv_denied s = of_nat (length (filter (\<lambda>d. d_Decision d \<noteq> Allow) ds))
    \<and> (length rs < 2 ^ 64 \<longrightarrow> unat (sv_total s) = length ds
         \<and> unat (sv_denied s) = length (filter (\<lambda>d. d_Decision d \<noteq> Allow) ds)
         \<and> unat (sv_denied s) \<le> unat (sv_total s))"
proof -
  have c: "counters s = (of_nat (length ds), of_nat (length (filter (\<lambda>d. d_Decision d \<noteq> Allow) ds)))"
    unfolding s_def ds_def serve_counters by (simp add: api_New_def)
  have "unat (of_nat n :: 64 word) = n" if "n \<le> length ds" "length rs < 2 ^ 64" for n
    using that length_served_decisions [of api rs "api_New e st token production s0"]
    by (simp add: ds_def unat_of_nat take_bit_eq_mod)
  with c length_filter_le [of "\<lambda>d. d_Decision d \<noteq> Allow" ds] show ?thesis
    by (simp add: counters_def)
qed

text \<open>
  The readiness probe answers 200 exactly when the store answers its ping, the policy
  is valid and, in production, some way to authenticate is configured; otherwise 503.
\<close>

theorem readyz_exact:
  assumes "mux_match r = Some Readyz"
  shows "reply_status (fst (Handler api env r s)) =
    (if (\<forall>st. sv_store s = Some st \<longrightarrow> fst (st_Ping st (sv_state s)) = None)
        \<and> Validate (e_Policy (sv_evaluator s)) = None
        \<and> (sv_production s \<longrightarrow> (\<forall>a. sv_authenticator s = Some a \<longrightarrow> ValidateReadiness a = None))
     then Some 200 else Some 503)"
  using assms
  by (auto simp: Handler_matched serve_endpoint_def readyz_def readyz_rest_def split: option.splits prod.splits)

section \<open>Sample requests\<close>

definition sample_server_api :: server_api where
  "sample_server_api =
     \<lparr>sa_jwt = sample_jwt_api, sa_evaluation = (\<lambda>_. Inr sample_request),
      sa_promotion = (\<lambda>_. Inr sample_promotion), sa_revocation = (\<lambda>_. Inr sample_revocation),
      sa_quarantine = (\<lambda>_. Inr sample_quarantine)\<rparr>"

definition sample_senv :: server_env where
  "sample_senv = \<lparr>sx_eval = sample_env, sx_call = sample_ce, sx_now = 0, sx_order = [], sx_stamp = 0\<rparr>"

definition sample_server :: "bool \<Rightarrow> sql_db Server" where
  "sample_server production =
     api_New (evaluator_New sample_policy) (Some (sql_Store sample_sql)) ''t'' production empty_db"

definition plain_request :: "string \<Rightarrow> string \<Rightarrow> http_request" where
  "plain_request m path =
     \<lparr>hr_Method = m, hr_Path = path, hr_Authorization = [], hr_environment = [], hr_id = [], hr_Body = []\<rparr>"

lemma plain_no_header [simp]: "hr_Authorization (plain_request m path) = []"
  by (simp add: plain_request_def)

lemma sample_matches [simp]:
  "mux_match (plain_request ''POST'' ''/api/v1/evaluate'') = Some EvaluateE"
  "mux_match (plain_request ''POST'' ''/api/v1/revocations'') = Some RevokeE"
  "mux_match (plain_request ''POST'' ''/api/v1/promotions'') = Some PromoteE"
  "mux_match (plain_request ''GET'' ''/readyz'') = Some Readyz"
  by (simp_all add: mux_match_def routes_def plain_request_def method_matches_def)

lemma sample_authorised:
  "authorised sample_server_api sample_senv role (plain_request m path) (sample_server p) \<longleftrightarrow> \<not> p"
  by (simp add: authorised_def plain_request_def sample_server_def api_New_def)

theorem Handler_refuses_witness:
  "reply_status (fst (Handler sample_server_api sample_senv (plain_request ''POST'' ''/api/v1/revocations'')
     (sample_server True))) = Some 503"
  using Handler_refuses [of "plain_request ''POST'' ''/api/v1/revocations''" RevokeE RoleAdmin
      sample_server_api sample_senv "sample_server True"]
  by (simp add: sample_authorised)

theorem readyz_exact_witness:
  "reply_status (fst (Handler sample_server_api sample_senv (plain_request ''GET'' ''/readyz'')
     (sample_server True))) = Some 200"
proof -
  have "Validate (e_Policy (sv_evaluator (sample_server True))) = None"
    by (simp add: sample_server_def api_New_def evaluator_New_def sample_policy_valid)
  moreover have "fst (sql_Ping empty_db) = None" by (simp add: sql_Ping_def empty_db_def)
  moreover have "ValidateReadiness (NewAuthenticator ''t'' []) = None"
    by (simp add: ValidateReadiness_def NewAuthenticator_def)
  ultimately show ?thesis
    using readyz_exact [of "plain_request ''GET'' ''/readyz''" sample_server_api sample_senv "sample_server True"]
    by (simp add: sample_server_def api_New_def sql_Store_def)
qed

text \<open>An evaluation of the sample request, with nothing stored yet.\<close>

lemma sample_evaluation:
  "evaluate_on (Some (sql_Store sample_sql)) sample_env (evaluator_New sample_policy) sample_request empty_db =
     (Evaluate sample_env (WithQuarantines (WithRevocations (evaluator_New sample_policy)
        (Some (\<lambda>_ _. Inr False))) (Some (\<lambda>_ _. Inr False))) sample_request, empty_db)"
  by (simp add: evaluate_on_def sql_Store_def Let_def sql_IsRevoked_def sql_IsQuarantined_def empty_db_def
      empty_tables_def)

lemma sample_server_fields [simp]:
  "sv_store (sample_server p) = Some (sql_Store sample_sql)" "sv_state (sample_server p) = empty_db"
  "sv_evaluator (sample_server p) = evaluator_New sample_policy"
  "sa_evaluation sample_server_api b = Inr sample_request" "sa_revocation sample_server_api b = Inr sample_revocation"
  "sa_promotion sample_server_api b = Inr sample_promotion"
  "sx_eval sample_senv = sample_env" "sx_call sample_senv = sample_ce"
  by (simp_all add: sample_server_def api_New_def sample_server_api_def sample_senv_def)

lemma sample_save:
  assumes "db_faults db = []"
  obtains db' where "st_SaveDecision (sql_Store sample_sql) d db = (None, db')"
  using assms
  by (cases "insert_decision (decision_columns sample_sql d ''{}'') (db_tables db)")
    (simp_all add: sql_Store_def sql_SaveDecision_def sample_sql_def one_codec_def)

lemma sample_evaluate_200:
  "reply_status (fst (Handler sample_server_api sample_senv (plain_request ''POST'' ''/api/v1/evaluate'')
     (sample_server False))) = Some 200"
proof -
  have "authorised sample_server_api sample_senv RoleEvaluator (plain_request ''POST'' ''/api/v1/evaluate'')
      (sample_server False)" by (simp add: sample_authorised)
  note H = Handler_evaluate [OF sample_matches(1) this]
  obtain db where "st_SaveDecision (sql_Store sample_sql)
      (Evaluate sample_env (WithQuarantines (WithRevocations (evaluator_New sample_policy)
        (Some (\<lambda>_ _. Inr False))) (Some (\<lambda>_ _. Inr False))) sample_request) empty_db = (None, db)"
    by (rule sample_save [of empty_db]) (simp add: empty_db_def)
  then show ?thesis by (simp add: H evaluate_def Let_def sample_evaluation)
qed

theorem evaluate_200_witness:
  "\<exists>d. reply_body (fst (Handler sample_server_api sample_senv (plain_request ''POST'' ''/api/v1/evaluate'')
     (sample_server False))) = Some (DecisionBody d)"
  using evaluate_200 [OF sample_matches(1) sample_evaluate_200] by blast

theorem metrics_exact_witness:
  "unat (sv_total (snd (serve sample_server_api
       [(sample_senv, plain_request ''POST'' ''/api/v1/evaluate'')] (sample_server False)))) = 1"
proof -
  let ?rs = "[(sample_senv, plain_request ''POST'' ''/api/v1/evaluate'')]"
  have "length (served_decisions sample_server_api ?rs (sample_server False)) = 1"
    by (simp add: served_decision_def sample_authorised evaluation_of_def)
  then show ?thesis
    using metrics_exact [of sample_server_api ?rs "evaluator_New sample_policy" "Some (sql_Store sample_sql)"
        "''t''" False empty_db]
    unfolding sample_server_def by simp
qed

end
