(* ===== verification/Sql_Sessions.thy ===== *)
theory Sql_Sessions
  imports Sql_Store
begin

text \<open>
  \<open>Promote\<close> of the SQL store (\<open>internal/store/postgres.go\<close>) statement by statement, any number
  of promotions in flight at the same time. Each promotion is a task whose steps are its
  statements: the decision, the two lookups, the \<open>INSERT\<close>. Between them run the other calls
  of the store, each of which is one statement, and whole restores. Every statement can fail.
\<close>

section \<open>Promotions as tasks\<close>

datatype promotion_task =
    PromoteStart call_env Promotion
  | PromoteDecided call_env Promotion
  | PromoteUnrevoked call_env Promotion
  | PromoteUnquarantined call_env Promotion
  | PromoteDone call_env Promotion "go_error option"

definition proceed ::
    "(go_error option \<Rightarrow> promotion_task) \<Rightarrow> promotion_task \<Rightarrow> go_error option \<times> sql_db \<Rightarrow> promotion_task \<times> sql_db" where
  "proceed refuse t rs = (case rs of (Some err, db) \<Rightarrow> (refuse (Some err), db) | (None, db) \<Rightarrow> (t, db))"

fun promote_step :: "sql_api \<Rightarrow> promotion_task \<Rightarrow> sql_db \<Rightarrow> (promotion_task \<times> sql_db) option" where
  "promote_step api (PromoteStart ce p) db =
     Some (proceed (PromoteDone ce p) (PromoteDecided ce p) (sql_promote_decision api ce p db))"
| "promote_step api (PromoteDecided ce p) db =
     Some (proceed (PromoteDone ce p) (PromoteUnrevoked ce p) (sql_promote_revoked p db))"
| "promote_step api (PromoteUnrevoked ce p) db =
     Some (proceed (PromoteDone ce p) (PromoteUnquarantined ce p) (sql_promote_quarantined p db))"
| "promote_step api (PromoteUnquarantined ce p) db =
     Some (proceed (PromoteDone ce p) (PromoteDone ce p None) (sql_promote_insert api ce p db))"
| "promote_step api (PromoteDone ce p r) db = None"

text \<open>The steps of one promotion with nothing in between are the call.\<close>

fun promote_alone :: "nat \<Rightarrow> sql_api \<Rightarrow> promotion_task \<Rightarrow> sql_db \<Rightarrow> promotion_task \<times> sql_db" where
  "promote_alone 0 api t db = (t, db)"
| "promote_alone (Suc n) api t db =
     (case promote_step api t db of None \<Rightarrow> (t, db) | Some (t', db') \<Rightarrow> promote_alone n api t' db')"

lemma promote_alone_is_Promote:
  "promote_alone 4 api (PromoteStart ce p) db =
     (PromoteDone ce p (fst (sql_Promote api ce p db)), snd (sql_Promote api ce p db))"
  by (simp add: numeral_eq_Suc proceed_def sql_Promote_def split: prod.splits option.splits)

section \<open>The system\<close>

text \<open>No statement of the promotion has run, or none is left.\<close>

fun at_rest :: "promotion_task \<Rightarrow> bool" where
  "at_rest (PromoteStart ce p) = True"
| "at_rest (PromoteDone ce p r) = True"
| "at_rest _ = False"

text \<open>A promotion row and the decision row that justifies it.\<close>

definition row_justifies :: "sql_api \<Rightarrow> decision_row \<Rightarrow> Promotion \<Rightarrow> bool" where
  "row_justifies api row p \<longleftrightarrow>
     dr_decision_id row = pm_DecisionID p \<and>
     (\<exists>d. c_Unmarshal (sq_decision api) (dr_data row) = Inr d \<and> d_Decision d = Allow
        \<and> as_Digest (d_Subject d) = pm_Digest p \<and> d_Environment d = pm_Environment p)"

definition has_decision :: "sql_api \<Rightarrow> tables \<Rightarrow> Promotion \<Rightarrow> bool" where
  "has_decision api t p \<longleftrightarrow> (\<exists>row \<in> set (tb_decisions t). row_justifies api row p)"

definition sql_justified :: "sql_api \<Rightarrow> tables \<Rightarrow> bool" where
  "sql_justified api t \<longleftrightarrow> (\<forall>p \<in> set (tb_promotions t). has_decision api t p)"

text \<open>
  A promotion arrives; one of the promotions takes a step; another call runs; a document
  whose promotions are justified is restored while no promotion is between its statements.
\<close>

inductive session_step ::
    "sql_api \<Rightarrow> promotion_task list \<times> sql_db \<Rightarrow> promotion_task list \<times> sql_db \<Rightarrow> bool" for api where
  arrival: "session_step api (ts, db) (ts @ [PromoteStart ce p], db)"
| progress: "i < length ts \<Longrightarrow> promote_step api (ts ! i) db = Some (t', db') \<Longrightarrow>
     session_step api (ts, db) (ts[i := t'], db')"
| other_call: "session_step api (ts, db) (ts, snd (sql_exec api ce op db))"
| restoring: "list_all at_rest ts \<Longrightarrow> sql_Restore api data db = (r, db') \<Longrightarrow>
     \<forall>b. c_Unmarshal (sq_backup api) data = Inr b \<longrightarrow> sql_justified api (backup_tables api b) \<Longrightarrow>
     session_step api (ts, db) (ts, db')"

inductive session_run ::
    "sql_api \<Rightarrow> promotion_task list \<times> sql_db \<Rightarrow> promotion_task list \<times> sql_db \<Rightarrow> bool" for api c where
  start: "session_run api c c"
| more: "session_run api c c' \<Longrightarrow> session_step api c' c'' \<Longrightarrow> session_run api c c''"

inductive_cases session_stepE: "session_step api c c'"

section \<open>The invariant\<close>

text \<open>Every promotion past its first check has its decision in the tables.\<close>

fun task_justified :: "sql_api \<Rightarrow> tables \<Rightarrow> promotion_task \<Rightarrow> bool" where
  "task_justified api t (PromoteDecided ce p) = has_decision api t p"
| "task_justified api t (PromoteUnrevoked ce p) = has_decision api t p"
| "task_justified api t (PromoteUnquarantined ce p) = has_decision api t p"
| "task_justified api t _ = True"

definition sessions_ok :: "sql_api \<Rightarrow> promotion_task list \<times> sql_db \<Rightarrow> bool" where
  "sessions_ok api c \<longleftrightarrow>
     sql_justified api (db_tables (snd c)) \<and> list_all (task_justified api (db_tables (snd c))) (fst c)"

lemma at_rest_justified: "at_rest t \<Longrightarrow> task_justified api tb t"
  by (cases t) simp_all

text \<open>Tables that keep the decisions and add justified promotions only.\<close>

definition tables_grow :: "sql_api \<Rightarrow> tables \<Rightarrow> tables \<Rightarrow> bool" where
  "tables_grow api t t' \<longleftrightarrow>
     set (tb_decisions t) \<subseteq> set (tb_decisions t')
     \<and> (\<forall>p \<in> set (tb_promotions t'). p \<in> set (tb_promotions t) \<or> has_decision api t p)"

lemma tables_grow_refl [simp]: "tables_grow api t t"
  by (simp add: tables_grow_def)

lemma has_decision_mono: "tables_grow api t t' \<Longrightarrow> has_decision api t p \<Longrightarrow> has_decision api t' p"
  by (auto simp: tables_grow_def has_decision_def)

lemma task_justified_mono: "tables_grow api t t' \<Longrightarrow> task_justified api t x \<Longrightarrow> task_justified api t' x"
  by (cases x) (auto dest: has_decision_mono)

lemma sql_justified_mono: "tables_grow api t t' \<Longrightarrow> sql_justified api t \<Longrightarrow> sql_justified api t'"
  unfolding sql_justified_def
proof
  fix p assume g: "tables_grow api t t'" and j: "\<forall>p \<in> set (tb_promotions t). has_decision api t p"
    and p: "p \<in> set (tb_promotions t')"
  then have "has_decision api t p" by (auto simp: tables_grow_def)
  with g show "has_decision api t' p" by (rule has_decision_mono)
qed

lemma sessions_ok_grow:
  assumes "tables_grow api (db_tables db) (db_tables db')" "sessions_ok api (ts, db)"
  shows "sessions_ok api (ts, db')"
proof -
  have "list_all (task_justified api (db_tables db)) ts" using assms(2) by (simp add: sessions_ok_def)
  then have "list_all (task_justified api (db_tables db')) ts"
    by (rule list.pred_mono_strong) (rule task_justified_mono [OF assms(1)])
  then show ?thesis using sql_justified_mono [OF assms(1)] assms(2) by (simp add: sessions_ok_def)
qed

text \<open>The statements of a promotion.\<close>

lemma decision_statement:
  assumes "sql_promote_decision api ce p db = (r, db1)"
  shows "db_tables db1 = db_tables db" "r = None \<Longrightarrow> has_decision api (db_tables db) p"
proof -
  obtain x db0 where q: "query (\<lambda>t. find (\<lambda>row. dr_decision_id row = pm_DecisionID p) (tb_decisions t)) db = (x, db0)"
    by fastforce
  have db0: "db_tables db0 = db_tables db" using query_tables [of _ db] q by (metis snd_conv)
  then show "db_tables db1 = db_tables db"
    using assms q by (auto simp: sql_promote_decision_def split: if_splits sum.splits option.splits)
  assume "r = None"
  then obtain row d where "x = Inr (Some row)" "c_Unmarshal (sq_decision api) (dr_data row) = Inr d"
      "promotion_decision_error (ce_now ce) p d = None"
    using assms q by (auto simp: sql_promote_decision_def split: if_splits sum.splits option.splits)
  moreover from this(1) have "find (\<lambda>row. dr_decision_id row = pm_DecisionID p) (tb_decisions (db_tables db)) = Some row"
    using query_eq [of _ db "Some row" db0] q by metis
  ultimately show "has_decision api (db_tables db) p"
    by (auto simp: has_decision_def row_justifies_def promotion_decision_error_None find_Some_iff)
qed

lemma lookup_statements:
  "db_tables (snd (sql_promote_revoked p db)) = db_tables db"
  "db_tables (snd (sql_promote_quarantined p db)) = db_tables db"
  by (auto simp: sql_promote_revoked_def sql_promote_quarantined_def sql_IsRevoked_def sql_IsQuarantined_def
      split: prod.splits sum.splits) (metis query_tables snd_conv)+

lemma insert_statement:
  assumes "has_decision api (db_tables db) p"
  shows "tables_grow api (db_tables db) (db_tables (snd (sql_promote_insert api ce p db)))"
proof -
  obtain r db1 where i: "exec_statement (insert_promotion (promotion_columns api (stamp_promotion ce p))) db = (r, db1)"
    by fastforce
  have "row_justifies api row (promotion_columns api (stamp_promotion ce p)) = row_justifies api row p" for row
    by (simp add: row_justifies_def)
  with assms have "has_decision api (db_tables db) (promotion_columns api (stamp_promotion ce p))"
    by (simp add: has_decision_def)
  then have "tables_grow api (db_tables db) (db_tables db1)"
    by (intro exec_statement_rel [OF i, where R = "tables_grow api"])
      (auto simp: insert_promotion_def tables_grow_def split: if_splits)
  then show ?thesis by (simp add: sql_promote_insert_def i)
qed

lemma other_statements:
  "tables_grow api (db_tables db) (db_tables (snd (sql_SaveDecision api d db)))"
  "tables_grow api (db_tables db) (db_tables (snd (sql_Revoke api ce r db)))"
  "tables_grow api (db_tables db) (db_tables (snd (sql_Quarantine api ce q db)))"
  "tables_grow api (db_tables db) (db_tables (snd (sql_Unquarantine x db)))"
proof -
  have g: "tables_grow api (db_tables db) (db_tables (snd (exec_statement f db)))"
    if "\<And>t t'. f t = Inr t' \<Longrightarrow> tables_grow api t t'" for f
    using exec_statement_rel [of f db _ _ "tables_grow api", OF prod.collapse [symmetric] tables_grow_refl that]
    by blast
  show "tables_grow api (db_tables db) (db_tables (snd (sql_SaveDecision api d db)))"
    "tables_grow api (db_tables db) (db_tables (snd (sql_Revoke api ce r db)))"
    "tables_grow api (db_tables db) (db_tables (snd (sql_Quarantine api ce q db)))"
    "tables_grow api (db_tables db) (db_tables (snd (sql_Unquarantine x db)))"
    unfolding sql_Revoke_def sql_Quarantine_def sql_Unquarantine_def
    by (auto simp: sql_SaveDecision_def split: sum.split intro!: g)
      (auto simp: insert_decision_def insert_revocation_def insert_quarantine_def tables_grow_def
        split: sum.splits if_splits)
qed

lemma whole_promotion: "tables_grow api (db_tables db) (db_tables (snd (sql_Promote api ce p db)))"
proof -
  obtain r1 db1 where 1: "sql_promote_decision api ce p db = (r1, db1)" by fastforce
  obtain r2 db2 where 2: "sql_promote_revoked p db1 = (r2, db2)" by fastforce
  obtain r3 db3 where 3: "sql_promote_quarantined p db2 = (r3, db3)" by fastforce
  have t: "db_tables db1 = db_tables db" "db_tables db2 = db_tables db" "db_tables db3 = db_tables db"
    using decision_statement(1) [OF 1] lookup_statements(1) [of p db1] lookup_statements(2) [of p db2] 2 3 by simp_all
  have "r1 = None \<Longrightarrow> tables_grow api (db_tables db) (db_tables (snd (sql_promote_insert api ce p db3)))"
    using decision_statement(2) [OF 1] insert_statement [of api db3 p ce] t by simp
  then show ?thesis using t by (simp add: sql_Promote_def 1 2 3 split: option.splits)
qed

lemma promote_step_ok:
  assumes "promote_step api t db = Some (t', db')" "task_justified api (db_tables db) t"
  shows "tables_grow api (db_tables db) (db_tables db') \<and> task_justified api (db_tables db') t'"
proof (cases t)
  case (PromoteStart ce p)
  obtain r db1 where d: "sql_promote_decision api ce p db = (r, db1)" by fastforce
  show ?thesis using assms(1) PromoteStart d decision_statement [OF d]
    by (cases r) (auto simp: proceed_def)
next
  case (PromoteDecided ce p)
  then show ?thesis using assms lookup_statements(1) [of p db]
    by (auto simp: proceed_def split: prod.splits option.splits)
next
  case (PromoteUnrevoked ce p)
  then show ?thesis using assms lookup_statements(2) [of p db]
    by (auto simp: proceed_def split: prod.splits option.splits)
next
  case (PromoteUnquarantined ce p)
  then show ?thesis using assms insert_statement [of api db p ce]
    by (auto simp: proceed_def split: prod.splits option.splits)
qed (use assms in simp)

lemma session_step_ok:
  assumes "session_step api c c'" "sessions_ok api c"
  shows "sessions_ok api c'"
  using assms(1)
proof (rule session_stepE)
  fix ts db ce p
  assume "c = (ts, db)" "c' = (ts @ [PromoteStart ce p], db)"
  then show ?thesis using assms(2) by (simp add: sessions_ok_def)
next
  fix i ts db t' db'
  assume c: "c = (ts, db)" "c' = (ts[i := t'], db')" and i: "i < length ts"
    and s: "promote_step api (ts ! i) db = Some (t', db')"
  have "task_justified api (db_tables db) (ts ! i)"
    using assms(2) i by (simp add: sessions_ok_def c list_all_length)
  note S = promote_step_ok [OF s this]
  have "sessions_ok api (ts, db')" using sessions_ok_grow [of api db db' ts] S assms(2) by (simp add: c)
  then show ?thesis using S i by (simp add: sessions_ok_def c list_all_length nth_list_update)
next
  fix ts db ce op
  assume c: "c = (ts, db)" "c' = (ts, snd (sql_exec api ce op db))"
  have "tables_grow api (db_tables db) (db_tables (snd (sql_exec api ce op db)))"
    using other_statements whole_promotion by (cases op) (simp_all add: sql_exec_def)
  then show ?thesis using sessions_ok_grow [of api db] assms(2) by (simp add: c)
next
  fix ts data db r db'
  assume c: "c = (ts, db)" "c' = (ts, db')" and rest: "list_all at_rest ts"
    and R: "sql_Restore api data db = (r, db')"
    and ok: "\<forall>b. c_Unmarshal (sq_backup api) data = Inr b \<longrightarrow> sql_justified api (backup_tables api b)"
  have "sql_justified api (db_tables db')"
    using sql_Restore_cases [OF R] ok assms(2) by (auto simp: sessions_ok_def c)
  then show ?thesis using rest at_rest_justified by (simp add: sessions_ok_def c list_all_iff)
qed

lemma session_run_ok: "session_run api c c' \<Longrightarrow> sessions_ok api c \<Longrightarrow> sessions_ok api c'"
  by (induction rule: session_run.induct) (auto intro: session_step_ok)

section \<open>Properties\<close>

text \<open>
  C16. The SQL store keeps the same promise as the file store, with any number of promotions
  in flight, their statements interleaved with each other and with all other calls in any order,
  and whatever statements fail or lose their answer: from tables in which every promotion
  row has the row of an ALLOW decision for the same digest and environment, only such tables
  are reached. Restores belong to the run under two conditions: the document describes such
  tables, and no promotion is between its statements.
\<close>

theorem sql_promotions_justified:
  assumes "sql_justified api (db_tables db)" "session_run api ([], db) (ts, db')"
  shows "sql_justified api (db_tables db')"
  using session_run_ok [OF assms(2)] assms(1) by (simp add: sessions_ok_def)

text \<open>
  C18. The second condition is needed. \<open>Promote\<close> is not a transaction: a restore between its first
  statement and its last can take the decision away, and the promotion is recorded
  without it, although it was checked against the store and the document was justified.
\<close>

theorem sql_Restore_race:
  assumes "sql_view api db g" "promotion_error g (ce_now ce) p = None"
    "c_Unmarshal (sq_backup api) data = Inr b" "bk_Decisions b = []" "bk_Promotions b = []" "distinct_ids b"
  shows "sql_justified api (backup_tables api b)
    \<and> (\<exists>db1. promote_alone 3 api (PromoteStart ce p) db = (PromoteUnquarantined ce p, db1)
         \<and> (\<exists>db2. sql_Restore api data db1 = (None, db2)
              \<and> (\<exists>db3. promote_step api (PromoteUnquarantined ce p) db2 = Some (PromoteDone ce p None, db3)
                   \<and> \<not> sql_justified api (db_tables db3))))"
proof -
  have f: "db_faults db = []" using assms(1) by (simp add: sql_view_def)
  have id: "pm_DecisionID p \<noteq> []" and nb: "\<not> blocked g (pm_Digest p) (pm_Environment p)"
    and d: "\<exists>d. find (\<lambda>d. d_DecisionID d = pm_DecisionID p) (lg_decisions g) = Some d
      \<and> promotion_decision_error (ce_now ce) p d = None"
    using assms(2) by (auto simp: promotion_error_None promotion_decision_error_None justifies_def)
  have s: "sql_promote_decision api ce p db = (None, db)"
    using d by (auto simp: sql_promote_decision_view [OF assms(1) id])
  have "sql_promote_revoked p db = (None, db)" "sql_promote_quarantined p db = (None, db)"
    using nb by (auto simp: sql_promote_revoked_def sql_promote_quarantined_def sql_lookups_view [OF assms(1)] blocked_def)
  with s have alone: "promote_alone 3 api (PromoteStart ce p) db = (PromoteUnquarantined ce p, db)"
    by (simp add: numeral_eq_Suc proceed_def)
  let ?t = "backup_tables api b" let ?row = "promotion_columns api (stamp_promotion ce p)"
  have t: "tb_decisions ?t = []" "tb_promotions ?t = []" using assms(4,5) by (simp_all add: backup_tables_def)
  have R: "sql_Restore api data db = (None, db\<lparr>db_tables := ?t\<rparr>)"
    by (rule sql_Restore_no_faults(1) [OF f assms(3,6)])
  have "promote_step api (PromoteUnquarantined ce p) (db\<lparr>db_tables := ?t\<rparr>)
      = Some (PromoteDone ce p None, db\<lparr>db_tables := ?t\<lparr>tb_promotions := [?row]\<rparr>\<rparr>)"
    using f t by (simp add: proceed_def sql_promote_insert_def insert_promotion_def)
  with alone R t show ?thesis by (simp add: sql_justified_def has_decision_def)
qed

section \<open>Witnesses\<close>

text \<open>Two promotions of one decision, the second one's statements inside the first one's.\<close>

definition second_promotion :: Promotion where
  "second_promotion = sample_promotion\<lparr>pm_ID := ''promo-2''\<rparr>"

lemma promotion_task_steps:
  assumes "sql_view api db g" "promotion_error g (ce_now ce) p = None"
  shows "promote_step api (PromoteStart ce p) db = Some (PromoteDecided ce p, db)"
    "promote_step api (PromoteDecided ce p) db = Some (PromoteUnrevoked ce p, db)"
    "promote_step api (PromoteUnrevoked ce p) db = Some (PromoteUnquarantined ce p, db)"
    "\<forall>x \<in> set (lg_promotions g). pm_ID x \<noteq> pm_ID (stamp_promotion ce p) \<Longrightarrow>
       \<exists>db'. promote_step api (PromoteUnquarantined ce p) db = Some (PromoteDone ce p None, db')
         \<and> sql_view api db' (g\<lparr>lg_promotions := lg_promotions g @ [promotion_columns api (stamp_promotion ce p)]\<rparr>)"
proof -
  have f: "db_faults db = []" using assms(1) by (simp add: sql_view_def)
  have id: "pm_DecisionID p \<noteq> []" and nb: "\<not> blocked g (pm_Digest p) (pm_Environment p)"
    and d: "\<exists>d. find (\<lambda>d. d_DecisionID d = pm_DecisionID p) (lg_decisions g) = Some d
      \<and> promotion_decision_error (ce_now ce) p d = None"
    using assms(2) by (auto simp: promotion_error_None promotion_decision_error_None justifies_def)
  show "promote_step api (PromoteStart ce p) db = Some (PromoteDecided ce p, db)"
    using d by (auto simp: proceed_def sql_promote_decision_view [OF assms(1) id])
  show "promote_step api (PromoteDecided ce p) db = Some (PromoteUnrevoked ce p, db)"
    "promote_step api (PromoteUnrevoked ce p) db = Some (PromoteUnquarantined ce p, db)"
    using nb by (auto simp: proceed_def sql_promote_revoked_def sql_promote_quarantined_def
        sql_lookups_view [OF assms(1)] blocked_def)
  assume new: "\<forall>x \<in> set (lg_promotions g). pm_ID x \<noteq> pm_ID (stamp_promotion ce p)"
  then obtain db' where i: "sql_promote_insert api ce p db = (None, db')"
    using f assms(1) by (auto simp: sql_promote_insert_def insert_promotion_def sql_view_def promotion_columns_def)
  from sql_promote_insert_view [OF assms(1) this] i
  show "\<exists>db'. promote_step api (PromoteUnquarantined ce p) db = Some (PromoteDone ce p None, db')
      \<and> sql_view api db' (g\<lparr>lg_promotions := lg_promotions g @ [promotion_columns api (stamp_promotion ce p)]\<rparr>)"
    by (auto simp: proceed_def)
qed

theorem sql_promotions_justified_witness:
  "\<exists>db'. session_run sample_sql ([], empty_db)
       ([PromoteDone sample_ce sample_promotion None, PromoteUnquarantined sample_ce second_promotion], db')
     \<and> sql_justified sample_sql (db_tables db') \<and> tb_promotions (db_tables db') \<noteq> []"
proof -
  obtain db where db: "sql_SaveDecision sample_sql sample_decision empty_db = (None, db)"
      "sql_view sample_sql db sample_ledger"
    using sample_db_view by blast
  let ?p = sample_promotion and ?q = second_promotion and ?ce = sample_ce
  have q: "promotion_error sample_ledger (ce_now ?ce) ?q = None"
    using sample_promotion_ok by (simp add: second_promotion_def promotion_error_None justifies_def)
  note P = promotion_task_steps [OF db(2) sample_promotion_ok] and Q = promotion_task_steps [OF db(2) q]
  have "\<forall>x \<in> set (lg_promotions sample_ledger). pm_ID x \<noteq> pm_ID (stamp_promotion ?ce ?p)"
    by (simp add: sample_ledger_def empty_ledger_def)
  then obtain db' where i: "promote_step sample_sql (PromoteUnquarantined ?ce ?p) db = Some (PromoteDone ?ce ?p None, db')"
      and v: "sql_view sample_sql db' (sample_ledger\<lparr>lg_promotions := lg_promotions sample_ledger
          @ [promotion_columns sample_sql (stamp_promotion ?ce ?p)]\<rparr>)"
    using P(4) by blast
  have step: "session_run sample_sql ([], empty_db) (ts', y)"
    if "session_run sample_sql ([], empty_db) (ts, x)" "n < length ts" "promote_step sample_sql (ts ! n) x = Some (t, y)"
      "ts' = ts[n := t]" for n ts x t y ts'
    using session_run.more [OF that(1) session_step.progress [OF that(2,3)]] that(4) by simp
  have r1: "session_run sample_sql ([], empty_db) ([], db)"
    using session_run.more [OF session_run.start
        session_step.other_call [of sample_sql "[]" empty_db ?ce "SaveDecisionOp sample_decision"]]
    by (simp add: sql_exec_def db(1))
  have r2: "session_run sample_sql ([], empty_db) ([PromoteStart ?ce ?p], db)"
    using session_run.more [OF r1 session_step.arrival [of _ _ _ ?ce ?p]] by simp
  have r3: "session_run sample_sql ([], empty_db) ([PromoteDecided ?ce ?p], db)"
    by (rule step [OF r2, of 0 "PromoteDecided ?ce ?p"]) (simp_all add: P del: promote_step.simps)
  have r4: "session_run sample_sql ([], empty_db) ([PromoteDecided ?ce ?p, PromoteStart ?ce ?q], db)"
    using session_run.more [OF r3 session_step.arrival [of _ _ _ ?ce ?q]] by simp
  have r5: "session_run sample_sql ([], empty_db) ([PromoteDecided ?ce ?p, PromoteDecided ?ce ?q], db)"
    by (rule step [OF r4, of 1 "PromoteDecided ?ce ?q"]) (simp_all add: Q del: promote_step.simps)
  have r6: "session_run sample_sql ([], empty_db) ([PromoteUnrevoked ?ce ?p, PromoteDecided ?ce ?q], db)"
    by (rule step [OF r5, of 0 "PromoteUnrevoked ?ce ?p"]) (simp_all add: P del: promote_step.simps)
  have r7: "session_run sample_sql ([], empty_db) ([PromoteUnrevoked ?ce ?p, PromoteUnrevoked ?ce ?q], db)"
    by (rule step [OF r6, of 1 "PromoteUnrevoked ?ce ?q"]) (simp_all add: Q del: promote_step.simps)
  have r8: "session_run sample_sql ([], empty_db) ([PromoteUnquarantined ?ce ?p, PromoteUnrevoked ?ce ?q], db)"
    by (rule step [OF r7, of 0 "PromoteUnquarantined ?ce ?p"]) (simp_all add: P del: promote_step.simps)
  have r9: "session_run sample_sql ([], empty_db) ([PromoteUnquarantined ?ce ?p, PromoteUnquarantined ?ce ?q], db)"
    by (rule step [OF r8, of 1 "PromoteUnquarantined ?ce ?q"]) (simp_all add: Q del: promote_step.simps)
  have r: "session_run sample_sql ([], empty_db) ([PromoteDone ?ce ?p None, PromoteUnquarantined ?ce ?q], db')"
    by (rule step [OF r9, of 0 "PromoteDone ?ce ?p None"]) (simp_all add: i del: promote_step.simps)
  have "sql_justified sample_sql (db_tables empty_db)"
    by (simp add: sql_justified_def empty_db_def empty_tables_def)
  from sql_promotions_justified [OF this r] r v show ?thesis by (auto simp: sql_view_def)
qed

theorem sql_Restore_race_witness:
  "\<exists>db db1 db2 db3. sql_SaveDecision sample_sql sample_decision empty_db = (None, db)
     \<and> promote_alone 3 (sample_sql\<lparr>sq_backup := one_codec (backup_of sample_ce empty_ledger)\<rparr>)
         (PromoteStart sample_ce sample_promotion) db = (PromoteUnquarantined sample_ce sample_promotion, db1)
     \<and> sql_Restore (sample_sql\<lparr>sq_backup := one_codec (backup_of sample_ce empty_ledger)\<rparr>) ''{}'' db1 = (None, db2)
     \<and> promote_step (sample_sql\<lparr>sq_backup := one_codec (backup_of sample_ce empty_ledger)\<rparr>)
         (PromoteUnquarantined sample_ce sample_promotion) db2 = Some (PromoteDone sample_ce sample_promotion None, db3)
     \<and> \<not> sql_justified sample_sql (db_tables db3)"
proof -
  let ?sq = "sample_sql\<lparr>sq_backup := one_codec (backup_of sample_ce empty_ledger)\<rparr>"
  obtain db where db: "sql_SaveDecision sample_sql sample_decision empty_db = (None, db)"
      "sql_view sample_sql db sample_ledger"
    using sample_db_view by blast
  have v: "sql_view ?sq db sample_ledger" using db(2) by (simp add: sql_view_def row_holds_def [abs_def])
  have b: "c_Unmarshal (sq_backup ?sq) ''{}'' = Inr (backup_of sample_ce empty_ledger)" by (simp add: one_codec_def)
  have j: "sql_justified ?sq t = sql_justified sample_sql t" for t
    by (simp add: sql_justified_def has_decision_def row_justifies_def)
  have "bk_Decisions (backup_of sample_ce empty_ledger) = []" "bk_Promotions (backup_of sample_ce empty_ledger) = []"
    "distinct_ids (backup_of sample_ce empty_ledger)"
    by (simp_all add: backup_of_def empty_ledger_def distinct_ids_def)
  from sql_Restore_race [OF v sample_promotion_ok b this] db(1) show ?thesis by (auto simp: j)
qed

end
