(* ===== verification/Server_Runs.thy ===== *)
theory Server_Runs
  imports Server Sql_Sessions
begin

text \<open>
  The server over a store that keeps the contract of \<open>Store_Model\<close>: what every request may
  do to the ledger, proved once for any such store in the locale \<open>served_store\<close>, and its two
  instances, the file store and the SQL store. The last section has the requests in flight
  at the same time.
\<close>

section \<open>A served store\<close>

text \<open>The calls of the record \<open>Store\<close> are the operations of a contract, and reading is harmless.\<close>

locale served_store = store_contract exec view fits
  for exec :: "call_env \<Rightarrow> store_op \<Rightarrow> 's \<Rightarrow> go_error option \<times> 's"
    and view :: "'s \<Rightarrow> ledger \<Rightarrow> bool"
    and fits :: "call_env \<Rightarrow> store_op \<Rightarrow> bool" +
  fixes st :: "'s Store"
  assumes save: "st_SaveDecision st d s = exec ce (SaveDecisionOp d) s"
    and promote_call: "st_Promote st ce p s = exec ce (PromoteOp p) s"
    and revoke_call: "st_Revoke st ce r s = exec ce (RevokeOp r) s"
    and quarantine_call: "st_Quarantine st ce q s = exec ce (QuarantineOp q) s"
    and unquarantine_call: "st_Unquarantine st x s = exec ce (UnquarantineOp x) s"
    and reads: "view s g \<Longrightarrow> view (snd (st_Ping st s)) g" "view s g \<Longrightarrow> view (snd (st_GetDecisions st s)) g"
      "view s g \<Longrightarrow> view (snd (st_GetPromotions st env s)) g"
      "view s g \<Longrightarrow> view (snd (st_GetRevocations st env s)) g"
      "view s g \<Longrightarrow> view (snd (st_GetQuarantines st env s)) g"
      "view s g \<Longrightarrow> view (snd (st_IsRevoked st dg env s)) g"
      "view s g \<Longrightarrow> view (snd (st_IsQuarantined st dg env s)) g"

text \<open>The state-changing call a request asks for, if its caller may and its body decodes.\<close>

definition issued_ops :: "server_api \<Rightarrow> server_env \<Rightarrow> http_request \<Rightarrow> 's Server \<Rightarrow> store_op list" where
  "issued_ops api env r s =
     (let b = MaxBytesReader max_body (hr_Body r) in
      case mux_match r of
        Some EvaluateE \<Rightarrow>
          (case sa_evaluation api b of
             Inl _ \<Rightarrow> []
           | Inr req \<Rightarrow>
               [SaveDecisionOp (fst (evaluate_on (sv_store s) (sx_eval env) (sv_evaluator s) req (sv_state s)))])
      | Some PromoteE \<Rightarrow> (case sa_promotion api b of Inl _ \<Rightarrow> [] | Inr p \<Rightarrow> [PromoteOp p])
      | Some RevokeE \<Rightarrow> (case sa_revocation api b of Inl _ \<Rightarrow> [] | Inr x \<Rightarrow> [RevokeOp x])
      | Some QuarantineE \<Rightarrow> (case sa_quarantine api b of Inl _ \<Rightarrow> [] | Inr q \<Rightarrow> [QuarantineOp q])
      | Some UnquarantineE \<Rightarrow> [UnquarantineOp (hr_id r)]
      | _ \<Rightarrow> [])"

text \<open>Every record a run of requests writes survives its encoding.\<close>

fun run_fits ::
    "(call_env \<Rightarrow> store_op \<Rightarrow> bool) \<Rightarrow> server_api \<Rightarrow> (server_env \<times> http_request) list \<Rightarrow> 's Server \<Rightarrow> bool" where
  "run_fits fits api [] s = True"
| "run_fits fits api ((env, r) # rs) s =
     (list_all (fits (sx_call env)) (issued_ops api env r s)
      \<and> run_fits fits api rs (snd (Handler api env r s)))"

text \<open>The store after a handler, by the call it made.\<close>

lemma store_write_state:
  "sv_store s = Some st \<Longrightarrow> sv_state (snd (store_write env code status v call s)) = snd (call st (sv_state s))"
  by (simp add: store_write_def split: prod.splits option.splits)

lemma store_read_state:
  "sv_store s = Some st \<Longrightarrow> sv_state (snd (store_read env code v call s)) = snd (call st (sv_state s))"
  by (simp add: store_read_def split: prod.splits sum.splits)

lemma readyz_state: "sv_store s = Some st \<Longrightarrow> sv_state (snd (readyz s)) = snd (st_Ping st (sv_state s))"
  by (simp add: readyz_def split: prod.splits option.splits)

lemma evaluate_state:
  assumes "sv_store s = Some st" "sa_evaluation api (MaxBytesReader max_body (hr_Body r)) = Inr req"
    "evaluate_on (Some st) (sx_eval env) (sv_evaluator s) req (sv_state s) = (d, s1)"
  shows "sv_state (snd (evaluate api env r s)) = snd (st_SaveDecision st d s1)"
  using assms by (simp add: evaluate_def Let_def split: prod.splits option.splits)

context served_store
begin

lemma evaluate_on_view:
  "view s g \<Longrightarrow> view (snd (evaluate_on (Some st) ee e req s)) g"
  using reads(6,7) by (simp add: evaluate_on_def Let_def split_def)

text \<open>What one call of a handler leaves: the ledger, or one step of it.\<close>

definition moved :: "call_env \<Rightarrow> store_op list \<Rightarrow> ledger \<Rightarrow> 's \<Rightarrow> bool" where
  "moved ce ops g s \<longleftrightarrow>
     (\<exists>g'. view s g' \<and> (g' = g \<or> (\<exists>op res. op \<in> set ops \<and> ledger_step ce op g res g')))"

lemma moved_same: "view s g \<Longrightarrow> moved ce ops g s"
  by (auto simp: moved_def)

lemma moved_exec:
  assumes "view s g" "fits ce op" "op \<in> set ops"
  shows "moved ce ops g (snd (exec ce op s))"
  using step [OF assms(1,2)] assms(3) unfolding moved_def by (metis prod.collapse)

lemma handler_moved:
  assumes "sv_store s = Some st" "view (sv_state s) g" "mux_match r = Some e"
    "list_all (fits (sx_call env)) (issued_ops api env r s)"
  shows "moved (sx_call env) (issued_ops api env r s) g (sv_state (snd (handler_of api env e r s)))"
proof (cases e)
  case EvaluateE
  show ?thesis
  proof (cases "sa_evaluation api (MaxBytesReader max_body (hr_Body r))")
    case (Inr req)
    obtain d s1 where d: "evaluate_on (Some st) (sx_eval env) (sv_evaluator s) req (sv_state s) = (d, s1)"
      by fastforce
    have "view s1 g" using evaluate_on_view [OF assms(2), of "sx_eval env" "sv_evaluator s" req] d by simp
    with EvaluateE assms Inr d show ?thesis
      by (simp add: evaluate_state save [where ce = "sx_call env"] issued_ops_def moved_exec)
  qed (use EvaluateE assms in \<open>simp add: evaluate_def moved_same\<close>)
next
  case PromoteE
  with assms show ?thesis
    by (auto simp: promote_def issued_ops_def store_write_state promote_call moved_same moved_exec split: sum.splits)
next
  case RevokeE
  with assms show ?thesis
    by (auto simp: revoke_def issued_ops_def store_write_state revoke_call moved_same moved_exec split: sum.splits)
next
  case QuarantineE
  with assms show ?thesis
    by (auto simp: quarantine_def issued_ops_def store_write_state quarantine_call moved_same moved_exec split: sum.splits)
next
  case UnquarantineE
  with assms show ?thesis
    by (auto simp: unquarantine_def issued_ops_def store_write_state
        unquarantine_call [where ce = "sx_call env"] moved_same moved_exec)
qed (use assms in \<open>simp_all add: healthz_def metrics_def getPromotions_def getRevocations_def
      getQuarantines_def getDecisions_def store_read_state readyz_state reads moved_same\<close>)

lemma Handler_moved:
  assumes "sv_store s = Some st" "view (sv_state s) g"
    "list_all (fits (sx_call env)) (issued_ops api env r s)"
  shows "moved (sx_call env) (issued_ops api env r s) g (sv_state (snd (Handler api env r s)))"
proof (cases "mux_match r")
  case None
  then show ?thesis using assms by (simp add: Handler_unmatched moved_same)
next
  case (Some e)
  then show ?thesis
    using serve_endpoint_cases [of api env e r s] handler_moved [OF assms(1,2) Some assms(3)] assms(2)
    by (auto simp: Handler_matched moved_same)
qed

text \<open>Requests keep the promotions justified and never lose a revocation.\<close>

lemma serve_justified:
  assumes "sv_store s = Some st" "view (sv_state s) g" "justified g" "run_fits fits api rs s"
  shows "\<exists>g'. view (sv_state (snd (serve api rs s))) g' \<and> justified g'
           \<and> set (lg_revocations g) \<subseteq> set (lg_revocations g')
           \<and> set (lg_promotions g) \<subseteq> set (lg_promotions g')"
  using assms
proof (induction rs arbitrary: s g)
  case Nil
  then show ?case by auto
next
  case (Cons er rs)
  obtain env r where [simp]: "er = (env, r)" by (cases er)
  let ?s = "snd (Handler api env r s)"
  have "moved (sx_call env) (issued_ops api env r s) g (sv_state ?s)"
    using Handler_moved [OF Cons.prems(1,2)] Cons.prems(4) by simp
  then obtain g1 where g1: "view (sv_state ?s) g1" "justified g1"
      "set (lg_revocations g) \<subseteq> set (lg_revocations g1)" "set (lg_promotions g) \<subseteq> set (lg_promotions g1)"
    unfolding moved_def using ledger_step_justified [OF _ Cons.prems(3)] ledger_step_revocations(1,3) Cons.prems(3)
    by (metis subset_refl)
  have "sv_store ?s = Some st" using Handler_setup [of s api env r] Cons.prems(1) by (simp add: same_setup_def)
  from Cons.IH [OF this g1(1,2)] Cons.prems(4) obtain g' where
    "view (sv_state (snd (serve api rs ?s))) g'" "justified g'"
    "set (lg_revocations g1) \<subseteq> set (lg_revocations g')" "set (lg_promotions g1) \<subseteq> set (lg_promotions g')"
    by auto
  with g1(3,4) show ?case by (simp only: \<open>er = (env, r)\<close> serve_Cons) blast
qed

end

section \<open>The file store and the SQL store, served\<close>




lemma sql_reads_view:
  assumes "sql_view api db g"
  shows "snd (sql_Ping db) = db" "snd (sql_GetDecisions api db) = db" "snd (sql_GetPromotions env db) = db"
    "snd (sql_GetRevocations env db) = db" "snd (sql_GetQuarantines env db) = db"
    "snd (sql_IsRevoked dg env db) = db" "snd (sql_IsQuarantined dg env db) = db"
  using assms
  by (simp_all add: sql_view_def sql_Ping_def sql_GetDecisions_def sql_GetPromotions_def sql_GetRevocations_def
      sql_GetQuarantines_def sql_IsRevoked_def sql_IsQuarantined_def)

interpretation served_sql: served_store "sql_exec api" "sql_view api" "sql_fits api" "sql_Store api" for api
  by unfold_locales (auto simp: sql_Store_def sql_exec_def sql_reads_view)


section \<open>Revocations on the SQL store\<close>

text \<open>A revocation row that withdraws the digest in the environment.\<close>

definition sql_withdrawn :: "string \<Rightarrow> string \<Rightarrow> sql_db \<Rightarrow> bool" where
  "sql_withdrawn dg env db \<longleftrightarrow> (\<exists>r \<in> set (tb_revocations (db_tables db)). revokes dg env r)"

text \<open>No call but a restore removes a revocation row, whatever statement fails.\<close>

definition sql_keeps :: "sql_db \<Rightarrow> sql_db \<Rightarrow> bool" where
  "sql_keeps db db' \<longleftrightarrow> set (tb_revocations (db_tables db)) \<subseteq> set (tb_revocations (db_tables db'))"

lemma sql_keeps_withdrawn: "sql_withdrawn dg env db \<Longrightarrow> sql_keeps db db' \<Longrightarrow> sql_withdrawn dg env db'"
  by (auto simp: sql_withdrawn_def sql_keeps_def)

lemma sql_keeps_refl [simp]: "db_tables db' = db_tables db \<Longrightarrow> sql_keeps db db'"
  by (simp add: sql_keeps_def)

lemma sql_keeps_trans: "sql_keeps a b \<Longrightarrow> sql_keeps b c \<Longrightarrow> sql_keeps a c"
  by (auto simp: sql_keeps_def)

lemma sql_lookup_tables [simp]:
  "db_tables (snd (sql_IsRevoked dg env db)) = db_tables db"
  "db_tables (snd (sql_IsQuarantined dg env db)) = db_tables db"
  by (auto simp: sql_IsRevoked_def sql_IsQuarantined_def split: prod.splits sum.splits)
    (metis query_tables snd_conv)+

lemma sql_read_tables [simp]:
  "db_tables (snd (sql_Ping db)) = db_tables db" "db_tables (snd (sql_GetDecisions api db)) = db_tables db"
  "db_tables (snd (sql_GetPromotions env db)) = db_tables db"
  "db_tables (snd (sql_GetRevocations env db)) = db_tables db"
  "db_tables (snd (sql_GetQuarantines env db)) = db_tables db"
proof -
  show "db_tables (snd (sql_GetDecisions api db)) = db_tables db"
    by (auto simp: sql_GetDecisions_def split: prod.splits sum.splits) (metis query_tables snd_conv)+
qed (simp_all add: sql_Ping_def sql_GetPromotions_def sql_GetRevocations_def sql_GetQuarantines_def)

text \<open>A lookup of a withdrawn digest says so or fails: it never says no.\<close>

lemma sql_IsRevoked_withdrawn: "sql_withdrawn dg env db \<Longrightarrow> fst (sql_IsRevoked dg env db) \<noteq> Inr False"
  by (auto simp: sql_IsRevoked_def sql_withdrawn_def filter_empty_conv dest!: query_eq split: prod.splits sum.splits)

lemma exec_keeps:
  assumes "\<And>t'. f (db_tables db) = Inr t' \<Longrightarrow> set (tb_revocations (db_tables db)) \<subseteq> set (tb_revocations t')"
  shows "sql_keeps db (snd (exec_statement f db))"
  using exec_statement_rel [of f db _ _ "\<lambda>t t'. set (tb_revocations t) \<subseteq> set (tb_revocations t')",
      OF prod.collapse [symmetric] subset_refl assms]
  by (simp add: sql_keeps_def)

lemma sql_writes_keep:
  "sql_keeps db (snd (sql_SaveDecision api d db))" "sql_keeps db (snd (sql_Revoke api ce r db))"
  "sql_keeps db (snd (sql_Quarantine api ce q db))" "sql_keeps db (snd (sql_Unquarantine x db))"
  unfolding sql_Revoke_def sql_Quarantine_def sql_Unquarantine_def
  by (auto simp: sql_SaveDecision_def split: sum.split intro!: exec_keeps)
    (auto simp: insert_decision_def insert_revocation_def insert_quarantine_def split: sum.splits if_splits)

lemma sql_Promote_keeps: "sql_keeps db (snd (sql_Promote api ce p db))"
proof -
  obtain e1 db1 where 1: "sql_promote_decision api ce p db = (e1, db1)" by fastforce
  obtain e2 db2 where 2: "sql_promote_revoked p db1 = (e2, db2)" by fastforce
  obtain e3 db3 where 3: "sql_promote_quarantined p db2 = (e3, db3)" by fastforce
  have t: "db_tables db1 = db_tables db" "db_tables db2 = db_tables db" "db_tables db3 = db_tables db"
    using decision_statement(1) [OF 1] lookup_statements(1) [of p db1] lookup_statements(2) [of p db2] 2 3 by simp_all
  have "sql_keeps db3 (snd (sql_promote_insert api ce p db3))"
    unfolding sql_promote_insert_def by (rule exec_keeps) (auto simp: insert_promotion_def split: if_splits)
  with t show ?thesis by (simp add: sql_Promote_def 1 2 3 sql_keeps_def split: option.splits)
qed

lemma sql_exec_keeps: "sql_keeps db (snd (sql_exec api ce op db))"
  using sql_writes_keep sql_Promote_keeps by (cases op) (simp_all add: sql_exec_def)

lemma sql_evaluate_tables [simp]:
  "db_tables (snd (evaluate_on (Some (sql_Store sq)) ee e req db)) = db_tables db"
  by (simp add: evaluate_on_def sql_Store_def Let_def split_def)

lemma sql_Handler_keeps:
  assumes "sv_store s = Some (sql_Store sq)"
  shows "sql_keeps (sv_state s) (sv_state (snd (Handler api env r s)))"
proof -
  have k: "sql_keeps (sv_state s) (sv_state (snd (handler_of api env e r s)))" for e
  proof (cases e)
    case EvaluateE
    show ?thesis
    proof (cases "sa_evaluation api (MaxBytesReader max_body (hr_Body r))")
      case (Inr req)
      obtain d s1 where d: "evaluate_on (Some (sql_Store sq)) (sx_eval env) (sv_evaluator s) req (sv_state s) = (d, s1)"
        by fastforce
      have "db_tables s1 = db_tables (sv_state s)"
        using sql_evaluate_tables [of sq "sx_eval env" "sv_evaluator s" req "sv_state s"] d by simp
      then have "sql_keeps (sv_state s) (snd (sql_SaveDecision sq d s1))"
        using sql_keeps_trans [OF sql_keeps_refl sql_writes_keep(1)] by blast
      then show ?thesis using EvaluateE evaluate_state [OF assms Inr d] by (simp add: sql_Store_def)
    qed (use assms EvaluateE in \<open>simp add: evaluate_def\<close>)
  qed (auto simp: handler_defs readyz_state [OF assms] store_write_state [OF assms]
        store_read_state [OF assms] sql_Store_def sql_writes_keep sql_Promote_keeps
        split: sum.splits)
  show ?thesis
  proof (cases "mux_match r")
    case (Some e)
    then show ?thesis using serve_endpoint_cases [of api env e r s] k [of e]
      by (auto simp: Handler_matched)
  qed (simp add: Handler_unmatched)
qed

text \<open>
  Requests to one server, and calls that other sessions (other servers, the command line) make
  on the same database between them.
\<close>

fun serve_shared ::
    "server_api \<Rightarrow> (call_env \<Rightarrow> store_op \<Rightarrow> 's \<Rightarrow> go_error option \<times> 's)
       \<Rightarrow> (server_env \<times> http_request + call_env \<times> store_op) list \<Rightarrow> 's Server \<Rightarrow> 's Server" where
  "serve_shared api exec [] s = s"
| "serve_shared api exec (Inl (env, r) # es) s = serve_shared api exec es (snd (Handler api env r s))"
| "serve_shared api exec (Inr (ce, op) # es) s =
     serve_shared api exec es (s\<lparr>sv_state := snd (exec ce op (sv_state s))\<rparr>)"

lemma sql_serve_keeps:
  "sv_store s = Some (sql_Store sq) \<Longrightarrow>
     sv_store (serve_shared api (sql_exec sq) es s) = Some (sql_Store sq)
     \<and> sql_keeps (sv_state s) (sv_state (serve_shared api (sql_exec sq) es s))"
proof (induction api "sql_exec sq" es s rule: serve_shared.induct)
  case (2 api env r es s)
  have "sv_store (snd (Handler api env r s)) = Some (sql_Store sq)"
    using Handler_setup [of s api env r] 2(2) by (simp add: same_setup_def)
  with 2(1) sql_Handler_keeps [OF 2(2)] show ?case using sql_keeps_trans by fastforce
next
  case (3 api ce op es s)
  then show ?case using sql_exec_keeps [of "sv_state s" sq ce op] sql_keeps_trans by fastforce
qed simp

lemma sql_withdrawn_denies:
  assumes "sql_withdrawn (as_Digest (rq_Subject req)) (rq_Environment req) db"
  shows "d_Decision (fst (evaluate_on (Some (sql_Store sq)) ee e req db)) = Deny"
proof -
  obtain x s1 where l: "st_IsRevoked (sql_Store sq) (as_Digest (rq_Subject req)) (rq_Environment req) db = (x, s1)"
    by fastforce
  obtain q s2 where "st_IsQuarantined (sql_Store sq) (as_Digest (rq_Subject req)) (rq_Environment req) s1 = (q, s2)"
    by fastforce
  moreover have "x \<noteq> Inr False" using sql_IsRevoked_withdrawn [OF assms] l by (auto simp: sql_Store_def)
  ultimately show ?thesis using evaluate_on_blocked [OF l] by blast
qed

text \<open>
  C7. A revocation accepted over HTTP (status 201) on the SQL store, for the environment of
  an evaluation or for all environments, is obeyed by every later evaluation of its digest
  over HTTP: if it is answered with a decision, that decision is DENY. In between come any
  requests to the server and any calls of other sessions on the database other than \<open>Restore\<close>
  (which replaces the revocations), and any statement, then or later, can fail.
\<close>

theorem served_revocation_denies:
  assumes "sv_store s = Some (sql_Store sq)"
    "mux_match r0 = Some RevokeE" "reply_status (fst (Handler api env0 r0 s)) = Some 201"
    "sa_revocation api (MaxBytesReader max_body (hr_Body r0)) = Inr rv"
    "mux_match r = Some EvaluateE" "evaluation_of api r = Some req"
    "as_Digest (rq_Subject req) = rv_Digest rv"
    "rv_Environment rv = [] \<or> rv_Environment rv = rq_Environment req"
    "reply_body (fst (Handler api env r (serve_shared api (sql_exec sq) es (snd (Handler api env0 r0 s)))))
       = Some (DecisionBody d)"
  shows "d_Decision d = Deny"
proof -
  let ?s1 = "snd (Handler api env0 r0 s)" let ?s2 = "serve_shared api (sql_exec sq) es ?s1"
  have a0: "authorised api env0 RoleAdmin r0 s"
    using refused_status [OF assms(2), of RoleAdmin api env0 s] assms(3) by auto
  note H0 = Handler_matched [OF assms(2), of api env0 s] requireRole_authorised [OF a0]
  obtain e db1 where rv: "sql_Revoke sq (sx_call env0) rv (sv_state s) = (e, db1)" by fastforce
  have "e = None" and s1: "sv_state ?s1 = db1"
    using assms(1,3,4) rv
    by (auto simp: H0 serve_endpoint_def revoke_def store_write_def sql_Store_def
        split: option.splits prod.splits if_splits)
  then have "insert_revocation (revocation_columns sq (stamp_revocation (sx_call env0) rv))
      (db_tables (sv_state s)) = Inr (db_tables db1)"
    using exec_statement_cases [OF rv [unfolded sql_Revoke_def]] by simp
  then have "revocation_columns sq (stamp_revocation (sx_call env0) rv) \<in> set (tb_revocations (db_tables db1))"
    by (auto simp: insert_revocation_def dest!: sym [of _ "db_tables db1"] split: if_splits)
  then have w1: "sql_withdrawn (rv_Digest rv) (rq_Environment req) (sv_state ?s1)"
    using assms(8) unfolding s1 sql_withdrawn_def by (elim rev_bexI) (auto simp: revokes_def)
  have "sv_store ?s1 = Some (sql_Store sq)"
    using Handler_setup [of s api env0 r0] assms(1) by (simp add: same_setup_def)
  from sql_serve_keeps [OF this] have st2: "sv_store ?s2 = Some (sql_Store sq)"
    and "sql_keeps (sv_state ?s1) (sv_state ?s2)" by blast+
  then have w2: "sql_withdrawn (as_Digest (rq_Subject req)) (rq_Environment req) (sv_state ?s2)"
    using sql_keeps_withdrawn [OF w1] assms(7) by simp
  have a: "authorised api env RoleEvaluator r ?s2"
    using refused_body [OF assms(5), of RoleEvaluator api env ?s2] assms(9) by auto
  obtain d' s3 where d': "evaluate_on (Some (sql_Store sq)) (sx_eval env) (sv_evaluator ?s2) req (sv_state ?s2) = (d', s3)"
    by fastforce
  have "d = d'"
    using assms(6,9) d' st2
    by (auto simp: Handler_evaluate [OF assms(5) a] evaluate_def evaluation_of_def Let_def
        split: option.splits prod.splits sum.splits)
  with sql_withdrawn_denies [OF w2, of sq "sx_eval env" "sv_evaluator ?s2"] d' show ?thesis by simp
qed



definition sample_revoked_db :: sql_db where
  "sample_revoked_db = empty_db\<lparr>db_tables := empty_tables\<lparr>tb_revocations :=
     [revocation_columns sample_sql sample_revocation]\<rparr>\<rparr>"

lemma sample_revoke_reply:
  "Handler sample_server_api sample_senv (plain_request ''POST'' ''/api/v1/revocations'') (sample_server False)
     = (securityHeaders (writeJSON 201 (RevocationBody sample_revocation)),
        (sample_server False)\<lparr>sv_state := sample_revoked_db\<rparr>)"
proof -
  have "authorised sample_server_api sample_senv RoleAdmin (plain_request ''POST'' ''/api/v1/revocations'')
      (sample_server False)" by (simp add: sample_authorised)
  note requireRole_authorised [OF this]
  moreover have "st_Revoke (sql_Store sample_sql) sample_ce sample_revocation empty_db = (None, sample_revoked_db)"
    by (simp add: sql_Store_def sql_Revoke_def sample_revoked_db_def empty_db_def insert_revocation_def
        empty_tables_def)
  moreover have "rv_Digest sample_revocation \<noteq> []" by (simp add: sample_revocation_def sample_digest_def)
  ultimately show ?thesis
    by (simp add: Handler_matched serve_endpoint_def revoke_def store_write_def)
qed

lemma sample_revoked_decision:
  "\<exists>d. reply_body (fst (Handler sample_server_api sample_senv (plain_request ''POST'' ''/api/v1/evaluate'')
     ((sample_server False)\<lparr>sv_state := sample_revoked_db\<rparr>))) = Some (DecisionBody d)"
proof -
  have "authorised sample_server_api sample_senv RoleEvaluator (plain_request ''POST'' ''/api/v1/evaluate'')
      ((sample_server False)\<lparr>sv_state := sample_revoked_db\<rparr>)"
    by (simp add: authorised_def sample_server_def api_New_def)
  note H = Handler_evaluate [OF sample_matches(1) this]
  have f: "db_faults sample_revoked_db = []" by (simp add: sample_revoked_db_def empty_db_def)
  obtain d where d: "evaluate_on (Some (sql_Store sample_sql)) sample_env (evaluator_New sample_policy) sample_request
      sample_revoked_db = (d, sample_revoked_db)"
    using f by (simp add: evaluate_on_def sql_Store_def Let_def sql_IsRevoked_def sql_IsQuarantined_def)
  obtain db where "st_SaveDecision (sql_Store sample_sql) d sample_revoked_db = (None, db)"
    by (rule sample_save [OF f])
  with d show ?thesis by (simp add: H evaluate_def)
qed

theorem served_revocation_denies_witness:
  "\<exists>d. reply_body (fst (Handler sample_server_api sample_senv (plain_request ''POST'' ''/api/v1/evaluate'')
       (snd (Handler sample_server_api sample_senv (plain_request ''POST'' ''/api/v1/revocations'')
          (sample_server False))))) = Some (DecisionBody d) \<and> d_Decision d = Deny"
proof -
  let ?first = "plain_request ''POST'' ''/api/v1/revocations''" let ?r = "plain_request ''POST'' ''/api/v1/evaluate''"
  let ?srv = "sample_server False" let ?after = "snd (Handler sample_server_api sample_senv ?first ?srv)"
  obtain d where d: "reply_body (fst (Handler sample_server_api sample_senv ?r
      (serve_shared sample_server_api (sql_exec sample_sql) [] ?after))) = Some (DecisionBody d)"
    using sample_revoked_decision by (auto simp: sample_revoke_reply)
  have "d_Decision d = Deny"
  proof (rule served_revocation_denies [where r = ?r and s = ?srv and es = "[]"
        and ?r0.0 = ?first and ?env0.0 = sample_senv and env = sample_senv])
    show "sv_store ?srv = Some (sql_Store sample_sql)" by simp
    show "evaluation_of sample_server_api ?r = Some sample_request" by (simp add: evaluation_of_def)
    show "as_Digest (rq_Subject sample_request) = rv_Digest sample_revocation"
      "rv_Environment sample_revocation = [] \<or> rv_Environment sample_revocation = rq_Environment sample_request"
      by (simp_all add: sample_request_def sample_revocation_def)
  qed (use d in \<open>simp_all add: sample_revoke_reply\<close>)
  with d show ?thesis by auto
qed

section \<open>The reply to a promotion\<close>

lemma sql_Promote_stored:
  assumes "db_faults db = []" "sql_Promote sq ce p db = (None, db')"
  shows "promotion_columns sq (stamp_promotion ce p) \<in> set (tb_promotions (db_tables db'))"
proof -
  obtain e1 db1 where 1: "sql_promote_decision sq ce p db = (e1, db1)" by fastforce
  obtain e2 db2 where 2: "sql_promote_revoked p db1 = (e2, db2)" by fastforce
  obtain e3 db3 where 3: "sql_promote_quarantined p db2 = (e3, db3)" by fastforce
  have e: "e1 = None" "e2 = None" "e3 = None"
    using assms(2) 1 2 3 by (auto simp: sql_Promote_def split: option.splits)
  then have "sql_promote_insert sq ce p db3 = (None, db')" using assms(2) 1 2 3 by (simp add: sql_Promote_def)
  then have "insert_promotion (promotion_columns sq (stamp_promotion ce p)) (db_tables db3) = Inr (db_tables db')"
    using exec_statement_cases [of _ db3 None db'] by (simp add: sql_promote_insert_def)
  then show ?thesis
    by (auto simp: insert_promotion_def dest!: sym [of _ "db_tables db'"] split: if_splits)
qed

text \<open>
  A promotion accepted over HTTP without an id is stored under a generated one, but the
  reply repeats the request: the caller is not told the id of the record it made.
\<close>

theorem promote_reply_lacks_id:
  assumes "sv_store s = Some (sql_Store sq)" "db_faults (sv_state s) = []"
    "mux_match r = Some PromoteE" "reply_status (fst (Handler api env r s)) = Some 201"
    "sa_promotion api (MaxBytesReader max_body (hr_Body r)) = Inr p" "pm_ID p = []"
  shows "reply_body (fst (Handler api env r s)) = Some (PromotionBody p)
    \<and> (\<exists>p' \<in> set (tb_promotions (db_tables (sv_state (snd (Handler api env r s))))).
          pm_ID p' = store_newID ''promo'' (sx_call env) \<and> pm_DecisionID p' = pm_DecisionID p
          \<and> pm_ID p' \<noteq> pm_ID p)"
proof -
  have a: "authorised api env RolePromoter r s"
    using refused_status [OF assms(3), of RolePromoter api env s] assms(4) by auto
  note H = Handler_matched [OF assms(3), of api env s] requireRole_authorised [OF a]
  obtain e db' where w: "sql_Promote sq (sx_call env) p (sv_state s) = (e, db')" by fastforce
  have c: "\<not> (pm_DecisionID p = [] \<or> pm_Digest p = [] \<or> pm_Environment p = [])"
  proof
    assume "pm_DecisionID p = [] \<or> pm_Digest p = [] \<or> pm_Environment p = []"
    then show False using assms(4,5) by (simp add: H serve_endpoint_def promote_def)
  qed
  have e: "e = None"
  proof (rule ccontr)
    assume "e \<noteq> None"
    then show False using assms(1,4,5) w c
      by (auto simp: H serve_endpoint_def promote_def store_write_def sql_Store_def)
  qed
  have s': "reply_body (fst (Handler api env r s)) = Some (PromotionBody p)"
      "sv_state (snd (Handler api env r s)) = db'"
    using assms(1,5) w c e by (simp_all add: H serve_endpoint_def promote_def store_write_def sql_Store_def)
  have "promotion_columns sq (stamp_promotion (sx_call env) p) \<in> set (tb_promotions (db_tables db'))"
    using sql_Promote_stored [OF assms(2)] w e by simp
  with s' assms(6) show ?thesis
    by (intro conjI bexI [of _ "promotion_columns sq (stamp_promotion (sx_call env) p)"])
      (simp_all add: promotion_columns_def stamp_promotion_def store_newID_def Let_def)
qed

definition unnamed_promotion :: Promotion where
  "unnamed_promotion = sample_promotion\<lparr>pm_ID := []\<rparr>"

definition unnamed_api :: server_api where
  "unnamed_api = sample_server_api\<lparr>sa_promotion := (\<lambda>_. Inr unnamed_promotion)\<rparr>"

lemma unnamed_api_promotion [simp]: "sa_promotion unnamed_api b = Inr unnamed_promotion"
  by (simp add: unnamed_api_def)

lemma unnamed_promotion_ok: "promotion_error sample_ledger (ce_now sample_ce) unnamed_promotion = None"
  using sample_promotion_ok unfolding promotion_error_None
  by (simp add: unnamed_promotion_def justifies_def)

theorem promote_reply_lacks_id_witness:
  "\<exists>s :: sql_db Server. reply_body (fst (Handler unnamed_api sample_senv (plain_request ''POST'' ''/api/v1/promotions'') s))
         = Some (PromotionBody unnamed_promotion)
       \<and> (\<exists>p' \<in> set (tb_promotions (db_tables (sv_state (snd (Handler unnamed_api sample_senv
             (plain_request ''POST'' ''/api/v1/promotions'') s))))). pm_ID p' \<noteq> pm_ID unnamed_promotion)"
proof -
  obtain db where v: "sql_view sample_sql db sample_ledger" using sample_db_view by blast
  let ?s = "(sample_server False)\<lparr>sv_state := db\<rparr>" let ?r = "plain_request ''POST'' ''/api/v1/promotions''"
  have f: "db_faults db = []" using v by (simp add: sql_view_def)
  have "tb_promotions (db_tables db) = []" using v by (simp add: sql_view_def sample_ledger_def empty_ledger_def)
  then obtain db' where p: "sql_Promote sample_sql sample_ce unnamed_promotion db = (None, db')"
    using f by (simp add: sql_Promote_view [OF v] unnamed_promotion_ok sql_promote_insert_def insert_promotion_def)
  have a: "authorised unnamed_api sample_senv RolePromoter ?r ?s"
    by (simp add: authorised_def sample_server_def api_New_def)
  have c: "pm_DecisionID unnamed_promotion \<noteq> []" "pm_Digest unnamed_promotion \<noteq> []"
      "pm_Environment unnamed_promotion \<noteq> []"
    using unnamed_promotion_ok unfolding promotion_error_None
    by (simp_all add: unnamed_promotion_def sample_promotion_def sample_digest_def)
  have h: "reply_status (fst (Handler unnamed_api sample_senv ?r ?s)) = Some 201"
    using p c
    by (simp add: Handler_matched serve_endpoint_def requireRole_authorised [OF a] promote_def store_write_def sql_Store_def)
  have "sv_store ?s = Some (sql_Store sample_sql)" "db_faults (sv_state ?s) = []"
      "pm_ID unnamed_promotion = []" using f by (simp_all add: unnamed_promotion_def)
  from promote_reply_lacks_id [OF this(1,2) sample_matches(3) h unnamed_api_promotion this(3)]
  show ?thesis by blast
qed

end
