(* ===== verification/Server_Concurrent.thy ===== *)
theory Server_Concurrent
  imports Server_Runs
begin

text \<open>
  Requests in flight at the same time. The handlers of \<open>internal/api/server.go\<close> run in one
  goroutine per request and share the two atomic counters and the store; a request is a task
  whose steps are its accesses to them, and the system interleaves the steps of its tasks in
  any order. A store call is one step that always returns: the file store's mutex and the
  database are not modelled as things a request can wait for. (A call of the file store holds
  the mutex, a call of the SQL store other than \<open>Promote\<close> is one statement; for \<open>Promote\<close>
  statement by statement see \<open>Sql_Sessions\<close>.)
\<close>

section \<open>Tasks\<close>

record 's shared =
  sh_total :: "64 word"
  sh_denied :: "64 word"
  sh_state :: 's

text \<open>
  An evaluation: the revocation lookup, the quarantine lookup (with which the decision is
  known), the two counters, the write to the audit log, the reply. A scrape of the metrics:
  one load after the other. Any other call of the store.
\<close>

datatype task =
    EvalStart eval_env EvaluationRequest
  | EvalRevoked eval_env EvaluationRequest "bool result"
  | EvalDecided Decision
  | EvalCounted Decision
  | EvalSaving Decision
  | EvalReplied Decision
  | EvalFailed Decision go_error
  | ScrapeStart
  | ScrapeTotal "64 word"
  | ScrapeDone "64 word" "64 word"
  | CallStart call_env store_op
  | CallDone call_env store_op "go_error option"

definition store_call :: "'s Store \<Rightarrow> call_env \<Rightarrow> store_op \<Rightarrow> 's \<Rightarrow> go_error option \<times> 's" where
  "store_call st ce op s =
     (case op of
        SaveDecisionOp d \<Rightarrow> st_SaveDecision st d s
      | PromoteOp p \<Rightarrow> st_Promote st ce p s
      | RevokeOp r \<Rightarrow> st_Revoke st ce r s
      | QuarantineOp q \<Rightarrow> st_Quarantine st ce q s
      | UnquarantineOp x \<Rightarrow> st_Unquarantine st x s)"

fun task_step :: "'s Store \<Rightarrow> Evaluator \<Rightarrow> task \<Rightarrow> 's shared \<Rightarrow> (task \<times> 's shared) option" where
  "task_step st e (EvalStart ev req) m =
     (let (r, s1) = st_IsRevoked st (as_Digest (rq_Subject req)) (rq_Environment req) (sh_state m)
      in Some (EvalRevoked ev req r, m\<lparr>sh_state := s1\<rparr>))"
| "task_step st e (EvalRevoked ev req r) m =
     (let (q, s1) = st_IsQuarantined st (as_Digest (rq_Subject req)) (rq_Environment req) (sh_state m)
      in Some (EvalDecided (Evaluate ev
                 (WithQuarantines (WithRevocations e (Some (\<lambda>_ _. r))) (Some (\<lambda>_ _. q))) req),
               m\<lparr>sh_state := s1\<rparr>))"
| "task_step st e (EvalDecided d) m = Some (EvalCounted d, m\<lparr>sh_total := sh_total m + 1\<rparr>)"
| "task_step st e (EvalCounted d) m =
     Some (EvalSaving d, if d_Decision d \<noteq> Allow then m\<lparr>sh_denied := sh_denied m + 1\<rparr> else m)"
| "task_step st e (EvalSaving d) m =
     (case st_SaveDecision st d (sh_state m) of
        (Some err, s1) \<Rightarrow> Some (EvalFailed d err, m\<lparr>sh_state := s1\<rparr>)
      | (None, s1) \<Rightarrow> Some (EvalReplied d, m\<lparr>sh_state := s1\<rparr>))"
| "task_step st e ScrapeStart m = Some (ScrapeTotal (sh_total m), m)"
| "task_step st e (ScrapeTotal t) m = Some (ScrapeDone t (sh_denied m), m)"
| "task_step st e (CallStart ce op) m =
     (let (res, s1) = store_call st ce op (sh_state m)
      in Some (CallDone ce op res, m\<lparr>sh_state := s1\<rparr>))"
| "task_step st e _ m = None"

text \<open>One step of one of the tasks.\<close>

inductive system_step ::
    "'s Store \<Rightarrow> Evaluator \<Rightarrow> task list \<times> 's shared \<Rightarrow> task list \<times> 's shared \<Rightarrow> bool" for st e where
  step: "i < length ts \<Longrightarrow> task_step st e (ts ! i) m = Some (t', m') \<Longrightarrow>
     system_step st e (ts, m) (ts[i := t'], m')"

inductive system_run ::
    "'s Store \<Rightarrow> Evaluator \<Rightarrow> task list \<times> 's shared \<Rightarrow> task list \<times> 's shared \<Rightarrow> bool" for st e c where
  start: "system_run st e c c"
| more: "system_run st e c c' \<Longrightarrow> system_step st e c' c'' \<Longrightarrow> system_run st e c c''"

inductive_cases system_stepE: "system_step st e c c'"

text \<open>Requests that have just arrived at a new server.\<close>

fun fresh_task :: "task \<Rightarrow> bool" where
  "fresh_task (EvalStart ev req) = True"
| "fresh_task ScrapeStart = True"
| "fresh_task (CallStart ce op) = True"
| "fresh_task _ = False"

definition new_shared :: "'s \<Rightarrow> 's shared" where
  "new_shared s = \<lparr>sh_total = 0, sh_denied = 0, sh_state = s\<rparr>"

section \<open>The counters\<close>

text \<open>The tasks that have added to the first counter, and those that have added to the second.\<close>

fun was_counted :: "task \<Rightarrow> bool" where
  "was_counted (EvalCounted d) = True"
| "was_counted (EvalSaving d) = True"
| "was_counted (EvalReplied d) = True"
| "was_counted (EvalFailed d err) = True"
| "was_counted _ = False"

fun was_denied :: "task \<Rightarrow> bool" where
  "was_denied (EvalSaving d) = (d_Decision d \<noteq> Allow)"
| "was_denied (EvalReplied d) = (d_Decision d \<noteq> Allow)"
| "was_denied (EvalFailed d err) = (d_Decision d \<noteq> Allow)"
| "was_denied _ = False"

lemma denied_counted: "was_denied t \<Longrightarrow> was_counted t"
  by (cases t) simp_all

lemma fresh_not_counted: "fresh_task t \<Longrightarrow> \<not> was_counted t"
  by (cases t) simp_all

abbreviation tally :: "(task \<Rightarrow> bool) \<Rightarrow> task list \<Rightarrow> nat" where
  "tally P ts \<equiv> length (filter P ts)"

lemma tally_update:
  "i < length ts \<Longrightarrow> tally P (ts[i := t]) + (if P (ts ! i) then 1 else 0) = tally P ts + (if P t then 1 else 0)"
proof (induction ts arbitrary: i)
  case (Cons a ts)
  then show ?case by (cases i) auto
qed simp

lemma tally_mono: "(\<And>t. P t \<Longrightarrow> Q t) \<Longrightarrow> tally P ts \<le> tally Q ts"
  by (induction ts) auto

definition counts_right :: "task list \<times> 's shared \<Rightarrow> bool" where
  "counts_right c \<longleftrightarrow>
     sh_total (snd c) = of_nat (tally was_counted (fst c)) \<and> sh_denied (snd c) = of_nat (tally was_denied (fst c))"

text \<open>A step changes a counter exactly when its task changes side.\<close>

lemma task_step_counts:
  assumes "task_step st e t m = Some (t', m')"
  shows "sh_total m' + (if was_counted t then 1 else 0) = sh_total m + (if was_counted t' then 1 else 0)"
    and "sh_denied m' + (if was_denied t then 1 else 0) = sh_denied m + (if was_denied t' then 1 else 0)"
  using assms by (cases t; auto simp: Let_def split: prod.splits option.splits if_splits)+

lemma counts_right_step:
  assumes "system_step st e c c'" "counts_right c"
  shows "counts_right c'"
  using assms(1)
proof (rule system_stepE)
  fix i ts m t' m'
  assume c: "c = (ts, m)" "c' = (ts[i := t'], m')" and i: "i < length ts"
    and s: "task_step st e (ts ! i) m = Some (t', m')"
  have eq: "x + of_nat a = y + of_nat b \<Longrightarrow> n' + a = n + b \<Longrightarrow> y = of_nat n \<Longrightarrow> x = of_nat n'"
    for x y :: "64 word" and a b n n' :: nat
    by (metis add_right_cancel of_nat_add)
  have one: "(if P then 1 else 0 :: 64 word) = of_nat (if P then 1 else 0)" for P by simp
  note k = task_step_counts [OF s, unfolded one]
  show ?thesis
    using assms(2) eq [OF k(1) tally_update [OF i, of was_counted t']] eq [OF k(2) tally_update [OF i, of was_denied t']]
    by (simp add: counts_right_def c)
qed

lemma counts_right_run: "system_run st e c c' \<Longrightarrow> counts_right c \<Longrightarrow> counts_right c'"
  by (induction rule: system_run.induct) (auto intro: counts_right_step)

lemma counts_right_new: "list_all fresh_task ts \<Longrightarrow> counts_right (ts, new_shared s)"
proof -
  assume "list_all fresh_task ts"
  then have "filter was_counted ts = []" "filter was_denied ts = []"
    using fresh_not_counted denied_counted by (auto simp: list_all_iff filter_empty_conv)
  then show ?thesis by (simp add: counts_right_def new_shared_def)
qed

lemma system_run_length: "system_run st e c c' \<Longrightarrow> length (fst c') = length (fst c)"
  by (induction rule: system_run.induct) (auto elim!: system_stepE)

text \<open>
  C17. However the steps of requests to a new server interleave, at every moment the two
  counters are the numbers of requests in flight or done that have passed the respective
  increment, so the refused decisions never outnumber the decisions (below 2^64 requests).
\<close>

theorem counters_under_interleaving:
  assumes "list_all fresh_task ts" "system_run st e (ts, new_shared s) (ts', m)"
  shows "sh_total m = of_nat (tally was_counted ts') \<and> sh_denied m = of_nat (tally was_denied ts')
    \<and> (length ts < 2 ^ 64 \<longrightarrow> unat (sh_denied m) \<le> unat (sh_total m))"
proof -
  have c: "sh_total m = of_nat (tally was_counted ts')" "sh_denied m = of_nat (tally was_denied ts')"
    using counts_right_run [OF assms(2) counts_right_new [OF assms(1)]] by (simp_all add: counts_right_def)
  have "unat (of_nat (tally P ts') :: 64 word) = tally P ts'" if "length ts < 2 ^ 64" for P
    using system_run_length [OF assms(2)] length_filter_le [of P ts'] that
    by (simp add: unat_of_nat take_bit_eq_mod)
  with c tally_mono [of was_denied was_counted ts'] denied_counted show ?thesis by simp
qed

section \<open>One task alone is the handler\<close>

text \<open>
  The steps of one task with nothing in between, until it has none left. A task that runs
  without interference gives the reply of the handler \<open>evaluate\<close> (or \<open>metrics\<close>) and leaves
  the counters and the store as the handler does.
\<close>

fun run_task :: "nat \<Rightarrow> 's Store \<Rightarrow> Evaluator \<Rightarrow> task \<Rightarrow> 's shared \<Rightarrow> task \<times> 's shared" where
  "run_task 0 st e t m = (t, m)"
| "run_task (Suc n) st e t m =
     (case task_step st e t m of None \<Rightarrow> (t, m) | Some (t', m') \<Rightarrow> run_task n st e t' m')"

lemma run_task_numeral [simp]:
  "run_task (numeral k) st e t m =
     (case task_step st e t m of None \<Rightarrow> (t, m) | Some (t', m') \<Rightarrow> run_task (pred_numeral k) st e t' m')"
  by (simp add: numeral_eq_Suc)

definition shared_of :: "'s Server \<Rightarrow> 's shared" where
  "shared_of s = \<lparr>sh_total = sv_total s, sh_denied = sv_denied s, sh_state = sv_state s\<rparr>"

fun task_reply :: "server_env \<Rightarrow> task \<Rightarrow> reply option" where
  "task_reply env (EvalReplied d) = Some (writeJSON 200 (DecisionBody d))"
| "task_reply env (EvalFailed d err) = Some (writeErr env 500 ''SKGATE-AUDIT-WRITE-FAILED'' err)"
| "task_reply env (ScrapeDone t d) =
     Some (Reply \<lparr>rs_Status = 200, rs_Headers = [(''Content-Type'', ''text/plain; version=0.0.4'')],
                  rs_Body = MetricsBody t d\<rparr>)"
| "task_reply env _ = None"

lemma lone_evaluation:
  assumes "sv_store s = Some st" "sa_evaluation api (MaxBytesReader max_body (hr_Body r)) = Inr req"
    "run_task 5 st (sv_evaluator s) (EvalStart (sx_eval env) req) (shared_of s) = (t, m)"
  shows "task_reply env t = Some (fst (evaluate api env r s)) \<and> m = shared_of (snd (evaluate api env r s))"
proof -
  obtain x s1 where x: "st_IsRevoked st (as_Digest (rq_Subject req)) (rq_Environment req) (sv_state s) = (x, s1)"
    by fastforce
  obtain q s2 where q: "st_IsQuarantined st (as_Digest (rq_Subject req)) (rq_Environment req) s1 = (q, s2)"
    by fastforce
  let ?d = "Evaluate (sx_eval env) (WithQuarantines (WithRevocations (sv_evaluator s) (Some (\<lambda>_ _. x)))
              (Some (\<lambda>_ _. q))) req"
  obtain err s3 where sd: "st_SaveDecision st ?d s2 = (err, s3)" by fastforce
  show ?thesis
    using assms x q sd
    by (cases err)
      (auto simp: evaluate_def evaluate_on_store [OF x q] shared_of_def count_decision_def Let_def)
qed

lemma lone_scrape:
  "run_task 2 st e ScrapeStart (shared_of s) = (t, m) \<Longrightarrow>
     task_reply env t = Some (fst (metrics s)) \<and> m = shared_of (snd (metrics s))"
  by (auto simp: metrics_def shared_of_def)

section \<open>A scrape between two increments\<close>

lemma system_run_one:
  assumes "system_run st e c (ts, m)" "i < length ts" "task_step st e (ts ! i) m = Some (t', m')" "ts' = ts[i := t']"
  shows "system_run st e c (ts', m')"
  using system_run.more [OF assms(1) system_step.step [OF assms(2,3)]] by (simp add: assms(4))

text \<open>
  C37. A scrape loads the two counters one after the other: with one evaluation that is not
  ALLOW in flight on a new server, it can report one refused decision out of none.
\<close>

theorem metrics_scrape_race:
  assumes "evaluate_on (Some st) ev e req s0 = (d, s2)" "d_Decision d \<noteq> Allow"
  shows "\<exists>ts m. system_run st e ([ScrapeStart, EvalStart ev req], new_shared s0) (ts, m) \<and> ts ! 0 = ScrapeDone 0 1"
proof -
  obtain x s1 where x: "st_IsRevoked st (as_Digest (rq_Subject req)) (rq_Environment req) s0 = (x, s1)" by fastforce
  obtain q s2' where q: "st_IsQuarantined st (as_Digest (rq_Subject req)) (rq_Environment req) s1 = (q, s2')" by fastforce
  let ?run = "\<lambda>ts m. system_run st e ([ScrapeStart, EvalStart ev req], new_shared s0) (ts, m)"
  have d: "Evaluate ev (WithQuarantines (WithRevocations e (Some (\<lambda>_ _. x))) (Some (\<lambda>_ _. q))) req = d"
    using assms(1) by (simp add: evaluate_on_store [OF x q])
  have r0: "?run [ScrapeTotal 0, EvalStart ev req] (new_shared s0)"
    by (rule system_run_one [OF system_run.start, where i = 0 and t' = "ScrapeTotal 0"])
      (simp_all add: new_shared_def )
  have r1: "?run [ScrapeTotal 0, EvalRevoked ev req x] (new_shared s1)"
    by (rule system_run_one [OF r0, where i = 1 and t' = "EvalRevoked ev req x"])
      (simp_all add: new_shared_def x)
  have r2: "?run [ScrapeTotal 0, EvalDecided d] (new_shared s2')"
    by (rule system_run_one [OF r1, where i = 1 and t' = "EvalDecided d"])
      (simp_all add: new_shared_def q d)
  have r3: "?run [ScrapeTotal 0, EvalCounted d] ((new_shared s2')\<lparr>sh_total := 1\<rparr>)"
    by (rule system_run_one [OF r2, where i = 1 and t' = "EvalCounted d"])
      (simp_all add: new_shared_def )
  have r4: "?run [ScrapeTotal 0, EvalSaving d] ((new_shared s2')\<lparr>sh_total := 1, sh_denied := 1\<rparr>)"
    by (rule system_run_one [OF r3, where i = 1 and t' = "EvalSaving d"])
      (simp_all add: new_shared_def assms(2))
  have r5: "?run [ScrapeDone 0 1, EvalSaving d] ((new_shared s2')\<lparr>sh_total := 1, sh_denied := 1\<rparr>)"
    by (rule system_run_one [OF r4, where i = 0 and t' = "ScrapeDone 0 1"])
      (simp_all add: new_shared_def )
  from r5 show ?thesis by (metis nth_Cons_0)
qed

section \<open>Revocations and evaluations in flight\<close>

lemma sql_call_keeps: "sql_keeps db (snd (store_call (sql_Store sq) ce op db))"
  using sql_writes_keep sql_Promote_keeps by (cases op) (simp_all add: store_call_def sql_Store_def)

lemma sql_task_keeps:
  assumes "task_step (sql_Store sq) e t m = Some (t', m')"
  shows "sql_keeps (sh_state m) (sh_state m')"
proof (cases t)
  case (EvalStart ev req)
  then show ?thesis
    using assms sql_keeps_refl [OF sql_lookup_tables(1) [of "as_Digest (rq_Subject req)" "rq_Environment req" "sh_state m"]]
    by (auto simp del: sql_keeps_refl simp: Let_def sql_Store_def split: prod.splits)
next
  case (EvalRevoked ev req r)
  then show ?thesis
    using assms sql_keeps_refl [OF sql_lookup_tables(2) [of "as_Digest (rq_Subject req)" "rq_Environment req" "sh_state m"]]
    by (auto simp del: sql_keeps_refl simp: Let_def sql_Store_def split: prod.splits)
next
  case (EvalSaving d)
  then show ?thesis using assms sql_writes_keep(1) [of "sh_state m" sq d]
    by (auto simp: sql_Store_def split: prod.splits option.splits)
next
  case (CallStart ce op)
  then show ?thesis using assms sql_call_keeps [of "sh_state m" sq ce op] by (auto simp: Let_def split: prod.splits)
qed (use assms in auto)

text \<open>What an evaluation that starts after the revocation can have become.\<close>

fun denying :: "EvaluationRequest \<Rightarrow> task \<Rightarrow> bool" where
  "denying req (EvalStart ev req') = (req' = req)"
| "denying req (EvalRevoked ev req' r) = (req' = req \<and> r \<noteq> Inr False)"
| "denying req (EvalDecided d) = (d_Decision d = Deny)"
| "denying req (EvalCounted d) = (d_Decision d = Deny)"
| "denying req (EvalSaving d) = (d_Decision d = Deny)"
| "denying req (EvalReplied d) = (d_Decision d = Deny)"
| "denying req (EvalFailed d err) = (d_Decision d = Deny)"
| "denying req _ = False"

lemma revoked_must_deny:
  "r \<noteq> Inr False \<Longrightarrow> must_deny ev (WithQuarantines (WithRevocations e (Some (\<lambda>_ _. r))) qc) req"
  unfolding must_deny_def Let_def by (auto simp: revocation_blocks_def WithQuarantines_def WithRevocations_def)

lemma denying_step:
  assumes "sql_withdrawn (as_Digest (rq_Subject req)) (rq_Environment req) (sh_state m)" "denying req t"
    "task_step (sql_Store sq) e t m = Some (t', m')"
  shows "denying req t'"
  using assms sql_IsRevoked_withdrawn [OF assms(1)]
  by (cases t) (auto simp: Let_def sql_Store_def outcome_of_def revoked_must_deny split: prod.splits option.splits)

lemma denying_run:
  assumes "system_run (sql_Store sq) e c c'"
    "sql_withdrawn (as_Digest (rq_Subject req)) (rq_Environment req) (sh_state (snd c))"
    "i < length (fst c)" "denying req (fst c ! i)"
  shows "sql_withdrawn (as_Digest (rq_Subject req)) (rq_Environment req) (sh_state (snd c'))
    \<and> i < length (fst c') \<and> denying req (fst c' ! i)"
  using assms(1)
proof induction
  case start
  show ?case using assms(2-4) by simp
next
  case (more c' c'')
  from more.hyps(2) show ?case
  proof (rule system_stepE)
    fix j ts m t' m'
    assume c: "c' = (ts, m)" "c'' = (ts[j := t'], m')" and j: "j < length ts"
      and s: "task_step (sql_Store sq) e (ts ! j) m = Some (t', m')"
    have w: "sql_withdrawn (as_Digest (rq_Subject req)) (rq_Environment req) (sh_state m)"
      and i: "i < length ts" "denying req (ts ! i)" using more.IH by (simp_all add: c)
    have "sql_keeps (sh_state m) (sh_state m')" using sql_task_keeps [OF s] .
    then show ?case
      using sql_keeps_withdrawn [OF w] denying_step [OF w _ s] i j by (cases "i = j") (auto simp: c)
  qed
qed

text \<open>
  C6. With any number of requests in flight on the SQL store, in any interleaving: an
  evaluation that starts when a revocation of its digest, for its environment or for all
  environments, is stored ends, when it ends with a decision, with DENY. Any statement can
  fail on the way: a lookup that fails denies, too.
\<close>

theorem inflight_revocation_denies:
  assumes "sql_withdrawn (as_Digest (rq_Subject req)) (rq_Environment req) (sh_state m)"
    "i < length ts" "ts ! i = EvalStart ev req"
    "system_run (sql_Store sq) e (ts, m) (ts', m')"
  shows "\<forall>d. ts' ! i = EvalReplied d \<longrightarrow> d_Decision d = Deny"
  using denying_run [OF assms(4), of req i] assms(1-3) by auto

section \<open>Witnesses\<close>

lemma system_run_task:
  "run_task n st e t m = (t', m') \<Longrightarrow> system_run st e c ([t], m) \<Longrightarrow> system_run st e c ([t'], m')"
proof (induction n arbitrary: t m)
  case (Suc n)
  show ?case
  proof (cases "task_step st e t m")
    case None
    with Suc.prems show ?thesis by simp
  next
    case (Some tm)
    obtain t1 m1 where [simp]: "tm = (t1, m1)" by (cases tm)
    have "system_run st e c ([t1], m1)"
      by (rule system_run_one [OF Suc.prems(2), where i = 0 and t' = t1]) (simp_all add: Some)
    with Suc.IH [of t1 m1] Suc.prems(1) Some show ?thesis by simp
  qed
qed simp

lemma sample_revoked_withdrawn:
  "sql_withdrawn (as_Digest (rq_Subject sample_request)) (rq_Environment sample_request) sample_revoked_db"
  by (simp add: sql_withdrawn_def sample_revoked_db_def empty_db_def revokes_def sample_request_def
      sample_revocation_def revocation_columns_def)

lemma sample_lone_run:
  "\<exists>d m. run_task 5 (sql_Store sample_sql) (evaluator_New sample_policy) (EvalStart sample_env sample_request)
     (new_shared sample_revoked_db) = (EvalReplied d, m)"
proof -
  have f: "db_faults sample_revoked_db = []" by (simp add: sample_revoked_db_def empty_db_def)
  obtain x q where "st_IsRevoked (sql_Store sample_sql) (as_Digest (rq_Subject sample_request))
        (rq_Environment sample_request) sample_revoked_db = (x, sample_revoked_db)"
      "st_IsQuarantined (sql_Store sample_sql) (as_Digest (rq_Subject sample_request))
        (rq_Environment sample_request) sample_revoked_db = (q, sample_revoked_db)"
    using f by (simp add: sql_Store_def sql_IsRevoked_def sql_IsQuarantined_def)
  moreover obtain db where "st_SaveDecision (sql_Store sample_sql)
      (Evaluate sample_env (WithQuarantines (WithRevocations (evaluator_New sample_policy) (Some (\<lambda>_ _. x)))
        (Some (\<lambda>_ _. q))) sample_request) sample_revoked_db = (None, db)"
    by (rule sample_save [OF f])
  ultimately show ?thesis by (simp add: new_shared_def Let_def)
qed

theorem counters_under_interleaving_witness:
  "\<exists>d m. system_run (sql_Store sample_sql) (evaluator_New sample_policy)
       ([EvalStart sample_env sample_request], new_shared sample_revoked_db) ([EvalReplied d], m)
     \<and> unat (sh_denied m) \<le> unat (sh_total m)"
proof -
  obtain d m where "run_task 5 (sql_Store sample_sql) (evaluator_New sample_policy)
      (EvalStart sample_env sample_request) (new_shared sample_revoked_db) = (EvalReplied d, m)"
    using sample_lone_run by blast
  from system_run_task [OF this system_run.start]
  have r: "system_run (sql_Store sample_sql) (evaluator_New sample_policy)
      ([EvalStart sample_env sample_request], new_shared sample_revoked_db) ([EvalReplied d], m)" .
  with counters_under_interleaving [OF _ r] show ?thesis by (intro exI [of _ d] exI [of _ m]) simp
qed

theorem metrics_scrape_race_witness:
  "\<exists>ts m. system_run (sql_Store sample_sql) (evaluator_New sample_policy)
       ([ScrapeStart, EvalStart sample_env sample_request], new_shared sample_revoked_db) (ts, m)
     \<and> ts ! 0 = ScrapeDone 0 1"
proof -
  obtain d s2 where d: "evaluate_on (Some (sql_Store sample_sql)) sample_env (evaluator_New sample_policy)
      sample_request sample_revoked_db = (d, s2)" by fastforce
  moreover have "d_Decision d \<noteq> Allow"
    using sql_withdrawn_denies [OF sample_revoked_withdrawn, of sample_sql sample_env "evaluator_New sample_policy"] d
    by simp
  ultimately show ?thesis by (rule metrics_scrape_race)
qed

theorem inflight_revocation_denies_witness:
  "\<exists>d m. system_run (sql_Store sample_sql) (evaluator_New sample_policy)
       ([EvalStart sample_env sample_request], new_shared sample_revoked_db) ([EvalReplied d], m)
     \<and> d_Decision d = Deny"
proof -
  obtain d m where "run_task 5 (sql_Store sample_sql) (evaluator_New sample_policy)
      (EvalStart sample_env sample_request) (new_shared sample_revoked_db) = (EvalReplied d, m)"
    using sample_lone_run by blast
  from system_run_task [OF this system_run.start]
  have r: "system_run (sql_Store sample_sql) (evaluator_New sample_policy)
      ([EvalStart sample_env sample_request], new_shared sample_revoked_db) ([EvalReplied d], m)" .
  have "sql_withdrawn (as_Digest (rq_Subject sample_request)) (rq_Environment sample_request)
      (sh_state (new_shared sample_revoked_db))"
    using sample_revoked_withdrawn by (simp add: new_shared_def)
  from inflight_revocation_denies [OF this _ _ r, of 0] have "d_Decision d = Deny" by simp
  with r show ?thesis by blast
qed

end
