(* ===== verification/Go_Flags.thy ===== *)
theory Go_Flags
  imports Go_Strings
begin

text \<open>
  The part of Go's package \<open>flag\<close> the command line uses: string and bool flags of a
  \<open>FlagSet\<close> with \<open>ContinueOnError\<close>. Parsing stops at the first argument that is no flag; the
  usage text that a failing parse prints is not part of the model.
\<close>

section \<open>Parsing\<close>

datatype flag_kind = StringFlag | BoolFlag

text \<open>A flag's name, kind and default value; a bool is kept as its text.\<close>

type_synonym flag_set = "(string \<times> flag_kind \<times> string) list"

definition ParseBool :: "string \<Rightarrow> bool option" where
  "ParseBool s =
     (if s \<in> {''1'', ''t'', ''T'', ''TRUE'', ''true'', ''True''} then Some True
      else if s \<in> {''0'', ''f'', ''F'', ''FALSE'', ''false'', ''False''} then Some False
      else None)"

definition show_bool :: "bool \<Rightarrow> string" where
  "show_bool b = (if b then ''true'' else ''false'')"

definition ErrHelp :: go_error where
  "ErrHelp = errors_New ''flag: help requested''"

text \<open>What one argument is: no flag, malformed, or a name with or without a value.\<close>

datatype flag_token = NoFlag | BadFlag go_error | Flag string "string option"

definition flag_token :: "string \<Rightarrow> flag_token" where
  "flag_token s =
     (if length s < 2 \<or> hd s \<noteq> CHR ''-'' then NoFlag
      else if s = ''--'' then NoFlag
      else let name = (if hd (tl s) = CHR ''-'' then drop 2 s else tl s) in
        if name = [] \<or> hd name = CHR ''-'' \<or> hd name = CHR ''=''
        then BadFlag (Errorf ''bad flag syntax: %s'' [S s])
        else case dropWhile (\<lambda>c. c \<noteq> CHR ''='') name of
               [] \<Rightarrow> Flag name None
             | _ # v \<Rightarrow> Flag (takeWhile (\<lambda>c. c \<noteq> CHR ''='') name) (Some v))"

fun parse_flags ::
    "flag_set \<Rightarrow> string list \<Rightarrow> (string \<rightharpoonup> string) \<Rightarrow> go_error option \<times> (string \<rightharpoonup> string)" where
  "parse_flags formal [] vals = (None, vals)"
| "parse_flags formal (s # args) vals =
     (case flag_token s of
        NoFlag \<Rightarrow> (None, vals)
      | BadFlag err \<Rightarrow> (Some err, vals)
      | Flag name v \<Rightarrow>
          (case map_of formal name of
             None \<Rightarrow>
               (Some (if name = ''help'' \<or> name = ''h'' then ErrHelp
                      else Errorf ''flag provided but not defined: -%s'' [S name]), vals)
           | Some (BoolFlag, _) \<Rightarrow>
               (case v of
                  None \<Rightarrow> parse_flags formal args (vals(name \<mapsto> ''true''))
                | Some x \<Rightarrow>
                    (case ParseBool x of
                       None \<Rightarrow> (Some (Errorf ''invalid boolean value %q for -%s: parse error'' [S x, S name]), vals)
                     | Some b \<Rightarrow> parse_flags formal args (vals(name \<mapsto> show_bool b))))
           | Some (StringFlag, _) \<Rightarrow>
               (case v of
                  Some x \<Rightarrow> parse_flags formal args (vals(name \<mapsto> x))
                | None \<Rightarrow>
                    (case args of
                       [] \<Rightarrow> (Some (Errorf ''flag needs an argument: -%s'' [S name]), vals)
                     | x # args' \<Rightarrow> parse_flags formal args' (vals(name \<mapsto> x))))))"

text \<open>The value of a flag after a parse: the last one given, or the default.\<close>

definition flag_value :: "flag_set \<Rightarrow> (string \<rightharpoonup> string) \<Rightarrow> string \<Rightarrow> string" where
  "flag_value formal vals name =
     (case vals name of
        Some v \<Rightarrow> v
      | None \<Rightarrow> (case map_of formal name of Some (_, d) \<Rightarrow> d | None \<Rightarrow> []))"

section \<open>What is written is what is read\<close>

text \<open>A name that can be written after the dashes.\<close>

definition flag_name :: "string \<Rightarrow> bool" where
  "flag_name n \<longleftrightarrow> n \<noteq> [] \<and> hd n \<noteq> CHR ''-'' \<and> CHR ''='' \<notin> set n"

lemma cut_at [simp]:
  "c \<notin> set n \<Longrightarrow> dropWhile (\<lambda>x. x \<noteq> c) n = []"
  "c \<notin> set n \<Longrightarrow> dropWhile (\<lambda>x. x \<noteq> c) (n @ c # v) = c # v"
  "c \<notin> set n \<Longrightarrow> takeWhile (\<lambda>x. x \<noteq> c) (n @ c # v) = n"
  by (induction n) auto

lemma flag_token_long: "flag_name n \<Longrightarrow> flag_token (''--'' @ n) = Flag n None"
  by (cases n) (auto simp: flag_token_def flag_name_def Let_def)

lemma flag_token_short: "flag_name n \<Longrightarrow> flag_token (CHR ''-'' # n) = Flag n None"
  by (cases n) (auto simp: flag_token_def flag_name_def Let_def)

lemma flag_token_assign:
  assumes "flag_name n"
  shows "flag_token (''--'' @ n @ CHR ''='' # v) = Flag n (Some v)"
  using assms cut_at(2,3) [of "CHR ''=''" n v]
  by (cases n) (auto simp: flag_token_def flag_name_def Let_def)

text \<open>A command line that sets string flags by name, value after value.\<close>

definition write_flags :: "(string \<times> string) list \<Rightarrow> string list" where
  "write_flags kvs = concat (map (\<lambda>(n, v). [''--'' @ n, v]) kvs)"

definition string_flags :: "flag_set \<Rightarrow> (string \<times> string) list \<Rightarrow> bool" where
  "string_flags formal kvs \<longleftrightarrow>
     list_all (\<lambda>(n, _). flag_name n \<and> (\<exists>d. map_of formal n = Some (StringFlag, d))) kvs"

lemma parse_write_flags:
  "string_flags formal kvs \<Longrightarrow> parse_flags formal (write_flags kvs @ rest) vals
     = parse_flags formal rest (vals ++ map_of (rev kvs))"
proof (induction kvs arbitrary: vals)
  case Nil
  then show ?case by (simp add: write_flags_def)
next
  case (Cons kv kvs)
  obtain n v where [simp]: "kv = (n, v)" by (cases kv)
  obtain d where d: "flag_name n" "map_of formal n = Some (StringFlag, d)" "string_flags formal kvs"
    using Cons.prems by (auto simp: string_flags_def)
  have "parse_flags formal (write_flags (kv # kvs) @ rest) vals
      = parse_flags formal (write_flags kvs @ rest) (vals(n \<mapsto> v))"
    using flag_token_long [OF d(1)] d(2) by (simp add: write_flags_def)
  also have "\<dots> = parse_flags formal rest (vals(n \<mapsto> v) ++ map_of (rev kvs))" by (rule Cons.IH [OF d(3)])
  also have "vals(n \<mapsto> v) ++ map_of (rev kvs) = vals ++ map_of (rev (kv # kvs))"
    by (simp add: map_add_def fun_eq_iff split: option.splits)
  finally show ?case .
qed

text \<open>
  Flags round trip: a command line that sets declared string flags by name, each
  followed by its value (whatever the value looks like), parses without error to exactly
  those settings, the last setting of a flag winning and the others at their defaults.
\<close>

theorem flags_roundtrip:
  assumes "string_flags formal kvs"
  shows "fst (parse_flags formal (write_flags kvs) Map.empty) = None
    \<and> flag_value formal (snd (parse_flags formal (write_flags kvs) Map.empty)) n
        = (case map_of (rev kvs) n of
             Some v \<Rightarrow> v
           | None \<Rightarrow> (case map_of formal n of Some (_, d) \<Rightarrow> d | None \<Rightarrow> []))"
  using parse_write_flags [OF assms, of "[]" Map.empty]
  by (simp add: flag_value_def)

theorem flags_roundtrip_witness:
  "fst (parse_flags [(''env'', StringFlag, ''dev'')] (write_flags [(''env'', ''--prod'')]) Map.empty) = None
   \<and> flag_value [(''env'', StringFlag, ''dev'')]
       (snd (parse_flags [(''env'', StringFlag, ''dev'')] (write_flags [(''env'', ''--prod'')]) Map.empty)) ''env''
     = ''--prod''"
proof -
  have "string_flags [(''env'', StringFlag, ''dev'')] [(''env'', ''--prod'')]"
    by (simp add: string_flags_def flag_name_def)
  from flags_roundtrip [OF this, of "''env''"] show ?thesis by simp
qed

end
