(* ===== verification/Cli.thy ===== *)
theory Cli
  imports Go_Flags Server
begin

text \<open>
  \<open>cmd/skgate/main.go\<close>: the commands, from the argument list to the error \<open>main\<close> exits
  with. A machine has the files, the databases by data source name, and what was printed.
  What is outside the program is the record \<open>cli_env\<close>: environment variables, clocks and
  random bytes (by the index of the evaluation within a command), the JSON codecs, the
  database driver, and the listening HTTP server of \<open>serve\<close>. Writes to the standard output
  by \<open>fmt.Println\<close> and \<open>fmt.Printf\<close> have no effect on the result.
\<close>

section \<open>The machine\<close>

record InventoryItem =
  ii_Name :: string
  ii_Version :: string
  ii_Digest :: string
  ii_Environment :: string
  ii_LastState :: string
  ii_EvaluatedAt :: go_time

text \<open>
  Printed lines (without their line feed) and documents. The inventory is printed in the order of a map iteration,
  which Go leaves open: the output is kept as the map.
\<close>

datatype cli_output =
    Line go_error
  | DecisionOut Decision
  | DecisionsOut "Decision list"
  | PromotionsOut "Promotion list"
  | RevocationsOut "Revocation list"
  | QuarantinesOut "Quarantine list"
  | AffectedOut "string \<rightharpoonup> (string \<rightharpoonup> string)"
  | InventoryOut "string \<rightharpoonup> InventoryItem"

record machine =
  mc_world :: world
  mc_dbs :: "string \<Rightarrow> sql_db"
  mc_stdout :: "cli_output list"

record cli_env =
  cx_Version :: string
  cx_getenv :: "string \<Rightarrow> string"
  cx_policy :: "string \<Rightarrow> Policy result"
  cx_request :: "string \<Rightarrow> EvaluationRequest result"
  cx_indent :: "Decision \<Rightarrow> string"
  cx_js :: store_json
  cx_sql :: sql_api
  cx_aborts :: bool
  cx_open_db :: "string \<Rightarrow> schema_db result"
  cx_eval :: "nat \<Rightarrow> eval_env"
  cx_clock :: "nat \<Rightarrow> go_time"
  cx_call :: call_env
  cx_stdout_error :: "go_error option"

definition print :: "cli_output \<Rightarrow> machine \<Rightarrow> machine" where
  "print x m = m\<lparr>mc_stdout := mc_stdout m @ [x]\<rparr>"

text \<open>An operation on a part of the machine.\<close>

definition on_part :: "('m \<Rightarrow> 's) \<Rightarrow> ('s \<Rightarrow> 'm \<Rightarrow> 'm) \<Rightarrow> ('s \<Rightarrow> 'a \<times> 's) \<Rightarrow> 'm \<Rightarrow> 'a \<times> 'm" where
  "on_part get put f m = (let (x, s) = f (get m) in (x, put s m))"

definition embed_Store :: "('m \<Rightarrow> 's) \<Rightarrow> ('s \<Rightarrow> 'm \<Rightarrow> 'm) \<Rightarrow> 's Store \<Rightarrow> 'm Store" where
  "embed_Store get put st =
     \<lparr>st_Ping = on_part get put (st_Ping st), st_SaveDecision = (\<lambda>d. on_part get put (st_SaveDecision st d)),
      st_GetDecisions = on_part get put (st_GetDecisions st),
      st_Promote = (\<lambda>ce p. on_part get put (st_Promote st ce p)),
      st_GetPromotions = (\<lambda>env. on_part get put (st_GetPromotions st env)),
      st_Revoke = (\<lambda>ce r. on_part get put (st_Revoke st ce r)),
      st_GetRevocations = (\<lambda>env. on_part get put (st_GetRevocations st env)),
      st_IsRevoked = (\<lambda>dg env. on_part get put (st_IsRevoked st dg env)),
      st_Quarantine = (\<lambda>ce q. on_part get put (st_Quarantine st ce q)),
      st_GetQuarantines = (\<lambda>env. on_part get put (st_GetQuarantines st env)),
      st_IsQuarantined = (\<lambda>dg env. on_part get put (st_IsQuarantined st dg env)),
      st_Unquarantine = (\<lambda>x. on_part get put (st_Unquarantine st x)),
      st_Backup = (\<lambda>ce. on_part get put (st_Backup st ce)),
      st_Restore = (\<lambda>b. on_part get put (st_Restore st b))\<rparr>"

definition put_world :: "world \<Rightarrow> machine \<Rightarrow> machine" where
  "put_world w m = m\<lparr>mc_world := w\<rparr>"

definition put_db :: "string \<Rightarrow> sql_db \<Rightarrow> machine \<Rightarrow> machine" where
  "put_db dsn db m = m\<lparr>mc_dbs := (mc_dbs m)(dsn := db)\<rparr>"

definition cli_file_Store :: "cli_env \<Rightarrow> FileStore \<Rightarrow> machine Store" where
  "cli_file_Store cx fs = embed_Store mc_world put_world (file_Store (cx_js cx) fs)"

definition cli_sql_Store :: "cli_env \<Rightarrow> string \<Rightarrow> machine Store" where
  "cli_sql_Store cx dsn = embed_Store (\<lambda>m. mc_dbs m dsn) (put_db dsn) (sql_Store (cx_sql cx))"

definition open_store :: "cli_env \<Rightarrow> string \<Rightarrow> string \<Rightarrow> string \<Rightarrow> machine \<Rightarrow> machine Store result \<times> machine" where
  "open_store cx engine dataDir dsn m =
     (case NewStore (cx_aborts cx) (cx_open_db cx) engine dataDir dsn (mc_world m) of
        (Inl err, w) \<Rightarrow> (Inl err, put_world w m)
      | (Inr (FileHandle fs), w) \<Rightarrow> (Inr (cli_file_Store cx fs), put_world w m)
      | (Inr (SqlHandle d), w) \<Rightarrow> (Inr (cli_sql_Store cx d), put_world w m))"

definition read_file :: "string \<Rightarrow> machine \<Rightarrow> string result \<times> machine" where
  "read_file path = on_part mc_world put_world (os_ReadFile path)"

definition policy_Load :: "cli_env \<Rightarrow> string \<Rightarrow> machine \<Rightarrow> Policy result \<times> machine" where
  "policy_Load cx path m =
     (let (b, m1) = read_file path m in (Load (\<lambda>_. b) (cx_policy cx) path, m1))"

section \<open>Commands and their flags\<close>

type_synonym command = "machine \<Rightarrow> go_error option \<times> machine"
type_synonym flags = "string \<Rightarrow> string"

text \<open>Parsing fails, or the rest of the command runs with the values of the flags.\<close>

definition with_flags :: "flag_set \<Rightarrow> string list \<Rightarrow> (flags \<Rightarrow> command) \<Rightarrow> command" where
  "with_flags formal args k m =
     (case parse_flags formal args Map.empty of
        (Some err, _) \<Rightarrow> (Some err, m)
      | (None, vals) \<Rightarrow> k (flag_value formal vals) m)"

definition dd_flag :: flag_set where
  "dd_flag = [(''data-dir'', StringFlag, ''./data'')]"

definition store_flags :: flag_set where
  "store_flags = dd_flag @ [(''storage'', StringFlag, ''file''), (''dsn'', StringFlag, [])]"

text \<open>Opening the store the flags name: an error ends the command.\<close>

definition with_store :: "cli_env \<Rightarrow> flags \<Rightarrow> (machine Store \<Rightarrow> command) \<Rightarrow> command" where
  "with_store cx fl k m =
     (case open_store cx (fl ''storage'') (fl ''data-dir'') (fl ''dsn'') m of
        (Inl err, m1) \<Rightarrow> (Some err, m1)
      | (Inr st, m1) \<Rightarrow> k st m1)"

text \<open>A call whose error ends the command, and what follows it.\<close>

definition do_call :: "(machine \<Rightarrow> go_error option \<times> machine) \<Rightarrow> command \<Rightarrow> command" where
  "do_call f k m = (case f m of (Some err, m1) \<Rightarrow> (Some err, m1) | (None, m1) \<Rightarrow> k m1)"

definition do_read :: "(machine \<Rightarrow> 'a result \<times> machine) \<Rightarrow> ('a \<Rightarrow> command) \<Rightarrow> command" where
  "do_read f k m = (case f m of (Inl err, m1) \<Rightarrow> (Some err, m1) | (Inr x, m1) \<Rightarrow> k x m1)"

definition printing :: "cli_output \<Rightarrow> command" where
  "printing x m = (None, print x m)"

lemmas command_defs = with_flags_def with_store_def do_call_def do_read_def printing_def

definition runPolicy :: "cli_env \<Rightarrow> string list \<Rightarrow> command" where
  "runPolicy cx args =
     (if args = [] \<or> hd args \<noteq> ''validate''
      then (\<lambda>m. (Some (errors_New ''usage: skgate policy validate --policy <file>''), m))
      else with_flags [(''policy'', StringFlag, [])] (tl args) (\<lambda>fl m.
        if fl ''policy'' = [] then (Some (errors_New ''--policy is required''), m)
        else do_read (policy_Load cx (fl ''policy'')) (\<lambda>p.
          printing (Line (Sprintf ''policy %q valid (schema %s)'' [S (p_Name p), S (p_SchemaVersion p)]))) m))"

text \<open>
  The decision goes to a file or to the standard output; what \<open>SaveDecision\<close> returns is
  dropped. The evaluator reads the store \<open>NewStore\<close> returned, which is never nil.
\<close>

definition write_decision :: "cli_env \<Rightarrow> string \<Rightarrow> Decision \<Rightarrow> command" where
  "write_decision cx out d m =
     (if out \<noteq> [] then on_part mc_world put_world (os_WriteFile out (cx_indent cx d @ [newline])) m
      else (case cx_stdout_error cx of
              Some err \<Rightarrow> (Some err, m)
            | None \<Rightarrow> (None, print (DecisionOut d) m)))"

definition evaluate_flags :: flag_set where
  "evaluate_flags = [(''policy'', StringFlag, []), (''input'', StringFlag, []), (''output'', StringFlag, [])] @ store_flags"

definition runEvaluate :: "cli_env \<Rightarrow> string list \<Rightarrow> command" where
  "runEvaluate cx args =
     with_flags evaluate_flags args (\<lambda>fl m.
       if fl ''policy'' = [] \<or> fl ''input'' = []
       then (Some (errors_New ''--policy and --input are required''), m)
       else do_read (policy_Load cx (fl ''policy'')) (\<lambda>p.
            do_read (read_file (fl ''input'')) (\<lambda>b m2.
              case cx_request cx b of
                Inl err \<Rightarrow> (Some err, m2)
              | Inr req \<Rightarrow>
                  (case open_store cx (fl ''storage'') (fl ''data-dir'') (fl ''dsn'') m2 of
                     (Inl err, m3) \<Rightarrow> (Some (Wrapf ''storage initialization failed: %w'' [] err), m3)
                   | (Inr st, m3) \<Rightarrow>
                       (let (d, m4) = evaluate_on (Some st) (cx_eval cx 0) (evaluator_New p) req m3;
                            (_, m5) = st_SaveDecision st d m4
                        in write_decision cx (fl ''output'') d m5)))) m)"

definition runDoctor :: "cli_env \<Rightarrow> string list \<Rightarrow> command" where
  "runDoctor cx args =
     with_flags ([(''policy'', StringFlag, [])] @ dd_flag) args (\<lambda>fl m.
       if fl ''policy'' = [] then (Some (errors_New ''--policy is required''), m)
       else (case policy_Load cx (fl ''policy'') m of
          (Inl err, m1) \<Rightarrow> (Some (Wrapf ''policy: %w'' [] err), m1)
        | (Inr _, m1) \<Rightarrow>
            do_call (on_part mc_world put_world (os_MkdirAll (fl ''data-dir'')))
              (do_call (on_part mc_world put_world
                  (os_WriteFile (filepath_Join (fl ''data-dir'') ''.write-probe'') ''ok''))
                 (\<lambda>m3. printing (Line (errors_New ''doctor: PASS''))
                   (put_world (os_Remove (filepath_Join (fl ''data-dir'') ''.write-probe'') (mc_world m3)) m3))) m1))"

definition promote_flags :: flag_set where
  "promote_flags = [(''decision-id'', StringFlag, []), (''digest'', StringFlag, []), (''env'', StringFlag, []),
     (''by'', StringFlag, ''cli''), (''reason'', StringFlag, [])] @ store_flags"

definition runPromote :: "cli_env \<Rightarrow> string list \<Rightarrow> command" where
  "runPromote cx args =
     with_flags promote_flags args (\<lambda>fl m.
       if fl ''decision-id'' = [] \<or> fl ''digest'' = [] \<or> fl ''env'' = []
       then (Some (errors_New ''--decision-id, --digest, and --env are required''), m)
       else with_store cx fl (\<lambda>st.
         let p = \<lparr>pm_ID = [], pm_DecisionID = fl ''decision-id'', pm_Digest = fl ''digest'',
                  pm_Environment = fl ''env'', pm_PromotedBy = fl ''by'', pm_PromotedAt = time_zero,
                  pm_Reason = fl ''reason''\<rparr>
         in do_call (st_Promote st (cx_call cx) p)
              (printing (Line (Sprintf ''promoted digest %s (decision %s) to environment %q''
                 [S (fl ''digest''), S (fl ''decision-id''), S (fl ''env'')])))) m)"

definition revoke_flags :: flag_set where
  "revoke_flags = [(''digest'', StringFlag, []), (''env'', StringFlag, []),
     (''by'', StringFlag, ''cli''), (''reason'', StringFlag, [])] @ store_flags"

definition runRevoke :: "cli_env \<Rightarrow> string list \<Rightarrow> command" where
  "runRevoke cx args =
     with_flags revoke_flags args (\<lambda>fl m.
       if fl ''digest'' = [] then (Some (errors_New ''--digest is required''), m)
       else with_store cx fl (\<lambda>st.
         let r = \<lparr>rv_ID = [], rv_Digest = fl ''digest'', rv_Environment = fl ''env'', rv_RevokedBy = fl ''by'',
                  rv_RevokedAt = time_zero, rv_ExpiresAt = None, rv_Reason = fl ''reason'', rv_IncidentID = []\<rparr>
         in do_call (st_Revoke st (cx_call cx) r)
              (printing (Line (Sprintf ''revoked digest %s (environment %q)''
                 [S (fl ''digest''), S (fl ''env'')])))) m)"

definition env_flags :: flag_set where
  "env_flags = [(''env'', StringFlag, [])] @ store_flags"

definition runPromotions :: "cli_env \<Rightarrow> string list \<Rightarrow> command" where
  "runPromotions cx args =
     with_flags env_flags args (\<lambda>fl. with_store cx fl (\<lambda>st.
       do_read (st_GetPromotions st (fl ''env'')) (\<lambda>xs. printing (PromotionsOut xs))))"

definition runRevocations :: "cli_env \<Rightarrow> string list \<Rightarrow> command" where
  "runRevocations cx args =
     with_flags env_flags args (\<lambda>fl. with_store cx fl (\<lambda>st.
       do_read (st_GetRevocations st (fl ''env'')) (\<lambda>xs. printing (RevocationsOut xs))))"

definition quarantine_flags :: flag_set where
  "quarantine_flags = [(''digest'', StringFlag, []), (''env'', StringFlag, []), (''by'', StringFlag, ''cli''),
     (''reason'', StringFlag, []), (''incident-id'', StringFlag, [])] @ store_flags"

definition runQuarantine :: "cli_env \<Rightarrow> string list \<Rightarrow> command" where
  "runQuarantine cx args =
     with_flags quarantine_flags args (\<lambda>fl m.
       if fl ''digest'' = [] then (Some (errors_New ''--digest is required''), m)
       else with_store cx fl (\<lambda>st.
         let q = \<lparr>qr_ID = [], qr_Digest = fl ''digest'', qr_Environment = fl ''env'', qr_QuarantinedBy = fl ''by'',
                  qr_QuarantinedAt = time_zero, qr_Reason = fl ''reason'', qr_IncidentID = fl ''incident-id''\<rparr>
         in do_call (st_Quarantine st (cx_call cx) q)
              (printing (Line (Sprintf ''quarantined digest %s (environment %q)''
                 [S (fl ''digest''), S (fl ''env'')])))) m)"

definition runUnquarantine :: "cli_env \<Rightarrow> string list \<Rightarrow> command" where
  "runUnquarantine cx args =
     with_flags ([(''id'', StringFlag, [])] @ store_flags) args (\<lambda>fl m.
       if fl ''id'' = [] then (Some (errors_New ''--id (quarantine ID or digest) is required''), m)
       else with_store cx fl (\<lambda>st.
         do_call (st_Unquarantine st (fl ''id''))
           (printing (Line (Sprintf ''unquarantined %s'' [S (fl ''id'')])))) m)"

definition runQuarantines :: "cli_env \<Rightarrow> string list \<Rightarrow> command" where
  "runQuarantines cx args =
     with_flags env_flags args (\<lambda>fl. with_store cx fl (\<lambda>st.
       do_read (st_GetQuarantines st (fl ''env'')) (\<lambda>xs. printing (QuarantinesOut xs))))"

section \<open>Reassessment\<close>

text \<open>
  The request \<open>reassess\<close> builds from a stored decision: evidence is not looked up but
  written as complete, passed and of low risk, from the provider the policy wants.
\<close>

definition reassess_request :: "Policy \<Rightarrow> go_time \<Rightarrow> Decision \<Rightarrow> EvaluationRequest" where
  "reassess_request p now oldDec =
     \<lparr>rq_Subject = d_Subject oldDec, rq_Environment = d_Environment oldDec,
      rq_Evidence =
        \<lparr>ev_SchemaVersion = ''1.0.0'', ev_SubjectDigest = as_Digest (d_Subject oldDec), ev_EvidenceDigest = [],
         ev_Status = [], ev_Provider = ap_Provider (p_Assurance p),
         ev_ProviderVersion = ap_MinimumVersion (p_Assurance p), ev_CompletedAt = now, ev_Complete = True,
         ev_Passed = True, ev_SignatureVerified = False, ev_SignerIdentity = [], ev_ProvenanceVerified = False,
         ev_Risk = ''low'', ev_Capabilities = [], ev_DSSEEnvelope = None, ev_SigstoreBundle = None,
         ev_GitHubAttestation = None\<rparr>,
      rq_Approvals = [], rq_ApprovalRecords = []\<rparr>"

text \<open>The loop over the stored decisions; the errors of \<open>SaveDecision\<close> are dropped.\<close>

fun reassess_all :: "cli_env \<Rightarrow> Policy \<Rightarrow> 'm Store \<Rightarrow> nat \<Rightarrow> Decision list \<Rightarrow> 'm \<Rightarrow> Decision list \<times> 'm" where
  "reassess_all cx p st i [] m = ([], m)"
| "reassess_all cx p st i (oldDec # decs) m =
     (let (newDec, m1) = evaluate_on (Some st) (cx_eval cx i) (evaluator_New p)
            (reassess_request p (cx_clock cx i) oldDec) m;
          (_, m2) = st_SaveDecision st newDec m1;
          (rest, m3) = reassess_all cx p st (Suc i) decs m2
      in (newDec # rest, m3))"

definition reassess_flags :: flag_set where
  "reassess_flags = [(''policy'', StringFlag, [])] @ store_flags"

definition runReassess :: "cli_env \<Rightarrow> string list \<Rightarrow> command" where
  "runReassess cx args =
     with_flags reassess_flags args (\<lambda>fl m.
       if fl ''policy'' = [] then (Some (errors_New ''--policy is required''), m)
       else do_read (policy_Load cx (fl ''policy'')) (\<lambda>p.
            with_store cx fl (\<lambda>st.
            do_read (st_GetDecisions st) (\<lambda>decs m3.
              let (newDecisions, m4) = reassess_all cx p st 0 decs m3
              in printing (DecisionsOut newDecisions) m4))) m)"

section \<open>Reports\<close>

text \<open>The inner map of a digest is created on first use.\<close>

definition note_reason ::
    "string \<Rightarrow> string \<Rightarrow> string \<Rightarrow> (string \<rightharpoonup> (string \<rightharpoonup> string)) \<Rightarrow> (string \<rightharpoonup> (string \<rightharpoonup> string))" where
  "note_reason kind dg reason s =
     s(dg \<mapsto> (case s dg of None \<Rightarrow> Map.empty | Some x \<Rightarrow> x)(kind \<mapsto> reason))"

definition affected_set ::
    "Revocation list \<Rightarrow> Quarantine list \<Rightarrow> (string \<rightharpoonup> (string \<rightharpoonup> string))" where
  "affected_set revs quars =
     foldl (\<lambda>s q. note_reason ''quarantine'' (qr_Digest q) (qr_Reason q) s)
       (foldl (\<lambda>s r. note_reason ''revocation'' (rv_Digest r) (rv_Reason r) s) Map.empty revs) quars"

definition runAffected :: "cli_env \<Rightarrow> string list \<Rightarrow> command" where
  "runAffected cx args =
     with_flags env_flags args (\<lambda>fl. with_store cx fl (\<lambda>st.
       do_read (st_GetRevocations st (fl ''env'')) (\<lambda>revs.
       do_read (st_GetQuarantines st (fl ''env'')) (\<lambda>quars.
         printing (AffectedOut (affected_set revs quars))))))"

definition inventory_key :: "Decision \<Rightarrow> string" where
  "inventory_key d = as_Digest (d_Subject d) @ '':'' @ d_Environment d"

definition inventory_item :: "Decision \<Rightarrow> InventoryItem" where
  "inventory_item d =
     \<lparr>ii_Name = as_Name (d_Subject d), ii_Version = as_Version (d_Subject d),
      ii_Digest = as_Digest (d_Subject d), ii_Environment = d_Environment d,
      ii_LastState = d_Decision d, ii_EvaluatedAt = d_EvaluatedAt d\<rparr>"

definition inventory_add ::
    "string \<Rightarrow> (string \<rightharpoonup> InventoryItem) \<Rightarrow> Decision \<Rightarrow> (string \<rightharpoonup> InventoryItem)" where
  "inventory_add env m d =
     (if env \<noteq> [] \<and> d_Environment d \<noteq> env then m else m(inventory_key d \<mapsto> inventory_item d))"

definition inventory_map :: "string \<Rightarrow> Decision list \<Rightarrow> (string \<rightharpoonup> InventoryItem)" where
  "inventory_map env decs = foldl (inventory_add env) Map.empty decs"

definition runInventory :: "cli_env \<Rightarrow> string list \<Rightarrow> command" where
  "runInventory cx args =
     with_flags env_flags args (\<lambda>fl. with_store cx fl (\<lambda>st.
       do_read (st_GetDecisions st) (\<lambda>decs. printing (InventoryOut (inventory_map (fl ''env'') decs)))))"

section \<open>Backup and restore\<close>

definition backup_flags :: flag_set where
  "backup_flags = [(''out'', StringFlag, [])] @ store_flags"

definition runBackup :: "cli_env \<Rightarrow> string list \<Rightarrow> command" where
  "runBackup cx args =
     with_flags backup_flags args (\<lambda>fl m.
       if fl ''out'' = [] then (Some (errors_New ''--out backup file path is required''), m)
       else with_store cx fl (\<lambda>st.
         do_read (st_Backup st (cx_call cx)) (\<lambda>b.
           on_part mc_world put_world (os_WriteFile (fl ''out'') b))) m)"

definition restore_flags :: flag_set where
  "restore_flags = [(''in'', StringFlag, [])] @ store_flags"

definition runRestore :: "cli_env \<Rightarrow> string list \<Rightarrow> command" where
  "runRestore cx args =
     with_flags restore_flags args (\<lambda>fl m.
       if fl ''in'' = [] then (Some (errors_New ''--in backup file path is required''), m)
       else do_read (read_file (fl ''in'')) (\<lambda>data. with_store cx fl (\<lambda>st. st_Restore st data)) m)"

section \<open>The server\<close>

definition getEnvOrDefault :: "cli_env \<Rightarrow> string \<Rightarrow> string \<Rightarrow> string" where
  "getEnvOrDefault cx key fallback = (if cx_getenv cx key \<noteq> [] then cx_getenv cx key else fallback)"

definition serve_flags :: "cli_env \<Rightarrow> flag_set" where
  "serve_flags cx =
     [(''policy'', StringFlag, []), (''addr'', StringFlag, '':8081'')] @ dd_flag @
     [(''storage'', StringFlag, getEnvOrDefault cx ''SKGATE_STORAGE_ENGINE'' ''file''),
      (''dsn'', StringFlag, cx_getenv cx ''SKGATE_STORAGE_DSN''),
      (''oidc-issuer'', StringFlag, cx_getenv cx ''SKGATE_OIDC_ISSUER''),
      (''oidc-audience'', StringFlag, cx_getenv cx ''SKGATE_OIDC_AUDIENCE''),
      (''production'', BoolFlag, ''false'')]"

text \<open>The server \<open>serve\<close> hands to \<open>net/http\<close>, in front of the machine's store.\<close>

definition configured_server ::
    "cli_env \<Rightarrow> flags \<Rightarrow> Policy \<Rightarrow> machine Store \<Rightarrow> machine \<Rightarrow> machine Server" where
  "configured_server cx fl p st m =
     (let token = cx_getenv cx ''SKGATE_API_TOKEN'';
          srv = api_New (evaluator_New p) (Some st) token (fl ''production'' = ''true'') m
      in if fl ''oidc-issuer'' \<noteq> [] \<or> fl ''oidc-audience'' \<noteq> []
         then WithAuthenticator srv (Some
           (WithAudience (WithIssuer (NewAuthenticator token []) (fl ''oidc-issuer'')) (fl ''oidc-audience'')))
         else srv)"

text \<open>
  \<open>listen\<close> is \<open>net/http\<close> serving on the address until a signal or an error: it gets the
  configured server and returns the error, if any, of \<open>ListenAndServe\<close> or \<open>Shutdown\<close>.
\<close>

definition runServe :: "cli_env \<Rightarrow> (string \<Rightarrow> machine Server \<Rightarrow> command) \<Rightarrow> string list \<Rightarrow> command" where
  "runServe cx listen args =
     with_flags (serve_flags cx) args (\<lambda>fl m.
       if fl ''policy'' = [] then (Some (errors_New ''--policy is required''), m)
       else do_read (policy_Load cx (fl ''policy'')) (\<lambda>p.
            with_store cx fl (\<lambda>st m2.
              listen (fl ''addr'') (configured_server cx fl p st m2) m2)) m)"

section \<open>Dispatch\<close>

definition usage :: command where
  "usage = printing (Line (errors_New (''skgate - agent skill admission and governance plane''
     @ [newline, newline] @ ''commands: version, policy validate, evaluate, serve, doctor, promote, revoke, ''
     @ ''promotions, revocations, quarantine, unquarantine, quarantines, reassess, affected, inventory, ''
     @ ''backup, restore'')))"

definition run :: "cli_env \<Rightarrow> (string \<Rightarrow> machine Server \<Rightarrow> command) \<Rightarrow> string list \<Rightarrow> command" where
  "run cx listen args m =
     (case args of
        [] \<Rightarrow> usage m
      | c # rest \<Rightarrow>
          if c = ''version'' then printing (Line (errors_New (cx_Version cx))) m
          else if c = ''policy'' then runPolicy cx rest m
          else if c = ''evaluate'' then runEvaluate cx rest m
          else if c = ''serve'' then runServe cx listen rest m
          else if c = ''doctor'' then runDoctor cx rest m
          else if c = ''promote'' then runPromote cx rest m
          else if c = ''revoke'' then runRevoke cx rest m
          else if c = ''promotions'' then runPromotions cx rest m
          else if c = ''revocations'' then runRevocations cx rest m
          else if c = ''quarantine'' then runQuarantine cx rest m
          else if c = ''unquarantine'' then runUnquarantine cx rest m
          else if c = ''quarantines'' then runQuarantines cx rest m
          else if c = ''reassess'' then runReassess cx rest m
          else if c = ''affected'' then runAffected cx rest m
          else if c = ''inventory'' then runInventory cx rest m
          else if c = ''backup'' then runBackup cx rest m
          else if c = ''restore'' then runRestore cx rest m
          else (Some (Errorf ''unknown command %q'' [S c]), m))"

text \<open>\<open>main\<close>: the exit status.\<close>

definition exit_status :: "go_error option \<Rightarrow> nat" where
  "exit_status e = (case e of None \<Rightarrow> 0 | Some _ \<Rightarrow> 1)"

section \<open>Opening a store\<close>

lemma on_part_simps [simp]:
  "on_part get put f m = (fst (f (get m)), put (snd (f (get m))) m)"
  by (simp add: on_part_def split_def Let_def)

lemma part_simps [simp]:
  "mc_world (put_world w m) = w" "mc_dbs (put_world w m) = mc_dbs m" "mc_stdout (put_world w m) = mc_stdout m"
  "put_world w (put_world w' m) = put_world w m" "put_world (mc_world m) m = m"
  "mc_world (print x m) = mc_world m" "mc_dbs (print x m) = mc_dbs m"
  by (simp_all add: put_world_def print_def)

lemma cli_file_calls [simp]:
  "st_Promote (cli_file_Store cx fs) ce p m =
     (fst (file_Promote (cx_js cx) fs ce p (mc_world m)), put_world (snd (file_Promote (cx_js cx) fs ce p (mc_world m))) m)"
  "st_SaveDecision (cli_file_Store cx fs) d m =
     (fst (file_SaveDecision (cx_js cx) fs d (mc_world m)), put_world (snd (file_SaveDecision (cx_js cx) fs d (mc_world m))) m)"
  "st_GetDecisions (cli_file_Store cx fs) m =
     (fst (file_GetDecisions (cx_js cx) fs (mc_world m)), put_world (snd (file_GetDecisions (cx_js cx) fs (mc_world m))) m)"
  "st_GetRevocations (cli_file_Store cx fs) env m =
     (fst (file_GetRevocations (cx_js cx) fs env (mc_world m)),
      put_world (snd (file_GetRevocations (cx_js cx) fs env (mc_world m))) m)"
  "st_GetQuarantines (cli_file_Store cx fs) env m =
     (fst (file_GetQuarantines (cx_js cx) fs env (mc_world m)),
      put_world (snd (file_GetQuarantines (cx_js cx) fs env (mc_world m))) m)"
  "st_IsRevoked (cli_file_Store cx fs) dg env m =
     (fst (file_IsRevoked (cx_js cx) fs dg env (mc_world m)),
      put_world (snd (file_IsRevoked (cx_js cx) fs dg env (mc_world m))) m)"
  "st_IsQuarantined (cli_file_Store cx fs) dg env m =
     (fst (file_IsQuarantined (cx_js cx) fs dg env (mc_world m)),
      put_world (snd (file_IsQuarantined (cx_js cx) fs dg env (mc_world m))) m)"
  "st_Backup (cli_file_Store cx fs) ce m =
     (fst (file_Backup (cx_js cx) fs ce (mc_world m)), put_world (snd (file_Backup (cx_js cx) fs ce (mc_world m))) m)"
  "st_Restore (cli_file_Store cx fs) b m =
     (fst (file_Restore (cx_js cx) fs b (mc_world m)), put_world (snd (file_Restore (cx_js cx) fs b (mc_world m))) m)"
  by (simp_all add: cli_file_Store_def embed_Store_def file_Store_def)

lemma file_view_dirs: "file_view js fs (w\<lparr>w_dirs := ds\<rparr>) g \<longleftrightarrow> file_view js fs w g"
  by (simp add: file_view_def file_holds_def file_bytes_def)

lemma open_store_file:
  assumes "dir \<noteq> []" "w_faults (mc_world m) = []"
  shows "open_store cx ''file'' dir dsn m =
    (Inr (cli_file_Store cx (file_store dir)), put_world ((mc_world m)\<lparr>w_dirs := dir # w_dirs (mc_world m)\<rparr>) m)"
  using assms by (simp add: open_store_def NewStore_def NewFileStore_def os_MkdirAll_def lower_byte_def
      less_eq_char_def)

text \<open>Flags of the store, when the command line leaves engine and dsn at their defaults.\<close>

definition plain_flags :: "flag_set \<Rightarrow> (string \<times> string) list \<Rightarrow> flags" where
  "plain_flags formal kvs n =
     (case map_of (rev kvs) n of
        Some v \<Rightarrow> v
      | None \<Rightarrow> (case map_of formal n of Some (_, d) \<Rightarrow> d | None \<Rightarrow> []))"

lemma with_flags_written:
  assumes "string_flags formal kvs"
  shows "with_flags formal (write_flags kvs) k m = k (plain_flags formal kvs) m"
proof -
  have "flag_value formal (map_of (rev kvs)) = plain_flags formal kvs"
    by (rule ext) (simp add: flag_value_def plain_flags_def)
  then show ?thesis using parse_write_flags [OF assms, of "[]" Map.empty] by (simp add: with_flags_def)
qed

section \<open>Promotion from the command line\<close>

text \<open>
  C21. \<open>skgate promote\<close> on a readable data directory exits without error exactly when the
  ledger in the directory permits the promotion, and then the promotion is recorded; otherwise
  nothing is recorded.
\<close>

theorem cli_promote_exact:
  assumes "file_view (cx_js cx) (file_store dir) (mc_world m) g" "dir \<noteq> []"
    "dg \<noteq> []" "env \<noteq> []" "dec \<noteq> []"
    "p = \<lparr>pm_ID = [], pm_DecisionID = dec, pm_Digest = dg, pm_Environment = env, pm_PromotedBy = ''cli'',
          pm_PromotedAt = time_zero, pm_Reason = []\<rparr>"
    "storable (j_promotion (cx_js cx)) (stamp_promotion (cx_call cx) p)"
    "run cx listen (''promote'' # write_flags [(''decision-id'', dec), (''digest'', dg), (''env'', env),
       (''data-dir'', dir)]) m = (e, m')"
  shows "(e = None \<longleftrightarrow> promotion_error g (ce_now (cx_call cx)) p = None)
    \<and> file_view (cx_js cx) (file_store dir) (mc_world m')
        (if e = None then g\<lparr>lg_promotions := lg_promotions g @ [stamp_promotion (cx_call cx) p]\<rparr> else g)"
proof -
  let ?kvs = "[(''decision-id'', dec), (''digest'', dg), (''env'', env), (''data-dir'', dir)]"
  have f: "string_flags promote_flags ?kvs"
    by (simp add: string_flags_def flag_name_def promote_flags_def store_flags_def dd_flag_def)
  let ?w = "(mc_world m)\<lparr>w_dirs := dir # w_dirs (mc_world m)\<rparr>"
  have v: "file_view (cx_js cx) (file_store dir) ?w g" using assms(1) by (simp add: file_view_dirs)
  have w: "w_faults (mc_world m) = []" using assms(1) by (simp add: file_view_def)
  have fl: "plain_flags promote_flags ?kvs ''decision-id'' = dec" "plain_flags promote_flags ?kvs ''digest'' = dg"
    "plain_flags promote_flags ?kvs ''env'' = env" "plain_flags promote_flags ?kvs ''data-dir'' = dir"
    "plain_flags promote_flags ?kvs ''storage'' = ''file''" "plain_flags promote_flags ?kvs ''by'' = ''cli''"
    "plain_flags promote_flags ?kvs ''reason'' = []"
    by (simp_all add: plain_flags_def promote_flags_def store_flags_def dd_flag_def)
  have r: "run cx listen (''promote'' # write_flags ?kvs) m =
    do_call (st_Promote (cli_file_Store cx (file_store dir)) (cx_call cx) p)
      (printing (Line (Sprintf ''promoted digest %s (decision %s) to environment %q'' [S dg, S dec, S env])))
      (put_world ?w m)"
    using assms(3-6) w assms(2)
    by (simp add: run_def runPromote_def with_flags_written [OF f] fl with_store_def open_store_file)
  show ?thesis
  proof (cases "promotion_error g (ce_now (cx_call cx)) p")
    case (Some err)
    then have "file_Promote (cx_js cx) (file_store dir) (cx_call cx) p ?w = (Some err, ?w)"
      by (simp add: file_Promote_view [OF v])
    with r assms(8) v Some show ?thesis by (auto simp: do_call_def)
  next
    case None
    obtain w' where w': "file_Promote (cx_js cx) (file_store dir) (cx_call cx) p ?w = (None, w')"
        "file_view (cx_js cx) (file_store dir) w' (g\<lparr>lg_promotions := lg_promotions g @ [stamp_promotion (cx_call cx) p]\<rparr>)"
      using view_append_promotion [OF v assms(7)] None by (auto simp: file_Promote_view [OF v])
    with r assms(8) None show ?thesis by (auto simp: do_call_def printing_def)
  qed
qed

section \<open>Reassessment\<close>









section \<open>Evaluation from the command line\<close>

text \<open>
  C34. \<open>skgate evaluate\<close> reports its decision with status 0 whatever \<open>SaveDecision\<close>
  returned: the decision is printed also when it could not be recorded.
\<close>

theorem evaluate_drops_audit_error:
  assumes "string_flags evaluate_flags kvs" "fl = plain_flags evaluate_flags kvs"
    "fl ''policy'' \<noteq> []" "fl ''input'' \<noteq> []" "fl ''output'' = []" "cx_stdout_error cx = None"
    "policy_Load cx (fl ''policy'') m = (Inr p, m1)" "read_file (fl ''input'') m1 = (Inr b, m2)"
    "cx_request cx b = Inr req"
    "open_store cx (fl ''storage'') (fl ''data-dir'') (fl ''dsn'') m2 = (Inr st, m3)"
    "evaluate_on (Some st) (cx_eval cx 0) (evaluator_New p) req m3 = (d, m4)"
    "st_SaveDecision st d m4 = (saved, m5)"
  shows "run cx listen (''evaluate'' # write_flags kvs) m = (None, print (DecisionOut d) m5)"
  using assms(3-12)
  by (simp add: run_def runEvaluate_def with_flags_written [OF assms(1)] assms(2) do_read_def write_decision_def
      del: on_part_simps)

definition sample_cli :: cli_env where
  "sample_cli =
     \<lparr>cx_Version = ''dev'', cx_getenv = (\<lambda>_. []), cx_policy = (\<lambda>_. Inr sample_policy),
      cx_request = (\<lambda>_. Inr sample_request), cx_indent = (\<lambda>_. ''{}''), cx_js = sample_json,
      cx_sql = sample_sql, cx_aborts = True, cx_open_db = (\<lambda>_. Inl (errors_New ''sql: unknown driver'')),
      cx_eval = (\<lambda>_. sample_env), cx_clock = (\<lambda>_. 2), cx_call = sample_ce, cx_stdout_error = None\<rparr>"

definition sample_listen :: "string \<Rightarrow> machine Server \<Rightarrow> command" where
  "sample_listen addr srv m = (None, m)"

text \<open>A machine with the two input files, on which the eighth system call fails: opening the audit log.\<close>

definition disk_full :: go_error where "disk_full = errors_New ''no space left on device''"

definition full_machine :: machine where
  "full_machine =
     \<lparr>mc_world = \<lparr>w_files = [''p'' \<mapsto> ''{}'', ''i'' \<mapsto> ''{}''], w_dirs = [],
        w_faults = [None, None, None, None, None, None, None, Some \<lparr>flt_err = disk_full, flt_bytes = 0\<rparr>]\<rparr>,
      mc_dbs = (\<lambda>_. empty_db), mc_stdout = []\<rparr>"

theorem evaluate_drops_audit_error_witness:
  "\<exists>d m. run sample_cli sample_listen [''evaluate'', ''--policy'', ''p'', ''--input'', ''i''] full_machine
       = (None, m) \<and> mc_stdout m = [DecisionOut d] \<and> w_files (mc_world m) ''./data/decisions.ndjson'' = None"
proof -
  let ?kvs = "[(''policy'', ''p''), (''input'', ''i'')]" let ?fl = "plain_flags evaluate_flags ?kvs"
  let ?w = "\<lambda>fs ds. \<lparr>w_files = [''p'' \<mapsto> ''{}'', ''i'' \<mapsto> ''{}''], w_dirs = ds, w_faults = fs\<rparr>"
  let ?m = "\<lambda>fs ds. \<lparr>mc_world = ?w fs ds, mc_dbs = (\<lambda>_. empty_db), mc_stdout = []\<rparr>"
  let ?f = "Some \<lparr>flt_err = disk_full, flt_bytes = 0\<rparr>"
  let ?st = "cli_file_Store sample_cli (file_store ''./data'')"
  have fl: "string_flags evaluate_flags ?kvs" "?fl ''policy'' = ''p''" "?fl ''input'' = ''i''" "?fl ''output'' = []"
    "?fl ''storage'' = ''file''" "?fl ''data-dir'' = ''./data''" "?fl ''dsn'' = []"
    by (simp_all add: string_flags_def flag_name_def plain_flags_def evaluate_flags_def store_flags_def dd_flag_def)
  have 1: "policy_Load sample_cli (?fl ''policy'') full_machine
      = (Inr sample_policy, ?m [None, None, None, None, None, ?f] [])"
    by (simp add: fl policy_Load_def read_file_def os_ReadFile_def full_machine_def put_world_def Load_def
        sample_cli_def sample_policy_valid Let_def)
  have 2: "read_file (?fl ''input'') (?m [None, None, None, None, None, ?f] [])
      = (Inr ''{}'', ?m [None, None, None, ?f] [])"
    by (simp add: fl read_file_def os_ReadFile_def put_world_def)
  have 3: "open_store sample_cli (?fl ''storage'') (?fl ''data-dir'') (?fl ''dsn'') (?m [None, None, None, ?f] [])
      = (Inr ?st, ?m [None, None, ?f] [''./data''])"
    by (simp add: fl open_store_def NewStore_def NewFileStore_def os_MkdirAll_def put_world_def lower_byte_def
        less_eq_char_def)
  obtain d where 4: "evaluate_on (Some ?st) (cx_eval sample_cli 0) (evaluator_New sample_policy) sample_request
      (?m [None, None, ?f] [''./data'']) = (d, ?m [?f] [''./data''])"
    by (simp add: evaluate_on_def Let_def file_IsRevoked_def file_GetRevocations_def file_IsQuarantined_def
        file_GetQuarantines_def readNDJSON_def put_world_def file_store_def filepath_Join_def)
  have 5: "st_SaveDecision ?st d (?m [?f] [''./data'']) = (Some disk_full, ?m [] [''./data''])"
    by (simp add: file_SaveDecision_def appendNDJSON_def os_OpenAppend_def put_world_def)
  have "run sample_cli sample_listen (''evaluate'' # write_flags ?kvs) full_machine
      = (None, print (DecisionOut d) (?m [] [''./data'']))"
    by (rule evaluate_drops_audit_error [OF fl(1) refl _ _ fl(4) _ 1 2 _ 3 4 5])
      (simp_all add: fl sample_cli_def)
  then show ?thesis by (simp add: write_flags_def print_def)
qed

section \<open>Reports\<close>

lemma note_reason_fold:
  "foldl (\<lambda>s x. note_reason k (f x) (g x) s) s0 xs dg =
     (case find (\<lambda>x. f x = dg) (rev xs) of
        None \<Rightarrow> s0 dg
      | Some x \<Rightarrow> Some ((case s0 dg of None \<Rightarrow> Map.empty | Some y \<Rightarrow> y)(k \<mapsto> g x)))"
proof (induction xs rule: rev_induct)
  case (snoc x xs)
  have "note_reason k (f x) (g x) s dg =
      (if f x = dg then Some ((case s dg of None \<Rightarrow> Map.empty | Some y \<Rightarrow> y)(k \<mapsto> g x)) else s dg)" for s
    by (simp add: note_reason_def)
  then show ?case using snoc.IH
    by (cases "find (\<lambda>x. f x = dg) (rev xs)"; cases "s0 dg") simp_all
qed simp


text \<open>
  \<open>affected\<close> lists a digest exactly when one of the revocations or quarantines read
  names it, with the reason of the last revocation and of the last quarantine.
\<close>

theorem affected_exact:
  "affected_set revs quars dg =
     (if dg \<notin> rv_Digest ` set revs \<and> dg \<notin> qr_Digest ` set quars then None
      else Some (\<lambda>k.
        if k = ''revocation'' then map_option rv_Reason (find (\<lambda>r. rv_Digest r = dg) (rev revs))
        else if k = ''quarantine'' then map_option qr_Reason (find (\<lambda>q. qr_Digest q = dg) (rev quars))
        else None))"
proof -
  have r: "find (\<lambda>r. rv_Digest r = dg) (rev revs) = None \<longleftrightarrow> dg \<notin> rv_Digest ` set revs"
    "find (\<lambda>q. qr_Digest q = dg) (rev quars) = None \<longleftrightarrow> dg \<notin> qr_Digest ` set quars"
    by (auto simp: find_None_iff)
  show ?thesis
    unfolding affected_set_def note_reason_fold
    by (cases "find (\<lambda>r. rv_Digest r = dg) (rev revs)"; cases "find (\<lambda>q. qr_Digest q = dg) (rev quars)")
      (use r in \<open>auto simp: fun_eq_iff\<close>)
qed

text \<open>
  On the file store \<open>affected --env\<close> leaves out a digest that is revoked for all
  environments, although no promotion of it there is permitted.
\<close>

theorem affected_omits_global_revocation:
  assumes "file_view (cx_js cx) (file_store dir) (mc_world m) g" "dir \<noteq> []" "env \<noteq> []"
    "r \<in> set (lg_revocations g)" "rv_Digest r = dg" "rv_Environment r = []"
    "\<forall>r \<in> set (lg_revocations g). rv_Digest r = dg \<longrightarrow> rv_Environment r \<noteq> env"
    "\<forall>q \<in> set (lg_quarantines g). qr_Digest q \<noteq> dg"
  shows "\<exists>a m'. run cx listen (''affected'' # write_flags [(''env'', env), (''data-dir'', dir)]) m
      = (None, m') \<and> mc_stdout m' = mc_stdout m @ [AffectedOut a] \<and> a dg = None \<and> blocked g dg env"
proof -
  let ?kvs = "[(''env'', env), (''data-dir'', dir)]"
  have f: "string_flags env_flags ?kvs"
    by (simp add: string_flags_def flag_name_def env_flags_def store_flags_def dd_flag_def)
  let ?w = "(mc_world m)\<lparr>w_dirs := dir # w_dirs (mc_world m)\<rparr>"
  have v: "file_view (cx_js cx) (file_store dir) ?w g" using assms(1) by (simp add: file_view_dirs)
  have w: "w_faults (mc_world m) = []" using assms(1) by (simp add: file_view_def)
  have fl: "plain_flags env_flags ?kvs ''env'' = env" "plain_flags env_flags ?kvs ''data-dir'' = dir"
    "plain_flags env_flags ?kvs ''storage'' = ''file''"
    by (simp_all add: plain_flags_def env_flags_def store_flags_def dd_flag_def)
  let ?revs = "filter (\<lambda>r. rv_Environment r = env) (lg_revocations g)"
  let ?quars = "filter (\<lambda>q. qr_Environment q = [] \<or> qr_Environment q = env) (lg_quarantines g)"
  have "run cx listen (''affected'' # write_flags ?kvs) m
      = (None, print (AffectedOut (affected_set ?revs ?quars)) (put_world ?w m))"
    using assms(2,3) w
    by (simp add: run_def runAffected_def with_flags_written [OF f] fl with_store_def open_store_file do_read_def
        printing_def file_GetRevocations_def file_GetQuarantines_def view_reads [OF v])
  moreover have "affected_set ?revs ?quars dg = None"
    using assms(7,8) by (auto simp: affected_set_def note_reason_fold find_None_iff split: option.splits)
  moreover have "blocked g dg env" using assms(4-6) by (auto simp: blocked_def revokes_def)
  ultimately show ?thesis by (auto simp: print_def put_world_def)
qed

lemma inventory_fold:
  "foldl (inventory_add env) m0 decs k =
     (case find (\<lambda>d. (env = [] \<or> d_Environment d = env) \<and> inventory_key d = k) (rev decs) of
        None \<Rightarrow> m0 k
      | Some d \<Rightarrow> Some (inventory_item d))"
proof (induction decs rule: rev_induct)
  case (snoc d decs)
  have "inventory_add env m d k =
      (if (env = [] \<or> d_Environment d = env) \<and> inventory_key d = k then Some (inventory_item d) else m k)" for m
    by (auto simp: inventory_add_def)
  then show ?case using snoc.IH by simp
qed simp

lemma inventory_key_inj:
  assumes "ValidateSHA256 (as_Digest (d_Subject d)) = None" "ValidateSHA256 dg = None"
  shows "inventory_key d = dg @ '':'' @ e \<longleftrightarrow> as_Digest (d_Subject d) = dg \<and> d_Environment d = e"
  using assms ValidateSHA256_length by (auto simp: inventory_key_def append_eq_append_conv)

lemma inventory_by_digest:
  assumes "\<forall>d \<in> set decs. ValidateSHA256 (as_Digest (d_Subject d)) = None" "ValidateSHA256 dg = None"
  shows "inventory_map env decs (dg @ '':'' @ e) =
    (if env \<noteq> [] \<and> e \<noteq> env then None
     else map_option inventory_item
       (find (\<lambda>d. as_Digest (d_Subject d) = dg \<and> d_Environment d = e) (rev decs)))"
proof -
  have "find (\<lambda>d. (env = [] \<or> d_Environment d = env) \<and> inventory_key d = dg @ '':'' @ e) (rev decs)
      = (if env \<noteq> [] \<and> e \<noteq> env then None
         else find (\<lambda>d. as_Digest (d_Subject d) = dg \<and> d_Environment d = e) (rev decs))"
    using assms(1)
  proof (induction decs rule: rev_induct)
    case (snoc d decs)
    then show ?case using inventory_key_inj [OF _ assms(2), of d e] by auto
  qed auto
  then show ?thesis
    unfolding inventory_map_def inventory_fold by (auto split: option.splits)
qed

text \<open>
  C33. \<open>skgate inventory\<close> on a readable data directory prints a map in which every key
  holds the item of the last stored decision with that key (for the environment asked for,
  or any), and nothing else. The key is digest, colon, environment, so when all stored digests
  are well-formed, a digest and an environment find exactly the last decision for them; with
  a malformed digest (a denied decision has it as it came) two of them can share a key.
\<close>

theorem inventory_exact:
  assumes "file_view (cx_js cx) (file_store dir) (mc_world m) g" "dir \<noteq> []"
  shows "\<exists>inv m'. run cx listen (''inventory'' # write_flags [(''env'', env), (''data-dir'', dir)]) m = (None, m')
    \<and> mc_stdout m' = mc_stdout m @ [InventoryOut inv]
    \<and> (\<forall>key. inv key = map_option inventory_item
         (find (\<lambda>d. (env = [] \<or> d_Environment d = env) \<and> inventory_key d = key) (rev (lg_decisions g))))
    \<and> ((\<forall>d \<in> set (lg_decisions g). ValidateSHA256 (as_Digest (d_Subject d)) = None) \<longrightarrow>
       (\<forall>dg e. ValidateSHA256 dg = None \<longrightarrow> inv (dg @ '':'' @ e) =
          (if env \<noteq> [] \<and> e \<noteq> env then None
           else map_option inventory_item
             (find (\<lambda>d. as_Digest (d_Subject d) = dg \<and> d_Environment d = e) (rev (lg_decisions g))))))"
proof -
  let ?kvs = "[(''env'', env), (''data-dir'', dir)]" let ?inv = "inventory_map env (lg_decisions g)"
  have f: "string_flags env_flags ?kvs"
    by (simp add: string_flags_def flag_name_def env_flags_def store_flags_def dd_flag_def)
  have fl: "plain_flags env_flags ?kvs ''env'' = env" "plain_flags env_flags ?kvs ''data-dir'' = dir"
    "plain_flags env_flags ?kvs ''storage'' = ''file''"
    by (simp_all add: plain_flags_def env_flags_def store_flags_def dd_flag_def)
  let ?w = "(mc_world m)\<lparr>w_dirs := dir # w_dirs (mc_world m)\<rparr>"
  have v: "file_view (cx_js cx) (file_store dir) ?w g" using assms(1) by (simp add: file_view_dirs)
  have w: "w_faults (mc_world m) = []" using assms(1) by (simp add: file_view_def)
  have "run cx listen (''inventory'' # write_flags ?kvs) m = (None, print (InventoryOut ?inv) (put_world ?w m))"
    using assms(2) w
    by (simp add: run_def runInventory_def with_flags_written [OF f] fl with_store_def open_store_file do_read_def
        printing_def file_GetDecisions_def view_reads [OF v])
  moreover have "mc_stdout (print (InventoryOut ?inv) (put_world ?w m)) = mc_stdout m @ [InventoryOut ?inv]"
    by (simp add: print_def)
  moreover have "?inv key = map_option inventory_item
      (find (\<lambda>d. (env = [] \<or> d_Environment d = env) \<and> inventory_key d = key) (rev (lg_decisions g)))" for key
    by (simp add: inventory_map_def inventory_fold split: option.splits)
  moreover note inventory_by_digest [of "lg_decisions g"]
  ultimately show ?thesis by blast
qed

section \<open>The configured server\<close>

lemma configured_fields:
  "sv_production (configured_server cx fl p st m) \<longleftrightarrow> fl ''production'' = ''true''"
  "sv_store (configured_server cx fl p st m) = Some st"
  "sv_state (configured_server cx fl p st m) = m"
  "\<exists>a. sv_authenticator (configured_server cx fl p st m) = Some a
     \<and> apiTokens a = (if cx_getenv cx ''SKGATE_API_TOKEN'' \<noteq> [] then [cx_getenv cx ''SKGATE_API_TOKEN'' \<mapsto> RoleAdmin]
                      else Map.empty)
     \<and> hmacSecret a = [] \<and> rsaKeys a = Map.empty"
  by (simp_all add: configured_server_def api_New_def WithAuthenticator_def NewAuthenticator_def WithIssuer_def
      WithAudience_def Let_def)

lemma keyless_Authenticate:
  assumes "apiTokens a = Map.empty" "hmacSecret a = []" "rsaKeys a = Map.empty"
  shows "\<exists>err. Authenticate api order a now h = Inl err"
proof (cases "Authenticate api order a now h")
  case (Inr r)
  then show ?thesis using no_keys_no_jwt [OF assms(2,3)] assms(1) by (auto simp: Authenticate_iff)
qed blast

text \<open>
  C22. \<open>skgate serve --production\<close> without the environment variable SKGATE_API_TOKEN fails
  closed: whatever requests it has served, every request for a protected route is refused
  with status 401 or 503 and changes nothing, and the readiness probe answers 503.
\<close>

theorem production_without_token:
  assumes "cx_getenv cx ''SKGATE_API_TOKEN'' = []" "fl ''production'' = ''true''"
    "s = snd (serve api rs (configured_server cx fl p st m))" "mux_match r = Some e"
  shows "(required_role e \<noteq> None \<longrightarrow>
           snd (Handler api env r s) = s
           \<and> (reply_status (fst (Handler api env r s)) = Some 401 \<or> reply_status (fst (Handler api env r s)) = Some 503))
       \<and> (e = Readyz \<longrightarrow> reply_status (fst (Handler api env r s)) = Some 503)"
proof -
  have same: "same_setup (configured_server cx fl p st m) s" using assms(3) serve_setup by blast
  obtain a where a: "sv_authenticator s = Some a" "apiTokens a = Map.empty" "hmacSecret a = []" "rsaKeys a = Map.empty"
    using same configured_fields(4) [of cx fl p st m] assms(1) by (auto simp: same_setup_def)
  have pr: "sv_production s" using same configured_fields(1) [of cx fl p st m] assms(2) by (simp add: same_setup_def)
  have "snd (Handler api env r s) = s
      \<and> (reply_status (fst (Handler api env r s)) = Some 401 \<or> reply_status (fst (Handler api env r s)) = Some 503)"
    if "required_role e = Some role" for role
  proof -
    obtain err where err: "Authenticate (sa_jwt api) (sx_order env) a (sx_now env) (hr_Authorization r) = Inl err"
      using keyless_Authenticate [OF a(2-4)] by blast
    then have "\<not> authorised api env role r s" using a(1) pr by (simp add: authorised_def pointer_Authenticate_def)
    from refused_request [OF assms(4) that this] show ?thesis
      using err a(1) pr that
      by (cases "hr_Authorization r = []")
        (simp_all add: Handler_matched [OF assms(4)] serve_endpoint_def requireRole_def pointer_Authenticate_def)
  qed
  moreover have "reply_status (fst (Handler api env r s)) = Some 503" if "e = Readyz"
  proof -
    have "ValidateReadiness a \<noteq> None" using a by (simp add: ValidateReadiness_def)
    then show ?thesis
      using assms(4) that a(1) pr
      by (auto simp: Handler_matched serve_endpoint_def readyz_def readyz_rest_def split: option.splits prod.splits)
  qed
  ultimately show ?thesis by auto
qed

theorem production_without_token_witness:
  "reply_status (fst (Handler sample_server_api sample_senv (plain_request ''POST'' ''/api/v1/revocations'')
     (configured_server sample_cli (\<lambda>n. if n = ''production'' then ''true'' else []) sample_policy
        (cli_sql_Store sample_cli ''dsn'') full_machine))) \<in> {Some 401, Some 503}"
  using production_without_token [of sample_cli "\<lambda>n. if n = ''production'' then ''true'' else []" _ sample_server_api "[]"
      sample_policy "cli_sql_Store sample_cli ''dsn''" full_machine "plain_request ''POST'' ''/api/v1/revocations''"
      RevokeE sample_senv, OF _ _ refl]
  by (simp add: sample_cli_def)

section \<open>Witnesses on a data directory\<close>

definition sample_machine :: "world \<Rightarrow> machine" where
  "sample_machine w = \<lparr>mc_world = w, mc_dbs = (\<lambda>_. empty_db), mc_stdout = []\<rparr>"

definition cli_promotion :: Promotion where
  "cli_promotion =
     \<lparr>pm_ID = [], pm_DecisionID = d_DecisionID sample_decision, pm_Digest = sample_digest,
      pm_Environment = ''production'', pm_PromotedBy = ''cli'', pm_PromotedAt = time_zero, pm_Reason = []\<rparr>"

definition promoting_cli :: cli_env where
  "promoting_cli = sample_cli\<lparr>cx_js := sample_json\<lparr>j_promotion := one_codec (stamp_promotion sample_ce cli_promotion)\<rparr>\<rparr>"

lemma promoting_view: "file_view (cx_js promoting_cli) (file_store ''data'') sample_world sample_ledger"
  using sample_world_view
  by (simp add: file_view_def promoting_cli_def storable_ledger_def sample_ledger_def empty_ledger_def
      file_holds_def)

theorem cli_promote_exact_witness:
  "\<exists>m. run promoting_cli sample_listen
      (''promote'' # write_flags [(''decision-id'', d_DecisionID sample_decision), (''digest'', sample_digest),
         (''env'', ''production''), (''data-dir'', ''data'')]) (sample_machine sample_world) = (None, m)"
proof -
  let ?run = "run promoting_cli sample_listen
      (''promote'' # write_flags [(''decision-id'', d_DecisionID sample_decision), (''digest'', sample_digest),
         (''env'', ''production''), (''data-dir'', ''data'')]) (sample_machine sample_world)"
  have v: "file_view (cx_js promoting_cli) (file_store ''data'') (mc_world (sample_machine sample_world)) sample_ledger"
    using promoting_view by (simp add: sample_machine_def)
  have ok: "promotion_error sample_ledger (ce_now sample_ce) cli_promotion = None"
    using sample_promotion_ok unfolding promotion_error_None
    by (simp add: cli_promotion_def sample_promotion_def justifies_def)
  have c: "cx_call promoting_cli = sample_ce" by (simp add: promoting_cli_def sample_cli_def)
  have st: "storable (j_promotion (cx_js promoting_cli)) (stamp_promotion (cx_call promoting_cli) cli_promotion)"
    by (simp add: promoting_cli_def sample_cli_def)
  have ne: "''data'' \<noteq> []" "sample_digest \<noteq> []" "''production'' \<noteq> []" "d_DecisionID sample_decision \<noteq> []"
    using ok unfolding promotion_error_None by (simp_all add: cli_promotion_def sample_digest_def)
  obtain e m where r: "?run = (e, m)" by fastforce
  from cli_promote_exact [OF v ne cli_promotion_def st r] ok c have "e = None" by simp
  with r show ?thesis by blast
qed

theorem affected_omits_global_revocation_witness:
  "\<exists>w a m'. file_view sample_json (file_store ''data'') w (sample_ledger\<lparr>lg_revocations := [sample_revocation]\<rparr>)
     \<and> run sample_cli sample_listen (''affected'' # write_flags [(''env'', ''production''), (''data-dir'', ''data'')])
         (sample_machine w) = (None, m')
     \<and> mc_stdout m' = [AffectedOut a] \<and> a sample_digest = None"
proof -
  have "storable (j_revocation sample_json) sample_revocation" by (simp add: sample_json_def)
  from view_append_revocation [OF sample_world_view this] obtain w where
    v: "file_view sample_json (file_store ''data'') w (sample_ledger\<lparr>lg_revocations := [sample_revocation]\<rparr>)"
    by (auto simp: sample_ledger_def empty_ledger_def)
  then have "file_view (cx_js sample_cli) (file_store ''data'') (mc_world (sample_machine w))
      (sample_ledger\<lparr>lg_revocations := [sample_revocation]\<rparr>)"
    by (simp add: sample_machine_def sample_cli_def)
  from affected_omits_global_revocation [OF this, of "''production''" sample_revocation sample_digest sample_listen]
  have "\<exists>a m'. run sample_cli sample_listen (''affected'' # write_flags [(''env'', ''production''), (''data-dir'', ''data'')])
      (sample_machine w) = (None, m')
      \<and> mc_stdout m' = mc_stdout (sample_machine w) @ [AffectedOut a] \<and> a sample_digest = None"
    by (auto simp: sample_revocation_def sample_ledger_def empty_ledger_def)
  with v show ?thesis by (auto simp: sample_machine_def)
qed

theorem inventory_exact_witness:
  "\<exists>inv m'. run sample_cli sample_listen (''inventory'' # write_flags [(''env'', []), (''data-dir'', ''data'')])
       (sample_machine sample_world) = (None, m')
     \<and> mc_stdout m' = [InventoryOut inv]
     \<and> inv (sample_digest @ '':production'') = Some (inventory_item sample_decision)"
proof -
  have v: "file_view (cx_js sample_cli) (file_store ''data'') (mc_world (sample_machine sample_world)) sample_ledger"
    using sample_world_view by (simp add: sample_machine_def sample_cli_def)
  have d: "as_Digest (d_Subject sample_decision) = sample_digest" "d_Environment sample_decision = ''production''"
    by (simp_all add: sample_decision_def sample_request_def)
  obtain inv m' where r: "run sample_cli sample_listen
        (''inventory'' # write_flags [(''env'', []), (''data-dir'', ''data'')]) (sample_machine sample_world) = (None, m')"
      "mc_stdout m' = mc_stdout (sample_machine sample_world) @ [InventoryOut inv]"
      "\<forall>key. inv key = map_option inventory_item
         (find (\<lambda>d. ([] = ([] :: string) \<or> d_Environment d = []) \<and> inventory_key d = key) (rev (lg_decisions sample_ledger)))"
    using inventory_exact [OF v, where listen = sample_listen and env = "[]"] by blast
  have "inv (sample_digest @ '':production'') = Some (inventory_item sample_decision)"
    using r(3) d by (simp add: sample_ledger_def inventory_key_def)
  with r(1,2) show ?thesis by (auto simp: sample_machine_def)
qed


end
