(* ===== verification/Spec2Isabelle.thy ===== *)
theory Spec2Isabelle
  imports Server_Concurrent Cli
begin

text \<open>
  skgate: an admission and governance plane for agent skills.

  THE PROGRAM. A caller hands in an artifact's digest with evidence about it; the evaluator
  (\<open>internal/admission\<close>) checks it against a policy (\<open>internal/policy\<close>) and issues a decision,
  ALLOW, REVIEW_REQUIRED, REASSESS_REQUIRED or DENY, which is written to a store
  (\<open>internal/store\<close>). A stored ALLOW decision lets its digest be promoted to its environment;
  revocations and quarantines in the same store block promotions and make later evaluations
  DENY. The HTTP server (\<open>internal/api\<close>) with its roles (\<open>internal/auth\<close>) and the command
  line (\<open>cmd/skgate\<close>) are the two ways in.

  THE THEORIES, from the library up.

  \<^item> \<open>Go_Prelude\<close>, \<open>Go_Strings\<close>, \<open>Go_Encoding\<close>, \<open>Go_Sha256\<close>, \<open>Go_Duration\<close>, \<open>Go_Flags\<close>: what the
    source uses of Go's language and standard library, computed: errors, strconv, strings, hex,
    base64, SHA-256 and HMAC, time.ParseDuration, the flag package. Strings are byte strings
    (char lists). An error keeps its format literal and its arguments instead of the rendered text.
  \<^item> \<open>Go_Files\<close>: files with system calls that can fail at any point (a list of faults), and the
    line-delimited JSON files of the store (\<open>appendNDJSON\<close>, \<open>readNDJSON\<close> of \<open>store/file.go\<close>).
  \<^item> \<open>Semver\<close> (\<open>semver/semver.go\<close>), \<open>Digest\<close> (\<open>digest/digest.go\<close>), \<open>Policy\<close>
    (\<open>policy/policy.go\<close>), \<open>Trust\<close> (\<open>trust/trust.go\<close>), \<open>Attestation\<close>
    (\<open>crypto/attestation/attestation.go\<close>), \<open>Signing\<close> (\<open>crypto/signing/signing.go\<close>), \<open>Auth\<close>
    (\<open>auth/auth.go\<close>, \<open>auth/jwks.go\<close>): one theory per package, a definition per function.
  \<^item> \<open>Admission\<close> (\<open>admission/models.go\<close>, \<open>admission/evaluator.go\<close>): the documents as records and
    \<open>Evaluate\<close> as the composition of its checks in the order of the source.
  \<^item> \<open>Store_Model\<close> (\<open>store/models.go\<close>): the records, the abstract ledger with its step relation
    \<open>ledger_step\<close>, and the contract of a store as the locales \<open>store_contract\<close>, \<open>store_lookup\<close> and,
    with \<open>Restore\<close> among the calls, \<open>restorable_store\<close>.
  \<^item> \<open>File_Store\<close> (\<open>store/file.go\<close>): the file store, an interpretation of the three locales.
  \<^item> \<open>Sql_Engine\<close>: what the SQL code uses of \<open>database/sql\<close>: statements and transactions, any of
    which can be refused or lose its answer. \<open>Sql_Store\<close> (\<open>store/postgres.go\<close>): the SQL store on
    it, another interpretation of the three locales. \<open>Sql_Sessions\<close>: its \<open>Promote\<close> statement by
    statement, any number of promotions interleaved with each other, with the other calls and with
    restores. \<open>Store_Setup\<close> (\<open>store/migrations.go\<close>, \<open>store/factory.go\<close>): the migrations as
    transactions on the schema, and the choice of a store.
  \<^item> \<open>Store_Api\<close>: the Go interface \<open>Store\<close> as a record of operations, and an evaluation that asks
    a store.
  \<^item> \<open>Server\<close> (\<open>api/server.go\<close>): requests, roles, handlers, routes and metrics, one request at a
    time. \<open>Server_Runs\<close>: runs of requests over any store that keeps the contract (locale
    \<open>served_store\<close>, interpreted on both stores). \<open>Server_Concurrent\<close>: requests in flight together,
    as tasks whose accesses to the counters and the store interleave.
  \<^item> \<open>Cli\<close> (\<open>cmd/skgate/main.go\<close>): the commands from their arguments to their exit status.

  HOW STATE CORRESPONDS. A Go struct is a record with the fields of the source under a short
  prefix. An operation that changes state takes it and returns it updated, as
  \<open>go_error option * state\<close> or \<open>go_error + value\<close> with the state. The file store's state is the
  \<open>world\<close> (files, directories, faults to come), the SQL store's the tables and the
  faults of the statements to come, the server's its two 64-bit counters and its store, the command line's a
  machine with files, databases and what was printed.

  WHAT THE LEMMAS SHOW. \<open>Admission\<close>: the outcome of every evaluation by priority of the
  conditions that hold, that blocked or unknown lookups deny, what ALLOW guarantees.
  \<open>File_Store\<close>: it refines the ledger as long as no system call fails and every record survives its
  encoding (a JSON line of 64 KiB does not, and blocks the store); then every recorded promotion keeps the
  ALLOW decision that justifies it, restores of justified documents included. Under arbitrary
  failures, a promotion that succeeds was justified by what was on disk, the log only grows,
  and a recorded revocation stops every later promotion. It does not survive a \<open>Restore\<close>, which
  replaces the revocations and which can lose every record when a write fails; and the lookup
  \<open>IsRevoked\<close> misses revocations for all environments. \<open>Sql_Store\<close> and \<open>Sql_Sessions\<close>: the same ledger;
  \<open>Restore\<close> is all or nothing; promotions stay justified under any interleaving and any
  failure of statements, unless a restore runs between the statements of a promotion; a
  revocation that is recorded between them does not stop it. \<open>Store_Setup\<close>: every migration is
  whole or absent, and none succeeds on an empty database that aborts transactions. \<open>Auth\<close>: which
  credentials are accepted. \<open>Server\<close> and \<open>Server_Runs\<close>: no unauthorised request has an effect, a
  decision that is answered is saved, and on the SQL store a revocation accepted over HTTP makes every
  later evaluation of its digest and environment that is answered DENY, whatever fails,
  until a \<open>Restore\<close>. \<open>Server_Concurrent\<close>: the same for requests in flight together, exact counters,
  and the scrape that sees them between two increments. \<open>Cli\<close>: promotion is exact, what
  reassess and the reports really compute, which error evaluate drops.

  BOUNDS. No definition needs fuel: the parsers recurse on their input (those of durations and
  of trimming with a measure); \<open>run_task\<close> and \<open>promote_alone\<close>, which run one task without
  interference, take the number of steps they show: an evaluation has 5, a scrape 2, a promotion 4.
  Integers the source keeps at 64 bits are 64-bit
  words or wrap explicitly where overflow is possible; instants are unbounded integers of
  nanoseconds since year 1.

  PARAMETERS. Code that is not in the repository or not computed here is an argument: JSON
  codecs, PEM and X.509 parsing, RSA, ECDSA and Ed25519 verification, the SQL driver, clocks,
  random bytes, the order in which Go iterates over a map, listening sockets and signals.

  NOT MODELLED. Log lines, usage texts, the rendering of error texts, the connection pool
  settings and column widths of the database, waiting for a mutex or for the database, path
  cleaning and redirects of the HTTP multiplexer, file modes, and the scripts, tests, documents
  and agent skills of the repository.
\<close>

end
